(* ===== verification/Exec.thy ===== *)
theory Exec
  imports Prelude
begin

text \<open>
  Effectful code as explicit state passing. A program takes a world and returns an
  outcome with the world it leaves: a value, a raised exception, or \<open>Halt\<close>, the
  process stopping at this point (a crash, a kill, a wait that never ends), after
  which no handler and no \<open>finally\<close> block runs. Every property of the world a
  program leaves, over all three outcomes, is therefore a property of every point
  at which it can be interrupted.
\<close>

subsection \<open>Exceptions\<close>

datatype errno = ENOENT | EEXIST | ENOTDIR | EISDIR | ENOTEMPTY | ELOOP | EAGAIN | EINVAL | EIO
  | EACCES | EPERM | ESRCH | EADDRINUSE | ENODEV

datatype exn =
    StateError string
  | ConfigurationError string
  | CommandError string
  | RuntimeFailure string
  | TransientRuntimeFailure string
  | HostError string
  | ClaimError string
  | ValueError string
  | OSError errno
  | UnicodeError
  | JSONDecodeError
  | KeyError string
  | TypeError
  | IndexError
  | StructError
  | AttributeError
  | TimeoutExpired string
  | Fatal string
  | SystemExit int
  | KeyboardInterrupt

text \<open>\<open>isinstance\<close> along the class hierarchy of \<open>errors.py\<close> and the builtins.\<close>

fun is_ShuttleGateError :: "exn \<Rightarrow> bool" where
  "is_ShuttleGateError (StateError _) = True"
| "is_ShuttleGateError (ConfigurationError _) = True"
| "is_ShuttleGateError (CommandError _) = True"
| "is_ShuttleGateError (RuntimeFailure _) = True"
| "is_ShuttleGateError (TransientRuntimeFailure _) = True"
| "is_ShuttleGateError (HostError _) = True"
| "is_ShuttleGateError _ = False"

fun is_RuntimeFailure :: "exn \<Rightarrow> bool" where
  "is_RuntimeFailure (RuntimeFailure _) = True"
| "is_RuntimeFailure (TransientRuntimeFailure _) = True"
| "is_RuntimeFailure _ = False"

fun is_StateError :: "exn \<Rightarrow> bool" where
  "is_StateError (StateError _) = True"
| "is_StateError _ = False"

fun is_OSError :: "exn \<Rightarrow> bool" where
  "is_OSError (OSError _) = True"
| "is_OSError _ = False"

definition is_FileNotFound :: "exn \<Rightarrow> bool" where
  "is_FileNotFound e \<longleftrightarrow> e = OSError ENOENT"

definition is_BlockingIO :: "exn \<Rightarrow> bool" where
  "is_BlockingIO e \<longleftrightarrow> e = OSError EAGAIN"

text \<open>The two tuples the readers catch: \<open>(OSError, UnicodeError)\<close>, and with \<open>JSONDecodeError\<close>.\<close>

fun is_read_error :: "exn \<Rightarrow> bool" where
  "is_read_error (OSError _) = True"
| "is_read_error UnicodeError = True"
| "is_read_error _ = False"

fun is_load_error :: "exn \<Rightarrow> bool" where
  "is_load_error JSONDecodeError = True"
| "is_load_error e = is_read_error e"

fun errno_text :: "errno \<Rightarrow> string" where
  "errno_text ENOENT = ''No such file or directory''"
| "errno_text EEXIST = ''File exists''"
| "errno_text ENOTDIR = ''Not a directory''"
| "errno_text EISDIR = ''Is a directory''"
| "errno_text ENOTEMPTY = ''Directory not empty''"
| "errno_text ELOOP = ''Too many levels of symbolic links''"
| "errno_text EAGAIN = ''Resource temporarily unavailable''"
| "errno_text EINVAL = ''Invalid argument''"
| "errno_text EIO = ''Input/output error''"
| "errno_text EACCES = ''Permission denied''"
| "errno_text EPERM = ''Operation not permitted''"
| "errno_text ESRCH = ''No such process''"
| "errno_text EADDRINUSE = ''Address already in use''"
| "errno_text ENODEV = ''No such device''"

text \<open>\<open>str(exc)\<close>: the message of the program's own exceptions, the system's text of the others.\<close>

fun exn_str :: "exn \<Rightarrow> string" where
  "exn_str (StateError m) = m"
| "exn_str (ConfigurationError m) = m"
| "exn_str (CommandError m) = m"
| "exn_str (RuntimeFailure m) = m"
| "exn_str (TransientRuntimeFailure m) = m"
| "exn_str (HostError m) = m"
| "exn_str (ClaimError m) = m"
| "exn_str (ValueError m) = m"
| "exn_str (OSError e) = errno_text e"
| "exn_str UnicodeError = ''invalid encoding''"
| "exn_str JSONDecodeError = ''invalid JSON''"
| "exn_str (KeyError k) = CHR 0x27 # k @ [CHR 0x27]"
| "exn_str TypeError = []"
| "exn_str IndexError = ''list index out of range''"
| "exn_str AttributeError = []"
| "exn_str StructError = []"
| "exn_str (TimeoutExpired m) = m"
| "exn_str (Fatal m) = m"
| "exn_str (SystemExit n) = str_int n"
| "exn_str KeyboardInterrupt = []"

subsection \<open>Programs\<close>

datatype 'a outcome = Ret 'a | Exn exn | Halt

type_synonym ('w, 'a) prog = "'w \<Rightarrow> 'a outcome \<times> 'w"

definition ret :: "'a \<Rightarrow> ('w, 'a) prog" where
  "ret a = (\<lambda>w. (Ret a, w))"

definition raise :: "exn \<Rightarrow> ('w, 'a) prog" where
  "raise e = (\<lambda>w. (Exn e, w))"

definition bind :: "('w, 'a) prog \<Rightarrow> ('a \<Rightarrow> ('w, 'b) prog) \<Rightarrow> ('w, 'b) prog" where
  "bind m f = (\<lambda>w. case m w of
       (Ret a, w') \<Rightarrow> f a w'
     | (Exn e, w') \<Rightarrow> (Exn e, w')
     | (Halt, w') \<Rightarrow> (Halt, w'))"

text \<open>\<open>then_do m k\<close> runs \<open>m\<close> for its effect.\<close>

abbreviation then_do :: "('w, 'a) prog \<Rightarrow> ('w, 'b) prog \<Rightarrow> ('w, 'b) prog" where
  "then_do m k \<equiv> bind m (\<lambda>_. k)"

text \<open>\<open>try: m except p as exc: h\<close>; an exception outside \<open>p\<close> passes through.\<close>

definition try_except ::
  "('w, 'a) prog \<Rightarrow> (exn \<Rightarrow> bool) \<Rightarrow> (exn \<Rightarrow> ('w, 'a) prog) \<Rightarrow> ('w, 'a) prog" where
  "try_except m p h = (\<lambda>w. case m w of
       (Ret a, w') \<Rightarrow> (Ret a, w')
     | (Exn e, w') \<Rightarrow> if p e then h e w' else (Exn e, w')
     | (Halt, w') \<Rightarrow> (Halt, w'))"

text \<open>\<open>try: m finally: f\<close>.\<close>

definition try_finally :: "('w, 'a) prog \<Rightarrow> ('w, unit) prog \<Rightarrow> ('w, 'a) prog" where
  "try_finally m f = (\<lambda>w. case m w of
       (Halt, w') \<Rightarrow> (Halt, w')
     | (r, w') \<Rightarrow> (case f w' of
           (Ret _, w'') \<Rightarrow> (r, w'')
         | (Exn e, w'') \<Rightarrow> (Exn e, w'')
         | (Halt, w'') \<Rightarrow> (Halt, w'')))"

text \<open>\<open>with suppress(p): m\<close>.\<close>

definition suppress :: "(exn \<Rightarrow> bool) \<Rightarrow> ('w, unit) prog \<Rightarrow> ('w, unit) prog" where
  "suppress p m = try_except m p (\<lambda>_. ret ())"

fun for_each :: "('b \<Rightarrow> ('w, unit) prog) \<Rightarrow> 'b list \<Rightarrow> ('w, unit) prog" where
  "for_each f [] = ret ()"
| "for_each f (x # xs) = then_do (f x) (for_each f xs)"

fun map_each :: "('b \<Rightarrow> ('w, 'c) prog) \<Rightarrow> 'b list \<Rightarrow> ('w, 'c list) prog" where
  "map_each f [] = ret []"
| "map_each f (x # xs) = bind (f x) (\<lambda>y. bind (map_each f xs) (\<lambda>ys. ret (y # ys)))"

definition when_do :: "bool \<Rightarrow> ('w, unit) prog \<Rightarrow> ('w, unit) prog" where
  "when_do b m = (if b then m else ret ())"

text \<open>\<open>if not b: raise e\<close>.\<close>

definition require :: "bool \<Rightarrow> exn \<Rightarrow> ('w, unit) prog" where
  "require b e = (if b then ret () else raise e)"

text \<open>A pure computation inside a program.\<close>

definition lift :: "exn + 'a \<Rightarrow> ('w, 'a) prog" where
  "lift r = (case r of Inl e \<Rightarrow> raise e | Inr a \<Rightarrow> ret a)"

definition gets :: "('w \<Rightarrow> 'a) \<Rightarrow> ('w, 'a) prog" where
  "gets f = (\<lambda>w. (Ret (f w), w))"

lemmas prog_defs = ret_def raise_def bind_def try_except_def try_finally_def
  suppress_def when_do_def require_def lift_def gets_def

subsection \<open>Running the combinators\<close>

text \<open>\<open>run_simps\<close> evaluates a program on a given world.\<close>

named_theorems run_simps

lemma bind_run [run_simps]:
  "bind m f w = (case m w of (Ret a, w') \<Rightarrow> f a w' | (Exn e, w') \<Rightarrow> (Exn e, w') | (Halt, w') \<Rightarrow> (Halt, w'))"
  by (simp add: bind_def)

lemma ret_run [run_simps]: "ret a w = (Ret a, w)"
  by (simp add: ret_def)

lemma raise_run [run_simps]: "raise e w = (Exn e, w)"
  by (simp add: raise_def)

lemma gets_run [run_simps]: "gets f w = (Ret (f w), w)"
  by (simp add: gets_def)

lemma bind_ret [simp]: "bind (ret a) f = f a"
  by (simp add: bind_def ret_def)

lemma bind_raise [simp]: "bind (raise e) f = raise e"
  by (simp add: bind_def raise_def)

lemma bind_assoc: "bind (bind m f) g = bind m (\<lambda>a. bind (f a) g)"
  by (auto simp: bind_def fun_eq_iff split: outcome.splits prod.splits)

lemma bind_Ret: "m w = (Ret a, w') \<Longrightarrow> bind m f w = f a w'"
  by (simp add: bind_def)

lemma bind_Exn: "m w = (Exn e, w') \<Longrightarrow> bind m f w = (Exn e, w')"
  by (simp add: bind_def)

lemma bind_Halt: "m w = (Halt, w') \<Longrightarrow> bind m f w = (Halt, w')"
  by (simp add: bind_def)

lemma bind_RetE:
  assumes "bind m f w = (Ret b, w')"
  obtains a w1 where "m w = (Ret a, w1)" and "f a w1 = (Ret b, w')"
  using assms by (auto simp: bind_def split: outcome.splits prod.splits)

lemma require_True [simp]: "require True e = ret ()"
  by (simp add: require_def)

lemma require_False [simp]: "require False e = raise e"
  by (simp add: require_def)

lemma when_do_True [simp]: "when_do True m = m"
  by (simp add: when_do_def)

lemma when_do_False [simp]: "when_do False m = ret ()"
  by (simp add: when_do_def)

lemma lift_Inl [simp]: "lift (Inl e) = raise e"
  by (simp add: lift_def)

lemma lift_Inr [simp]: "lift (Inr a) = ret a"
  by (simp add: lift_def)

lemma try_except_ret [simp]: "try_except (ret a) p h = ret a"
  by (simp add: try_except_def ret_def)

subsection \<open>Hoare triples with one postcondition per outcome\<close>

definition hoare ::
  "('w \<Rightarrow> bool) \<Rightarrow> ('w, 'a) prog \<Rightarrow> ('a \<Rightarrow> 'w \<Rightarrow> bool) \<Rightarrow> (exn \<Rightarrow> 'w \<Rightarrow> bool) \<Rightarrow> ('w \<Rightarrow> bool) \<Rightarrow> bool"
  where
  "hoare P m Q E H \<longleftrightarrow> (\<forall>w. P w \<longrightarrow> (case m w of
       (Ret a, w') \<Rightarrow> Q a w' | (Exn e, w') \<Rightarrow> E e w' | (Halt, w') \<Rightarrow> H w'))"

named_theorems hoare_rules

lemma hoareI:
  "(\<And>w. P w \<Longrightarrow> case m w of (Ret a, w') \<Rightarrow> Q a w' | (Exn e, w') \<Rightarrow> E e w' | (Halt, w') \<Rightarrow> H w')
   \<Longrightarrow> hoare P m Q E H"
  by (simp add: hoare_def)

lemma hoare_RetD: "hoare P m Q E H \<Longrightarrow> P w \<Longrightarrow> m w = (Ret a, w') \<Longrightarrow> Q a w'"
  by (force simp: hoare_def)

lemma hoare_ExnD: "hoare P m Q E H \<Longrightarrow> P w \<Longrightarrow> m w = (Exn e, w') \<Longrightarrow> E e w'"
  by (force simp: hoare_def)

lemma hoare_HaltD: "hoare P m Q E H \<Longrightarrow> P w \<Longrightarrow> m w = (Halt, w') \<Longrightarrow> H w'"
  by (force simp: hoare_def)

lemma hoare_at:
  assumes "hoare (\<lambda>v. v = w) m Q E H"
  shows "case m w of (Ret a, w') \<Rightarrow> Q a w' | (Exn e, w') \<Rightarrow> E e w' | (Halt, w') \<Rightarrow> H w'"
  by (rule assms [unfolded hoare_def, rule_format]) (rule refl)

lemma hoare_conseq:
  assumes "hoare P m Q E H" and "\<And>w. P' w \<Longrightarrow> P w" and "\<And>a w. Q a w \<Longrightarrow> Q' a w"
    and "\<And>e w. E e w \<Longrightarrow> E' e w" and "\<And>w. H w \<Longrightarrow> H' w"
  shows "hoare P' m Q' E' H'"
  using assms by (fastforce simp: hoare_def split: outcome.splits prod.splits)

lemma hoare_pre: "hoare P m Q E H \<Longrightarrow> (\<And>w. P' w \<Longrightarrow> P w) \<Longrightarrow> hoare P' m Q E H"
  by (auto simp: hoare_def)

lemma hoare_ret: "(\<And>w. P w \<Longrightarrow> Q a w) \<Longrightarrow> hoare P (ret a) Q E H"
  by (simp add: hoare_def ret_def)

lemma hoare_raise: "(\<And>w. P w \<Longrightarrow> E e w) \<Longrightarrow> hoare P (raise e) Q E H"
  by (simp add: hoare_def raise_def)

lemma hoare_bind:
  assumes "hoare P m Q E H" and "\<And>a. hoare (Q a) (f a) R E H"
  shows "hoare P (bind m f) R E H"
  using assms by (fastforce simp: hoare_def bind_def split: outcome.splits prod.splits)

lemma hoare_try_except:
  assumes "hoare P m Q E1 H" and "\<And>e. p e \<Longrightarrow> hoare (E1 e) (h e) Q E H"
    and "\<And>e w. \<not> p e \<Longrightarrow> E1 e w \<Longrightarrow> E e w"
  shows "hoare P (try_except m p h) Q E H"
  using assms by (fastforce simp: hoare_def try_except_def split: outcome.splits prod.splits)

lemma hoare_try_finally:
  assumes "hoare P m Q1 E1 H"
    and "\<And>a. hoare (Q1 a) f (\<lambda>_. Q a) E H" and "\<And>e. hoare (E1 e) f (\<lambda>_. E e) E H"
  shows "hoare P (try_finally m f) Q E H"
  using assms by (fastforce simp: hoare_def try_finally_def split: outcome.splits prod.splits)

lemma hoare_for_each:
  assumes "\<And>x. x \<in> set xs \<Longrightarrow> hoare I (f x) (\<lambda>_. I) E H"
  shows "hoare I (for_each f xs) (\<lambda>_. I) E H"
  using assms
proof (induction xs)
  case Nil
  then show ?case by (simp add: hoare_ret)
next
  case (Cons x xs)
  then show ?case by (auto intro: hoare_bind)
qed

subsection \<open>Programs that respect a relation between worlds\<close>

text \<open>
  \<open>obeys R m\<close>: wherever \<open>m\<close> is interrupted, the world it leaves is related by
  \<open>R\<close> to the world it started in. For a reflexive and transitive \<open>R\<close> this is
  compositional, and a handler or a \<open>finally\<close> block keeps it; the locale
  \<open>discipline\<close> holds those rules once for every such relation.
\<close>

definition obeys :: "('w \<Rightarrow> 'w \<Rightarrow> bool) \<Rightarrow> ('w, 'a) prog \<Rightarrow> bool" where
  "obeys R m \<longleftrightarrow> (\<forall>w. R w (snd (m w)))"

lemma obeysI: "(\<And>w. R w (snd (m w))) \<Longrightarrow> obeys R m"
  by (simp add: obeys_def)

lemma obeysD: "obeys R m \<Longrightarrow> m w = (r, w') \<Longrightarrow> R w w'"
  by (metis obeys_def snd_conv)

lemma obeys_mono: "obeys R m \<Longrightarrow> (\<And>w w'. R w w' \<Longrightarrow> S w w') \<Longrightarrow> obeys S m"
  by (simp add: obeys_def)

text \<open>\<open>run_inv\<close>: what a program's return says of its parts.\<close>

named_theorems run_inv

lemma require_Ret [run_inv]: "require b e w = (Ret u, w') \<longleftrightarrow> b \<and> w' = w"
  by (auto simp: require_def ret_def raise_def)

lemma ret_Ret [run_inv]: "ret a w = (Ret b, w') \<longleftrightarrow> b = a \<and> w' = w"
  by (auto simp: ret_def)

lemma raise_Ret [run_inv]: "raise e w = (Ret b, w') \<longleftrightarrow> False"
  by (simp add: raise_def)

lemma gets_Ret [run_inv]: "gets f w = (Ret b, w') \<longleftrightarrow> b = f w \<and> w' = w"
  by (auto simp: gets_def)

lemma lift_Ret [run_inv]: "lift r w = (Ret b, w') \<longleftrightarrow> r = Inr b \<and> w' = w"
  by (cases r) (auto simp: ret_def raise_def)

lemma bind_Ret_iff [run_inv]:
  "bind m f w = (Ret b, w') \<longleftrightarrow> (\<exists>a w1. m w = (Ret a, w1) \<and> f a w1 = (Ret b, w'))"
proof
  assume "bind m f w = (Ret b, w')"
  then show "\<exists>a w1. m w = (Ret a, w1) \<and> f a w1 = (Ret b, w')" by (blast elim: bind_RetE)
next
  assume "\<exists>a w1. m w = (Ret a, w1) \<and> f a w1 = (Ret b, w')"
  then show "bind m f w = (Ret b, w')" by (auto simp: bind_Ret)
qed

lemma try_except_raise_Ret [run_inv]:
  "try_except m p (\<lambda>e. raise (f e)) w = (Ret b, w') \<longleftrightarrow> m w = (Ret b, w')"
  by (cases "m w"; cases "fst (m w)") (auto simp: try_except_def raise_def)

lemma try_finally_Ret:
  assumes "try_finally m f w = (Ret b, w')"
  obtains w1 where "m w = (Ret b, w1)" and "f w1 = (Ret (), w')"
proof (cases "m w")
  case (Pair r w1)
  then show ?thesis
    using assms that by (cases r; cases "f w1"; cases "fst (f w1)") (auto simp: try_finally_def)
qed

text \<open>A predicate that the relation of a program preserves can be added to any triple of it.\<close>

lemma hoare_stable:
  assumes m: "hoare P m Q E H" and o: "obeys R m" and J: "\<And>w w'. R w w' \<Longrightarrow> J w \<Longrightarrow> J w'"
  shows "hoare (\<lambda>w. P w \<and> J w) m (\<lambda>a w. Q a w \<and> J w) (\<lambda>e w. E e w \<and> J w) (\<lambda>w. H w \<and> J w)"
proof (rule hoareI)
  fix w
  assume P: "P w \<and> J w"
  obtain r w' where mw: "m w = (r, w')" by fastforce
  have "J w'" using J [OF obeysD [OF o mw]] P by blast
  then show "case m w of (Ret a, w') \<Rightarrow> Q a w' \<and> J w' | (Exn e, w') \<Rightarrow> E e w' \<and> J w' | (Halt, w') \<Rightarrow> H w' \<and> J w'"
    using hoare_RetD [OF m] hoare_ExnD [OF m] hoare_HaltD [OF m] P mw by (cases r) auto
qed

lemma hoare_obeys: "obeys R m \<Longrightarrow> (\<And>w w'. R w w' \<Longrightarrow> J w \<Longrightarrow> J w') \<Longrightarrow> hoare J m (\<lambda>_. J) (\<lambda>_. J) J"
  using hoare_stable [of "\<lambda>_. True" m "\<lambda>_ _. True" "\<lambda>_ _. True" "\<lambda>_. True" R J]
  by (simp add: hoare_def split: outcome.splits prod.splits)

named_theorems obeys_rules

text \<open>The values a program can return; what is known of them carries over a \<open>bind\<close>.\<close>

definition returns :: "('w, 'a) prog \<Rightarrow> 'a \<Rightarrow> bool" where
  "returns m a \<longleftrightarrow> (\<exists>w w'. m w = (Ret a, w'))"

lemma returnsE: "returns m a \<Longrightarrow> (\<And>w w'. m w = (Ret a, w') \<Longrightarrow> C) \<Longrightarrow> C"
  by (auto simp: returns_def)

lemma returnsI: "m w = (Ret a, w') \<Longrightarrow> returns m a"
  by (auto simp: returns_def)

lemma returns_bind: "returns (bind m f) b \<Longrightarrow> \<exists>a. returns m a \<and> returns (f a) b"
  unfolding returns_def by (blast elim: bind_RetE)

lemma try_except_RetE:
  assumes "try_except m p h w = (Ret b, w')"
  obtains "m w = (Ret b, w')" | e w1 where "m w = (Exn e, w1)" and "p e" and "h e w1 = (Ret b, w')"
proof (cases "m w")
  case (Pair r w1)
  then show ?thesis
    using assms that by (cases r) (auto simp: try_except_def split: if_splits)
qed

lemma returns_try_except: "returns (try_except m p h) b \<Longrightarrow> returns m b \<or> (\<exists>e. returns (h e) b)"
  unfolding returns_def by (blast elim: try_except_RetE)

lemma returns_raise [simp]: "\<not> returns (raise e) b"
  by (simp add: returns_def raise_def)

lemma returns_ret [simp]: "returns (ret a) b \<longleftrightarrow> b = a"
  by (auto simp: returns_def ret_def)

locale discipline =
  fixes R :: "'w \<Rightarrow> 'w \<Rightarrow> bool"
  assumes refl: "R w w"
    and trans: "R u v \<Longrightarrow> R v w \<Longrightarrow> R u w"
begin

lemma ret [obeys_rules]: "obeys R (ret a)"
  by (simp add: obeys_def refl ret_def)

lemma raise [obeys_rules]: "obeys R (raise e)"
  by (simp add: obeys_def refl raise_def)

lemma gets [obeys_rules]: "obeys R (gets f)"
  by (simp add: obeys_def refl gets_def)

lemma bind [obeys_rules]:
  assumes m: "obeys R m" and f: "\<And>a. returns m a \<Longrightarrow> obeys R (f a)"
  shows "obeys R (bind m f)"
proof (rule obeysI)
  fix w
  obtain r w1 where mw: "m w = (r, w1)" by fastforce
  with m have 1: "R w w1" by (rule obeysD)
  show "R w (snd (bind m f w))"
  proof (cases r)
    case (Ret a)
    then have "returns m a" using mw by (auto simp: returns_def)
    then have "R w1 (snd (f a w1))" using f by (simp add: obeys_def)
    then show ?thesis using 1 mw Ret by (auto simp: bind_def intro: trans)
  qed (use 1 mw in \<open>auto simp: bind_def\<close>)
qed

lemma try_except [obeys_rules]:
  assumes m: "obeys R m" and h: "\<And>e. obeys R (h e)"
  shows "obeys R (try_except m p h)"
proof (rule obeysI)
  fix w
  obtain r w1 where mw: "m w = (r, w1)" by fastforce
  with m have 1: "R w w1" by (rule obeysD)
  show "R w (snd (try_except m p h w))"
    using 1 h mw by (cases r) (auto simp: try_except_def obeys_def intro: trans)
qed

lemma try_finally [obeys_rules]:
  assumes m: "obeys R m" and f: "obeys R f"
  shows "obeys R (try_finally m f)"
proof (rule obeysI)
  fix w
  obtain r w1 where mw: "m w = (r, w1)" by fastforce
  obtain s w2 where fw: "f w1 = (s, w2)" by fastforce
  from m mw have 1: "R w w1" by (rule obeysD)
  from f fw have "R w1 w2" by (rule obeysD)
  with 1 have "R w w2" by (rule trans)
  with 1 show "R w (snd (try_finally m f w))"
    using mw fw by (cases r; cases s) (auto simp: try_finally_def)
qed

lemma suppress [obeys_rules]: "obeys R m \<Longrightarrow> obeys R (suppress p m)"
  by (simp add: suppress_def try_except ret)

lemma for_each [obeys_rules]: "(\<And>x. x \<in> set xs \<Longrightarrow> obeys R (f x)) \<Longrightarrow> obeys R (for_each f xs)"
  by (induction xs) (auto intro: ret bind)

lemma map_each [obeys_rules]: "(\<And>x. x \<in> set xs \<Longrightarrow> obeys R (f x)) \<Longrightarrow> obeys R (map_each f xs)"
  by (induction xs) (auto intro!: ret bind)

lemma when_do [obeys_rules]: "(b \<Longrightarrow> obeys R m) \<Longrightarrow> obeys R (when_do b m)"
  by (simp add: when_do_def ret)

lemma require [obeys_rules]: "obeys R (require b e)"
  by (simp add: require_def ret raise)

lemma lift [obeys_rules]: "obeys R (lift r)"
  by (cases r) (simp_all add: ret raise)

lemma cond [obeys_rules]: "(b \<Longrightarrow> obeys R m) \<Longrightarrow> (\<not> b \<Longrightarrow> obeys R k) \<Longrightarrow> obeys R (if b then m else k)"
  by simp

lemma case_option [obeys_rules]:
  "(z = None \<Longrightarrow> obeys R m) \<Longrightarrow> (\<And>x. z = Some x \<Longrightarrow> obeys R (f x)) \<Longrightarrow> obeys R (case z of None \<Rightarrow> m | Some x \<Rightarrow> f x)"
  by (cases z) simp_all

lemma case_prod [obeys_rules]: "(\<And>x y. z = (x, y) \<Longrightarrow> obeys R (f x y)) \<Longrightarrow> obeys R (case z of (x, y) \<Rightarrow> f x y)"
  by (cases z) simp

lemma let_in [obeys_rules]: "obeys R (f z) \<Longrightarrow> obeys R (let x = z in f x)"
  by simp

end

end
