(* ===== verification/Os.thy ===== *)
theory Os
  imports Exec
begin

text \<open>
  The operating system as the code sees it: one store of files, directories and
  symbolic links, a table of open descriptors, \<open>flock\<close> locks, and the set of
  objects whose last change has not been synced. The list \<open>fates\<close> says what
  befalls the coming system calls: each may proceed, fail with an I/O error or be
  the last thing the process does, a write possibly having stored only a prefix of
  its data. A theorem for every \<open>fates\<close> is a theorem for every crash point and
  every pattern of I/O failures.

  A path is the list of its components below the root. The calls look a path up as
  it is written: a symbolic link is followed only as the last component, and only
  by the calls that follow it.
\<close>

unbundle bit_operations_syntax

type_synonym comps = "string list"

datatype node =
    File (node_mode: nat) (node_uid: nat) (node_data: string)
  | Dir (node_mode: nat) (node_uid: nat)
  | Symlink (link_target: string)
  | Special

datatype fate = Proceed | Fault nat | Crash nat

text \<open>An open descriptor: its number and the object it was opened on.\<close>

datatype descriptor = FD (fd_num: nat) (fd_path: comps)

text \<open>What was printed, in order, and where.\<close>

datatype sink = Stdout | Stderr

record world =
  disk :: "(comps \<times> node) list"
  unsynced :: "comps set"
  fates :: "fate list"
  uid :: nat
  umask :: nat
  suffixes :: "string list"
  handles :: "descriptor list"
  next_fd :: nat
  locks :: "(descriptor \<times> bool) list"
  foreign_locks :: "(comps \<times> bool) list"
  command_ctx :: "(string \<times> string option) option"
  environ :: "(string \<times> string) list"
  console :: "(sink \<times> string) list"

text \<open>A process of user 1000 in an otherwise empty system, for examples.\<close>

definition system_with :: "(comps \<times> node) list \<Rightarrow> world" where
  "system_with D = \<lparr>disk = D, unsynced = {}, fates = [], uid = 1000, umask = 0x12, suffixes = [],
     handles = [], next_fd = 3, locks = [], foreign_locks = [], command_ctx = None, environ = [], console = []\<rparr>"

type_synonym 'a io = "(world, 'a) prog"

subsection \<open>Printing\<close>

definition put_text :: "sink \<Rightarrow> string \<Rightarrow> unit io" where
  "put_text s t = (\<lambda>w. (Ret (), w\<lparr>console := console w @ [(s, t)]\<rparr>))"

text \<open>\<open>print(t)\<close> and \<open>print(t, file=sys.stderr)\<close>.\<close>

definition echo :: "string \<Rightarrow> unit io" where
  "echo t = put_text Stdout (t @ [CHR 0x0A])"

definition echo_err :: "string \<Rightarrow> unit io" where
  "echo_err t = put_text Stderr (t @ [CHR 0x0A])"

text \<open>All that went to one of the two.\<close>

definition printed :: "sink \<Rightarrow> world \<Rightarrow> string" where
  "printed s w = concat (map snd (filter (\<lambda>e. fst e = s) (console w)))"

subsection \<open>The store\<close>

definition node_at :: "world \<Rightarrow> comps \<Rightarrow> node option" where
  "node_at w p = map_of (disk w) p"

fun is_dir_node :: "node option \<Rightarrow> bool" where
  "is_dir_node (Some (Dir _ _)) = True"
| "is_dir_node _ = False"

fun is_file_node :: "node option \<Rightarrow> bool" where
  "is_file_node (Some (File _ _ _)) = True"
| "is_file_node _ = False"

fun is_link_node :: "node option \<Rightarrow> bool" where
  "is_link_node (Some (Symlink _)) = True"
| "is_link_node _ = False"

definition dir_at :: "world \<Rightarrow> comps \<Rightarrow> bool" where
  "dir_at w p \<longleftrightarrow> is_dir_node (node_at w p)"

text \<open>The parent of a new entry must be a directory; the root always is one.\<close>

definition parent_dir :: "world \<Rightarrow> comps \<Rightarrow> bool" where
  "parent_dir w p \<longleftrightarrow> p \<noteq> [] \<and> (butlast p = [] \<or> dir_at w (butlast p))"

definition children :: "world \<Rightarrow> comps \<Rightarrow> string list" where
  "children w d = remdups (map last (filter (\<lambda>p. p \<noteq> [] \<and> butlast p = d) (map fst (disk w))))"

definition put_node :: "comps \<Rightarrow> node \<Rightarrow> world \<Rightarrow> world" where
  "put_node p n w = w\<lparr>disk := AList.update p n (disk w)\<rparr>"

definition del_node :: "comps \<Rightarrow> world \<Rightarrow> world" where
  "del_node p w = w\<lparr>disk := filter (\<lambda>e. fst e \<noteq> p) (disk w)\<rparr>"

definition mark :: "comps \<Rightarrow> world \<Rightarrow> world" where
  "mark p w = w\<lparr>unsynced := insert p (unsynced w)\<rparr>"

definition rebase :: "comps \<Rightarrow> comps \<Rightarrow> comps \<Rightarrow> comps" where
  "rebase s d p = d @ drop (length s) p"

definition move_disk :: "comps \<Rightarrow> comps \<Rightarrow> (comps \<times> node) list \<Rightarrow> (comps \<times> node) list" where
  "move_disk s d D = map (\<lambda>(p, n). (if prefix s p then rebase s d p else p, n))
     (filter (\<lambda>(p, n). \<not> prefix d p) D)"

definition move_node :: "comps \<Rightarrow> comps \<Rightarrow> world \<Rightarrow> world" where
  "move_node s d w = w\<lparr>disk := move_disk s d (disk w),
     unsynced := (\<lambda>p. if prefix s p then rebase s d p else p) ` {p \<in> unsynced w. \<not> prefix d p}\<rparr>"

subsection \<open>System calls\<close>

definition syscall_torn :: "(nat \<Rightarrow> world \<Rightarrow> world) \<Rightarrow> 'a io \<Rightarrow> 'a io" where
  "syscall_torn t f w = (case fates w of
       [] \<Rightarrow> f w
     | Proceed # r \<Rightarrow> f (w\<lparr>fates := r\<rparr>)
     | Fault k # r \<Rightarrow> (Exn (OSError EIO), t k (w\<lparr>fates := r\<rparr>))
     | Crash k # r \<Rightarrow> (Halt, t k (w\<lparr>fates := r\<rparr>)))"

definition syscall :: "'a io \<Rightarrow> 'a io" where
  "syscall f = syscall_torn (\<lambda>_ w. w) f"

text \<open>\<open>lstat\<close>, and \<open>stat\<close> with \<open>follow_symlinks=False\<close>.\<close>

definition os_lstat :: "comps \<Rightarrow> node io" where
  "os_lstat p = syscall (\<lambda>w. case node_at w p of
       None \<Rightarrow> (Exn (OSError ENOENT), w) | Some n \<Rightarrow> (Ret n, w))"

definition os_readlink :: "comps \<Rightarrow> string io" where
  "os_readlink p = syscall (\<lambda>w. case node_at w p of
       None \<Rightarrow> (Exn (OSError ENOENT), w)
     | Some (Symlink t) \<Rightarrow> (Ret t, w)
     | Some _ \<Rightarrow> (Exn (OSError EINVAL), w))"

text \<open>
  The target of a link is relative to the directory of the link unless it starts
  with a slash; empty components and dots do not count. The kernel follows a chain
  of at most forty links.
\<close>

definition link_dest :: "comps \<Rightarrow> string \<Rightarrow> comps" where
  "link_dest p t = (if startswith t ''/'' then [] else butlast p)
     @ filter (\<lambda>c. c \<noteq> [] \<and> c \<noteq> ''.'') (split_on (CHR ''/'') t)"

fun follow :: "nat \<Rightarrow> world \<Rightarrow> comps \<Rightarrow> node option" where
  "follow 0 w p = None"
| "follow (Suc n) w p = (case node_at w p of
      Some (Symlink t) \<Rightarrow> follow n w (link_dest p t) | r \<Rightarrow> r)"

lemma follow_no_link: "\<not> is_link_node (node_at w p) \<Longrightarrow> follow 40 w p = node_at w p"
proof -
  have 40: "(40::nat) = Suc 39" by simp
  assume "\<not> is_link_node (node_at w p)"
  then show ?thesis
    unfolding 40 follow.simps(2) by (auto split: option.splits node.splits)
qed

text \<open>
  The probes \<open>exists\<close>, \<open>is_file\<close>, \<open>is_dir\<close> follow links, \<open>is_symlink\<close> does not.
  They are questions to the store and never fail.
\<close>

definition p_exists :: "comps \<Rightarrow> bool io" where
  "p_exists p = gets (\<lambda>w. follow 40 w p \<noteq> None)"

definition p_is_file :: "comps \<Rightarrow> bool io" where
  "p_is_file p = gets (\<lambda>w. is_file_node (follow 40 w p))"

definition p_is_dir :: "comps \<Rightarrow> bool io" where
  "p_is_dir p = gets (\<lambda>w. is_dir_node (follow 40 w p))"

definition p_is_symlink :: "comps \<Rightarrow> bool io" where
  "p_is_symlink p = gets (\<lambda>w. is_link_node (node_at w p))"

text \<open>Descriptors: \<open>os.open\<close> of an object that exists, without following a last link.\<close>

definition new_handle :: "comps \<Rightarrow> descriptor io" where
  "new_handle p = (\<lambda>w. (Ret (FD (next_fd w) p),
     w\<lparr>handles := FD (next_fd w) p # handles w, next_fd := Suc (next_fd w)\<rparr>))"

definition os_open :: "comps \<Rightarrow> descriptor io" where
  "os_open p = syscall (\<lambda>w. case node_at w p of
       None \<Rightarrow> (Exn (OSError ENOENT), w)
     | Some (Symlink _) \<Rightarrow> (Exn (OSError ELOOP), w)
     | Some _ \<Rightarrow> new_handle p w)"

text \<open>With \<open>O_DIRECTORY\<close>.\<close>

definition os_open_dir :: "comps \<Rightarrow> descriptor io" where
  "os_open_dir p = syscall (\<lambda>w. case node_at w p of
       None \<Rightarrow> (Exn (OSError ENOENT), w)
     | Some (Dir _ _) \<Rightarrow> new_handle p w
     | Some _ \<Rightarrow> (Exn (OSError ENOTDIR), w))"

text \<open>With \<open>O_RDWR\<close>, and with \<open>O_CREAT\<close> and a mode.\<close>

definition os_open_rw :: "comps \<Rightarrow> descriptor io" where
  "os_open_rw p = syscall (\<lambda>w. case node_at w p of
       None \<Rightarrow> (Exn (OSError ENOENT), w)
     | Some (Symlink _) \<Rightarrow> (Exn (OSError ELOOP), w)
     | Some (Dir _ _) \<Rightarrow> (Exn (OSError EISDIR), w)
     | Some _ \<Rightarrow> new_handle p w)"

text \<open>The bits of a creation mode that the process' file mode mask leaves.\<close>

definition masked :: "world \<Rightarrow> nat \<Rightarrow> nat" where
  "masked w m = m - (m AND umask w)"

definition os_open_creat :: "comps \<Rightarrow> nat \<Rightarrow> descriptor io" where
  "os_open_creat p m = syscall (\<lambda>w. case node_at w p of
       None \<Rightarrow> (if parent_dir w p
                then new_handle p (mark (butlast p) (put_node p (File (masked w m) (uid w) []) w))
                else (Exn (OSError ENOENT), w))
     | Some (Symlink _) \<Rightarrow> (Exn (OSError ELOOP), w)
     | Some (Dir _ _) \<Rightarrow> (Exn (OSError EISDIR), w)
     | Some _ \<Rightarrow> new_handle p w)"

text \<open>With \<open>O_CREAT\<close> and \<open>O_EXCL\<close>: any object of the name is an error.\<close>

definition os_open_excl :: "comps \<Rightarrow> nat \<Rightarrow> descriptor io" where
  "os_open_excl p m = syscall (\<lambda>w.
     if p = [] \<or> node_at w p \<noteq> None then (Exn (OSError EEXIST), w)
     else if parent_dir w p
     then new_handle p (mark (butlast p) (put_node p (File (masked w m) (uid w) []) w))
     else (Exn (OSError ENOENT), w))"

text \<open>With \<open>O_DIRECTORY\<close> but following a last link, the way \<open>fsync_directory\<close> opens.\<close>

fun follow_to :: "nat \<Rightarrow> world \<Rightarrow> comps \<Rightarrow> comps" where
  "follow_to 0 w p = p"
| "follow_to (Suc n) w p = (case node_at w p of
      Some (Symlink t) \<Rightarrow> follow_to n w (link_dest p t) | _ \<Rightarrow> p)"

definition os_open_dir_follow :: "comps \<Rightarrow> descriptor io" where
  "os_open_dir_follow p = syscall (\<lambda>w. case follow 40 w p of
       None \<Rightarrow> (Exn (OSError ENOENT), w)
     | Some (Dir _ _) \<Rightarrow> new_handle (follow_to 40 w p) w
     | Some _ \<Rightarrow> (Exn (OSError ENOTDIR), w))"

definition with_handle :: "descriptor \<Rightarrow> (comps \<Rightarrow> node \<Rightarrow> 'a io) \<Rightarrow> 'a io" where
  "with_handle fd f = (\<lambda>w. if fd \<notin> set (handles w) then (Exn (OSError EINVAL), w)
     else case node_at w (fd_path fd) of
         None \<Rightarrow> (Exn (OSError ENOENT), w)
       | Some n \<Rightarrow> f (fd_path fd) n w)"

definition os_fstat :: "descriptor \<Rightarrow> node io" where
  "os_fstat fd = syscall (with_handle fd (\<lambda>p n. ret n))"

fun set_mode :: "nat \<Rightarrow> node \<Rightarrow> node" where
  "set_mode m (File _ u d) = File m u d"
| "set_mode m (Dir _ u) = Dir m u"
| "set_mode m n = n"

definition os_fchmod :: "descriptor \<Rightarrow> nat \<Rightarrow> unit io" where
  "os_fchmod fd m = syscall (with_handle fd (\<lambda>p n w. (Ret (), mark p (put_node p (set_mode m n) w))))"

text \<open>\<open>os.chmod(path, mode, follow_symlinks=False)\<close>.\<close>

definition os_chmod :: "comps \<Rightarrow> nat \<Rightarrow> unit io" where
  "os_chmod p m = syscall (\<lambda>w. case node_at w p of
       None \<Rightarrow> (Exn (OSError ENOENT), w)
     | Some (Symlink _) \<Rightarrow> (Exn (OSError EINVAL), w)
     | Some n \<Rightarrow> (Ret (), mark p (put_node p (set_mode m n) w)))"

text \<open>Writing the data of a fresh descriptor; an interrupted write has stored a prefix.\<close>

definition store_data :: "comps \<Rightarrow> string \<Rightarrow> world \<Rightarrow> world" where
  "store_data p s w = (case node_at w p of
       Some (File m u _) \<Rightarrow> mark p (put_node p (File m u s) w) | _ \<Rightarrow> w)"

definition os_write :: "descriptor \<Rightarrow> string \<Rightarrow> unit io" where
  "os_write fd s = syscall_torn (\<lambda>k w. store_data (fd_path fd) (take k s) w)
     (with_handle fd (\<lambda>p n w. case n of
         File m u _ \<Rightarrow> (Ret (), store_data p s w)
       | _ \<Rightarrow> (Exn (OSError EINVAL), w)))"

definition os_read :: "descriptor \<Rightarrow> nat \<Rightarrow> string io" where
  "os_read fd limit = syscall (with_handle fd (\<lambda>p n. case n of
       File m u d \<Rightarrow> ret (take limit d)
     | Dir _ _ \<Rightarrow> raise (OSError EISDIR)
     | _ \<Rightarrow> ret []))"

definition os_fsync :: "descriptor \<Rightarrow> unit io" where
  "os_fsync fd = syscall (with_handle fd (\<lambda>p n w. (Ret (), w\<lparr>unsynced := unsynced w - {p}\<rparr>)))"

text \<open>Closing forgets the descriptor and drops the lock taken through it.\<close>

definition os_close :: "descriptor \<Rightarrow> unit io" where
  "os_close fd = (\<lambda>w. if fd \<notin> set (handles w) then (Exn (OSError EINVAL), w)
     else (Ret (), w\<lparr>handles := filter (\<lambda>h. h \<noteq> fd) (handles w),
                    locks := filter (\<lambda>l. fst l \<noteq> fd) (locks w)\<rparr>))"

subsection \<open>Locks\<close>

definition lock_conflict :: "world \<Rightarrow> descriptor \<Rightarrow> bool \<Rightarrow> bool" where
  "lock_conflict w fd ex \<longleftrightarrow>
     list_ex (\<lambda>(q, e). q = fd_path fd \<and> (ex \<or> e)) (foreign_locks w)
     \<or> list_ex (\<lambda>(h, e). h \<noteq> fd \<and> fd_path h = fd_path fd \<and> (ex \<or> e)) (locks w)"

text \<open>\<open>flock\<close>: without \<open>LOCK_NB\<close> a conflicting lock is waited for and the call may never return.\<close>

definition os_flock :: "descriptor \<Rightarrow> bool \<Rightarrow> bool \<Rightarrow> unit io" where
  "os_flock fd ex nonblocking = syscall (with_handle fd (\<lambda>p n w.
     if lock_conflict w fd ex
     then (if nonblocking then (Exn (OSError EAGAIN), w) else (Halt, w))
     else (Ret (), w\<lparr>locks := (fd, ex) # filter (\<lambda>l. fst l \<noteq> fd) (locks w)\<rparr>)))"

definition os_unlock :: "descriptor \<Rightarrow> unit io" where
  "os_unlock fd = syscall (with_handle fd (\<lambda>p n w.
     (Ret (), w\<lparr>locks := filter (\<lambda>l. fst l \<noteq> fd) (locks w)\<rparr>)))"

subsection \<open>Directory entries\<close>

definition os_mkdir :: "comps \<Rightarrow> nat \<Rightarrow> unit io" where
  "os_mkdir p m = syscall (\<lambda>w.
     if p = [] \<or> node_at w p \<noteq> None then (Exn (OSError EEXIST), w)
     else if parent_dir w p then (Ret (), mark p (mark (butlast p) (put_node p (Dir (masked w m) (uid w)) w)))
     else if node_at w (butlast p) = None then (Exn (OSError ENOENT), w)
     else (Exn (OSError ENOTDIR), w))"

definition os_symlink :: "string \<Rightarrow> comps \<Rightarrow> unit io" where
  "os_symlink t p = syscall (\<lambda>w.
     if p = [] \<or> node_at w p \<noteq> None then (Exn (OSError EEXIST), w)
     else if parent_dir w p then (Ret (), mark (butlast p) (put_node p (Symlink t) w))
     else (Exn (OSError ENOENT), w))"

definition os_unlink :: "comps \<Rightarrow> unit io" where
  "os_unlink p = syscall (\<lambda>w. case node_at w p of
       None \<Rightarrow> (Exn (OSError ENOENT), w)
     | Some (Dir _ _) \<Rightarrow> (Exn (OSError EISDIR), w)
     | Some _ \<Rightarrow> (Ret (), mark (butlast p) (del_node p w)))"

definition os_rmdir :: "comps \<Rightarrow> unit io" where
  "os_rmdir p = syscall (\<lambda>w. case node_at w p of
       None \<Rightarrow> (Exn (OSError ENOENT), w)
     | Some (Dir _ _) \<Rightarrow> (if children w p = [] then (Ret (), mark (butlast p) (del_node p w))
                         else (Exn (OSError ENOTEMPTY), w))
     | Some _ \<Rightarrow> (Exn (OSError ENOTDIR), w))"

definition os_listdir :: "comps \<Rightarrow> string list io" where
  "os_listdir p = syscall (\<lambda>w. case node_at w p of
       None \<Rightarrow> (Exn (OSError ENOENT), w)
     | Some (Dir _ _) \<Rightarrow> (Ret (children w p), w)
     | Some _ \<Rightarrow> (Exn (OSError ENOTDIR), w))"

definition replace_error :: "world \<Rightarrow> comps \<Rightarrow> comps \<Rightarrow> errno option" where
  "replace_error w s d =
     (if node_at w s = None \<or> \<not> parent_dir w d then Some ENOENT
      else if strict_prefix s d then Some EINVAL
      else if strict_prefix d s then Some ENOTEMPTY
      else if dir_at w s then
        (case node_at w d of
           None \<Rightarrow> None
         | Some (Dir _ _) \<Rightarrow> (if children w d = [] then None else Some ENOTEMPTY)
         | Some _ \<Rightarrow> Some ENOTDIR)
      else if dir_at w d then Some EISDIR else None)"

text \<open>\<open>os.replace\<close>: one step in which the destination is the old object or the new one.\<close>

definition os_replace :: "comps \<Rightarrow> comps \<Rightarrow> unit io" where
  "os_replace s d = syscall (\<lambda>w. case replace_error w s d of
       Some e \<Rightarrow> (Exn (OSError e), w)
     | None \<Rightarrow> if s = d then (Ret (), w)
              else (Ret (), mark (butlast s) (mark (butlast d) (move_node s d w))))"

subsection \<open>Text\<close>

text \<open>
  A file holds bytes. UTF-8 encodes a code point below 128 as itself and the other
  Latin-1 code points as two bytes; what decodes to a code point beyond Latin-1 is
  outside the strings of the model and counts as undecodable.
\<close>

fun utf8_encode :: "string \<Rightarrow> string" where
  "utf8_encode [] = []"
| "utf8_encode (c # cs) =
     (if code_of c < 128 then c # utf8_encode cs
      else char_of (192 + code_of c div 64) # char_of (128 + code_of c mod 64) # utf8_encode cs)"

fun utf8_decode :: "string \<Rightarrow> string option" where
  "utf8_decode [] = Some []"
| "utf8_decode (c # cs) =
     (if code_of c < 128 then map_option (Cons c) (utf8_decode cs)
      else case cs of
          [] \<Rightarrow> None
        | d # ds \<Rightarrow>
            (if 194 \<le> code_of c \<and> code_of c \<le> 195 \<and> 128 \<le> code_of d \<and> code_of d < 192
             then map_option (Cons (char_of ((code_of c - 192) * 64 + (code_of d - 128)))) (utf8_decode ds)
             else None))"

definition decode_utf8 :: "string \<Rightarrow> exn + string" where
  "decode_utf8 bs = (case utf8_decode bs of None \<Rightarrow> Inl UnicodeError | Some s \<Rightarrow> Inr s)"

definition decode_ascii :: "string \<Rightarrow> exn + string" where
  "decode_ascii bs = (if list_all (\<lambda>c. code_of c < 128) bs then Inr bs else Inl UnicodeError)"

text \<open>\<open>Path.stat().st_size\<close> and the bytes \<open>Path.read_text\<close> reads; both follow a last link.\<close>

definition os_stat :: "comps \<Rightarrow> node io" where
  "os_stat p = syscall (\<lambda>w. case follow 40 w p of
       None \<Rightarrow> (Exn (OSError ENOENT), w) | Some n \<Rightarrow> (Ret n, w))"

fun node_size :: "node \<Rightarrow> nat" where
  "node_size (File _ _ d) = length d"
| "node_size _ = 0"

definition read_bytes :: "comps \<Rightarrow> string io" where
  "read_bytes p = syscall (\<lambda>w. case follow 40 w p of
       None \<Rightarrow> (Exn (OSError ENOENT), w)
     | Some (File m u d) \<Rightarrow> (Ret d, w)
     | Some (Dir _ _) \<Rightarrow> (Exn (OSError EISDIR), w)
     | Some _ \<Rightarrow> (Exn (OSError EIO), w))"

definition read_text_utf8 :: "comps \<Rightarrow> string io" where
  "read_text_utf8 p = bind (read_bytes p) (\<lambda>b. lift (decode_utf8 b))"

definition read_text_ascii :: "comps \<Rightarrow> string io" where
  "read_text_ascii p = bind (read_bytes p) (\<lambda>b. lift (decode_ascii b))"

lemma utf8_decode_encode [simp]: "utf8_decode (utf8_encode s) = Some s"
proof (induction s)
  case Nil
  then show ?case by simp
next
  case (Cons c cs)
  have b: "code_of c < 256" by (simp add: code_of_def)
  have "code_of c div 64 < 4" using b by (auto simp: less_mult_imp_div_less)
  moreover have "code_of c = 64 * (code_of c div 64) + code_of c mod 64" by simp
  ultimately show ?case
    using Cons b
    by (cases "code_of c < 128") (auto simp: code_of_def div_le_mono)
qed

lemma utf8_encode_ascii: "list_all (\<lambda>c. code_of c < 128) s \<Longrightarrow> utf8_encode s = s"
  by (induction s) auto

end
