(* ===== verification/Frame.thy ===== *)
theory Frame
  imports Os
begin

text \<open>
  What the system calls leave alone. Three relations between worlds, each an
  instance of the locale \<open>discipline\<close>: \<open>same_store\<close> (a reader), \<open>confined r\<close>
  (changes only at paths on one line with \<open>r\<close>: below it, or an ancestor of it),
  and \<open>keeps A\<close> (the nodes at the paths \<open>A\<close> stay).
\<close>

subsection \<open>The store after an update\<close>

lemma system_with_simps [simp]:
  "node_at (system_with D) p = map_of D p" "uid (system_with D) = 1000"
  "unsynced (system_with D) = {}" "fates (system_with D) = []" "disk (system_with D) = D"
  by (simp_all add: system_with_def node_at_def)

lemma node_at_put [simp]: "node_at (put_node p n w) q = (if q = p then Some n else node_at w q)"
  by (simp add: node_at_def put_node_def update_conv')

lemma map_of_filter_key: "map_of (filter (\<lambda>e. P (fst e)) D) k = (if P k then map_of D k else None)"
  by (induction D) auto

lemma node_at_del [simp]: "node_at (del_node p w) q = (if q = p then None else node_at w q)"
  using map_of_filter_key [of "\<lambda>k. k \<noteq> p" "disk w" q]
  by (simp add: node_at_def del_node_def)

lemma node_at_mark [simp]: "node_at (mark p w) = node_at w"
  by (simp add: node_at_def mark_def fun_eq_iff)

lemma node_at_fates [simp]: "node_at (w\<lparr>fates := f\<rparr>) = node_at w"
  by (simp add: node_at_def fun_eq_iff)

lemma node_at_others [simp]:
  "node_at (w\<lparr>handles := h\<rparr>) = node_at w" "node_at (w\<lparr>next_fd := k\<rparr>) = node_at w"
  "node_at (w\<lparr>locks := l\<rparr>) = node_at w" "node_at (w\<lparr>unsynced := u\<rparr>) = node_at w"
  "node_at (w\<lparr>suffixes := x\<rparr>) = node_at w" "node_at (w\<lparr>command_ctx := cc\<rparr>) = node_at w"
  "node_at (w\<lparr>console := cs\<rparr>) = node_at w"
  by (simp_all add: node_at_def fun_eq_iff)

lemma unsynced_put [simp]: "unsynced (put_node p n w) = unsynced w"
  by (simp add: put_node_def)

lemma unsynced_del [simp]: "unsynced (del_node p w) = unsynced w"
  by (simp add: del_node_def)

lemma unsynced_mark [simp]: "unsynced (mark p w) = insert p (unsynced w)"
  by (simp add: mark_def)

lemma map_of_move_disk:
  assumes "\<not> prefix s d" and "\<not> prefix d s"
  shows "map_of (move_disk s d D) q =
    (if prefix d q then map_of D (s @ drop (length d) q)
     else if prefix s q then None else map_of D q)"
proof (induction D)
  case Nil
  then show ?case by (simp add: move_disk_def)
next
  case (Cons e D)
  obtain p n where e: "e = (p, n)" by fastforce
  have key: "rebase s d p = q \<longleftrightarrow> prefix d q \<and> p = s @ drop (length d) q" if "prefix s p"
    using that by (auto simp: rebase_def prefix_def)
  have both: "\<not> prefix d p" if "prefix s p"
    using that assms prefix_same_cases by blast
  have off: "p \<noteq> s @ drop (length d) q" if "\<not> prefix s p"
    using that by auto
  have step: "map_of (move_disk s d ((p, n) # D)) q =
      (if prefix d p then map_of (move_disk s d D) q
       else if (if prefix s p then rebase s d p else p) = q then Some n
       else map_of (move_disk s d D) q)"
    by (simp add: move_disk_def)
  show ?case
  proof (cases "prefix s p")
    case True
    then show ?thesis unfolding e step Cons.IH using both key by auto
  next
    case False
    then show ?thesis unfolding e step Cons.IH using off by auto
  qed
qed

lemma node_at_move:
  assumes "\<not> prefix s d" and "\<not> prefix d s"
  shows "node_at (move_node s d w) q =
    (if prefix d q then node_at w (s @ drop (length d) q)
     else if prefix s q then None else node_at w q)"
  by (simp add: node_at_def move_node_def map_of_move_disk [OF assms])

lemma unsynced_move:
  "unsynced (move_node s d w) =
    (\<lambda>p. if prefix s p then rebase s d p else p) ` {p \<in> unsynced w. \<not> prefix d p}"
  by (simp add: move_node_def)

lemma replace_error_None:
  "replace_error w s d = None \<Longrightarrow> node_at w s \<noteq> None \<and> parent_dir w d \<and> (s = d \<or> (\<not> prefix s d \<and> \<not> prefix d s))"
  by (auto simp: replace_error_def strict_prefix_def split: if_splits)

subsection \<open>Paths on one line\<close>

definition on_line :: "comps \<Rightarrow> comps \<Rightarrow> bool" where
  "on_line r p \<longleftrightarrow> prefix r p \<or> prefix p r"

lemma on_line_refl [simp]: "on_line r r"
  by (simp add: on_line_def)

lemma on_line_below: "prefix r p \<Longrightarrow> on_line r p"
  by (simp add: on_line_def)

lemma on_line_above: "prefix p r \<Longrightarrow> on_line r p"
  by (simp add: on_line_def)

lemma on_line_append [simp]: "on_line r (r @ p)"
  by (simp add: on_line_def)

lemma on_line_butlast: "on_line r p \<Longrightarrow> on_line r (butlast p)"
  by (metis on_line_def prefix_order.order_trans prefixeq_butlast strict_prefix_butlast
      strict_prefix_def)

lemma on_line_trans: "prefix r s \<Longrightarrow> on_line s p \<Longrightarrow> on_line r p"
  by (metis on_line_def prefix_order.order_trans prefix_same_cases)

lemma on_line_sibling:
  assumes "x \<noteq> y" and "prefix (d @ [y]) p"
  shows "\<not> on_line (d @ [x]) p"
proof
  assume "on_line (d @ [x]) p"
  then consider "prefix (d @ [x]) p" | "prefix (d @ [y]) (d @ [x])"
    using assms(2) prefix_order.order_trans unfolding on_line_def by blast
  then show False
    using assms prefix_sibling [of d x p y] by cases auto
qed

subsection \<open>The three relations\<close>

definition same_store :: "world \<Rightarrow> world \<Rightarrow> bool" where
  "same_store w w' \<longleftrightarrow> disk w' = disk w \<and> unsynced w' \<subseteq> unsynced w \<and> uid w' = uid w
     \<and> foreign_locks w' = foreign_locks w"

definition confined :: "comps \<Rightarrow> world \<Rightarrow> world \<Rightarrow> bool" where
  "confined r w w' \<longleftrightarrow> uid w' = uid w \<and> foreign_locks w' = foreign_locks w \<and> (\<forall>p. \<not> on_line r p \<longrightarrow>
     node_at w' p = node_at w p \<and> (p \<in> unsynced w' \<longrightarrow> p \<in> unsynced w))"

definition keeps :: "comps set \<Rightarrow> world \<Rightarrow> world \<Rightarrow> bool" where
  "keeps A w w' \<longleftrightarrow> uid w' = uid w \<and> foreign_locks w' = foreign_locks w \<and> (\<forall>p \<in> A. node_at w' p = node_at w p)"

interpretation ro: discipline same_store
  by unfold_locales (auto simp: same_store_def)

interpretation conf: discipline "confined r" for r
  by unfold_locales (auto simp: confined_def)

interpretation kp: discipline "keeps A" for A
  by unfold_locales (auto simp: keeps_def)

lemma same_store_confined: "same_store w w' \<Longrightarrow> confined r w w'"
  by (auto simp: same_store_def confined_def node_at_def)

lemma same_store_keeps: "same_store w w' \<Longrightarrow> keeps A w w'"
  by (auto simp: same_store_def keeps_def node_at_def)

lemma confined_keeps: "confined r w w' \<Longrightarrow> (\<And>p. p \<in> A \<Longrightarrow> \<not> on_line r p) \<Longrightarrow> keeps A w w'"
  by (auto simp: confined_def keeps_def)

lemma confined_mono: "confined s w w' \<Longrightarrow> prefix r s \<Longrightarrow> confined r w w'"
  by (auto simp: confined_def dest: on_line_trans)

lemma reader_confined: "obeys same_store m \<Longrightarrow> obeys (confined r) m"
  by (erule obeys_mono) (rule same_store_confined)

lemma reader_keeps: "obeys same_store m \<Longrightarrow> obeys (keeps A) m"
  by (erule obeys_mono) (rule same_store_keeps)

subsection \<open>System calls\<close>

lemma syscall_torn_obeys:
  assumes "\<And>w. R w (snd (f w))" and "\<And>k w. R w (t k w)"
    and "\<And>u v w. R u v \<Longrightarrow> R v w \<Longrightarrow> R u w" and "\<And>w x. R w (w\<lparr>fates := x\<rparr>)"
  shows "obeys R (syscall_torn t f)"
proof (rule obeysI)
  fix w
  have f: "R w (snd (f (w\<lparr>fates := x\<rparr>)))" for x
    using assms(3) [OF assms(4) assms(1)] .
  have t: "R w (t k (w\<lparr>fates := x\<rparr>))" for k x
    using assms(3) [OF assms(4) assms(2)] .
  show "R w (snd (syscall_torn t f w))"
    using assms(1) f t by (auto simp: syscall_torn_def split: list.splits fate.splits)
qed

lemma syscall_ro: "(\<And>w. same_store w (snd (f w))) \<Longrightarrow> obeys same_store (syscall f)"
  unfolding syscall_def
  by (rule syscall_torn_obeys) (auto simp: same_store_def)

lemma syscall_conf: "(\<And>w. confined r w (snd (f w))) \<Longrightarrow> obeys (confined r) (syscall f)"
  unfolding syscall_def
  by (rule syscall_torn_obeys) (auto simp: confined_def)

text \<open>
  A triple for a system call: the call itself under its precondition, and for a fault
  or a crash the precondition (or what the torn call left) as its own result.
\<close>

lemma hoare_syscall_torn:
  assumes "\<And>w x. P w \<Longrightarrow> P (w\<lparr>fates := x\<rparr>)" and "hoare P f Q E H"
    and "\<And>k w. P w \<Longrightarrow> E (OSError EIO) (t k w)" and "\<And>k w. P w \<Longrightarrow> H (t k w)"
  shows "hoare P (syscall_torn t f) Q E H"
proof (rule hoareI)
  fix w
  assume P: "P w"
  have f: "case f v of (Ret a, w') \<Rightarrow> Q a w' | (Exn e, w') \<Rightarrow> E e w' | (Halt, w') \<Rightarrow> H w'" if "P v" for v
    using assms(2) that by (simp add: hoare_def)
  show "case syscall_torn t f w of (Ret a, w') \<Rightarrow> Q a w' | (Exn e, w') \<Rightarrow> E e w' | (Halt, w') \<Rightarrow> H w'"
  proof (cases "fates w")
    case Nil
    then show ?thesis using f [OF P] by (simp add: syscall_torn_def)
  next
    case (Cons x r)
    have Pr: "P (w\<lparr>fates := r\<rparr>)" by (rule assms(1) [OF P])
    show ?thesis
      using Cons f [OF Pr] assms(3) [OF Pr] assms(4) [OF Pr]
      by (cases x) (simp_all add: syscall_torn_def)
  qed
qed

lemma hoare_syscall:
  assumes "\<And>w x. P w \<Longrightarrow> P (w\<lparr>fates := x\<rparr>)" and "hoare P f Q E H"
    and "\<And>w. P w \<Longrightarrow> E (OSError EIO) w" and "\<And>w. P w \<Longrightarrow> H w"
  shows "hoare P (syscall f) Q E H"
  unfolding syscall_def by (rule hoare_syscall_torn) (use assms in auto)

lemma obeys_hoare: "obeys R m \<Longrightarrow> hoare (R w0) m (\<lambda>_ w. R w0 w) (\<lambda>_. R w0) (R w0)"
  if "\<And>u v w. R u v \<Longrightarrow> R v w \<Longrightarrow> R u w"
  using that by (fastforce simp: obeys_def hoare_def split: outcome.splits prod.splits)

lemma with_handle_obeys:
  assumes "\<And>w. R w w" and "\<And>n w. R w (snd (f (fd_path fd) n w))"
  shows "R w (snd (with_handle fd f w))"
  using assms by (auto simp: with_handle_def split: option.splits)

lemma echo_ro [obeys_rules]: "obeys same_store (echo t)"
  and echo_err_ro [obeys_rules]: "obeys same_store (echo_err t)"
  and put_text_ro [obeys_rules]: "obeys same_store (put_text s t)"
  by (auto simp: echo_def echo_err_def put_text_def obeys_def same_store_def)

lemma os_lstat_ro [obeys_rules]: "obeys same_store (os_lstat p)"
  unfolding os_lstat_def by (rule syscall_ro) (auto simp: same_store_def split: option.splits)

lemma os_stat_ro [obeys_rules]: "obeys same_store (os_stat p)"
  unfolding os_stat_def by (rule syscall_ro) (auto simp: same_store_def split: option.splits)

lemma os_readlink_ro [obeys_rules]: "obeys same_store (os_readlink p)"
  unfolding os_readlink_def
  by (rule syscall_ro) (auto simp: same_store_def split: option.splits node.splits)

lemma os_open_ro [obeys_rules]: "obeys same_store (os_open p)"
  unfolding os_open_def
  by (rule syscall_ro) (auto simp: same_store_def new_handle_def split: option.splits node.splits)

lemma os_open_dir_ro [obeys_rules]: "obeys same_store (os_open_dir p)"
  unfolding os_open_dir_def
  by (rule syscall_ro) (auto simp: same_store_def new_handle_def split: option.splits node.splits)

lemma os_open_dir_follow_ro [obeys_rules]: "obeys same_store (os_open_dir_follow p)"
  unfolding os_open_dir_follow_def
  by (rule syscall_ro) (auto simp: same_store_def new_handle_def split: option.splits node.splits)

lemma os_open_rw_ro [obeys_rules]: "obeys same_store (os_open_rw p)"
  unfolding os_open_rw_def
  by (rule syscall_ro) (auto simp: same_store_def new_handle_def split: option.splits node.splits)

lemma os_fstat_ro [obeys_rules]: "obeys same_store (os_fstat fd)"
  unfolding os_fstat_def
  by (rule syscall_ro) (auto simp: same_store_def with_handle_def ret_def split: option.splits)

lemma os_read_ro [obeys_rules]: "obeys same_store (os_read fd k)"
  unfolding os_read_def
  by (rule syscall_ro)
    (auto simp: same_store_def with_handle_def ret_def raise_def split: option.splits node.splits)

lemma os_fsync_ro [obeys_rules]: "obeys same_store (os_fsync fd)"
  unfolding os_fsync_def
  by (rule syscall_ro) (auto simp: same_store_def with_handle_def split: option.splits)

lemma os_close_ro [obeys_rules]: "obeys same_store (os_close fd)"
  by (rule obeysI) (auto simp: same_store_def os_close_def)

lemma os_flock_ro [obeys_rules]: "obeys same_store (os_flock fd ex nb)"
  unfolding os_flock_def
  by (rule syscall_ro) (auto simp: same_store_def with_handle_def split: option.splits)

lemma os_unlock_ro [obeys_rules]: "obeys same_store (os_unlock fd)"
  unfolding os_unlock_def
  by (rule syscall_ro) (auto simp: same_store_def with_handle_def split: option.splits)

lemma os_listdir_ro [obeys_rules]: "obeys same_store (os_listdir p)"
  unfolding os_listdir_def
  by (rule syscall_ro) (auto simp: same_store_def split: option.splits node.splits)

lemma read_bytes_ro [obeys_rules]: "obeys same_store (read_bytes p)"
  unfolding read_bytes_def
  by (rule syscall_ro) (auto simp: same_store_def split: option.splits node.splits)

lemma read_text_ro [obeys_rules]:
  "obeys same_store (read_text_utf8 p)" "obeys same_store (read_text_ascii p)"
  unfolding read_text_utf8_def read_text_ascii_def
  by (intro obeys_rules)+

lemma probes_ro [obeys_rules]:
  "obeys same_store (p_exists p)" "obeys same_store (p_is_file p)"
  "obeys same_store (p_is_dir p)" "obeys same_store (p_is_symlink p)"
  unfolding p_exists_def p_is_file_def p_is_dir_def p_is_symlink_def
  by (intro obeys_rules)+

lemmas reader_calls = os_lstat_ro os_stat_ro os_readlink_ro os_open_ro os_open_dir_ro
  os_open_dir_follow_ro os_open_rw_ro
  os_fstat_ro os_read_ro os_fsync_ro os_close_ro os_flock_ro os_unlock_ro os_listdir_ro
  read_bytes_ro read_text_ro probes_ro

lemmas reader_calls_conf [obeys_rules] = reader_calls [THEN reader_confined]
lemmas reader_calls_keeps [obeys_rules] = reader_calls [THEN reader_keeps]

text \<open>A change at \<open>p\<close> and at its parent, both on one line with \<open>r\<close>.\<close>

lemma os_open_creat_conf [obeys_rules]: "on_line r p \<Longrightarrow> obeys (confined r) (os_open_creat p m)"
  unfolding os_open_creat_def
  by (rule syscall_conf)
    (auto simp: confined_def new_handle_def put_node_def mark_def node_at_def update_conv'
      on_line_butlast split: option.splits node.splits)

lemma os_open_excl_conf [obeys_rules]: "on_line r p \<Longrightarrow> obeys (confined r) (os_open_excl p m)"
  unfolding os_open_excl_def
  by (rule syscall_conf)
    (auto simp: confined_def new_handle_def put_node_def mark_def node_at_def update_conv'
      on_line_butlast)

lemma os_fchmod_conf [obeys_rules]: "on_line r (fd_path fd) \<Longrightarrow> obeys (confined r) (os_fchmod fd m)"
  unfolding os_fchmod_def
  by (rule syscall_conf, rule with_handle_obeys)
    (auto simp: confined_def put_node_def mark_def node_at_def update_conv')

lemma os_chmod_conf [obeys_rules]: "on_line r p \<Longrightarrow> obeys (confined r) (os_chmod p m)"
  unfolding os_chmod_def
  by (rule syscall_conf)
    (auto simp: confined_def put_node_def mark_def node_at_def update_conv'
      split: option.splits node.splits)

lemma store_data_conf: "on_line r p \<Longrightarrow> confined r w (store_data p s w)"
  by (auto simp: store_data_def confined_def put_node_def mark_def node_at_def update_conv'
      split: option.splits node.splits)

lemma os_write_conf [obeys_rules]: "on_line r (fd_path fd) \<Longrightarrow> obeys (confined r) (os_write fd s)"
  unfolding os_write_def
proof (rule syscall_torn_obeys)
  fix w
  assume r: "on_line r (fd_path fd)"
  show "confined r w (snd (with_handle fd (\<lambda>p n w. case n of
      File m u _ \<Rightarrow> (Ret (), store_data p s w) | _ \<Rightarrow> (Exn (OSError EINVAL), w)) w))"
    by (rule with_handle_obeys) (auto simp: store_data_conf r conf.refl split: node.splits)
qed (auto simp: store_data_conf intro: conf.trans, simp add: confined_def)

lemma os_mkdir_conf [obeys_rules]: "on_line r p \<Longrightarrow> obeys (confined r) (os_mkdir p m)"
  unfolding os_mkdir_def
  by (rule syscall_conf)
    (auto simp: confined_def put_node_def mark_def node_at_def update_conv' on_line_butlast)

lemma os_symlink_conf [obeys_rules]: "on_line r p \<Longrightarrow> obeys (confined r) (os_symlink t p)"
  unfolding os_symlink_def
  by (rule syscall_conf)
    (auto simp: confined_def put_node_def mark_def node_at_def update_conv' on_line_butlast)

lemma confined_unlink: "on_line r p \<Longrightarrow> confined r w (mark (butlast p) (del_node p w))"
  by (auto simp: confined_def on_line_butlast) (simp_all add: mark_def del_node_def)

lemma os_unlink_conf [obeys_rules]: "on_line r p \<Longrightarrow> obeys (confined r) (os_unlink p)"
  unfolding os_unlink_def
  by (rule syscall_conf) (auto simp: confined_unlink conf.refl split: option.splits node.splits)

lemma os_rmdir_conf [obeys_rules]: "on_line r p \<Longrightarrow> obeys (confined r) (os_rmdir p)"
  unfolding os_rmdir_def
  by (rule syscall_conf) (auto simp: confined_unlink conf.refl split: option.splits node.splits)

lemma confined_move:
  assumes s: "prefix r s" and d: "prefix r d" and n: "\<not> prefix s d" "\<not> prefix d s"
  shows "confined r w (move_node s d w)"
  unfolding confined_def
proof (intro conjI allI impI)
  show "uid (move_node s d w) = uid w" "foreign_locks (move_node s d w) = foreign_locks w"
    by (simp_all add: move_node_def)
next
  fix p
  assume p: "\<not> on_line r p"
  then have np: "\<not> prefix d p" "\<not> prefix s p"
    using s d by (auto simp: on_line_def dest: prefix_order.order_trans)
  show "node_at (move_node s d w) p = node_at w p"
    using np by (simp add: node_at_move [OF n])
  assume "p \<in> unsynced (move_node s d w)"
  then show "p \<in> unsynced w"
    using p s d by (auto simp: unsynced_move rebase_def on_line_def prefix_def split: if_splits)
qed

lemma os_replace_conf [obeys_rules]:
  assumes s: "prefix r s" and d: "prefix r d"
  shows "obeys (confined r) (os_replace s d)"
  unfolding os_replace_def
proof (rule syscall_conf)
  fix w
  have m: "confined r v (mark (butlast s) (mark (butlast d) v))" for v
    using on_line_butlast [OF on_line_below [OF s]] on_line_butlast [OF on_line_below [OF d]]
    by (auto simp: confined_def) (simp_all add: mark_def)
  show "confined r w (snd (case replace_error w s d of
      Some e \<Rightarrow> (Exn (OSError e), w)
    | None \<Rightarrow> if s = d then (Ret (), w)
       else (Ret (), mark (butlast s) (mark (butlast d) (move_node s d w)))))"
    using replace_error_None [of w s d] confined_move [OF s d] m
    by (auto simp: conf.refl split: option.splits intro: conf.trans)
qed

text \<open>The nodes a writer keeps: all but the one it names, or for \<open>os_replace\<close> the two subtrees.\<close>

lemma syscall_keeps: "(\<And>w. keeps A w (snd (f w))) \<Longrightarrow> obeys (keeps A) (syscall f)"
  unfolding syscall_def
  by (rule syscall_torn_obeys) (auto simp: keeps_def)

lemma uid_updates [simp]:
  "uid (put_node p n w) = uid w" "uid (del_node p w) = uid w" "uid (mark p w) = uid w"
  "uid (move_node s d w) = uid w"
  "foreign_locks (put_node p n w) = foreign_locks w" "foreign_locks (del_node p w) = foreign_locks w"
  "foreign_locks (mark p w) = foreign_locks w" "foreign_locks (move_node s d w) = foreign_locks w"
  by (simp_all add: put_node_def del_node_def mark_def move_node_def)

lemma os_open_creat_keeps [obeys_rules]: "p \<notin> A \<Longrightarrow> obeys (keeps A) (os_open_creat p m)"
  unfolding os_open_creat_def
  by (rule syscall_keeps) (auto simp: keeps_def new_handle_def split: option.splits node.splits)

lemma os_open_excl_keeps [obeys_rules]: "p \<notin> A \<Longrightarrow> obeys (keeps A) (os_open_excl p m)"
  unfolding os_open_excl_def
  by (rule syscall_keeps) (auto simp: keeps_def new_handle_def)

lemma os_fchmod_keeps [obeys_rules]: "fd_path fd \<notin> A \<Longrightarrow> obeys (keeps A) (os_fchmod fd m)"
  unfolding os_fchmod_def
  by (rule syscall_keeps, rule with_handle_obeys) (auto simp: keeps_def)

lemma os_chmod_keeps [obeys_rules]: "p \<notin> A \<Longrightarrow> obeys (keeps A) (os_chmod p m)"
  unfolding os_chmod_def
  by (rule syscall_keeps) (auto simp: keeps_def split: option.splits node.splits)

lemma store_data_keeps: "p \<notin> A \<Longrightarrow> keeps A w (store_data p s w)"
  by (auto simp: store_data_def keeps_def split: option.splits node.splits)

lemma os_write_keeps [obeys_rules]:
  assumes "fd_path fd \<notin> A"
  shows "obeys (keeps A) (os_write fd s)"
  unfolding os_write_def
proof (rule syscall_torn_obeys)
  fix w
  show "keeps A w (snd (with_handle fd (\<lambda>p n w. case n of
      File m u _ \<Rightarrow> (Ret (), store_data p s w) | _ \<Rightarrow> (Exn (OSError EINVAL), w)) w))"
    by (rule with_handle_obeys) (auto simp: store_data_keeps assms kp.refl split: node.splits)
qed (auto simp: store_data_keeps assms intro: kp.trans, simp add: keeps_def)

lemma os_mkdir_keeps [obeys_rules]: "p \<notin> A \<Longrightarrow> obeys (keeps A) (os_mkdir p m)"
  unfolding os_mkdir_def
  by (rule syscall_keeps) (auto simp: keeps_def)

lemma os_symlink_keeps [obeys_rules]: "p \<notin> A \<Longrightarrow> obeys (keeps A) (os_symlink t p)"
  unfolding os_symlink_def
  by (rule syscall_keeps) (auto simp: keeps_def)

lemma os_unlink_keeps [obeys_rules]: "p \<notin> A \<Longrightarrow> obeys (keeps A) (os_unlink p)"
  unfolding os_unlink_def
  by (rule syscall_keeps) (auto simp: keeps_def split: option.splits node.splits)

lemma os_rmdir_keeps [obeys_rules]: "p \<notin> A \<Longrightarrow> obeys (keeps A) (os_rmdir p)"
  unfolding os_rmdir_def
  by (rule syscall_keeps) (auto simp: keeps_def split: option.splits node.splits)

lemma os_replace_keeps [obeys_rules]:
  assumes "\<And>q. q \<in> A \<Longrightarrow> \<not> prefix s q \<and> \<not> prefix d q"
  shows "obeys (keeps A) (os_replace s d)"
  unfolding os_replace_def
proof (rule syscall_keeps)
  fix w
  show "keeps A w (snd (case replace_error w s d of
      Some e \<Rightarrow> (Exn (OSError e), w)
    | None \<Rightarrow> if s = d then (Ret (), w)
       else (Ret (), mark (butlast s) (mark (butlast d) (move_node s d w)))))"
    using replace_error_None [of w s d] assms
    by (auto simp: keeps_def node_at_move split: option.splits)
qed

subsection \<open>What a call can return\<close>

lemma syscall_RetE:
  assumes "syscall f w = (Ret a, w')"
  obtains x where "f (w\<lparr>fates := x\<rparr>) = (Ret a, w')"
proof (cases "fates w")
  case Nil
  then have w: "w = w\<lparr>fates := []\<rparr>" by (cases w) simp
  have "f w = (Ret a, w')"
    using assms Nil by (simp add: syscall_def syscall_torn_def)
  then have "f (w\<lparr>fates := []\<rparr>) = (Ret a, w')"
    by (subst w [symmetric])
  then show ?thesis by (rule that)
next
  case (Cons x r)
  then show ?thesis
    using assms that by (cases x) (auto simp: syscall_def syscall_torn_def)
qed

lemma returns_syscall: "returns (syscall f) a \<Longrightarrow> returns f a"
  unfolding returns_def by (blast elim: syscall_RetE)

lemma new_handle_Ret: "new_handle p w = (Ret fd, w') \<Longrightarrow> fd_path fd = p"
  by (auto simp: new_handle_def)

lemma returns_open: "returns (os_open p) fd \<Longrightarrow> fd_path fd = p"
  unfolding os_open_def
  by (drule returns_syscall, erule returnsE)
    (auto dest: new_handle_Ret split: option.split_asm node.split_asm)

lemma returns_open_dir: "returns (os_open_dir p) fd \<Longrightarrow> fd_path fd = p"
  unfolding os_open_dir_def
  by (drule returns_syscall, erule returnsE)
    (auto dest: new_handle_Ret split: option.split_asm node.split_asm)

lemma returns_open_rw: "returns (os_open_rw p) fd \<Longrightarrow> fd_path fd = p"
  unfolding os_open_rw_def
  by (drule returns_syscall, erule returnsE)
    (auto dest: new_handle_Ret split: option.split_asm node.split_asm)

lemma returns_open_creat: "returns (os_open_creat p m) fd \<Longrightarrow> fd_path fd = p"
  unfolding os_open_creat_def
  by (drule returns_syscall, erule returnsE)
    (auto dest: new_handle_Ret split: option.split_asm node.split_asm if_split_asm)

lemma returns_open_excl: "returns (os_open_excl p m) fd \<Longrightarrow> fd_path fd = p"
  unfolding os_open_excl_def
  by (drule returns_syscall, erule returnsE)
    (auto dest: new_handle_Ret split: if_split_asm)

lemma returns_then_open_dir: "returns (then_do m (os_open_dir p)) fd \<Longrightarrow> fd_path fd = p"
  by (auto dest: returns_bind returns_open_dir)

lemma returns_private_open:
  "returns (try_except (then_do m (os_open_dir p)) q (\<lambda>_. raise e)) fd \<Longrightarrow> fd_path fd = p"
  by (auto dest!: returns_try_except returns_then_open_dir)

lemmas returns_opens = returns_open returns_open_dir returns_open_rw returns_open_creat
  returns_open_excl returns_private_open

subsection \<open>What a call saw when it returned\<close>

lemma reader_disk: "obeys same_store m \<Longrightarrow> m w = (Ret a, w') \<Longrightarrow> disk w' = disk w"
  by (drule obeysD, assumption) (simp add: same_store_def)

lemma os_lstat_Ret: "os_lstat p w = (Ret n, w') \<Longrightarrow> node_at w p = Some n \<and> disk w' = disk w"
  unfolding os_lstat_def by (erule syscall_RetE) (auto split: option.split_asm)

lemma os_stat_Ret: "os_stat p w = (Ret n, w') \<Longrightarrow> follow 40 w p = Some n \<and> disk w' = disk w"
proof -
  have f: "follow k (w\<lparr>fates := x\<rparr>) p = follow k w p" for k w x
    by (induction k w p rule: follow.induct) (auto split: option.splits node.splits)
  show "os_stat p w = (Ret n, w') \<Longrightarrow> follow 40 w p = Some n \<and> disk w' = disk w"
    unfolding os_stat_def by (erule syscall_RetE) (auto simp: f split: option.split_asm)
qed

lemma read_bytes_Ret:
  "read_bytes p w = (Ret d, w') \<Longrightarrow> (\<exists>m u. follow 40 w p = Some (File m u d)) \<and> disk w' = disk w"
proof -
  have f: "follow k (w\<lparr>fates := x\<rparr>) p = follow k w p" for k w x
    by (induction k w p rule: follow.induct) (auto split: option.splits node.splits)
  show "read_bytes p w = (Ret d, w') \<Longrightarrow> (\<exists>m u. follow 40 w p = Some (File m u d)) \<and> disk w' = disk w"
    unfolding read_bytes_def
    by (erule syscall_RetE) (auto simp: f split: option.split_asm node.split_asm)
qed

lemma os_fstat_Ret: "os_fstat fd w = (Ret n, w') \<Longrightarrow> node_at w (fd_path fd) = Some n \<and> disk w' = disk w"
  unfolding os_fstat_def
  by (erule syscall_RetE) (auto simp: with_handle_def ret_def split: option.split_asm if_split_asm)

lemma os_read_Ret:
  "os_read fd k w = (Ret b, w') \<Longrightarrow> node_at w (fd_path fd) = Some (File m u d) \<Longrightarrow> b = take k d"
  unfolding os_read_def
  by (erule syscall_RetE) (auto simp: with_handle_def ret_def split: option.split_asm if_split_asm)

lemma follow_disk: "disk w' = disk w \<Longrightarrow> follow k w' p = follow k w p"
proof (induction k w p rule: follow.induct)
  case (2 n w p)
  have "node_at w' p = node_at w p" using 2 by (simp add: node_at_def)
  then show ?case using 2 by (auto split: option.splits node.splits)
qed simp

end
