(* ===== verification/Pathlib.thy ===== *)
theory Pathlib
  imports Frame
begin

text \<open>
  \<open>pathlib.Path\<close> as a value: whether it is absolute and its components, with
  \<open>parts\<close>, \<open>name\<close>, \<open>parent\<close>, text and \<open>resolve\<close>. A path handed to the
  operating system is absolute and stands for its components.
\<close>

datatype path = Path (is_absolute: bool) (path_comps: comps)

text \<open>\<open>Path(text)\<close>: empty components and single dots disappear, \<open>..\<close> stays.\<close>

definition parse_path :: "string \<Rightarrow> path" where
  "parse_path s = Path (startswith s ''/'')
     (filter (\<lambda>c. c \<noteq> [] \<and> c \<noteq> ''.'') (split_on (CHR ''/'') s))"

fun parts :: "path \<Rightarrow> string list" where
  "parts (Path True cs) = ''/'' # cs"
| "parts (Path False cs) = cs"

fun str_path :: "path \<Rightarrow> string" where
  "str_path (Path True cs) = CHR ''/'' # join ''/'' cs"
| "str_path (Path False cs) = (if cs = [] then ''.'' else join ''/'' cs)"

text \<open>The text of an absolute path.\<close>

definition show_path :: "comps \<Rightarrow> string" where
  "show_path cs = str_path (Path True cs)"

definition name_of :: "comps \<Rightarrow> string" where
  "name_of cs = (if cs = [] then [] else last cs)"

text \<open>\<open>a / b\<close>: an absolute right operand replaces the left one.\<close>

definition join_path :: "comps \<Rightarrow> path \<Rightarrow> comps" where
  "join_path d p = (if is_absolute p then path_comps p else d @ path_comps p)"

text \<open>
  \<open>Path.resolve()\<close> without \<open>strict\<close>: links are expanded from the root on, up to
  forty of them, a component that does not exist stays as it is.
\<close>

function resolve_from :: "nat \<Rightarrow> world \<Rightarrow> comps \<Rightarrow> string list \<Rightarrow> comps" where
  "resolve_from n w acc [] = acc"
| "resolve_from n w acc (c # cs) =
     (if c = ''..'' then resolve_from n w (butlast acc) cs
      else case node_at w (acc @ [c]) of
          Some (Symlink t) \<Rightarrow> (case n of
              0 \<Rightarrow> acc @ c # cs
            | Suc m \<Rightarrow> resolve_from m w (if is_absolute (parse_path t) then [] else acc)
                         (path_comps (parse_path t) @ cs))
        | _ \<Rightarrow> resolve_from n w (acc @ [c]) cs)"
  by pat_completeness auto
termination
  by (relation "measures [\<lambda>(n, w, acc, cs). n, \<lambda>(n, w, acc, cs). length cs]") auto

definition resolve :: "world \<Rightarrow> comps \<Rightarrow> comps" where
  "resolve w p = resolve_from 40 w [] p"

definition p_resolve :: "comps \<Rightarrow> comps io" where
  "p_resolve p = gets (\<lambda>w. resolve w p)"

lemma p_resolve_ro [obeys_rules]: "obeys same_store (p_resolve p)"
  unfolding p_resolve_def by (intro obeys_rules)

text \<open>A path without \<open>..\<close> and without links on the way resolves to itself.\<close>

lemma resolve_from_plain:
  assumes "''..'' \<notin> set cs" and "\<And>k. k \<le> length cs \<Longrightarrow> \<not> is_link_node (node_at w (acc @ take k cs))"
  shows "resolve_from n w acc cs = acc @ cs"
  using assms
proof (induction cs arbitrary: acc)
  case Nil
  then show ?case by simp
next
  case (Cons c cs)
  have "\<not> is_link_node (node_at w (acc @ [c]))"
    using Cons.prems(2) [of 1] by simp
  moreover have "resolve_from n w (acc @ [c]) cs = (acc @ [c]) @ cs"
    using Cons.prems(1) Cons.prems(2) [of "Suc _"] by (intro Cons.IH) auto
  ultimately show ?case
    using Cons.prems(1) by (auto split: option.splits node.splits)
qed

lemma resolve_plain:
  assumes "''..'' \<notin> set p" and "\<And>q. prefix q p \<Longrightarrow> \<not> is_link_node (node_at w q)"
  shows "resolve w p = p"
  unfolding resolve_def
  using resolve_from_plain [of p w "[]" 40] assms take_is_prefix [of _ p] by simp

text \<open>Two paths written below one directory are equal exactly when their texts are.\<close>

lemma filter_split_join:
  assumes "\<forall>c \<in> set cs. c \<noteq> [] \<and> c \<noteq> ''.'' \<and> CHR ''/'' \<notin> set c"
  shows "filter (\<lambda>c. c \<noteq> [] \<and> c \<noteq> ''.'') (split_on (CHR ''/'') (join ''/'' cs)) = cs"
proof (cases "cs = []")
  case False
  then have "split_on (CHR ''/'') (join ''/'' cs) = cs"
    using assms by (intro split_on_join) auto
  then show ?thesis using assms by (auto simp: filter_id_conv)
qed simp

lemma parse_show_path:
  assumes "\<forall>c \<in> set cs. c \<noteq> [] \<and> c \<noteq> ''.'' \<and> CHR ''/'' \<notin> set c"
  shows "parse_path (show_path cs) = Path True cs"
  using filter_split_join [OF assms]
  by (simp add: parse_path_def show_path_def startswith_def)

end
