(* ===== verification/Errors.thy ===== *)
theory Errors
  imports Frame
begin

text \<open>
  \<open>errors.py\<close>: the recovery command attached to a diagnostic, quoted by
  \<open>shlex.join\<close>, and the context variable it is rendered from. A reference
  reader of POSIX shell words says what the quoting has to achieve.
\<close>

text \<open>\<open>__version__\<close> of the package.\<close>

definition application_version :: string where
  "application_version = ''1.0.0''"

subsection \<open>\<open>shlex.quote\<close> and \<open>shlex.join\<close>\<close>

definition shell_safe :: "char \<Rightarrow> bool" where
  "shell_safe c \<longleftrightarrow> is_alnum c \<or> c \<in> set ''_@%+=:,./-''"

definition squote :: char where
  "squote = CHR 0x27"

definition dquote :: char where
  "dquote = CHR 0x22"

text \<open>The replacement of a single quote: close, a quoted single quote, open again.\<close>

definition escaped_quote :: string where
  "escaped_quote = [squote, dquote, squote, dquote, squote]"

definition shlex_quote :: "string \<Rightarrow> string" where
  "shlex_quote s =
     (if s = [] then [squote, squote]
      else if list_all shell_safe s then s
      else squote # concat (map (\<lambda>c. if c = squote then escaped_quote else [c]) s) @ [squote])"

definition shlex_join :: "string list \<Rightarrow> string" where
  "shlex_join args = join '' '' (map shlex_quote args)"

text \<open>
  How a shell reads a line back: blanks end a word, single quotes keep everything
  up to the next one, double quotes keep everything but an expansion, and any other
  active character outside quotes makes the line more than a list of words
  (\<open>None\<close>). The first argument is the word being read.
\<close>

fun sh_plain :: "string option \<Rightarrow> string \<Rightarrow> string list option"
  and sh_single :: "string \<Rightarrow> string \<Rightarrow> string list option"
  and sh_double :: "string \<Rightarrow> string \<Rightarrow> string list option" where
  "sh_plain cur [] = Some (case cur of None \<Rightarrow> [] | Some w \<Rightarrow> [w])"
| "sh_plain cur (c # cs) =
     (if c = CHR '' '' then
        (case cur of None \<Rightarrow> sh_plain None cs | Some w \<Rightarrow> map_option (Cons w) (sh_plain None cs))
      else if c = squote then sh_single (case cur of None \<Rightarrow> [] | Some w \<Rightarrow> w) cs
      else if c = dquote then sh_double (case cur of None \<Rightarrow> [] | Some w \<Rightarrow> w) cs
      else if shell_safe c then sh_plain (Some ((case cur of None \<Rightarrow> [] | Some w \<Rightarrow> w) @ [c])) cs
      else None)"
| "sh_single w [] = None"
| "sh_single w (c # cs) = (if c = squote then sh_plain (Some w) cs else sh_single (w @ [c]) cs)"
| "sh_double w [] = None"
| "sh_double w (c # cs) =
     (if c = dquote then sh_plain (Some w) cs
      else if c \<in> {CHR ''$'', CHR 0x60, CHR 0x5C} then None
      else sh_double (w @ [c]) cs)"

definition shell_words :: "string \<Rightarrow> string list option" where
  "shell_words s = sh_plain None s"

lemma shell_safe_not_active: "shell_safe c \<Longrightarrow> c \<noteq> CHR '' '' \<and> c \<noteq> squote \<and> c \<noteq> dquote"
  by (auto simp: shell_safe_def char_class_defs squote_def dquote_def)

lemma sh_plain_safe:
  "list_all shell_safe s \<Longrightarrow> s \<noteq> [] \<Longrightarrow>
   sh_plain cur (s @ rest) = sh_plain (Some ((case cur of None \<Rightarrow> [] | Some w \<Rightarrow> w) @ s)) rest"
proof (induction s arbitrary: cur)
  case Nil
  then show ?case by simp
next
  case (Cons c s)
  then show ?case
    using shell_safe_not_active [of c] by (cases "s = []") auto
qed

lemma sh_single_body:
  "sh_single w (concat (map (\<lambda>c. if c = squote then escaped_quote else [c]) s) @ squote # rest)
    = sh_plain (Some (w @ s)) rest"
proof (induction s arbitrary: w)
  case Nil
  then show ?case by simp
next
  case (Cons c s)
  show ?case
  proof (cases "c = squote")
    case True
    then show ?thesis
      using Cons [of "w @ [c]"] by (simp add: escaped_quote_def squote_def dquote_def)
  next
    case False
    then show ?thesis using Cons [of "w @ [c]"] by simp
  qed
qed

lemma sh_plain_quote:
  "sh_plain None (shlex_quote s @ rest) = sh_plain (Some s) rest"
proof -
  have ns: "squote \<noteq> CHR '' ''" by (simp add: squote_def)
  consider "s = []" | "s \<noteq> []" "list_all shell_safe s" | "s \<noteq> []" "\<not> list_all shell_safe s"
    by blast
  then show ?thesis
  proof cases
    case 1
    then show ?thesis using ns by (simp add: shlex_quote_def)
  next
    case 2
    then show ?thesis by (simp add: shlex_quote_def sh_plain_safe)
  next
    case 3
    then show ?thesis using ns sh_single_body [of "[]" s rest] by (simp add: shlex_quote_def)
  qed
qed

lemma shell_words_join: "shell_words (shlex_join args) = Some args"
proof -
  have "sh_plain None (join '' '' (map shlex_quote args)) = Some args"
  proof (induction args)
    case Nil
    then show ?case by simp
  next
    case (Cons a args)
    show ?case
    proof (cases args)
      case Nil
      then show ?thesis using sh_plain_quote [of a "[]"] by simp
    next
      case (Cons b bs)
      have "sh_plain None (join '' '' (map shlex_quote (a # args)))
          = sh_plain (Some a) (CHR '' '' # join '' '' (map shlex_quote args))"
        using sh_plain_quote [of a "CHR '' '' # join '' '' (map shlex_quote args)"] Cons by simp
      then show ?thesis using Cons.IH by simp
    qed
  qed
  then show ?thesis by (simp add: shell_words_def shlex_join_def)
qed

subsection \<open>The recovery command\<close>

definition LAUNCHER_ENV :: string where
  "LAUNCHER_ENV = ''SHUTTLE_GATE_LAUNCHER''"

definition INSTANCE_ENV :: string where
  "INSTANCE_ENV = ''SHUTTLE_GATE_INSTANCE''"

text \<open>The launcher and instance a hint names: the context variable, else the environment.\<close>

definition hint_context :: "world \<Rightarrow> string \<times> string option" where
  "hint_context w = (case command_ctx w of
       None \<Rightarrow> ((case map_of (environ w) LAUNCHER_ENV of None \<Rightarrow> ''./shuttle-gate'' | Some l \<Rightarrow> l),
               map_of (environ w) INSTANCE_ENV)
     | Some ctx \<Rightarrow> ctx)"

definition hint_words :: "world \<Rightarrow> string list \<Rightarrow> string list" where
  "hint_words w arguments = (case hint_context w of (launcher, inst) \<Rightarrow>
     [launcher] @ (case inst of None \<Rightarrow> [] | Some i \<Rightarrow> [''--instance'', i]) @ arguments)"

definition command_hint :: "world \<Rightarrow> string list \<Rightarrow> string" where
  "command_hint w arguments = ''run: '' @ shlex_join (hint_words w arguments)"

definition with_command_hint :: "world \<Rightarrow> string \<Rightarrow> string list \<Rightarrow> string" where
  "with_command_hint w message arguments = message @ ''; '' @ command_hint w arguments"

text \<open>\<open>raise E(with_command_hint(...))\<close>.\<close>

definition raise_hinted :: "(string \<Rightarrow> exn) \<Rightarrow> string \<Rightarrow> string list \<Rightarrow> 'a io" where
  "raise_hinted E message arguments = bind (gets (\<lambda>w. with_command_hint w message arguments)) (\<lambda>m. raise (E m))"

text \<open>\<open>with command_context(launcher, inst): m\<close> restores the previous context.\<close>

definition with_command_context :: "string \<Rightarrow> string option \<Rightarrow> 'a io \<Rightarrow> 'a io" where
  "with_command_context launcher inst m =
     bind (gets command_ctx) (\<lambda>token.
     try_finally
       (then_do (\<lambda>w. (Ret (), w\<lparr>command_ctx := Some (launcher, inst)\<rparr>)) m)
       (\<lambda>w. (Ret (), w\<lparr>command_ctx := token\<rparr>)))"

lemma raise_hinted_ro [obeys_rules]: "obeys same_store (raise_hinted E m a)"
  unfolding raise_hinted_def by (intro obeys_rules)

lemma raise_hinted_conf [obeys_rules]: "obeys (confined r) (raise_hinted E m a)"
  by (rule reader_confined) (rule raise_hinted_ro)

lemma raise_hinted_keeps [obeys_rules]: "obeys (keeps A) (raise_hinted E m a)"
  by (rule reader_keeps) (rule raise_hinted_ro)

lemma raise_hinted_run: "raise_hinted E m a w = (Exn (E (with_command_hint w m a)), w)"
  by (simp add: raise_hinted_def run_simps)

text \<open>
  C36: the recovery command of every diagnostic reads back, in a shell, as exactly
  the launcher, the instance option and the arguments it was built from; no instance
  path and no argument is split, expanded or dropped.
\<close>

theorem command_hint_shell_safe:
  "with_command_hint w message arguments = message @ ''; run: '' @ shlex_join (hint_words w arguments)
   \<and> shell_words (drop (length (message @ ''; run: '')) (with_command_hint w message arguments))
     = Some (fst (hint_context w)
         # (case snd (hint_context w) of None \<Rightarrow> [] | Some i \<Rightarrow> [''--instance'', i]) @ arguments)"
proof -
  have hinted: "with_command_hint w message arguments
      = (message @ ''; run: '') @ shlex_join (hint_words w arguments)"
    by (simp add: with_command_hint_def command_hint_def)
  have "drop (length (message @ ''; run: '')) (with_command_hint w message arguments)
      = shlex_join (hint_words w arguments)"
    unfolding hinted append_eq_conv_conj [THEN iffD1, OF refl] by simp
  then show ?thesis
    using hinted shell_words_join [of "hint_words w arguments"]
    by (simp add: hint_words_def case_prod_unfold)
qed

end
