(* ===== verification/Net.thy ===== *)
theory Net
  imports Prelude "HOL-Library.Word"
begin

text \<open>
  The part of Python's \<open>ipaddress\<close> module the program uses, as of Python 3.14:
  addresses (an IPv6 address with its optional scope), interfaces and networks,
  the classifications, membership, printing and parsing.
\<close>

unbundle bit_operations_syntax

datatype ip_address = V4 "32 word" | V6 "128 word" "string option"

datatype ip_interface = Iface (if_address: ip_address) (if_prefixlen: nat)

text \<open>A network is its network address and its prefix length.\<close>

datatype ip_network = Net4 "32 word" nat | Net6 "128 word" "string option" nat

fun version :: "ip_address \<Rightarrow> nat" where
  "version (V4 _) = 4"
| "version (V6 _ _) = 6"

definition if_version :: "ip_interface \<Rightarrow> nat" where
  "if_version i = version (if_address i)"

fun net_version :: "ip_network \<Rightarrow> nat" where
  "net_version (Net4 _ _) = 4"
| "net_version (Net6 _ _ _) = 6"

fun scope_id :: "ip_address \<Rightarrow> string option" where
  "scope_id (V4 _) = None"
| "scope_id (V6 _ s) = s"

subsection \<open>Classification\<close>

definition v4_multicast :: "32 word \<Rightarrow> bool" where
  "v4_multicast a \<longleftrightarrow> drop_bit 28 a = 0xE"

definition v4_link_local :: "32 word \<Rightarrow> bool" where
  "v4_link_local a \<longleftrightarrow> drop_bit 16 a = 0xA9FE"

text \<open>An IPv4-mapped IPv6 address is classified as the IPv4 address it maps.\<close>

definition ipv4_mapped :: "128 word \<Rightarrow> 32 word option" where
  "ipv4_mapped a = (if drop_bit 32 a = 0xFFFF then Some (ucast a) else None)"

fun is_unspecified :: "ip_address \<Rightarrow> bool" where
  "is_unspecified (V4 a) = (a = 0)"
| "is_unspecified (V6 a _) = (case ipv4_mapped a of Some b \<Rightarrow> b = 0 | None \<Rightarrow> a = 0)"

fun is_multicast :: "ip_address \<Rightarrow> bool" where
  "is_multicast (V4 a) = v4_multicast a"
| "is_multicast (V6 a _) =
     (case ipv4_mapped a of Some b \<Rightarrow> v4_multicast b | None \<Rightarrow> drop_bit 120 a = 0xFF)"

fun is_link_local :: "ip_address \<Rightarrow> bool" where
  "is_link_local (V4 a) = v4_link_local a"
| "is_link_local (V6 a _) =
     (case ipv4_mapped a of Some b \<Rightarrow> v4_link_local b | None \<Rightarrow> drop_bit 118 a = 0x3FA)"

subsection \<open>Interfaces and networks\<close>

definition netmask4 :: "nat \<Rightarrow> 32 word" where
  "netmask4 n = NOT (mask (32 - n))"

definition netmask6 :: "nat \<Rightarrow> 128 word" where
  "netmask6 n = NOT (mask (128 - n))"

text \<open>\<open>interface.ip\<close> carries no scope; the network address keeps it when no host bit is set.\<close>

fun if_ip :: "ip_interface \<Rightarrow> ip_address" where
  "if_ip (Iface (V4 a) n) = V4 a"
| "if_ip (Iface (V6 a s) n) = V6 a None"

fun if_network :: "ip_interface \<Rightarrow> ip_network" where
  "if_network (Iface (V4 a) n) = Net4 (a AND netmask4 n) n"
| "if_network (Iface (V6 a s) n) =
     Net6 (a AND netmask6 n) (if a AND netmask6 n = a then s else None) n"

fun network_address :: "ip_network \<Rightarrow> ip_address" where
  "network_address (Net4 a n) = V4 a"
| "network_address (Net6 a s n) = V6 a s"

fun broadcast_address :: "ip_network \<Rightarrow> ip_address" where
  "broadcast_address (Net4 a n) = V4 (a OR mask (32 - n))"
| "broadcast_address (Net6 a s n) = V6 (a OR mask (128 - n)) None"

fun prefixlen :: "ip_network \<Rightarrow> nat" where
  "prefixlen (Net4 a n) = n"
| "prefixlen (Net6 a s n) = n"

text \<open>\<open>address in network\<close>.\<close>

fun in_network :: "ip_address \<Rightarrow> ip_network \<Rightarrow> bool" where
  "in_network (V4 a) (Net4 b n) = (a AND netmask4 n = b)"
| "in_network (V6 a _) (Net6 b _ n) = (a AND netmask6 n = b)"
| "in_network _ _ = False"

lemma in_network_version: "in_network a n \<Longrightarrow> version a = net_version n"
  by (cases a; cases n) auto

lemma if_ip_in_network: "in_network (if_ip i) (if_network i)"
  by (cases i rule: if_ip.cases) auto

lemma if_version_network: "net_version (if_network i) = if_version i"
  by (cases i rule: if_ip.cases) (auto simp: if_version_def)

lemma version_if_ip [simp]: "version (if_ip i) = if_version i"
  by (cases i rule: if_ip.cases) (auto simp: if_version_def)

text \<open>The default routes hold every address of their family.\<close>

lemma in_default_route4: "version a = 4 \<Longrightarrow> in_network a (Net4 0 0)"
  using mask_full [where 'a = 32] by (cases a) (simp_all add: netmask4_def)

lemma in_default_route6: "version a = 6 \<Longrightarrow> in_network a (Net6 0 None 0)"
  using mask_full [where 'a = 128] by (cases a) (simp_all add: netmask6_def)

subsection \<open>Printing\<close>

definition hex_digit :: "nat \<Rightarrow> char" where
  "hex_digit d = ''0123456789abcdef'' ! d"

fun str_hex :: "nat \<Rightarrow> string" where
  "str_hex n = (if n < 16 then [hex_digit n] else str_hex (n div 16) @ [hex_digit (n mod 16)])"

declare str_hex.simps [simp del]

definition octet :: "nat \<Rightarrow> 32 word \<Rightarrow> nat" where
  "octet k a = unat (drop_bit (8 * k) a AND 0xFF)"

definition str_v4 :: "32 word \<Rightarrow> string" where
  "str_v4 a = join ''.'' [str_nat (octet 3 a), str_nat (octet 2 a), str_nat (octet 1 a), str_nat (octet 0 a)]"

definition hextet :: "nat \<Rightarrow> 128 word \<Rightarrow> nat" where
  "hextet k a = unat (drop_bit (16 * k) a AND 0xFFFF)"

text \<open>The first longest run of zero hextets: the loop of \<open>_compress_hextets\<close>.\<close>

fun best_run :: "nat \<Rightarrow> nat \<times> nat \<Rightarrow> nat \<times> nat \<Rightarrow> string list \<Rightarrow> nat \<times> nat" where
  "best_run i best cur [] = best"
| "best_run i (bs, bl) (cs, cl) (h # hs) =
     (if h = ''0'' then
        (let cs' = (if cl = 0 then i else cs); cl' = Suc cl
         in best_run (Suc i) (if bl < cl' then (cs', cl') else (bs, bl)) (cs', cl') hs)
      else best_run (Suc i) (bs, bl) (0, 0) hs)"

definition compress_hextets :: "string list \<Rightarrow> string list" where
  "compress_hextets hs = (case best_run 0 (0, 0) (0, 0) hs of (s, l) \<Rightarrow>
     (if 1 < l then
        (let tail = drop (s + l) hs @ (if s + l = length hs then [[]] else []);
             body = take s hs @ [[]] @ tail
         in (if s = 0 then [] # body else body))
      else hs))"

definition str_hextets :: "128 word \<Rightarrow> string" where
  "str_hextets a = join '':'' (compress_hextets
     (map str_hex [hextet 7 a, hextet 6 a, hextet 5 a, hextet 4 a,
                   hextet 3 a, hextet 2 a, hextet 1 a, hextet 0 a]))"

definition str_v6 :: "128 word \<Rightarrow> string" where
  "str_v6 a = (case ipv4_mapped a of
       Some b \<Rightarrow> ''::ffff:'' @ str_v4 b
     | None \<Rightarrow> str_hextets a)"

definition with_scope :: "string \<Rightarrow> string option \<Rightarrow> string" where
  "with_scope t s = (case s of None \<Rightarrow> t | Some sc \<Rightarrow> if sc = [] then t else t @ ''%'' @ sc)"

fun str_ip :: "ip_address \<Rightarrow> string" where
  "str_ip (V4 a) = str_v4 a"
| "str_ip (V6 a s) = with_scope (str_v6 a) s"

definition str_interface :: "ip_interface \<Rightarrow> string" where
  "str_interface i = str_ip (if_address i) @ ''/'' @ str_nat (if_prefixlen i)"

definition str_network :: "ip_network \<Rightarrow> string" where
  "str_network n = str_ip (network_address n) @ ''/'' @ str_nat (prefixlen n)"

subsection \<open>Parsing\<close>

definition parse_octet :: "string \<Rightarrow> nat option" where
  "parse_octet s =
     (if s = [] \<or> \<not> list_all is_digit s \<or> 3 < length s then None
      else if s \<noteq> ''0'' \<and> take 1 s = ''0'' then None
      else if 255 < nat_of_digits 0 s then None
      else Some (nat_of_digits 0 s))"

definition parse_v4 :: "string \<Rightarrow> 32 word option" where
  "parse_v4 s = (case map parse_octet (split_on (CHR ''.'') s) of
       [Some a, Some b, Some c, Some d] \<Rightarrow> Some (of_nat (((a * 256 + b) * 256 + c) * 256 + d))
     | _ \<Rightarrow> None)"

definition hex_digit_val :: "char \<Rightarrow> nat option" where
  "hex_digit_val c =
     (if is_digit c then Some (code_of c - 48)
      else if 97 \<le> code_of c \<and> code_of c \<le> 102 then Some (code_of c - 87)
      else if 65 \<le> code_of c \<and> code_of c \<le> 70 then Some (code_of c - 55)
      else None)"

fun hex_number :: "nat \<Rightarrow> string \<Rightarrow> nat option" where
  "hex_number acc [] = Some acc"
| "hex_number acc (c # cs) = (case hex_digit_val c of None \<Rightarrow> None | Some d \<Rightarrow> hex_number (acc * 16 + d) cs)"

definition parse_hextet :: "string \<Rightarrow> nat option" where
  "parse_hextet s = (if s = [] \<or> 4 < length s then None else hex_number 0 s)"

fun hextets_value :: "nat \<Rightarrow> string list \<Rightarrow> nat option" where
  "hextets_value acc [] = Some acc"
| "hextets_value acc (h # hs) = (case parse_hextet h of None \<Rightarrow> None | Some d \<Rightarrow> hextets_value (acc * 65536 + d) hs)"

text \<open>A dotted suffix stands for two hextets.\<close>

definition expand_v4_suffix :: "string list \<Rightarrow> string list option" where
  "expand_v4_suffix parts =
     (if CHR ''.'' \<in> set (last parts) then
        (case parse_v4 (last parts) of
           None \<Rightarrow> None
         | Some a \<Rightarrow> Some (butlast parts @ [str_hex (unat a div 65536), str_hex (unat a mod 65536)]))
      else Some parts)"

text \<open>The positions of the empty parts between the first and the last.\<close>

definition inner_gaps :: "string list \<Rightarrow> nat list" where
  "inner_gaps parts = filter (\<lambda>i. parts ! i = []) [1 ..< length parts - 1]"

definition parse_parts :: "string list \<Rightarrow> nat option" where
  "parse_parts parts =
     (if length parts > 9 then None
      else case inner_gaps parts of
        [] \<Rightarrow> (if length parts \<noteq> 8 then None else hextets_value 0 parts)
      | [k] \<Rightarrow>
          (let hi = (if hd parts = [] then k - 1 else k);
               lo = (if last parts = [] then length parts - k - 2 else length parts - k - 1)
           in if (hd parts = [] \<and> hi \<noteq> 0) \<or> (last parts = [] \<and> lo \<noteq> 0) \<or> 8 \<le> hi + lo then None
              else (case hextets_value 0 (take hi parts) of
                  None \<Rightarrow> None
                | Some high \<Rightarrow>
                    hextets_value (high * 65536 ^ (8 - (hi + lo))) (drop (length parts - lo) parts)))
      | _ \<Rightarrow> None)"

definition parse_v6_number :: "string \<Rightarrow> 128 word option" where
  "parse_v6_number s =
     (let parts = split_on (CHR '':'') s
      in if s = [] \<or> length parts < 3 then None
         else (case expand_v4_suffix parts of
             None \<Rightarrow> None
           | Some ps \<Rightarrow> map_option of_nat (parse_parts ps)))"

definition parse_v6 :: "string \<Rightarrow> ip_address option" where
  "parse_v6 s =
     (if CHR ''/'' \<in> set s then None
      else (case split_on (CHR ''%'') s of
          [a] \<Rightarrow> map_option (\<lambda>n. V6 n None) (parse_v6_number a)
        | [a, sc] \<Rightarrow> (if sc = [] then None else map_option (\<lambda>n. V6 n (Some sc)) (parse_v6_number a))
        | _ \<Rightarrow> None))"

text \<open>\<open>ipaddress.ip_address(text)\<close>; \<open>None\<close> is its \<open>ValueError\<close>.\<close>

definition parse_ip :: "string \<Rightarrow> ip_address option" where
  "parse_ip s = (case parse_v4 s of Some a \<Rightarrow> Some (V4 a) | None \<Rightarrow> parse_v6 s)"

end
