(* ===== verification/Config.thy ===== *)
theory Config
  imports Pathlib Errors Net
begin

text \<open>
  \<open>config.py\<close>: the configuration records, the field and model validators, and
  \<open>load_config\<close>. A validator is a pure computation of type
  \<open>string + unit\<close>, its \<open>Inl\<close> the text of the \<open>ValueError\<close>. The functions
  \<open>*_errors\<close> run the validators of one model in the order pydantic documents:
  every field first, with the errors of nested models under their location, the
  \<open>after\<close> validator only when no field has an error. The conversion of a YAML
  document into typed fields is pydantic's and a parameter of \<open>load_config\<close>.
\<close>

subsection \<open>Records\<close>

record peer_config =
  peer_name :: string
  peer_addresses :: "ip_interface list"
  persistent_keepalive_seconds :: int

record wireguard_config =
  bind_addresses :: "ip_address list"
  endpoint_host :: string
  listen_port :: int
  gateway_addresses :: "ip_interface list"
  mtu :: int
  peers :: "peer_config list"

record ssh_config =
  ssh_host :: string
  ssh_user :: string
  ssh_port :: int
  identity_file :: path
  known_hosts_file :: path
  remote_python :: string
  connect_timeout_seconds :: int
  server_alive_interval_seconds :: int
  server_alive_count_max :: int

datatype routing_mode = Selected | Full

record routing_config =
  routing_mode :: routing_mode
  networks :: "ip_network list"

record dns_config =
  dns_enabled :: bool
  upstream :: "ip_address option"

record backend_config =
  backend_mode :: string
  backend_method :: string
  startup_timeout_seconds :: int
  verbose :: bool

record project_config =
  config_version :: int
  project :: string
  wireguard :: wireguard_config
  ssh :: ssh_config
  routing :: routing_config
  dns :: dns_config
  backend :: backend_config

type_synonym verdict = "string + unit"

subsection \<open>Patterns\<close>

definition run_of :: "(char \<Rightarrow> bool) \<Rightarrow> nat \<Rightarrow> nat \<Rightarrow> string \<Rightarrow> bool" where
  "run_of p lo hi s \<longleftrightarrow> lo \<le> length s \<and> length s \<le> hi \<and> list_all p s"

definition head_then :: "(char \<Rightarrow> bool) \<Rightarrow> (char \<Rightarrow> bool) \<Rightarrow> nat \<Rightarrow> string \<Rightarrow> bool" where
  "head_then p q hi s = (case s of [] \<Rightarrow> False | c # cs \<Rightarrow> p c \<and> run_of q 0 hi cs)"

definition is_name_char :: "char \<Rightarrow> bool" where
  "is_name_char c \<longleftrightarrow> is_lower c \<or> is_digit c \<or> c = CHR ''-''"

definition PROJECT_PATTERN :: "string \<Rightarrow> bool" where
  "PROJECT_PATTERN = head_then is_lower is_name_char 62"

definition PEER_PATTERN :: "string \<Rightarrow> bool" where
  "PEER_PATTERN = head_then is_lower is_name_char 62"

definition USER_PATTERN :: "string \<Rightarrow> bool" where
  "USER_PATTERN = head_then (\<lambda>c. is_alpha c \<or> c = CHR ''_'') (\<lambda>c. is_alnum c \<or> c \<in> set ''_.-'') 63"

definition PYTHON_NAME_PATTERN :: "string \<Rightarrow> bool" where
  "PYTHON_NAME_PATTERN =
     head_then (\<lambda>c. is_alnum c \<or> c = CHR ''_'') (\<lambda>c. is_alnum c \<or> c \<in> set ''_.+-'') 254"

definition PYTHON_PATH_PATTERN :: "string \<Rightarrow> bool" where
  "PYTHON_PATH_PATTERN s = (case s of [] \<Rightarrow> False | c # cs \<Rightarrow>
     c = CHR ''/'' \<and> run_of (\<lambda>c. is_alnum c \<or> c \<in> set ''_./+-'') 1 254 cs)"

definition HOST_LABEL_PATTERN :: "string \<Rightarrow> bool" where
  "HOST_LABEL_PATTERN s \<longleftrightarrow> s \<noteq> [] \<and> length s \<le> 63 \<and> is_alnum (hd s) \<and> is_alnum (last s)
     \<and> list_all (\<lambda>c. is_alnum c \<or> c = CHR ''-'') s"

definition INTERFACE_PATTERN :: "string \<Rightarrow> bool" where
  "INTERFACE_PATTERN = run_of (\<lambda>c. is_alnum c \<or> c \<in> set ''_.-'') 1 15"

subsection \<open>Peers\<close>

definition validate_name :: "string \<Rightarrow> verdict" where
  "validate_name value = guard (PEER_PATTERN value) ''must match [a-z][a-z0-9-]{0,62}''"

definition required_prefix :: "ip_interface \<Rightarrow> nat" where
  "required_prefix i = (if if_version i = 4 then 32 else 128)"

fun validate_addresses_from :: "nat list \<Rightarrow> ip_interface list \<Rightarrow> verdict" where
  "validate_addresses_from families [] = Inr ()"
| "validate_addresses_from families (i # is) =
     (if if_version i \<in> set families
      then Inl ''a peer may have at most one address per IP family''
      else if if_prefixlen i \<noteq> required_prefix i
      then Inl (''peer address '' @ str_interface i @ '' must use /'' @ str_nat (required_prefix i))
      else validate_addresses_from (if_version i # families) is)"

definition validate_addresses :: "peer_config \<Rightarrow> verdict" where
  "validate_addresses p =
     (if peer_addresses p = [] then Inl ''addresses must contain at least one IPv4 or IPv6 address''
      else validate_addresses_from [] (peer_addresses p))"

subsection \<open>WireGuard\<close>

fun validate_bind_scopes :: "ip_address list \<Rightarrow> verdict" where
  "validate_bind_scopes [] = Inr ()"
| "validate_bind_scopes (V4 a # as) = validate_bind_scopes as"
| "validate_bind_scopes (V6 a s # as) =
     (if is_link_local (V6 a s) \<and> s = None
      then Inl ''IPv6 link-local bind addresses require a %INTERFACE scope''
      else (case s of
          None \<Rightarrow> validate_bind_scopes as
        | Some sc \<Rightarrow>
            (if \<not> is_link_local (V6 a s)
             then Inl ''an interface scope is valid only for IPv6 link-local binds''
             else if \<not> INTERFACE_PATTERN sc
             then Inl ''IPv6 bind scope must be a safe Linux interface name''
             else validate_bind_scopes as)))"

text \<open>\<open>host.rstrip(".").split(".")\<close>.\<close>

definition rstrip_dots :: "string \<Rightarrow> string" where
  "rstrip_dots s = rev (dropWhile (\<lambda>c. c = CHR ''.'') (rev s))"

definition host_labels :: "string \<Rightarrow> string list" where
  "host_labels host = split_on (CHR ''.'') (rstrip_dots host)"

definition validate_host_scope :: "ip_address \<Rightarrow> verdict" where
  "validate_host_scope address = (case address of
       V4 a \<Rightarrow> Inr ()
     | V6 a s \<Rightarrow>
        (if is_link_local address \<and> s = None
         then Inl ''IPv6 link-local addresses require a %INTERFACE scope''
         else (case s of
             None \<Rightarrow> Inr ()
           | Some sc \<Rightarrow>
               (if \<not> is_link_local address
                then Inl ''an interface scope is valid only for IPv6 link-local addresses''
                else if \<not> INTERFACE_PATTERN sc
                then Inl ''IPv6 scope must be a safe interface name''
                else Inr ()))))"

definition validate_endpoint_host :: "string \<Rightarrow> verdict" where
  "validate_endpoint_host value =
     (let host = strip value in
      if host = [] \<or> host \<noteq> value \<or> 253 < length host
      then Inl ''must be a non-empty host without surrounding whitespace''
      else (case parse_ip host of
          None \<Rightarrow>
            (if host_labels host = [] \<or> list_ex (\<lambda>l. \<not> HOST_LABEL_PATTERN l) (host_labels host)
             then Inl ''must be an IPv4/IPv6 address or valid DNS hostname''
             else Inr ())
        | Some address \<Rightarrow>
            (if is_unspecified address \<or> is_multicast address
             then Inl ''must be an explicit unicast address''
             else validate_host_scope address)))"

text \<open>The gateway loop; the first argument is the dictionary \<open>gateways\<close> so far.\<close>

fun validate_gateways :: "(nat \<times> ip_interface) list \<Rightarrow> ip_interface list \<Rightarrow> string + (nat \<times> ip_interface) list" where
  "validate_gateways gateways [] = Inr gateways"
| "validate_gateways gateways (i # is) =
     (if if_version i \<in> set (map fst gateways)
      then Inl ''gateway_addresses may contain at most one address per family''
      else if if_ip i = network_address (if_network i)
      then Inl (''gateway address '' @ str_interface i @ '' is the network address'')
      else if is_unspecified (if_ip i) \<or> is_multicast (if_ip i)
      then Inl (''gateway address '' @ str_interface i @ '' must be unicast'')
      else if if_version i = 4 \<and> if_ip i = broadcast_address (if_network i)
      then Inl (''gateway address '' @ str_interface i @ '' is the broadcast address'')
      else validate_gateways ((if_version i, i) # gateways) is)"

text \<open>The addresses of one peer; \<open>used\<close> is \<open>peer_addresses\<close> so far.\<close>

fun validate_peer_addresses ::
  "(nat \<times> ip_interface) list \<Rightarrow> ip_address list \<Rightarrow> string \<Rightarrow> ip_address list \<Rightarrow> ip_interface list
   \<Rightarrow> string + ip_address list" where
  "validate_peer_addresses gateways gateway_ips name used [] = Inr used"
| "validate_peer_addresses gateways gateway_ips name used (i # is) =
     (if is_unspecified (if_ip i) \<or> is_multicast (if_ip i)
      then Inl (''peer '' @ name @ '' address must be unicast'')
      else (case map_of gateways (if_version i) of
          None \<Rightarrow> Inl (''peer '' @ name @ '' has IPv'' @ str_nat (if_version i) @ '' without a gateway address'')
        | Some g \<Rightarrow>
            (if \<not> in_network (if_ip i) (if_network g)
             then Inl (''peer address '' @ str_ip (if_ip i) @ '' is outside gateway network ''
                       @ str_network (if_network g))
             else if if_ip i \<in> set gateway_ips
             then Inl (''peer '' @ name @ '' reuses a gateway address'')
             else if if_ip i \<in> set used
             then Inl (''duplicate peer address: '' @ str_ip (if_ip i))
             else validate_peer_addresses gateways gateway_ips name (if_ip i # used) is)))"

fun validate_peers ::
  "(nat \<times> ip_interface) list \<Rightarrow> ip_address list \<Rightarrow> string list \<Rightarrow> ip_address list \<Rightarrow> peer_config list \<Rightarrow> verdict"
where
  "validate_peers gateways gateway_ips names used [] = Inr ()"
| "validate_peers gateways gateway_ips names used (p # ps) =
     (if peer_name p \<in> set names then Inl (''duplicate peer name: '' @ peer_name p)
      else rbind (validate_peer_addresses gateways gateway_ips (peer_name p) used (peer_addresses p))
        (\<lambda>used'. validate_peers gateways gateway_ips (peer_name p # names) used' ps))"

definition validate_network :: "wireguard_config \<Rightarrow> verdict" where
  "validate_network c =
     (if bind_addresses c = [] then Inl ''bind_addresses must not be empty''
      else if \<not> distinct (bind_addresses c) then Inl ''bind_addresses must be unique''
      else if list_ex (\<lambda>a. is_unspecified a \<or> is_multicast a) (bind_addresses c)
      then Inl ''bind addresses must be explicit unicast addresses''
      else if gateway_addresses c = [] then Inl ''gateway_addresses must not be empty''
      else if peers c = [] then Inl ''peers must not be empty''
      else rbind (validate_gateways [] (gateway_addresses c)) (\<lambda>gateways.
        validate_peers gateways (map if_ip (gateway_addresses c)) [] [] (peers c)))"

subsection \<open>SSH\<close>

definition validate_user :: "string \<Rightarrow> verdict" where
  "validate_user value = guard (USER_PATTERN value) ''contains unsupported characters''"

definition validate_remote_python :: "string \<Rightarrow> verdict" where
  "validate_remote_python value =
     (let safe_name = PYTHON_NAME_PATTERN value;
          path_parts = tl (split_on (CHR ''/'') value);
          safe_absolute_path = PYTHON_PATH_PATTERN value \<and> path_parts \<noteq> []
            \<and> list_all (\<lambda>part. part \<notin> {[], ''.'', ''..''}) path_parts
      in guard (safe_name \<or> safe_absolute_path)
           ''must be a safe executable name or absolute path without arguments'')"

definition validate_secret_path :: "path \<Rightarrow> verdict" where
  "validate_secret_path value =
     (if \<not> isprintable (str_path value) then Inl ''must contain only printable path characters''
      else if is_absolute value \<or> ''..'' \<in> set (parts value)
      then Inl ''must be an instance-relative path below secrets/''
      else if length (parts value) < 2 \<or> hd (parts value) \<noteq> ''secrets''
      then Inl ''must be located below the instance secrets/ directory''
      else Inr ())"

subsection \<open>Routing, DNS, backend\<close>

definition validate_routes :: "routing_config \<Rightarrow> verdict" where
  "validate_routes r =
     (if routing_mode r = Selected \<and> networks r = []
      then Inl ''selected routing requires at least one network''
      else if routing_mode r = Full \<and> networks r \<noteq> []
      then Inl ''full routing derives default routes; networks must be omitted''
      else if \<not> distinct (networks r) then Inl ''routing networks must be unique''
      else if routing_mode r = Selected \<and> list_ex (\<lambda>n. is_multicast (network_address n)
              \<and> is_multicast (broadcast_address n)) (networks r)
      then Inl ''selected routing networks must not be entirely multicast''
      else Inr ())"

definition validate_upstream :: "dns_config \<Rightarrow> verdict" where
  "validate_upstream d =
     (if dns_enabled d \<and> upstream d = None then Inl ''enabled DNS requires one explicit upstream''
      else if \<not> dns_enabled d \<and> upstream d \<noteq> None then Inl ''disabled DNS must not define an upstream''
      else (case upstream d of
          None \<Rightarrow> Inr ()
        | Some a \<Rightarrow> guard (\<not> (is_unspecified a \<or> is_multicast a))
                      ''DNS upstream must be an explicit unicast address''))"

definition validate_backend :: "backend_config \<Rightarrow> verdict" where
  "validate_backend b =
     guard (\<not> (backend_mode b \<noteq> ''sshuttle'' \<or> backend_method b \<noteq> ''nft-tproxy''))
       ''only sshuttle with the native nft-tproxy method is supported''"

subsection \<open>The whole configuration\<close>

definition effective_routes :: "project_config \<Rightarrow> ip_network list" where
  "effective_routes c =
     (if routing_mode (routing c) = Selected then networks (routing c)
      else (let families = map if_version (gateway_addresses (wireguard c)) in
        (if 4 \<in> set families then [Net4 0 0] else [])
        @ (if 6 \<in> set families then [Net6 0 None 0] else [])))"

definition validate_version :: "int \<Rightarrow> verdict" where
  "validate_version value = guard (value = 1) ''unsupported configuration version; expected 1''"

definition validate_project :: "string \<Rightarrow> verdict" where
  "validate_project value = guard (PROJECT_PATTERN value) ''must match [a-z][a-z0-9-]{0,62}''"

definition unsupported_families :: "project_config \<Rightarrow> nat list" where
  "unsupported_families c =
     sort (remdups (filter (\<lambda>v. v \<notin> set (map if_version (gateway_addresses (wireguard c))))
       (map net_version (effective_routes c))))"

definition validate_cross_fields :: "project_config \<Rightarrow> verdict" where
  "validate_cross_fields c =
     (let routes = effective_routes c; families = unsupported_families c in
      if families \<noteq> []
      then Inl (''routing uses '' @ join '', '' (map (\<lambda>f. ''IPv'' @ str_nat f) families)
                @ '' without a WireGuard gateway address'')
      else (case (if dns_enabled (dns c) then upstream (dns c) else None) of
          None \<Rightarrow> Inr ()
        | Some up \<Rightarrow>
            (if list_ex (\<lambda>g. version up = if_version g \<and> in_network up (if_network g))
                 (gateway_addresses (wireguard c))
             then Inl ''DNS upstream must be outside WireGuard gateway networks''
             else if \<not> list_ex (\<lambda>r. net_version r = version up \<and> in_network up r) routes
             then Inl ''DNS upstream is not covered by configured routing''
             else (let incompatible = map peer_name (filter
                       (\<lambda>p. list_all (\<lambda>a. if_version a \<noteq> version up) (peer_addresses p))
                       (peers (wireguard c))) in
               guard (incompatible = [])
                 (''DNS upstream is IPv'' @ str_nat (version up) @ '', but peers lack IPv''
                  @ str_nat (version up) @ '': '' @ join '', '' incompatible)))))"

subsection \<open>Running the validators\<close>

type_synonym error = "string list \<times> string"

definition run_validator :: "string list \<Rightarrow> verdict \<Rightarrow> error list" where
  "run_validator loc r = (case r of Inl m \<Rightarrow> [(loc, ''Value error, '' @ m)] | Inr _ \<Rightarrow> [])"

definition check_range :: "string list \<Rightarrow> int \<Rightarrow> int \<Rightarrow> int \<Rightarrow> error list" where
  "check_range loc lo hi v =
     (if v < lo then [(loc, ''Input should be greater than or equal to '' @ str_int lo)]
      else if hi < v then [(loc, ''Input should be less than or equal to '' @ str_int hi)]
      else [])"

definition after_fields :: "error list \<Rightarrow> string list \<Rightarrow> verdict \<Rightarrow> error list" where
  "after_fields found loc r = (if found = [] then run_validator loc r else found)"

definition peer_errors :: "string list \<Rightarrow> peer_config \<Rightarrow> error list" where
  "peer_errors loc p = after_fields
     (run_validator (loc @ [''name'']) (validate_name (peer_name p))
      @ check_range (loc @ [''persistent_keepalive_seconds'']) 0 65535 (persistent_keepalive_seconds p))
     loc (validate_addresses p)"

definition peers_errors :: "string list \<Rightarrow> peer_config list \<Rightarrow> error list" where
  "peers_errors loc ps = concat (map (\<lambda>(i, p). peer_errors (loc @ [str_nat i]) p) (enumerate 0 ps))"

definition wireguard_errors :: "string list \<Rightarrow> wireguard_config \<Rightarrow> error list" where
  "wireguard_errors loc c = after_fields
     (run_validator (loc @ [''bind_addresses'']) (validate_bind_scopes (bind_addresses c))
      @ run_validator (loc @ [''endpoint_host'']) (validate_endpoint_host (endpoint_host c))
      @ check_range (loc @ [''listen_port'']) 1 65535 (listen_port c)
      @ check_range (loc @ [''mtu'']) 1280 9000 (mtu c)
      @ peers_errors (loc @ [''peers'']) (peers c))
     loc (validate_network c)"

definition ssh_errors :: "string list \<Rightarrow> ssh_config \<Rightarrow> error list" where
  "ssh_errors loc s =
     run_validator (loc @ [''host'']) (validate_endpoint_host (ssh_host s))
     @ run_validator (loc @ [''user'']) (validate_user (ssh_user s))
     @ check_range (loc @ [''port'']) 1 65535 (ssh_port s)
     @ run_validator (loc @ [''identity_file'']) (validate_secret_path (identity_file s))
     @ run_validator (loc @ [''known_hosts_file'']) (validate_secret_path (known_hosts_file s))
     @ run_validator (loc @ [''remote_python'']) (validate_remote_python (remote_python s))
     @ check_range (loc @ [''connect_timeout_seconds'']) 1 300 (connect_timeout_seconds s)
     @ check_range (loc @ [''server_alive_interval_seconds'']) 1 300 (server_alive_interval_seconds s)
     @ check_range (loc @ [''server_alive_count_max'']) 1 20 (server_alive_count_max s)"

definition backend_errors :: "string list \<Rightarrow> backend_config \<Rightarrow> error list" where
  "backend_errors loc b = after_fields
     (check_range (loc @ [''startup_timeout_seconds'']) 5 300 (startup_timeout_seconds b))
     loc (validate_backend b)"

definition project_errors :: "project_config \<Rightarrow> error list" where
  "project_errors c = after_fields
     (run_validator [''version''] (validate_version (config_version c))
      @ run_validator [''project''] (validate_project (project c))
      @ wireguard_errors [''wireguard''] (wireguard c)
      @ ssh_errors [''ssh''] (ssh c)
      @ run_validator [''routing''] (validate_routes (routing c))
      @ run_validator [''dns''] (validate_upstream (dns c))
      @ backend_errors [''backend''] (backend c))
     [] (validate_cross_fields c)"

subsection \<open>\<open>load_config\<close>\<close>

definition MAX_CONFIG_BYTES :: nat where
  "MAX_CONFIG_BYTES = 1024 * 1024"

text \<open>The permission bits below the owner's.\<close>

definition open_to_others :: "node \<Rightarrow> bool" where
  "open_to_others n \<longleftrightarrow> (case n of File m _ _ \<Rightarrow> m AND 0x3F \<noteq> 0 | Dir m _ \<Rightarrow> m AND 0x3F \<noteq> 0 | _ \<Rightarrow> False)"

definition read_config_bytes :: "comps \<Rightarrow> bool \<Rightarrow> string io" where
  "read_config_bytes path private =
     bind (os_open path) (\<lambda>descriptor.
     bind (try_finally
       (bind (os_fstat descriptor) (\<lambda>info.
        then_do (require (is_file_node (Some info))
          (ConfigurationError (''configuration must be a regular non-symlink file: '' @ show_path path)))
       (then_do (require (\<not> (private \<and> open_to_others info))
          (ConfigurationError (''configuration permissions must not allow group or other access: ''
             @ show_path path)))
       (then_do (require (node_size info \<le> MAX_CONFIG_BYTES)
          (ConfigurationError (''configuration is '' @ str_nat (node_size info) @ '' bytes; maximum is ''
             @ str_nat MAX_CONFIG_BYTES)))
        (os_read descriptor (MAX_CONFIG_BYTES + 1))))))
       (os_close descriptor)) (\<lambda>encoded.
     then_do (require (length encoded \<le> MAX_CONFIG_BYTES)
       (ConfigurationError (''configuration exceeds the maximum of '' @ str_nat MAX_CONFIG_BYTES @ '' bytes'')))
     (lift (decode_utf8 encoded))))"

text \<open>The \<open>except\<close> clauses: a \<open>ConfigurationError\<close> passes through.\<close>

definition read_config :: "comps \<Rightarrow> bool \<Rightarrow> string io" where
  "read_config path private =
     try_except (read_config_bytes path private) is_read_error (\<lambda>e. raise (ConfigurationError
       (if is_FileNotFound e then ''configuration file does not exist: '' @ show_path path
        else if e = OSError ELOOP
        then ''configuration must be a regular non-symlink file: '' @ show_path path
        else ''cannot read configuration '' @ show_path path @ '': '' @ exn_str e)))"

text \<open>
  \<open>yaml_load\<close> is \<open>yaml.safe_load\<close> (its \<open>Inl\<close> the text of a \<open>YAMLError\<close>), \<open>as_mapping\<close>
  the test for a dictionary and \<open>parse_fields\<close> pydantic's conversion of the values
  into typed fields (its \<open>Inl\<close> the located conversion errors).
\<close>

definition render_errors :: "error list \<Rightarrow> string" where
  "render_errors es = join ''; '' (map (\<lambda>(loc, msg). join ''.'' loc @ '': '' @ msg) es)"

definition model_validate :: "('m \<Rightarrow> error list + project_config) \<Rightarrow> 'm \<Rightarrow> error list + project_config" where
  "model_validate parse_fields value = rbind (parse_fields value) (\<lambda>c.
     if project_errors c = [] then Inr c else Inl (project_errors c))"

definition load_config ::
  "(string \<Rightarrow> string + 'y) \<Rightarrow> ('y \<Rightarrow> 'm option) \<Rightarrow> ('m \<Rightarrow> error list + project_config)
   \<Rightarrow> comps \<Rightarrow> bool \<Rightarrow> project_config io" where
  "load_config yaml_load as_mapping parse_fields path private =
     bind (read_config path private) (\<lambda>raw.
     (case yaml_load raw of
        Inl exc \<Rightarrow> raise (ConfigurationError (''invalid YAML in '' @ show_path path @ '': '' @ exc))
      | Inr value \<Rightarrow>
          (case as_mapping value of
             None \<Rightarrow> raise (ConfigurationError ''configuration root must be a mapping'')
           | Some m \<Rightarrow>
               (case model_validate parse_fields m of
                  Inl es \<Rightarrow> raise (ConfigurationError (render_errors es))
                | Inr c \<Rightarrow> ret c))))"

lemma read_config_ro [obeys_rules]: "obeys same_store (read_config path private)"
  unfolding read_config_def read_config_bytes_def by (intro obeys_rules)

subsection \<open>What the validators accept\<close>

lemma run_validator_Nil [simp]: "run_validator loc r = [] \<longleftrightarrow> r = Inr ()"
  by (cases r) (auto simp: run_validator_def)

lemma check_range_Nil [simp]: "check_range loc lo hi v = [] \<longleftrightarrow> lo \<le> v \<and> v \<le> hi"
  by (auto simp: check_range_def)

lemma after_fields_Nil [simp]: "after_fields es loc r = [] \<longleftrightarrow> es = [] \<and> r = Inr ()"
  by (auto simp: after_fields_def)

text \<open>The declarative reading of a peer's addresses.\<close>

definition peer_ok :: "peer_config \<Rightarrow> bool" where
  "peer_ok p \<longleftrightarrow> PEER_PATTERN (peer_name p)
     \<and> 0 \<le> persistent_keepalive_seconds p \<and> persistent_keepalive_seconds p \<le> 65535
     \<and> peer_addresses p \<noteq> []
     \<and> distinct (map if_version (peer_addresses p))
     \<and> (\<forall>i \<in> set (peer_addresses p). if_prefixlen i = required_prefix i)"

lemma validate_addresses_from_iff:
  "validate_addresses_from families is = Inr () \<longleftrightarrow>
     distinct (map if_version is) \<and> set (map if_version is) \<inter> set families = {}
     \<and> (\<forall>i \<in> set is. if_prefixlen i = required_prefix i)"
  by (induction families "is" rule: validate_addresses_from.induct) auto

lemma peer_errors_iff: "peer_errors loc p = [] \<longleftrightarrow> peer_ok p"
  by (auto simp: peer_errors_def peer_ok_def validate_name_def validate_addresses_def
      validate_addresses_from_iff)

lemma peers_errors_iff: "peers_errors loc ps = [] \<longleftrightarrow> (\<forall>p \<in> set ps. peer_ok p)"
proof -
  have "peers_errors loc ps = [] \<longleftrightarrow> (\<forall>(i, p) \<in> set (enumerate 0 ps). peer_ok p)"
    by (auto simp: peers_errors_def peer_errors_iff)
  also have "\<dots> \<longleftrightarrow> (\<forall>p \<in> set ps. peer_ok p)"
    by (metis (mono_tags, lifting) case_prod_unfold imageE image_eqI list.set_map map_snd_enumerate)
  finally show ?thesis .
qed

definition gateway_ok :: "ip_interface \<Rightarrow> bool" where
  "gateway_ok i \<longleftrightarrow> if_ip i \<noteq> network_address (if_network i)
     \<and> \<not> is_unspecified (if_ip i) \<and> \<not> is_multicast (if_ip i)
     \<and> \<not> (if_version i = 4 \<and> if_ip i = broadcast_address (if_network i))"

lemma validate_gateways_iff:
  "validate_gateways gs is = Inr gs' \<longleftrightarrow>
     distinct (map if_version is) \<and> set (map if_version is) \<inter> set (map fst gs) = {}
     \<and> (\<forall>i \<in> set is. gateway_ok i) \<and> gs' = rev (map (\<lambda>i. (if_version i, i)) is) @ gs"
proof (induction gs "is" rule: validate_gateways.induct)
  case (1 gs)
  then show ?case by auto
next
  case (2 gs i "is")
  show ?case
    using 2 by (auto simp: gateway_ok_def)
qed

definition address_ok :: "(nat \<times> ip_interface) list \<Rightarrow> ip_address list \<Rightarrow> ip_interface \<Rightarrow> bool" where
  "address_ok gs gips i \<longleftrightarrow> \<not> is_unspecified (if_ip i) \<and> \<not> is_multicast (if_ip i)
     \<and> (\<exists>g. map_of gs (if_version i) = Some g \<and> in_network (if_ip i) (if_network g))
     \<and> if_ip i \<notin> set gips"

lemma validate_peer_addresses_iff:
  "validate_peer_addresses gs gips name used is = Inr used' \<longleftrightarrow>
     (\<forall>i \<in> set is. address_ok gs gips i) \<and> distinct (map if_ip is)
     \<and> set (map if_ip is) \<inter> set used = {} \<and> used' = rev (map if_ip is) @ used"
  by (induction gs gips name used "is" rule: validate_peer_addresses.induct)
    (auto simp: address_ok_def split: option.splits)

lemma validate_peers_iff:
  "validate_peers gs gips names used ps = Inr () \<longleftrightarrow>
     distinct (map peer_name ps) \<and> set (map peer_name ps) \<inter> set names = {}
     \<and> (\<forall>p \<in> set ps. \<forall>i \<in> set (peer_addresses p). address_ok gs gips i)
     \<and> distinct (concat (map (\<lambda>p. map if_ip (peer_addresses p)) ps))
     \<and> set (concat (map (\<lambda>p. map if_ip (peer_addresses p)) ps)) \<inter> set used = {}"
proof (induction gs gips names used ps rule: validate_peers.induct)
  case (1 gs gips names used)
  then show ?case by simp
next
  case (2 gs gips names used p ps)
  show ?case
  proof (cases "peer_name p \<in> set names")
    case True
    then show ?thesis by auto
  next
    case False
    show ?thesis
    proof (cases "validate_peer_addresses gs gips (peer_name p) used (peer_addresses p)")
      case (Inl e)
      then have "\<not> ((\<forall>i \<in> set (peer_addresses p). address_ok gs gips i)
          \<and> distinct (map if_ip (peer_addresses p)) \<and> set (map if_ip (peer_addresses p)) \<inter> set used = {})"
        using validate_peer_addresses_iff [of gs gips "peer_name p" used "peer_addresses p"
            "rev (map if_ip (peer_addresses p)) @ used"] by auto
      then show ?thesis using Inl False by auto
    next
      case (Inr used')
      define A where "A = map if_ip (peer_addresses p)"
      define B where "B = concat (map (\<lambda>p. map if_ip (peer_addresses p)) ps)"
      have ok: "\<forall>i \<in> set (peer_addresses p). address_ok gs gips i" "distinct A" "set A \<inter> set used = {}"
        and used: "set used' = set A \<union> set used"
        using Inr [unfolded validate_peer_addresses_iff] by (auto simp: A_def)
      have "validate_peers gs gips names used (p # ps) = Inr () \<longleftrightarrow>
          distinct (map peer_name ps) \<and> set (map peer_name ps) \<inter> set (peer_name p # names) = {}
          \<and> (\<forall>p \<in> set ps. \<forall>i \<in> set (peer_addresses p). address_ok gs gips i)
          \<and> distinct B \<and> set B \<inter> (set A \<union> set used) = {}"
        using 2 [OF False, of used'] False Inr used by (simp add: B_def)
      moreover have "distinct (A @ B) \<and> set (A @ B) \<inter> set used = {}
          \<longleftrightarrow> distinct B \<and> set B \<inter> (set A \<union> set used) = {}"
        using ok(2,3) by auto
      ultimately show ?thesis
        using ok(1) False unfolding A_def [symmetric] B_def [symmetric]
        by (auto simp: A_def [symmetric] B_def [symmetric])
    qed
  qed
qed

text \<open>The address plan an accepted configuration describes.\<close>

definition address_plan :: "wireguard_config \<Rightarrow> bool" where
  "address_plan c \<longleftrightarrow> gateway_addresses c \<noteq> [] \<and> peers c \<noteq> []
     \<and> distinct (map if_version (gateway_addresses c))
     \<and> (\<forall>g \<in> set (gateway_addresses c). gateway_ok g)
     \<and> distinct (map peer_name (peers c))
     \<and> distinct (concat (map (\<lambda>p. map if_ip (peer_addresses p)) (peers c)))
     \<and> (\<forall>p \<in> set (peers c). \<forall>i \<in> set (peer_addresses p).
          \<not> is_unspecified (if_ip i) \<and> \<not> is_multicast (if_ip i)
          \<and> if_ip i \<notin> if_ip ` set (gateway_addresses c)
          \<and> (\<exists>g \<in> set (gateway_addresses c). if_version g = if_version i
               \<and> in_network (if_ip i) (if_network g)))"

definition binds_ok :: "ip_address list \<Rightarrow> bool" where
  "binds_ok as \<longleftrightarrow> as \<noteq> [] \<and> distinct as \<and> (\<forall>a \<in> set as. \<not> is_unspecified a \<and> \<not> is_multicast a)"

lemma map_of_gateways:
  assumes "distinct (map if_version gs)"
  shows "map_of (rev (map (\<lambda>i. (if_version i, i)) gs)) v = Some g \<longleftrightarrow> g \<in> set gs \<and> if_version g = v"
proof -
  have "distinct (map fst (rev (map (\<lambda>i. (if_version i, i)) gs)))"
    using assms by (simp add: rev_map [symmetric] comp_def)
  then have "map_of (rev (map (\<lambda>i. (if_version i, i)) gs)) v = Some g
      \<longleftrightarrow> (v, g) \<in> set (rev (map (\<lambda>i. (if_version i, i)) gs))"
    by (metis map_of_eq_Some_iff)
  then show ?thesis by auto
qed

lemma validate_network_iff: "validate_network c = Inr () \<longleftrightarrow> binds_ok (bind_addresses c) \<and> address_plan c"
proof (cases "binds_ok (bind_addresses c) \<and> gateway_addresses c \<noteq> [] \<and> peers c \<noteq> []
    \<and> distinct (map if_version (gateway_addresses c)) \<and> (\<forall>g \<in> set (gateway_addresses c). gateway_ok g)")
  case True
  let ?gs = "rev (map (\<lambda>i. (if_version i, i)) (gateway_addresses c))"
  have gw: "validate_gateways [] (gateway_addresses c) = Inr ?gs"
    using True by (simp add: validate_gateways_iff)
  have "validate_network c = validate_peers ?gs (map if_ip (gateway_addresses c)) [] [] (peers c)"
    using True gw by (auto simp: validate_network_def binds_ok_def list_ex_iff)
  moreover have "address_ok ?gs (map if_ip (gateway_addresses c)) i \<longleftrightarrow>
      \<not> is_unspecified (if_ip i) \<and> \<not> is_multicast (if_ip i)
      \<and> if_ip i \<notin> if_ip ` set (gateway_addresses c)
      \<and> (\<exists>g \<in> set (gateway_addresses c). if_version g = if_version i \<and> in_network (if_ip i) (if_network g))"
    for i
    using map_of_gateways [of "gateway_addresses c"] True by (auto simp: address_ok_def)
  ultimately show ?thesis
    using True by (auto simp: validate_peers_iff address_plan_def)
next
  case False
  then show ?thesis
    by (auto simp: validate_network_def binds_ok_def address_plan_def list_ex_iff validate_gateways_iff
        rbind_eq_Inr)
qed

end
