(* ===== verification/Json.thy ===== *)
theory Json
  imports Frame "HOL-Library.List_Lexorder" "HOL-Library.Char_ord"
begin

text \<open>
  The part of Python's \<open>json\<close> module the program uses: \<open>dumps\<close> with
  \<open>sort_keys\<close> in the indented, the compact and the default layout, and \<open>loads\<close>.
  The main lemma, \<open>loads_dumps\<close>, is that \<open>loads\<close> reads back what any of the
  layouts wrote. Number tokens with a fraction or an exponent are kept as their
  text (\<open>JFloat\<close>); an escape beyond Latin-1 counts as undecodable.
\<close>

datatype json =
    JNull
  | JBool bool
  | JInt int
  | JFloat string
  | JStr string
  | JList "json list"
  | JObj "(string \<times> json) list"

text \<open>\<open>dict.get\<close>: of equal keys in a document the last one counts.\<close>

fun jget :: "json \<Rightarrow> string \<Rightarrow> json option" where
  "jget (JObj kvs) k = map_of (rev kvs) k"
| "jget _ k = None"

fun is_JObj :: "json \<Rightarrow> bool" where
  "is_JObj (JObj _) = True"
| "is_JObj _ = False"

text \<open>\<open>value == n\<close> for an integer \<open>n\<close>; \<open>True == 1\<close> holds in Python.\<close>

fun json_is_int :: "json option \<Rightarrow> int \<Rightarrow> bool" where
  "json_is_int (Some (JInt i)) n = (i = n)"
| "json_is_int (Some (JBool b)) n = ((if b then 1 else 0) = n)"
| "json_is_int _ n = False"

fun json_str :: "json option \<Rightarrow> string option" where
  "json_str (Some (JStr s)) = Some s"
| "json_str _ = None"

subsection \<open>Writing\<close>

text \<open>The white space of a layout: at a line break of some depth, after a comma, after a colon.\<close>

record layout =
  line_break :: "nat \<Rightarrow> string"
  after_comma :: string
  after_colon :: string

definition indented :: layout where
  "indented = \<lparr>line_break = (\<lambda>n. CHR 0x0A # replicate (2 * n) (CHR '' '')), after_comma = [],
     after_colon = '' ''\<rparr>"

definition compact :: layout where
  "compact = \<lparr>line_break = (\<lambda>_. []), after_comma = [], after_colon = []\<rparr>"

definition inline :: layout where
  "inline = \<lparr>line_break = (\<lambda>_. []), after_comma = '' '', after_colon = '' ''\<rparr>"

definition jquote :: char where
  "jquote = CHR 0x22"

definition jslash :: char where
  "jslash = CHR 0x5C"

definition hex_char :: "nat \<Rightarrow> char" where
  "hex_char d = ''0123456789abcdef'' ! d"

text \<open>\<open>ensure_ascii\<close>: short escapes, \<open>\u00XX\<close> for the other code points outside 32 to 126.\<close>

definition json_char :: "char \<Rightarrow> string" where
  "json_char c =
     (if c = jquote then [jslash, jquote]
      else if c = jslash then [jslash, jslash]
      else if code_of c = 10 then [jslash, CHR ''n'']
      else if code_of c = 13 then [jslash, CHR ''r'']
      else if code_of c = 9 then [jslash, CHR ''t'']
      else if code_of c = 12 then [jslash, CHR ''f'']
      else if code_of c = 8 then [jslash, CHR ''b'']
      else if 32 \<le> code_of c \<and> code_of c \<le> 126 then [c]
      else [jslash, CHR ''u'', CHR ''0'', CHR ''0'',
            hex_char (code_of c div 16), hex_char (code_of c mod 16)])"

definition json_string :: "string \<Rightarrow> string" where
  "json_string s = jquote # concat (map json_char s) @ [jquote]"

fun dump :: "layout \<Rightarrow> nat \<Rightarrow> json \<Rightarrow> string"
  and dump_items :: "layout \<Rightarrow> nat \<Rightarrow> json list \<Rightarrow> string"
  and dump_members :: "layout \<Rightarrow> nat \<Rightarrow> (string \<times> json) list \<Rightarrow> string" where
  "dump l n JNull = ''null''"
| "dump l n (JBool b) = (if b then ''true'' else ''false'')"
| "dump l n (JInt i) = str_int i"
| "dump l n (JFloat t) = t"
| "dump l n (JStr s) = json_string s"
| "dump l n (JList []) = ''[]''"
| "dump l n (JList (x # xs)) =
     CHR ''['' # line_break l (Suc n) @ dump_items l (Suc n) (x # xs) @ line_break l n @ '']''"
| "dump l n (JObj []) = ''{}''"
| "dump l n (JObj (m # ms)) =
     CHR ''{'' # line_break l (Suc n) @ dump_members l (Suc n) (m # ms) @ line_break l n @ ''}''"
| "dump_items l n [] = []"
| "dump_items l n [x] = dump l n x"
| "dump_items l n (x # y # xs) =
     dump l n x @ CHR '','' # after_comma l @ line_break l n @ dump_items l n (y # xs)"
| "dump_members l n [] = []"
| "dump_members l n [(k, v)] = json_string k @ CHR '':'' # after_colon l @ dump l n v"
| "dump_members l n ((k, v) # m # ms) =
     json_string k @ CHR '':'' # after_colon l @ dump l n v
       @ CHR '','' # after_comma l @ line_break l n @ dump_members l n (m # ms)"

text \<open>\<open>sort_keys=True\<close>, at every depth.\<close>

fun sort_keys :: "json \<Rightarrow> json" where
  "sort_keys (JList xs) = JList (map sort_keys xs)"
| "sort_keys (JObj ms) = JObj (sort_key fst (map (\<lambda>(k, v). (k, sort_keys v)) ms))"
| "sort_keys v = v"

definition dumps :: "layout \<Rightarrow> json \<Rightarrow> string" where
  "dumps l v = dump l 0 (sort_keys v)"

subsection \<open>Reading\<close>

definition json_space :: "char \<Rightarrow> bool" where
  "json_space c \<longleftrightarrow> code_of c \<in> {9, 10, 13, 32}"

definition skip_ws :: "string \<Rightarrow> string" where
  "skip_ws s = dropWhile json_space s"

definition hex_val :: "char \<Rightarrow> nat option" where
  "hex_val c =
     (if is_digit c then Some (code_of c - 48)
      else if 97 \<le> code_of c \<and> code_of c \<le> 102 then Some (code_of c - 87)
      else if 65 \<le> code_of c \<and> code_of c \<le> 70 then Some (code_of c - 55)
      else None)"

definition hex4 :: "char \<Rightarrow> char \<Rightarrow> char \<Rightarrow> char \<Rightarrow> nat option" where
  "hex4 a b c d = (case (hex_val a, hex_val b, hex_val c, hex_val d) of
       (Some i, Some j, Some k, Some m) \<Rightarrow> Some (((i * 16 + j) * 16 + k) * 16 + m)
     | _ \<Rightarrow> None)"

definition unescape :: "char \<Rightarrow> char option" where
  "unescape e =
     (if e = jquote \<or> e = jslash \<or> e = CHR ''/'' then Some e
      else if e = CHR ''n'' then Some (CHR 0x0A)
      else if e = CHR ''r'' then Some (CHR 0x0D)
      else if e = CHR ''t'' then Some (CHR 0x09)
      else if e = CHR ''f'' then Some (CHR 0x0C)
      else if e = CHR ''b'' then Some (CHR 0x08)
      else None)"

text \<open>The rest of a string literal, after its opening quote.\<close>

fun read_string :: "string \<Rightarrow> (string \<times> string) option" where
  "read_string [] = None"
| "read_string (c # cs) =
     (if c = jquote then Some ([], cs)
      else if c = jslash then
        (case cs of
           e # a # b # x # y # ds \<Rightarrow>
             (if e = CHR ''u'' then
                (case hex4 a b x y of
                   Some n \<Rightarrow> if n < 256 then map_option (apfst (Cons (char_of n))) (read_string ds) else None
                 | None \<Rightarrow> None)
              else case unescape e of
                  Some d \<Rightarrow> map_option (apfst (Cons d)) (read_string (a # b # x # y # ds))
                | None \<Rightarrow> None)
         | e # ds \<Rightarrow> (case unescape e of
                  Some d \<Rightarrow> map_option (apfst (Cons d)) (read_string ds)
                | None \<Rightarrow> None)
         | [] \<Rightarrow> None)
      else if code_of c < 32 then None
      else map_option (apfst (Cons c)) (read_string cs))"

text \<open>A number token: the integer part, then possibly a fraction and an exponent.\<close>

definition read_digits :: "string \<Rightarrow> string \<times> string" where
  "read_digits s = (takeWhile is_digit s, dropWhile is_digit s)"

definition read_fraction :: "string \<Rightarrow> string \<times> string" where
  "read_fraction s = (case s of
       c # d # r \<Rightarrow> if c = CHR ''.'' \<and> is_digit d
                    then (c # takeWhile is_digit (d # r), dropWhile is_digit (d # r)) else ([], s)
     | _ \<Rightarrow> ([], s))"

definition read_exponent :: "string \<Rightarrow> string \<times> string" where
  "read_exponent s = (case s of
       c # r \<Rightarrow>
         (if c \<in> {CHR ''e'', CHR ''E''} then
            (let sign = (case r of x # _ \<Rightarrow> if x \<in> {CHR ''+'', CHR ''-''} then [x] else [] | [] \<Rightarrow> []);
                 body = drop (length sign) r
             in if takeWhile is_digit body = [] then ([], s)
                else (c # sign @ takeWhile is_digit body, dropWhile is_digit body))
          else ([], s))
     | [] \<Rightarrow> ([], s))"

definition int_token :: "string \<Rightarrow> string" where
  "int_token ds = (if take 1 ds = ''0'' then ''0'' else ds)"

definition number_body :: "bool \<Rightarrow> string \<Rightarrow> (json \<times> string) option" where
  "number_body neg body =
     (let int_part = int_token (takeWhile is_digit body);
          rest = drop (length int_part) body;
          (fr, rest1) = read_fraction rest;
          (ex, rest2) = read_exponent rest1;
          n = int (nat_of_digits 0 int_part)
      in if int_part = [] then None
         else if fr = [] \<and> ex = [] then Some (JInt (if neg then - n else n), rest)
         else Some (JFloat ((if neg then ''-'' else []) @ int_part @ fr @ ex), rest2))"

definition read_number :: "string \<Rightarrow> (json \<times> string) option" where
  "read_number s =
     (case s of
        [] \<Rightarrow> None
      | c # cs \<Rightarrow> if c = CHR ''-'' then number_body True cs else number_body False s)"

definition read_word :: "string \<Rightarrow> json \<Rightarrow> string \<Rightarrow> (json \<times> string) option" where
  "read_word word v s = (if startswith s word then Some (v, drop (length word) s) else None)"

definition read_atom :: "string \<Rightarrow> (json \<times> string) option" where
  "read_atom s =
     (case read_word ''null'' JNull s of Some r \<Rightarrow> Some r | None \<Rightarrow>
     (case read_word ''true'' (JBool True) s of Some r \<Rightarrow> Some r | None \<Rightarrow>
     (case read_word ''false'' (JBool False) s of Some r \<Rightarrow> Some r | None \<Rightarrow>
     (case read_word ''NaN'' (JFloat ''NaN'') s of Some r \<Rightarrow> Some r | None \<Rightarrow>
     (case read_word ''Infinity'' (JFloat ''Infinity'') s of Some r \<Rightarrow> Some r | None \<Rightarrow>
     (case read_word ''-Infinity'' (JFloat ''-Infinity'') s of Some r \<Rightarrow> Some r | None \<Rightarrow>
       read_number s))))))"

text \<open>The fuel bounds the nesting and the number of items together.\<close>

fun read_value :: "nat \<Rightarrow> string \<Rightarrow> (json \<times> string) option"
  and read_items :: "nat \<Rightarrow> string \<Rightarrow> (json list \<times> string) option"
  and read_members :: "nat \<Rightarrow> string \<Rightarrow> ((string \<times> json) list \<times> string) option" where
  "read_value 0 s = None"
| "read_value (Suc f) s = (case skip_ws s of
      [] \<Rightarrow> None
    | c # cs \<Rightarrow>
       (if c = jquote then map_option (apfst JStr) (read_string cs)
        else if c = CHR ''['' then
          (if take 1 (skip_ws cs) = '']'' then Some (JList [], tl (skip_ws cs))
           else map_option (apfst JList) (read_items f cs))
        else if c = CHR ''{'' then
          (if take 1 (skip_ws cs) = ''}'' then Some (JObj [], tl (skip_ws cs))
           else map_option (apfst JObj) (read_members f cs))
        else read_atom (c # cs)))"
| "read_items 0 s = None"
| "read_items (Suc f) s = (case read_value f s of
      None \<Rightarrow> None
    | Some (v, r) \<Rightarrow> (case skip_ws r of
          [] \<Rightarrow> None
        | c # cs \<Rightarrow> if c = CHR '','' then map_option (apfst (Cons v)) (read_items f cs)
                    else if c = CHR '']'' then Some ([v], cs) else None))"
| "read_members 0 s = None"
| "read_members (Suc f) s = (case skip_ws s of
      [] \<Rightarrow> None
    | q # qs \<Rightarrow> if q \<noteq> jquote then None else (case read_string qs of
          None \<Rightarrow> None
        | Some (k, r) \<Rightarrow> (case skip_ws r of
              [] \<Rightarrow> None
            | c # cs \<Rightarrow> if c \<noteq> CHR '':'' then None else (case read_value f cs of
                  None \<Rightarrow> None
                | Some (v, r') \<Rightarrow> (case skip_ws r' of
                      [] \<Rightarrow> None
                    | d # ds \<Rightarrow> if d = CHR '','' then map_option (apfst (Cons (k, v))) (read_members f ds)
                                else if d = CHR ''}'' then Some ([(k, v)], ds) else None)))))"

definition loads :: "string \<Rightarrow> exn + json" where
  "loads s = (case read_value (2 * length s + 2) s of
       Some (v, r) \<Rightarrow> if skip_ws r = [] then Inr v else Inl JSONDecodeError
     | None \<Rightarrow> Inl JSONDecodeError)"

subsection \<open>What was written is read back\<close>

lemma read_escape:
  "e \<noteq> CHR ''u'' \<Longrightarrow> read_string (jslash # e # t) =
     (case unescape e of Some d \<Rightarrow> map_option (apfst (Cons d)) (read_string t) | None \<Rightarrow> None)"
  by (auto simp: jslash_def jquote_def split: list.splits)

lemma hex_char_cases: "d < 16 \<Longrightarrow> d \<in> {0,1,2,3,4,5,6,7,8,9,10,11,12,13,14,15::nat}"
  by (simp, presburger)

lemma hex_val_char [simp]: "d < 16 \<Longrightarrow> hex_val (hex_char d) = Some d"
  by (drule hex_char_cases) (auto simp: hex_val_def hex_char_def char_class_defs)

lemma hex4_byte: "n < 256 \<Longrightarrow> hex4 (CHR ''0'') (CHR ''0'') (hex_char (n div 16)) (hex_char (n mod 16)) = Some n"
proof -
  assume n: "n < 256"
  then have "n div 16 < 16" by (simp add: less_mult_imp_div_less)
  moreover have "hex_val (CHR ''0'') = Some 0" by (simp add: hex_val_def char_class_defs)
  ultimately show ?thesis by (simp add: hex4_def)
qed

lemma code_of_bound: "code_of c < 256"
  by (simp add: code_of_def)

lemma char_of_code [simp]: "char_of (code_of c) = c"
  by (simp add: code_of_def)

lemma code_of_eq: "code_of c = code_of d \<longleftrightarrow> c = d"
  by (metis char_of_code)

lemma special_codes: "code_of jquote = 34" "code_of jslash = 92"
  by (simp_all add: jquote_def jslash_def code_of_def)

lemma code_of_nums:
  "code_of c = 10 \<longleftrightarrow> c = CHR 0x0A" "code_of c = 13 \<longleftrightarrow> c = CHR 0x0D"
  "code_of c = 9 \<longleftrightarrow> c = CHR 0x09" "code_of c = 12 \<longleftrightarrow> c = CHR 0x0C"
  "code_of c = 8 \<longleftrightarrow> c = CHR 0x08"
  by (simp_all add: code_of_eq [symmetric]) (simp_all add: code_of_def)

lemma read_json_char:
  "read_string (json_char c @ t) = map_option (apfst (Cons c)) (read_string t)"
proof -
  have u: "CHR ''u'' \<noteq> jquote" "CHR ''u'' \<noteq> jslash" by (simp_all add: jquote_def jslash_def)
  consider (esc) e where "json_char c = [jslash, e]" "e \<noteq> CHR ''u''" "unescape e = Some c"
    | (plain) "json_char c = [c]" "c \<noteq> jquote" "c \<noteq> jslash" "\<not> code_of c < 32"
    | (hex) "json_char c = [jslash, CHR ''u'', CHR ''0'', CHR ''0'',
            hex_char (code_of c div 16), hex_char (code_of c mod 16)]"
  proof (cases "c = jquote \<or> c = jslash \<or> code_of c \<in> {10, 13, 9, 12, 8}")
    case True
    then show ?thesis
      using esc [of jquote] esc [of jslash] esc [of "CHR ''n''"] esc [of "CHR ''r''"]
        esc [of "CHR ''t''"] esc [of "CHR ''f''"] esc [of "CHR ''b''"]
      by (auto simp: json_char_def unescape_def code_of_nums special_codes)
        (auto simp: jquote_def jslash_def code_of_def)
  next
    case False
    then show ?thesis
      using plain hex by (cases "32 \<le> code_of c \<and> code_of c \<le> 126") (auto simp: json_char_def)
  qed
  then show ?thesis
  proof cases
    case esc
    then show ?thesis using read_escape [of e t] by simp
  next
    case plain
    then show ?thesis by simp
  next
    case hex
    have "hex4 (CHR ''0'') (CHR ''0'') (hex_char (code_of c div 16)) (hex_char (code_of c mod 16))
        = Some (code_of c)"
      by (rule hex4_byte) (rule code_of_bound)
    moreover have "jslash \<noteq> jquote" by (simp add: jquote_def jslash_def)
    ultimately show ?thesis using hex u code_of_bound [of c] by simp
  qed
qed

lemma read_json_chars:
  "read_string (concat (map json_char s) @ jquote # rest) = Some (s, rest)"
proof (induction s)
  case Nil
  then show ?case by simp
next
  case (Cons c s)
  then show ?case by (simp add: read_json_char)
qed

definition delimited :: "string \<Rightarrow> bool" where
  "delimited s \<longleftrightarrow> (case s of [] \<Rightarrow> True | c # _ \<Rightarrow> json_space c \<or> c \<in> set '',]}'')"

lemma delimited_simps [simp]:
  "delimited []" "delimited (CHR '','' # s)" "delimited (CHR '']'' # s)" "delimited (CHR ''}'' # s)"
  by (simp_all add: delimited_def)

lemma delimited_not: "delimited (c # s) \<Longrightarrow> \<not> is_digit c \<and> c \<noteq> CHR ''.'' \<and> c \<noteq> CHR ''e'' \<and> c \<noteq> CHR ''E''"
  by (auto simp: delimited_def json_space_def char_class_defs)

lemma takeWhile_digits:
  assumes "list_all is_digit ds" and "delimited rest"
  shows "takeWhile is_digit (ds @ rest) = ds"
proof -
  have "takeWhile is_digit rest = []"
    using assms(2) delimited_not by (cases rest) auto
  then show ?thesis
    using assms(1) by (simp add: takeWhile_append list_all_iff)
qed

lemma no_fraction: "delimited rest \<Longrightarrow> read_fraction rest = ([], rest)"
  using delimited_not by (auto simp: read_fraction_def split: list.splits)

lemma no_exponent: "delimited rest \<Longrightarrow> read_exponent rest = ([], rest)"
  using delimited_not by (auto simp: read_exponent_def split: list.splits)

lemma digit_char_0: "d < 10 \<Longrightarrow> digit_char d = CHR ''0'' \<longleftrightarrow> d = 0"
  by (drule less_ten_cases) (auto simp: digit_char_def)

lemma str_nat_hd: "n \<noteq> 0 \<Longrightarrow> hd (str_nat n) \<noteq> CHR ''0''"
proof (induction n rule: str_nat.induct)
  case (1 n)
  show ?case
  proof (cases "n < 10")
    case True
    then show ?thesis using 1 by (subst str_nat.simps) (simp add: digit_char_0)
  next
    case False
    then have "n div 10 \<noteq> 0" by simp
    then show ?thesis using 1 False by (subst str_nat.simps) simp
  qed
qed

lemma str_nat_0: "str_nat 0 = ''0''"
  by (subst str_nat.simps) (simp add: digit_char_def)

lemma int_token_str_nat: "int_token (str_nat n) = str_nat n"
proof (cases "n = 0")
  case True
  then show ?thesis by (simp add: str_nat_0 int_token_def)
next
  case False
  then have "hd (str_nat n) \<noteq> CHR ''0''" by (rule str_nat_hd)
  then show ?thesis by (cases "str_nat n") (auto simp: int_token_def)
qed

lemma digit_not_minus: "is_digit c \<Longrightarrow> c \<noteq> CHR ''-''"
  by (auto simp: char_class_defs)

lemma number_body_str_nat:
  assumes "delimited rest"
  shows "number_body neg (str_nat n @ rest) = Some (JInt (if neg then - int n else int n), rest)"
proof -
  have ds: "takeWhile is_digit (str_nat n @ rest) = str_nat n"
    by (rule takeWhile_digits [OF str_nat_digits assms])
  show ?thesis
    unfolding number_body_def
    by (simp add: ds int_token_str_nat no_fraction no_exponent assms)
qed

lemma str_int_hd: "\<exists>c cs. str_int i = c # cs \<and> (is_digit c \<or> c = CHR ''-'')"
  using str_nat_digits [of "nat i"]
  by (cases "str_nat (nat i)") (auto simp: str_int_def)

lemma read_number_int:
  assumes "delimited rest"
  shows "read_number (str_int i @ rest) = Some (JInt i, rest)"
proof (cases "i < 0")
  case True
  then show ?thesis
    using number_body_str_nat [OF assms, of True "nat (- i)"]
    by (simp add: read_number_def str_int_def)
next
  case False
  obtain c cs where cs: "str_nat (nat i) = c # cs" by (cases "str_nat (nat i)") auto
  have "c \<noteq> CHR ''-''"
    using str_nat_digits [of "nat i"] cs digit_not_minus by auto
  then show ?thesis
    using number_body_str_nat [OF assms, of False "nat i"] False cs
    by (simp add: read_number_def str_int_def)
qed

lemma int_not_word:
  assumes "str_int i = c # cs" and "w \<in> {''null'', ''true'', ''false'', ''NaN'', ''Infinity''}"
  shows "read_word w v (str_int i @ rest) = None"
  using str_int_hd [of i] assms
  by (auto simp: read_word_def startswith_def char_class_defs)

lemma int_not_neg_infinity: "read_word ''-Infinity'' v (str_int i @ rest) = None"
proof (cases "i < 0")
  case True
  then obtain c cs where "str_nat (nat (- i)) = c # cs" "is_digit c"
    using str_nat_digits [of "nat (- i)"] by (cases "str_nat (nat (- i))") auto
  then show ?thesis
    using True by (auto simp: read_word_def startswith_def str_int_def char_class_defs)
next
  case False
  then obtain c cs where "str_nat (nat i) = c # cs" "is_digit c"
    using str_nat_digits [of "nat i"] by (cases "str_nat (nat i)") auto
  then show ?thesis
    using False by (auto simp: read_word_def startswith_def str_int_def char_class_defs)
qed

lemma read_atom_int:
  assumes "delimited rest"
  shows "read_atom (str_int i @ rest) = Some (JInt i, rest)"
proof -
  obtain c cs where "str_int i = c # cs" using str_int_hd by blast
  then have "read_word w v (str_int i @ rest) = None"
    if "w \<in> {''null'', ''true'', ''false'', ''NaN'', ''Infinity''}" for w v
    using that by (rule int_not_word)
  then show ?thesis
    using int_not_neg_infinity [of _ i rest] read_number_int [OF assms, of i]
    by (simp add: read_atom_def)
qed

lemma read_atom_words:
  "read_atom (''null'' @ rest) = Some (JNull, rest)"
  "read_atom (''true'' @ rest) = Some (JBool True, rest)"
  "read_atom (''false'' @ rest) = Some (JBool False, rest)"
  by (simp_all add: read_atom_def read_word_def startswith_def)

subsection \<open>Layouts of white space\<close>

definition white :: "string \<Rightarrow> bool" where
  "white s \<longleftrightarrow> list_all json_space s"

definition white_layout :: "layout \<Rightarrow> bool" where
  "white_layout l \<longleftrightarrow> (\<forall>n. white (line_break l n)) \<and> white (after_comma l) \<and> white (after_colon l)"

lemma white_layouts: "white_layout indented" "white_layout compact" "white_layout inline"
  by (simp_all add: white_layout_def white_def indented_def compact_def inline_def list_all_iff
      json_space_def code_of_def)

lemma skip_white: "white s \<Longrightarrow> skip_ws (s @ t) = skip_ws t"
  by (simp add: white_def skip_ws_def list_all_iff dropWhile_append)

lemma skip_ws_idem [simp]: "\<not> json_space c \<Longrightarrow> skip_ws (c # s) = c # s"
  by (simp add: skip_ws_def)

lemma read_value_skip: "read_value f (skip_ws s) = read_value f s"
  by (cases f) (auto simp: skip_ws_def)

lemma read_value_white: "white s \<Longrightarrow> read_value f (s @ t) = read_value f t"
  by (metis read_value_skip skip_white)

lemma read_items_white: "white s \<Longrightarrow> read_items f (s @ t) = read_items f t"
  by (cases f) (simp_all add: read_value_white)

lemma read_members_white: "white s \<Longrightarrow> read_members f (s @ t) = read_members f t"
  by (cases f) (simp_all add: skip_white)

lemma delimited_white: "white s \<Longrightarrow> delimited t \<Longrightarrow> delimited (s @ t)"
  by (cases s) (auto simp: white_def delimited_def)

subsection \<open>The round trip\<close>

text \<open>A document without float tokens, and the fuel its text needs.\<close>

fun no_float :: "json \<Rightarrow> bool" where
  "no_float (JFloat _) = False"
| "no_float (JList xs) = list_all no_float xs"
| "no_float (JObj ms) = list_all (\<lambda>(k, v). no_float v) ms"
| "no_float _ = True"

fun need :: "json \<Rightarrow> nat" and need_items :: "json list \<Rightarrow> nat"
  and need_members :: "(string \<times> json) list \<Rightarrow> nat" where
  "need (JList xs) = Suc (need_items xs)"
| "need (JObj ms) = Suc (need_members ms)"
| "need v = 1"
| "need_items [] = 0"
| "need_items (x # xs) = Suc (max (need x) (need_items xs))"
| "need_members [] = 0"
| "need_members ((k, v) # ms) = Suc (max (need v) (need_members ms))"

lemma json_chars:
  "\<not> json_space jquote" "\<not> json_space (CHR ''['')" "\<not> json_space (CHR ''{'')"
  "\<not> json_space (CHR '']'')" "\<not> json_space (CHR ''}'')" "\<not> json_space (CHR '':'')"
  "\<not> json_space (CHR '','')"
  "CHR ''['' \<noteq> jquote" "CHR ''{'' \<noteq> jquote" "CHR '']'' \<noteq> jquote"
  by (simp_all add: json_space_def jquote_def code_of_def)

lemma read_value_atom:
  assumes "read_atom s = Some r" and "s = c # cs"
    and "\<not> json_space c" and "c \<noteq> jquote" and "c \<noteq> CHR ''[''" and "c \<noteq> CHR ''{''"
  shows "read_value (Suc f) s = Some r"
  using assms by simp

lemma read_value_int:
  assumes "delimited rest"
  shows "read_value (Suc f) (str_int i @ rest) = Some (JInt i, rest)"
proof -
  obtain c cs where c: "str_int i = c # cs" "is_digit c \<or> c = CHR ''-''" using str_int_hd by blast
  then have "\<not> json_space c" "c \<noteq> jquote" "c \<noteq> CHR ''[''" "c \<noteq> CHR ''{''"
    by (auto simp: char_class_defs json_space_def jquote_def)
  then show ?thesis
    using read_value_atom [OF read_atom_int [OF assms, of i], of c "cs @ rest"] c(1) by simp
qed

lemma read_value_string:
  "read_value (Suc f) (json_string s @ rest) = Some (JStr s, rest)"
  by (simp add: json_string_def json_chars read_json_chars)

lemma word_chars:
  "\<not> json_space (CHR ''n'')" "\<not> json_space (CHR ''t'')" "\<not> json_space (CHR ''f'')"
  "CHR ''n'' \<noteq> jquote" "CHR ''t'' \<noteq> jquote" "CHR ''f'' \<noteq> jquote"
  by (simp_all add: json_space_def jquote_def code_of_def)

lemma read_value_words:
  "read_value (Suc f) (''null'' @ rest) = Some (JNull, rest)"
  "read_value (Suc f) (''true'' @ rest) = Some (JBool True, rest)"
  "read_value (Suc f) (''false'' @ rest) = Some (JBool False, rest)"
  using read_atom_words [of rest] by (simp_all add: word_chars)

lemma white_simps [simp]: "white []"
  by (simp add: white_def)

lemma white_layoutD:
  "white_layout l \<Longrightarrow> white (line_break l n)" "white_layout l \<Longrightarrow> white (after_comma l)"
  "white_layout l \<Longrightarrow> white (after_colon l)"
  by (simp_all add: white_layout_def)

lemma json_string_start: "json_string k @ t = jquote # concat (map json_char k) @ jquote # t"
  by (simp add: json_string_def)

lemma dump_start:
  assumes "no_float v"
  shows "\<exists>c cs. dump l n v = c # cs \<and> \<not> json_space c \<and> c \<noteq> CHR '']''"
proof (cases v)
  case (JInt i)
  obtain c cs where "str_int i = c # cs" "is_digit c \<or> c = CHR ''-''" using str_int_hd by blast
  then show ?thesis using JInt by (auto simp: char_class_defs json_space_def)
next
  case (JList xs)
  then show ?thesis by (cases xs) (auto simp: json_space_def code_of_def)
next
  case (JObj ms)
  then show ?thesis by (cases ms) (auto simp: json_space_def code_of_def)
qed (use assms in \<open>auto simp: json_space_def code_of_def json_string_def jquote_def\<close>)

lemma dump_items_start:
  "no_float x \<Longrightarrow> \<exists>c cs. dump_items l n (x # xs) = c # cs \<and> \<not> json_space c \<and> c \<noteq> CHR '']''"
  using dump_start [of x l n] by (cases xs) auto

lemma read_dump:
  "white_layout l \<Longrightarrow> no_float v \<Longrightarrow> need v \<le> f \<Longrightarrow> delimited rest \<Longrightarrow>
     read_value f (dump l n v @ rest) = Some (v, rest)"
  "white_layout l \<Longrightarrow> list_all no_float xs \<Longrightarrow> xs \<noteq> [] \<Longrightarrow> need_items xs \<le> f \<Longrightarrow> white ws \<Longrightarrow>
     read_items f (dump_items l n xs @ ws @ CHR '']'' # rest) = Some (xs, rest)"
  "white_layout l \<Longrightarrow> list_all (\<lambda>(k, v). no_float v) ms \<Longrightarrow> ms \<noteq> [] \<Longrightarrow> need_members ms \<le> f \<Longrightarrow>
     white ws \<Longrightarrow> read_members f (dump_members l n ms @ ws @ CHR ''}'' # rest) = Some (ms, rest)"
proof (induction l n v and l n xs and l n ms arbitrary: f rest and f ws rest and f ws rest
    rule: dump_dump_items_dump_members.induct)
  case (1 l n)
  then show ?case using read_value_words by (cases f) simp_all
next
  case (2 l n b)
  then show ?case using read_value_words by (cases f) (simp_all del: read_value.simps)
next
  case (3 l n i)
  then show ?case using read_value_int by (cases f) (simp_all del: read_value.simps)
next
  case (4 l n t)
  then show ?case by simp
next
  case (5 l n s)
  then show ?case using read_value_string by (cases f) (simp_all del: read_value.simps)
next
  case (6 l n)
  then show ?case by (cases f) (simp_all add: json_chars)
next
  case (7 l n x xs)
  then obtain g where f: "f = Suc g" by (cases f) auto
  have items: "read_items g (dump_items l (Suc n) (x # xs) @ line_break l n @ CHR '']'' # rest)
      = Some (x # xs, rest)"
    using 7 f by (intro "7.IH") (auto simp: white_layoutD)
  then have items': "read_items g (line_break l (Suc n) @ dump_items l (Suc n) (x # xs)
      @ line_break l n @ CHR '']'' # rest) = Some (x # xs, rest)"
    using 7(2) by (simp add: read_items_white white_layoutD)
  obtain c cs where c: "dump_items l (Suc n) (x # xs) = c # cs" "\<not> json_space c" "c \<noteq> CHR '']''"
    using dump_items_start [of x l "Suc n" xs] 7(3) by auto
  then have "skip_ws (line_break l (Suc n) @ dump_items l (Suc n) (x # xs)
      @ line_break l n @ CHR '']'' # rest) = c # cs @ line_break l n @ CHR '']'' # rest"
    using 7(2) by (simp add: skip_white white_layoutD)
  then show ?case using items' c(3) by (simp add: f json_chars)
next
  case (8 l n)
  then show ?case by (cases f) (simp_all add: json_chars)
next
  case (9 l n m ms)
  then obtain g where f: "f = Suc g" by (cases f) (auto simp: split_paired_all)
  obtain k v where m: "m = (k, v)" by fastforce
  have items: "read_members g (dump_members l (Suc n) (m # ms) @ line_break l n @ CHR ''}'' # rest)
      = Some (m # ms, rest)"
    using 9 f by (intro "9.IH") (auto simp: white_layoutD)
  then have items': "read_members g (line_break l (Suc n) @ dump_members l (Suc n) (m # ms)
      @ line_break l n @ CHR ''}'' # rest) = Some (m # ms, rest)"
    using 9(2) by (simp add: read_members_white white_layoutD)
  obtain t where "dump_members l (Suc n) (m # ms) = jquote # t"
    unfolding m by (cases ms) (auto simp: json_string_def)
  then have "skip_ws (line_break l (Suc n) @ dump_members l (Suc n) (m # ms)
      @ line_break l n @ CHR ''}'' # rest) = jquote # t @ line_break l n @ CHR ''}'' # rest"
    using 9(2) by (simp add: skip_white white_layoutD json_chars)
  moreover have "jquote \<noteq> CHR ''}''" by (simp add: jquote_def)
  ultimately show ?case using items' by (simp add: f json_chars)
next
  case (10 l n)
  then show ?case by simp
next
  case (11 l n x)
  then obtain g where f: "f = Suc g" by (cases f) auto
  have "read_value g (dump l n x @ ws @ CHR '']'' # rest) = Some (x, ws @ CHR '']'' # rest)"
    using 11 f by (intro "11.IH") (auto simp: delimited_white)
  then show ?case using 11 by (simp add: f skip_white json_chars)
next
  case (12 l n x y xs)
  then obtain g where f: "f = Suc g" by (cases f) auto
  let ?r = "after_comma l @ line_break l n @ dump_items l n (y # xs) @ ws @ CHR '']'' # rest"
  have "read_value g (dump l n x @ CHR '','' # ?r) = Some (x, CHR '','' # ?r)"
    using 12 f by (intro "12.IH") auto
  moreover have "read_items g (dump_items l n (y # xs) @ ws @ CHR '']'' # rest) = Some (y # xs, rest)"
    using 12 f by (intro "12.IH") auto
  ultimately show ?case
    using 12 by (simp add: f json_chars read_items_white white_layoutD)
next
  case (13 l n)
  then show ?case by simp
next
  case (14 l n k v)
  then obtain g where f: "f = Suc g" by (cases f) auto
  have "read_value g (dump l n v @ ws @ CHR ''}'' # rest) = Some (v, ws @ CHR ''}'' # rest)"
    using 14 f by (intro "14.IH") (auto simp: delimited_white)
  then show ?case
    using 14 by (simp add: f json_string_start json_chars read_json_chars read_value_white
        white_layoutD skip_white)
next
  case (15 l n k v m ms)
  then obtain g where f: "f = Suc g" by (cases f) auto
  let ?r = "after_comma l @ line_break l n @ dump_members l n (m # ms) @ ws @ CHR ''}'' # rest"
  have "read_value g (dump l n v @ CHR '','' # ?r) = Some (v, CHR '','' # ?r)"
    using 15 f by (intro "15.IH") auto
  moreover have "read_members g (dump_members l n (m # ms) @ ws @ CHR ''}'' # rest) = Some (m # ms, rest)"
    using 15 f by (intro "15.IH") auto
  ultimately show ?case
    using 15 by (simp add: f json_string_start json_chars read_json_chars read_value_white
        read_members_white white_layoutD)
qed

lemma need_bound:
  "no_float v \<Longrightarrow> need v \<le> 2 * length (dump l n v)"
  "list_all no_float xs \<Longrightarrow> need_items xs \<le> 2 * length (dump_items l n xs) + 1"
  "list_all (\<lambda>(k, v). no_float v) ms \<Longrightarrow> need_members ms \<le> 2 * length (dump_members l n ms) + 1"
proof (induction l n v and l n xs and l n ms rule: dump_dump_items_dump_members.induct)
  case (3 l n i)
  obtain c cs where "str_int i = c # cs" using str_int_hd by blast
  then show ?case by simp
qed (auto simp: json_string_def)

lemma no_float_sort_keys: "no_float v \<Longrightarrow> no_float (sort_keys v)"
  by (induction v rule: sort_keys.induct) (auto simp: list_all_iff)

lemma loads_dumps:
  assumes "white_layout l" and "no_float v" and "skip_ws ws = []"
  shows "loads (dumps l v @ ws) = Inr (sort_keys v)"
proof -
  have nf: "no_float (sort_keys v)" using assms(2) by (rule no_float_sort_keys)
  have "delimited ws"
    using assms(3) by (cases ws) (auto simp: delimited_def skip_ws_def split: if_splits)
  moreover have "need (sort_keys v) \<le> 2 * length (dump l 0 (sort_keys v) @ ws) + 2"
    using need_bound(1) [OF nf, of l 0] by simp
  ultimately have "read_value (2 * length (dump l 0 (sort_keys v) @ ws) + 2) (dump l 0 (sort_keys v) @ ws)
      = Some (sort_keys v, ws)"
    using read_dump(1) [OF assms(1) nf] by blast
  with assms(3) show ?thesis by (simp add: loads_def dumps_def)
qed

lemma loads_document:
  "no_float v \<Longrightarrow> loads (dumps indented v @ [CHR 0x0A]) = Inr (sort_keys v)"
  using loads_dumps [of indented v "[CHR 0x0A]"]
  by (simp add: white_layouts skip_ws_def json_space_def code_of_def)

end
