(* ===== verification/Files.thy ===== *)
theory Files
  imports Config Errors Json
begin

text \<open>
  \<open>files.py\<close>: the paths of one instance, private directories and files, secrets and
  exports confined to their directories, and the atomic replacement of a file.
\<close>

subsection \<open>Instance paths\<close>

record instance_paths =
  ip_root :: comps
  ip_config :: comps
  ip_state :: comps
  ip_secrets :: comps
  ip_data :: "comps option"

definition from_root :: "comps \<Rightarrow> instance_paths io" where
  "from_root r = bind (p_resolve r) (\<lambda>resolved. ret
     \<lparr>ip_root = resolved, ip_config = resolved @ [''config.yaml''], ip_state = resolved @ [''state''],
      ip_secrets = resolved @ [''secrets''], ip_data = None\<rparr>)"

definition data_dir :: "instance_paths \<Rightarrow> comps" where
  "data_dir paths = (case ip_data paths of Some d \<Rightarrow> d | None \<Rightarrow> ip_state paths @ [''current''])"

definition server_dir :: "instance_paths \<Rightarrow> comps" where
  "server_dir paths = data_dir paths @ [''server'']"

definition peer_dir :: "instance_paths \<Rightarrow> string \<Rightarrow> comps" where
  "peer_dir paths name = data_dir paths @ [''peers'', name]"

definition with_data :: "instance_paths \<Rightarrow> comps \<Rightarrow> instance_paths" where
  "with_data paths d = paths\<lparr>ip_data := Some d\<rparr>"

definition resolve_config_path :: "comps \<Rightarrow> path \<Rightarrow> comps io" where
  "resolve_config_path config_path configured =
     (if is_absolute configured then p_resolve (path_comps configured)
      else p_resolve (join_path (butlast config_path) configured))"

subsection \<open>Private directories\<close>

text \<open>
  \<open>Path.mkdir\<close>: missing parents are made with the default mode 0777, an existing
  directory is fine with \<open>exist_ok\<close>.
\<close>

definition mkdir_plain :: "comps \<Rightarrow> nat \<Rightarrow> bool \<Rightarrow> unit io" where
  "mkdir_plain p m exist_ok = try_except (os_mkdir p m) is_OSError (\<lambda>e.
     if is_FileNotFound e \<or> \<not> exist_ok then raise e
     else bind (p_is_dir p) (\<lambda>d. require d e))"

function mkdir_parents :: "comps \<Rightarrow> nat \<Rightarrow> bool \<Rightarrow> unit io" where
  "mkdir_parents p m exist_ok = try_except (os_mkdir p m) is_OSError (\<lambda>e.
     if is_FileNotFound e
     then (if p = [] then raise e
           else then_do (mkdir_parents (butlast p) 0x1FF True) (mkdir_plain p m exist_ok))
     else if \<not> exist_ok then raise e
     else bind (p_is_dir p) (\<lambda>d. require d e))"
  by pat_completeness auto
termination
  by (relation "measure (\<lambda>(p, m, e). length p)") auto

declare mkdir_parents.simps [simp del]

definition owned_dir :: "nat \<Rightarrow> node \<Rightarrow> bool" where
  "owned_dir me n = (case n of Dir m u \<Rightarrow> u = me | _ \<Rightarrow> False)"

definition ensure_private_directory :: "comps \<Rightarrow> unit io" where
  "ensure_private_directory path =
     bind (p_is_symlink path) (\<lambda>link.
     then_do (require (\<not> link) (StateError (''private directory must not be a symlink: '' @ show_path path)))
    (bind (try_except
        (then_do (mkdir_parents path 0x1C0 True) (os_open_dir path))
        is_OSError
        (\<lambda>_. raise (StateError (''cannot create or open private directory: '' @ show_path path))))
      (\<lambda>descriptor. try_finally
        (bind (os_fstat descriptor) (\<lambda>info.
         bind (gets uid) (\<lambda>me.
         then_do (require (owned_dir me info)
           (StateError (''private directory ownership or type is invalid: '' @ show_path path)))
         (os_fchmod descriptor 0x1C0))))
        (os_close descriptor))))"

definition fsync_directory :: "comps \<Rightarrow> unit io" where
  "fsync_directory path = bind (os_open_dir_follow path) (\<lambda>descriptor.
     try_finally (os_fsync descriptor) (os_close descriptor))"

subsection \<open>Required files\<close>

definition stat_required :: "comps \<Rightarrow> string \<Rightarrow> node io" where
  "stat_required path label = try_except (os_lstat path) is_FileNotFound
     (\<lambda>_. raise (ConfigurationError (label @ '' does not exist: '' @ show_path path)))"

definition require_private_file :: "comps \<Rightarrow> string \<Rightarrow> unit io" where
  "require_private_file path label =
     bind (stat_required path label) (\<lambda>info.
     then_do (require (is_file_node (Some info))
       (ConfigurationError (label @ '' must be a regular non-symlink file: '' @ show_path path)))
     (require (\<not> open_to_others info)
       (ConfigurationError (label @ '' permissions must not allow group or other access: '' @ show_path path))))"

definition require_regular_file :: "comps \<Rightarrow> string \<Rightarrow> unit io" where
  "require_regular_file path label =
     bind (stat_required path label) (\<lambda>info.
     require (is_file_node (Some info))
       (ConfigurationError (label @ '' must be a regular non-symlink file: '' @ show_path path)))"

subsection \<open>Secrets and exports\<close>

definition secret_relative_path :: "path \<Rightarrow> exn + path" where
  "secret_relative_path configured =
     (if is_absolute configured
      then Inl (ConfigurationError ''SSH files must use instance-relative secrets/ paths'')
      else if length (parts configured) < 2 \<or> parts configured ! 0 \<noteq> ''secrets'' \<or> ''..'' \<in> set (parts configured)
      then Inl (ConfigurationError ''SSH files must be located below the instance secrets/ directory'')
      else Inr (Path False (drop 1 (parts configured))))"

definition mounted_secret_path :: "instance_paths \<Rightarrow> path \<Rightarrow> exn + comps" where
  "mounted_secret_path paths configured =
     rbind (secret_relative_path configured) (\<lambda>rel. Inr (join_path (ip_secrets paths) rel))"

definition validate_ssh_files :: "project_config \<Rightarrow> instance_paths \<Rightarrow> (comps \<times> comps) io" where
  "validate_ssh_files config paths =
     bind (resolve_config_path (ip_config paths) (identity_file (ssh config))) (\<lambda>identity.
     bind (resolve_config_path (ip_config paths) (known_hosts_file (ssh config))) (\<lambda>known_hosts.
     bind (lift (mounted_secret_path paths (identity_file (ssh config)))) (\<lambda>expected_identity.
     bind (lift (mounted_secret_path paths (known_hosts_file (ssh config)))) (\<lambda>expected_known_hosts.
     then_do (require (identity = expected_identity \<and> known_hosts = expected_known_hosts)
       (ConfigurationError ''SSH files must resolve below the instance secrets directory''))
    (then_do (require_private_file identity ''SSH identity'')
    (then_do (require_regular_file known_hosts ''SSH known-hosts file'')
     (ret (identity, known_hosts))))))))"

definition resolve_export_path :: "instance_paths \<Rightarrow> path \<Rightarrow> comps io" where
  "resolve_export_path paths requested =
     then_do (require (isprintable (str_path requested) \<and> \<not> is_absolute requested
         \<and> length (parts requested) = 2 \<and> parts requested ! 0 = ''exports''
         \<and> name_of (path_comps requested) \<notin> {''.'', ''..''})
       (ConfigurationError ''--output must use the instance-relative form exports/FILE''))
     (let export_directory = ip_root paths @ [''exports''];
          destination = export_directory @ [name_of (path_comps requested)] in
      bind (p_is_symlink export_directory) (\<lambda>l1.
      bind (p_is_symlink destination) (\<lambda>l2.
      then_do (require (\<not> (l1 \<or> l2)) (ConfigurationError ''export paths must not be symbolic links''))
     (bind (p_exists export_directory) (\<lambda>e1.
      bind (p_is_dir export_directory) (\<lambda>d1.
      then_do (require (\<not> (e1 \<and> \<not> d1)) (ConfigurationError ''exports must be a directory''))
     (bind (p_exists destination) (\<lambda>e2.
      bind (p_is_file destination) (\<lambda>f2.
      then_do (require (\<not> (e2 \<and> \<not> f2))
        (ConfigurationError ''the export destination must be a regular file''))
     (ret destination))))))))))"

subsection \<open>Atomic replacement\<close>

text \<open>
  \<open>tempfile.mkstemp\<close>: random names until one does not exist. The names come from
  the list \<open>suffixes\<close> of the world; when it is exhausted the error is the one of
  the last attempt.
\<close>

function mkstemp :: "string \<Rightarrow> comps \<Rightarrow> (descriptor \<times> comps) io" where
  "mkstemp pre d w = (case suffixes w of
      [] \<Rightarrow> (Exn (OSError EEXIST), w)
    | s # ss \<Rightarrow> (case os_open_excl (d @ [pre @ s]) 0x180 (w\<lparr>suffixes := ss\<rparr>) of
         (Ret fd, w') \<Rightarrow> (Ret (fd, d @ [pre @ s]), w')
       | (Exn e, w') \<Rightarrow> if e = OSError EEXIST then mkstemp pre d (w'\<lparr>suffixes := ss\<rparr>) else (Exn e, w')
       | (Halt, w') \<Rightarrow> (Halt, w')))"
  by pat_completeness auto
termination
  by (relation "measure (\<lambda>(p, d, w). length (suffixes w))") auto

declare mkstemp.simps [simp del]

text \<open>\<open>Path.unlink(missing_ok=True)\<close>.\<close>

definition unlink_missing_ok :: "comps \<Rightarrow> unit io" where
  "unlink_missing_ok p = suppress is_FileNotFound (os_unlink p)"

definition temp_prefix :: "comps \<Rightarrow> string" where
  "temp_prefix path = CHR ''.'' # name_of path @ ''.''"

definition atomic_write_bytes :: "comps \<Rightarrow> string \<Rightarrow> nat \<Rightarrow> unit io" where
  "atomic_write_bytes path content mode =
     then_do (ensure_private_directory (butlast path))
    (bind (mkstemp (temp_prefix path) (butlast path)) (\<lambda>(descriptor, temporary).
     try_except
       (then_do (os_fchmod descriptor mode)
       (then_do (try_finally
          (then_do (os_write descriptor content) (os_fsync descriptor))
          (os_close descriptor))
       (then_do (os_replace temporary path)
        (fsync_directory (butlast path)))))
       (\<lambda>_. True)
       (\<lambda>e. then_do (suppress is_OSError (os_close descriptor))
           (then_do (unlink_missing_ok temporary) (raise e)))))"

definition atomic_write :: "comps \<Rightarrow> string \<Rightarrow> nat \<Rightarrow> unit io" where
  "atomic_write path content mode = atomic_write_bytes path (utf8_encode content) mode"

definition atomic_write_json :: "comps \<Rightarrow> json \<Rightarrow> nat \<Rightarrow> unit io" where
  "atomic_write_json path v mode = atomic_write path (dumps indented v @ [CHR 0x0A]) mode"

definition read_text_secret :: "comps \<Rightarrow> string \<Rightarrow> string io" where
  "read_text_secret path label =
     then_do (require_private_file path label)
    (bind (try_except
        (bind (os_stat path) (\<lambda>info.
         then_do (require (node_size info \<le> 4096) (StateError (label @ '' is unexpectedly large'')))
         (bind (read_text_ascii path) (\<lambda>t. ret (strip t)))))
        is_read_error
        (\<lambda>e. raise (StateError (''cannot read '' @ label @ '': '' @ exn_str e))))
      (\<lambda>v. then_do (require (v \<noteq> [] \<and> CHR 0x0A \<notin> set v \<and> CHR 0x0D \<notin> set v)
              (StateError (label @ '' must contain exactly one non-empty line'')))
           (ret v)))"

end
