(* ===== verification/State.thy ===== *)
theory State
  imports Files
begin

text \<open>
  \<open>state.py\<close>: persistent state as a directory of immutable generations, the pointer
  \<open>current\<close> to one of them, the lock file that orders readers and writers, receipts of
  completed operations, and \<open>mutate_state\<close>, which builds, validates and publishes a
  generation. The digest of a request id (\<open>sha256 \<dots> hexdigest\<close>) and the hexadecimal
  digits of the fresh uuid are parameters.
\<close>

subsection \<open>Names\<close>

definition STATE_SCHEMA_VERSION :: int where
  "STATE_SCHEMA_VERSION = 1"

definition LOCK_FILE :: string where
  "LOCK_FILE = ''.state.lock''"

definition GENERATIONS_DIR :: string where
  "GENERATIONS_DIR = ''generations''"

definition CURRENT_LINK :: string where
  "CURRENT_LINK = ''current''"

definition MANIFEST_FILE :: string where
  "MANIFEST_FILE = ''manifest.json''"

definition LEGACY_DATA_DIRECTORIES :: "string list" where
  "LEGACY_DATA_DIRECTORIES = [''server'', ''peers'']"

definition is_hex32 :: "string \<Rightarrow> bool" where
  "is_hex32 s \<longleftrightarrow> length s = 32 \<and> list_all is_lower_hex s"

definition GENERATION_PATTERN :: "string \<Rightarrow> bool" where
  "GENERATION_PATTERN s \<longleftrightarrow> startswith s ''gen-'' \<and> is_hex32 (drop 4 s)"

definition STAGING_PATTERN :: "string \<Rightarrow> bool" where
  "STAGING_PATTERN s \<longleftrightarrow> startswith s ''.staging-'' \<and> is_hex32 (drop 9 s)"

definition TEMPORARY_CURRENT_PATTERN :: "string \<Rightarrow> bool" where
  "TEMPORARY_CURRENT_PATTERN s \<longleftrightarrow> startswith s ''.current-gen-'' \<and> is_hex32 (drop 13 s)"

definition MAX_MANIFEST_BYTES :: nat where
  "MAX_MANIFEST_BYTES = 64 * 1024"

definition OPERATION_SCHEMA_VERSION :: int where
  "OPERATION_SCHEMA_VERSION = 1"

definition OPERATION_ID_PATTERN :: "string \<Rightarrow> bool" where
  "OPERATION_ID_PATTERN s \<longleftrightarrow>
     head_then is_alnum (\<lambda>c. is_alnum c \<or> c \<in> set ''._:-'') 127 s"

definition OPERATION_KIND_PATTERN :: "string \<Rightarrow> bool" where
  "OPERATION_KIND_PATTERN s \<longleftrightarrow>
     head_then is_lower (\<lambda>c. is_lower c \<or> is_digit c \<or> c \<in> set ''.-'') 127 s"

definition lock_path :: "instance_paths \<Rightarrow> comps" where
  "lock_path paths = ip_state paths @ [LOCK_FILE]"

definition current_path :: "instance_paths \<Rightarrow> comps" where
  "current_path paths = ip_state paths @ [CURRENT_LINK]"

definition generations_path :: "instance_paths \<Rightarrow> comps" where
  "generations_path paths = ip_state paths @ [GENERATIONS_DIR]"

subsection \<open>Views and operations\<close>

record state_view =
  view_paths :: instance_paths
  view_generation :: "string option"

record 'a state_operation =
  request_id :: string
  op_kind :: string
  op_encode :: "'a \<Rightarrow> json"
  op_decode :: "json \<Rightarrow> exn + 'a"

text \<open>The constructor with its \<open>__post_init__\<close> checks.\<close>

definition make_operation ::
  "string \<Rightarrow> string \<Rightarrow> ('a \<Rightarrow> json) \<Rightarrow> (json \<Rightarrow> exn + 'a) \<Rightarrow> exn + 'a state_operation" where
  "make_operation i k enc dec =
     (if \<not> OPERATION_ID_PATTERN i
      then Inl (StateError ''operation ID must be 1-128 safe ASCII characters'')
      else if \<not> OPERATION_KIND_PATTERN k then Inl (StateError ''operation kind is invalid'')
      else Inr \<lparr>request_id = i, op_kind = k, op_encode = enc, op_decode = dec\<rparr>)"

definition void_decode :: "json \<Rightarrow> exn + unit" where
  "void_decode v = (if v = JNull then Inr ()
     else Inl (StateError ''completed operation has an invalid result''))"

definition void_operation :: "string \<Rightarrow> string \<Rightarrow> exn + unit state_operation" where
  "void_operation i k = make_operation i k (\<lambda>_. JNull) void_decode"

subsection \<open>The lock\<close>

definition lock_descriptor :: "instance_paths \<Rightarrow> bool \<Rightarrow> descriptor io" where
  "lock_descriptor paths create =
     then_do (when_do create (ensure_private_directory (ip_state paths)))
    (bind (try_except
        (if create then os_open_creat (lock_path paths) 0x180 else os_open (lock_path paths))
        is_FileNotFound (\<lambda>_. raise (StateError ''persistent state is not initialized'')))
      (\<lambda>descriptor. bind (os_fstat descriptor) (\<lambda>info.
        if \<not> is_file_node (Some info)
        then then_do (os_close descriptor) (raise (StateError ''persistent-state lock must be a regular file''))
        else then_do (when_do create (os_fchmod descriptor 0x180)) (ret descriptor))))"

text \<open>\<open>with state_lock(\<dots>): body\<close>.\<close>

definition state_lock :: "instance_paths \<Rightarrow> bool \<Rightarrow> bool \<Rightarrow> 'a io \<Rightarrow> 'a io" where
  "state_lock paths exclusive blocking body =
     bind (lock_descriptor paths exclusive) (\<lambda>descriptor.
     try_finally
       (then_do (try_except (os_flock descriptor exclusive (\<not> blocking)) is_BlockingIO
          (\<lambda>_. raise (StateError
             ''persistent state is busy; stop the gateway or wait for the active operation'')))
        body)
       (then_do (suppress is_OSError (os_unlock descriptor)) (os_close descriptor)))"

subsection \<open>The active generation\<close>

definition manifest_value :: "string \<Rightarrow> json" where
  "manifest_value generation = JObj [(''generation'', JStr generation),
     (''schema_version'', JInt STATE_SCHEMA_VERSION)]"

text \<open>\<open>value == {"generation": g, "schema_version": 1}\<close>.\<close>

definition manifest_matches :: "json \<Rightarrow> string \<Rightarrow> bool" where
  "manifest_matches v generation \<longleftrightarrow> (case v of
       JObj kvs \<Rightarrow> set (map fst kvs) = {''generation'', ''schema_version''}
         \<and> json_str (jget v ''generation'') = Some generation
         \<and> json_is_int (jget v ''schema_version'') STATE_SCHEMA_VERSION
     | _ \<Rightarrow> False)"

definition read_manifest :: "comps \<Rightarrow> string \<Rightarrow> unit io" where
  "read_manifest root expected_generation =
     (let manifest = root @ [MANIFEST_FILE] in
      bind (try_except
        (bind (os_lstat manifest) (\<lambda>info.
         then_do (require (is_file_node (Some info) \<and> node_size info \<le> MAX_MANIFEST_BYTES)
           (StateError (''invalid state manifest: '' @ show_path manifest)))
         (bind (read_text_utf8 manifest) (\<lambda>t. lift (loads t)))))
        is_load_error
        (\<lambda>e. raise (if is_FileNotFound e
           then StateError (''state generation is incomplete: '' @ show_path root)
           else StateError (''cannot read state manifest '' @ show_path manifest @ '': '' @ exn_str e))))
      (\<lambda>v. require (manifest_matches v expected_generation)
             (StateError (''state manifest does not match generation: '' @ show_path root))))"

text \<open>\<open>lstat\<close> with \<open>None\<close> for a missing object.\<close>

definition lstat_optional :: "comps \<Rightarrow> node option io" where
  "lstat_optional p = try_except (bind (os_lstat p) (\<lambda>n. ret (Some n))) is_FileNotFound (\<lambda>_. ret None)"

fun any_present :: "comps \<Rightarrow> string list \<Rightarrow> bool io" where
  "any_present d [] = ret False"
| "any_present d (name # names) = bind (lstat_optional (d @ [name])) (\<lambda>n.
     case n of None \<Rightarrow> any_present d names | Some _ \<Rightarrow> ret True)"

definition legacy_state_present :: "instance_paths \<Rightarrow> bool io" where
  "legacy_state_present paths = any_present (ip_state paths) LEGACY_DATA_DIRECTORIES"

definition valid_pointer :: "path \<Rightarrow> bool" where
  "valid_pointer target \<longleftrightarrow> \<not> is_absolute target \<and> length (parts target) = 2
     \<and> parts target ! 0 = GENERATIONS_DIR \<and> GENERATION_PATTERN (parts target ! 1)"

definition active_generation :: "instance_paths \<Rightarrow> bool \<Rightarrow> (comps \<times> string) option io" where
  "active_generation paths required =
     (let current = current_path paths in
      bind (lstat_optional current) (\<lambda>found. case found of
        None \<Rightarrow>
          (if required
           then bind (legacy_state_present paths) (\<lambda>legacy.
              if legacy then raise_hinted StateError ''legacy key state requires migration'' [''keys'', ''generate'']
              else raise_hinted StateError ''persistent keys are not initialized'' [''keys'', ''generate''])
           else ret None)
      | Some info \<Rightarrow>
          then_do (require (is_link_node (Some info))
            (StateError (''persistent-state pointer must be a symlink: '' @ show_path current)))
         (bind (os_readlink current) (\<lambda>target.
          then_do (require (valid_pointer (parse_path target))
            (StateError (''invalid persistent-state pointer: '' @ show_path current)))
         (let generation = parts (parse_path target) ! 1;
              root = join_path (ip_state paths) (parse_path target) in
          bind (try_except (os_lstat root) is_FileNotFound
             (\<lambda>_. raise (StateError (''persistent-state pointer is broken: '' @ show_path current))))
            (\<lambda>root_info.
             then_do (require (is_dir_node (Some root_info))
               (StateError (''state generation must be a directory: '' @ show_path root)))
            (then_do (read_manifest root generation)
             (ret (Some (root, generation))))))))))"

subsection \<open>Reading state\<close>

text \<open>\<open>with locked_state_view(\<dots>) as view: body(view)\<close>.\<close>

definition locked_state_view ::
  "instance_paths \<Rightarrow> bool \<Rightarrow> bool \<Rightarrow> bool \<Rightarrow> (state_view \<Rightarrow> 'a io) \<Rightarrow> 'a io" where
  "locked_state_view paths required exclusive blocking body = (case ip_data paths of
       Some d \<Rightarrow> body \<lparr>view_paths = paths, view_generation = Some (name_of d)\<rparr>
     | None \<Rightarrow>
         bind (p_exists (lock_path paths)) (\<lambda>lock_exists.
         then_do (when_do (\<not> lock_exists \<and> \<not> required) (state_lock paths True False (ret ())))
        (state_lock paths exclusive blocking
          (bind (active_generation paths required) (\<lambda>active. case active of
             None \<Rightarrow> bind (legacy_state_present paths) (\<lambda>legacy.
               if legacy then raise_hinted StateError ''legacy key state requires migration'' [''keys'', ''generate'']
               else body \<lparr>view_paths = with_data paths (current_path paths), view_generation = None\<rparr>)
           | Some (root, generation) \<Rightarrow>
               body \<lparr>view_paths = with_data paths root, view_generation = Some generation\<rparr>)))))"

definition read_state :: "instance_paths \<Rightarrow> (instance_paths \<Rightarrow> 'a io) \<Rightarrow> bool \<Rightarrow> 'a io" where
  "read_state paths reader required =
     locked_state_view paths required False True (\<lambda>view. reader (view_paths view))"

subsection \<open>Trees\<close>

text \<open>
  The \<open>shutil\<close> and \<open>os.walk\<close> recursions. Their fuel is one more than the length of the
  longest path of the store, which no directory below it exceeds; running out would be
  a \<open>Halt\<close>, and the lemmas on fuel show that it does not happen.
\<close>

definition tree_depth :: "world \<Rightarrow> nat" where
  "tree_depth w = foldr (\<lambda>e. max (length (fst e))) (disk w) 0"

definition out_of_fuel :: "'a io" where
  "out_of_fuel = (\<lambda>w. (Halt, w))"

definition with_fuel :: "(nat \<Rightarrow> 'a io) \<Rightarrow> 'a io" where
  "with_fuel f = bind (gets tree_depth) (\<lambda>n. f (Suc n))"

text \<open>\<open>shutil.rmtree\<close>: children first, the first error ends it.\<close>

fun rmtree_at :: "nat \<Rightarrow> comps \<Rightarrow> unit io" where
  "rmtree_at 0 p = out_of_fuel"
| "rmtree_at (Suc n) p = bind (os_listdir p) (\<lambda>names.
     then_do (for_each (\<lambda>name. bind (os_lstat (p @ [name])) (\<lambda>info.
        if is_dir_node (Some info) then rmtree_at n (p @ [name]) else os_unlink (p @ [name]))) names)
     (os_rmdir p))"

definition rmtree :: "comps \<Rightarrow> unit io" where
  "rmtree p = with_fuel (\<lambda>n. rmtree_at n p)"

definition remove_owned :: "comps \<Rightarrow> unit io" where
  "remove_owned p = bind (lstat_optional p) (\<lambda>found. case found of
       None \<Rightarrow> ret ()
     | Some info \<Rightarrow> if is_dir_node (Some info) then rmtree p else os_unlink p)"

text \<open>
  \<open>copystat\<close> restricted to the permission bits, \<open>copy2\<close> of a regular file, and
  \<open>copytree(symlinks=True)\<close>, which collects the errors of its entries and raises at
  the end.
\<close>

definition copy_mode :: "comps \<Rightarrow> comps \<Rightarrow> unit io" where
  "copy_mode src dst = bind (os_lstat src) (\<lambda>info. case info of
       File m _ _ \<Rightarrow> os_chmod dst m | Dir m _ \<Rightarrow> os_chmod dst m | _ \<Rightarrow> ret ())"

definition copy2 :: "comps \<Rightarrow> comps \<Rightarrow> unit io" where
  "copy2 src dst = bind (read_bytes src) (\<lambda>content.
     bind (os_open_creat dst 0x1B6) (\<lambda>fd.
     then_do (try_finally (os_write fd content) (os_close fd)) (copy_mode src dst)))"

definition attempt :: "unit io \<Rightarrow> bool io" where
  "attempt m = try_except (then_do m (ret True)) is_OSError (\<lambda>_. ret False)"

function makedirs :: "comps \<Rightarrow> unit io" where
  "makedirs p =
     (if p = [] then os_mkdir p 0x1FF
      else bind (p_exists (butlast p)) (\<lambda>e.
        then_do (when_do (\<not> e) (suppress (\<lambda>x. x = OSError EEXIST) (makedirs (butlast p))))
        (os_mkdir p 0x1FF)))"
  by pat_completeness auto
termination
  by (relation "measure length") auto

declare makedirs.simps [simp del]

fun copytree_at :: "nat \<Rightarrow> comps \<Rightarrow> comps \<Rightarrow> unit io" where
  "copytree_at 0 src dst = out_of_fuel"
| "copytree_at (Suc n) src dst = bind (os_listdir src) (\<lambda>names.
     then_do (makedirs dst)
    (bind (map_each (\<lambda>name. attempt (bind (os_lstat (src @ [name])) (\<lambda>info. case info of
          Symlink t \<Rightarrow> os_symlink t (dst @ [name])
        | Dir _ _ \<Rightarrow> copytree_at n (src @ [name]) (dst @ [name])
        | _ \<Rightarrow> copy2 (src @ [name]) (dst @ [name])))) names) (\<lambda>copied.
     bind (attempt (copy_mode src dst)) (\<lambda>stat_copied.
     require (list_all id copied \<and> stat_copied) (OSError EIO)))))"

definition copytree :: "comps \<Rightarrow> comps \<Rightarrow> unit io" where
  "copytree src dst = with_fuel (\<lambda>n. copytree_at n src dst)"

subsection \<open>Cleaning\<close>

text \<open>\<open>Path.glob(prefix*)\<close>: an unreadable directory yields nothing.\<close>

definition glob_names :: "comps \<Rightarrow> string \<Rightarrow> string list io" where
  "glob_names d pre = try_except
     (bind (os_listdir d) (\<lambda>names. ret (filter (\<lambda>n. startswith n pre) names)))
     is_OSError (\<lambda>_. ret [])"

definition clean_incomplete :: "instance_paths \<Rightarrow> unit io" where
  "clean_incomplete paths =
     (let generations = generations_path paths in
      bind (p_is_dir generations) (\<lambda>d.
      then_do (when_do d (bind (os_listdir generations) (\<lambda>names. for_each (\<lambda>name.
         when_do (STAGING_PATTERN name) (suppress is_OSError (remove_owned (generations @ [name])))) names)))
     (bind (glob_names (ip_state paths) ''.current-'') (\<lambda>names. for_each (\<lambda>name.
        then_do (require (TEMPORARY_CURRENT_PATTERN name)
          (StateError (''unexpected persistent-state object: '' @ show_path (ip_state paths @ [name]))))
        (suppress is_OSError (remove_owned (ip_state paths @ [name])))) names))))"

text \<open>The loop shared by the two removals of other generations, and its final sync.\<close>

definition remove_other_generations :: "comps \<Rightarrow> comps option \<Rightarrow> unit io" where
  "remove_other_generations generations active =
     bind (os_listdir generations) (\<lambda>names.
     then_do (for_each (\<lambda>name.
        if Some (generations @ [name]) = active then ret ()
        else then_do (require (GENERATION_PATTERN name)
               (StateError (''unexpected object in generations directory: '' @ show_path (generations @ [name]))))
             (suppress is_OSError (remove_owned (generations @ [name])))) names)
     (suppress is_OSError (fsync_directory generations)))"

definition clean_unreferenced_generations :: "instance_paths \<Rightarrow> comps option \<Rightarrow> unit io" where
  "clean_unreferenced_generations paths active =
     bind (p_is_dir (generations_path paths)) (\<lambda>d.
     when_do d (remove_other_generations (generations_path paths) active))"

definition clean_old_generations :: "instance_paths \<Rightarrow> comps \<Rightarrow> unit io" where
  "clean_old_generations paths active = remove_other_generations (generations_path paths) (Some active)"

definition clean_legacy_state :: "instance_paths \<Rightarrow> unit io" where
  "clean_legacy_state paths =
     then_do (for_each (\<lambda>name. bind (lstat_optional (ip_state paths @ [name])) (\<lambda>found. case found of
          None \<Rightarrow> ret ()
        | Some info \<Rightarrow>
            then_do (require (is_dir_node (Some info))
              (StateError (''refusing to remove unexpected legacy-state object: ''
                 @ show_path (ip_state paths @ [name]))))
            (remove_owned (ip_state paths @ [name])))) LEGACY_DATA_DIRECTORIES)
     (fsync_directory (ip_state paths))"

subsection \<open>Copying into the staging directory\<close>

definition copy_active :: "comps option \<Rightarrow> comps \<Rightarrow> unit io" where
  "copy_active source destination =
     then_do (mkdir_parents destination 0x1C0 False)
     (case source of
        None \<Rightarrow> ret ()
      | Some src \<Rightarrow> bind (os_listdir src) (\<lambda>names. for_each (\<lambda>name.
          if name = MANIFEST_FILE then ret ()
          else bind (os_lstat (src @ [name])) (\<lambda>info. case info of
              Dir _ _ \<Rightarrow> copytree (src @ [name]) (destination @ [name])
            | File _ _ _ \<Rightarrow> copy2 (src @ [name]) (destination @ [name])
            | _ \<Rightarrow> raise (StateError (''unexpected object in persistent state: '' @ show_path (src @ [name])))))
          names))"

definition copy_legacy_state :: "instance_paths \<Rightarrow> comps \<Rightarrow> unit io" where
  "copy_legacy_state paths destination = for_each (\<lambda>name.
     bind (lstat_optional (ip_state paths @ [name])) (\<lambda>found. case found of
       None \<Rightarrow> ret ()
     | Some info \<Rightarrow>
         then_do (require (is_dir_node (Some info))
           (StateError (''legacy state must be a directory: '' @ show_path (ip_state paths @ [name]))))
         (copytree (ip_state paths @ [name]) (destination @ [name])))) LEGACY_DATA_DIRECTORIES"

subsection \<open>Receipts\<close>

definition operation_path :: "(string \<Rightarrow> string) \<Rightarrow> comps \<Rightarrow> 'a state_operation \<Rightarrow> comps" where
  "operation_path sha256_hex root operation =
     root @ [''operations'', sha256_hex (request_id operation) @ ''.json'']"

definition receipt_value :: "'a state_operation \<Rightarrow> 'a \<Rightarrow> json" where
  "receipt_value operation r = JObj
     [(''schema_version'', JInt OPERATION_SCHEMA_VERSION), (''request_id'', JStr (request_id operation)),
      (''kind'', JStr (op_kind operation)), (''result'', op_encode operation r)]"

text \<open>\<open>_json_value\<close> accepts every value that \<open>json.loads\<close> returns and leaves it as it is.\<close>

definition receipt_matches :: "json \<Rightarrow> 'a state_operation \<Rightarrow> bool" where
  "receipt_matches v operation \<longleftrightarrow> is_JObj v
     \<and> json_is_int (jget v ''schema_version'') OPERATION_SCHEMA_VERSION
     \<and> json_str (jget v ''request_id'') = Some (request_id operation)
     \<and> json_str (jget v ''kind'') = Some (op_kind operation)
     \<and> jget v ''result'' \<noteq> None"

definition read_operation :: "(string \<Rightarrow> string) \<Rightarrow> comps \<Rightarrow> 'a state_operation \<Rightarrow> 'a option io" where
  "read_operation sha256_hex root operation =
     (let path = operation_path sha256_hex root operation in
      bind (lstat_optional path) (\<lambda>found. case found of
        None \<Rightarrow> ret None
      | Some info \<Rightarrow>
          then_do (require (is_file_node (Some info) \<and> node_size info \<le> MAX_MANIFEST_BYTES)
            (StateError (''invalid operation receipt: '' @ show_path path)))
         (bind (try_except
             (bind (read_text_utf8 path) (\<lambda>t. lift (loads t)))
             is_load_error
             (\<lambda>e. raise (StateError (''cannot read operation receipt '' @ show_path path @ '': '' @ exn_str e))))
           (\<lambda>v. then_do (require (receipt_matches v operation)
               (StateError (''operation ID was already used for another request: '' @ request_id operation)))
             (bind (lift (op_decode operation (the (jget v ''result'')))) (\<lambda>r. ret (Some r)))))))"

definition write_operation :: "(string \<Rightarrow> string) \<Rightarrow> comps \<Rightarrow> 'a state_operation \<Rightarrow> 'a \<Rightarrow> unit io" where
  "write_operation sha256_hex root operation r =
     atomic_write_json (operation_path sha256_hex root operation) (receipt_value operation r) 0x180"

subsection \<open>Publication\<close>

definition sync_entry :: "comps \<Rightarrow> unit io" where
  "sync_entry path = bind (os_lstat path) (\<lambda>info.
     then_do (require (is_dir_node (Some info) \<or> is_file_node (Some info))
       (StateError (''persistent state contains an unsafe object: '' @ show_path path)))
     (when_do (is_file_node (Some info))
       (bind (os_open path) (\<lambda>fd. try_finally (os_fsync fd) (os_close fd)))))"

text \<open>
  \<open>os.walk\<close> top down without an \<open>onerror\<close>: a directory that cannot be listed is
  skipped. The result is the list of the directories that were visited, in order.
\<close>

fun walk_sync :: "nat \<Rightarrow> comps \<Rightarrow> comps list io" where
  "walk_sync 0 d = out_of_fuel"
| "walk_sync (Suc n) d =
     bind (try_except (bind (os_listdir d) (\<lambda>names. ret (Some names))) is_OSError (\<lambda>_. ret None)) (\<lambda>listed.
     case listed of
       None \<Rightarrow> ret []
     | Some found \<Rightarrow>
         bind (gets (\<lambda>w. filter (\<lambda>x. is_dir_node (follow 40 w (d @ [x]))) found)) (\<lambda>names.
         then_do (for_each (\<lambda>x. sync_entry (d @ [x])) (names @ filter (\<lambda>x. x \<notin> set names) found))
        (bind (map_each (\<lambda>x. walk_sync n (d @ [x])) names) (\<lambda>below.
         ret (d # concat below)))))"

definition fsync_tree :: "comps \<Rightarrow> unit io" where
  "fsync_tree root = bind (with_fuel (\<lambda>n. walk_sync n root)) (\<lambda>directories.
     for_each fsync_directory (rev directories))"

definition publish :: "instance_paths \<Rightarrow> comps \<Rightarrow> string \<Rightarrow> comps io" where
  "publish paths staging generation =
     (let generations = generations_path paths;
          final = generations @ [generation];
          temporary_link = ip_state paths @ [''.current-'' @ generation] in
      then_do (atomic_write_json (staging @ [MANIFEST_FILE]) (manifest_value generation) 0x180)
     (then_do (fsync_tree staging)
     (then_do (os_replace staging final)
     (then_do (fsync_directory generations)
     (then_do (os_symlink (GENERATIONS_DIR @ ''/'' @ generation) temporary_link)
     (then_do (fsync_directory (ip_state paths))
     (then_do (os_replace temporary_link (current_path paths))
     (then_do (fsync_directory (ip_state paths))
      (ret final)))))))))"

subsection \<open>\<open>mutate_state\<close>\<close>

text \<open>
  The \<open>try\<close> block up to the publication: \<open>Inl r\<close> is the early return of an
  unpublished result, \<open>Inr (r, final)\<close> the result and the published generation.
\<close>

definition build_generation ::
  "(string \<Rightarrow> string) \<Rightarrow> instance_paths \<Rightarrow> (instance_paths \<Rightarrow> 'a io) \<Rightarrow> (instance_paths \<Rightarrow> unit io)
   \<Rightarrow> ('a \<Rightarrow> bool) option \<Rightarrow> 'a state_operation option \<Rightarrow> (comps \<times> string) option
   \<Rightarrow> comps \<Rightarrow> string \<Rightarrow> ('a + 'a \<times> comps) io" where
  "build_generation sha256_hex paths mutator validator publish_if operation active staging generation =
     then_do (copy_active (map_option fst active) staging)
    (then_do (when_do (active = None) (copy_legacy_state paths staging))
    (let staged_paths = with_data paths staging in
     bind (mutator staged_paths) (\<lambda>r.
     if (case publish_if of None \<Rightarrow> False | Some p \<Rightarrow> \<not> p r)
     then then_do (remove_owned staging) (ret (Inl r))
     else
       then_do (case operation of None \<Rightarrow> ret () | Some oper \<Rightarrow> write_operation sha256_hex staging oper r)
      (then_do (validator staged_paths)
      (bind (publish paths staging generation) (\<lambda>final. ret (Inr (r, final))))))))"

text \<open>The rest of the block, after \<open>final\<close> is known.\<close>

definition verify_publication ::
  "instance_paths \<Rightarrow> (instance_paths \<Rightarrow> unit io) \<Rightarrow> comps \<Rightarrow> unit io" where
  "verify_publication paths validator final =
     bind (active_generation paths True) (\<lambda>published.
     then_do (require (map_option fst published = Some final)
       (StateError ''persistent-state publication could not be verified''))
     (validator (with_data paths final)))"

text \<open>The handler; a generation is removed again only while no pointer exists.\<close>

definition abandon :: "instance_paths \<Rightarrow> comps \<Rightarrow> comps option \<Rightarrow> exn \<Rightarrow> 'a io" where
  "abandon paths staging final e =
     then_do (suppress is_OSError (remove_owned staging))
    (then_do (case final of
        None \<Rightarrow> ret ()
      | Some f \<Rightarrow> bind (p_exists (current_path paths)) (\<lambda>c.
          when_do (\<not> c) (suppress is_OSError (remove_owned f))))
     (raise e))"

definition completed_operation ::
  "(string \<Rightarrow> string) \<Rightarrow> (comps \<times> string) option \<Rightarrow> 'a state_operation option \<Rightarrow> 'a option io" where
  "completed_operation sha256_hex active operation = (case (active, operation) of
       (Some (root, _), Some oper) \<Rightarrow> read_operation sha256_hex root oper
     | _ \<Rightarrow> ret None)"

definition build_and_publish ::
  "(string \<Rightarrow> string) \<Rightarrow> string \<Rightarrow> instance_paths \<Rightarrow> (instance_paths \<Rightarrow> 'a io) \<Rightarrow> (instance_paths \<Rightarrow> unit io)
   \<Rightarrow> ('a \<Rightarrow> bool) option \<Rightarrow> 'a state_operation option \<Rightarrow> (comps \<times> string) option \<Rightarrow> 'a io" where
  "build_and_publish sha256_hex uuid_hex paths mutator validator publish_if operation active =
     (let generation = ''gen-'' @ uuid_hex;
          staging = generations_path paths @ [''.staging-'' @ drop 4 generation] in
      bind (try_except
         (build_generation sha256_hex paths mutator validator publish_if operation active staging generation)
         (\<lambda>_. True) (abandon paths staging None)) (\<lambda>built. case built of
        Inl r \<Rightarrow> ret r
      | Inr (r, final) \<Rightarrow>
          then_do (try_except (verify_publication paths validator final) (\<lambda>_. True)
             (abandon paths staging (Some final)))
         (then_do (clean_old_generations paths final)
         (then_do (clean_legacy_state paths)
          (ret r)))))"

definition mutate_state ::
  "(string \<Rightarrow> string) \<Rightarrow> string \<Rightarrow> instance_paths \<Rightarrow> (instance_paths \<Rightarrow> 'a io) \<Rightarrow> (instance_paths \<Rightarrow> unit io)
   \<Rightarrow> ('a \<Rightarrow> bool) option \<Rightarrow> 'a state_operation option \<Rightarrow> 'a io" where
  "mutate_state sha256_hex uuid_hex paths mutator validator publish_if operation =
     state_lock paths True False
       (then_do (ensure_private_directory (generations_path paths))
       (then_do (clean_incomplete paths)
       (bind (active_generation paths False) (\<lambda>active.
        then_do (clean_unreferenced_generations paths (map_option fst active))
       (bind (completed_operation sha256_hex active operation) (\<lambda>completed. case completed of
          Some r \<Rightarrow>
            then_do (validator (with_data paths (fst (the active))))
           (then_do (clean_legacy_state paths) (ret r))
        | None \<Rightarrow> build_and_publish sha256_hex uuid_hex paths mutator validator publish_if operation active))))))"

end
