(* ===== verification/ConfigProps.thy ===== *)
theory ConfigProps
  imports Config
begin

text \<open>
  The properties of \<open>config.py\<close>: what an accepted configuration promises to the
  components that render, route and start it, and what \<open>load_config\<close> lets through.
\<close>

subsection \<open>Exact acceptance\<close>

lemma wireguard_errors_iff:
  "wireguard_errors loc c = [] \<longleftrightarrow>
     validate_bind_scopes (bind_addresses c) = Inr ()
     \<and> validate_endpoint_host (endpoint_host c) = Inr ()
     \<and> 1 \<le> listen_port c \<and> listen_port c \<le> 65535 \<and> 1280 \<le> mtu c \<and> mtu c \<le> 9000
     \<and> list_all peer_ok (peers c) \<and> binds_ok (bind_addresses c) \<and> address_plan c"
  by (auto simp: wireguard_errors_def peers_errors_iff list_all_iff validate_network_iff)

text \<open>A bind address the sandbox can open: a scope exactly on link-local IPv6 addresses.\<close>

fun bind_scope_ok :: "ip_address \<Rightarrow> bool" where
  "bind_scope_ok (V4 a) = True"
| "bind_scope_ok (V6 a s) =
     (is_link_local (V6 a s) = (s \<noteq> None) \<and> (case s of None \<Rightarrow> True | Some sc \<Rightarrow> INTERFACE_PATTERN sc))"

lemma validate_bind_scopes_iff: "validate_bind_scopes as = Inr () \<longleftrightarrow> list_all bind_scope_ok as"
  by (induction "as" rule: validate_bind_scopes.induct)
    (auto simp del: is_link_local.simps split: option.splits)

text \<open>
  C15: the WireGuard section is accepted exactly when the ports and sizes are in range,
  the host is valid, every peer is well formed, the bind addresses are distinct explicit
  unicast addresses with a scope just where one is needed, and the addresses form a
  plan: at most one gateway per family, every peer address unicast, inside the network
  of the gateway of its family, no gateway address, and used once, under one name.
\<close>

theorem wireguard_accepted_iff:
  "wireguard_errors loc c = [] \<longleftrightarrow>
     validate_endpoint_host (endpoint_host c) = Inr ()
     \<and> 1 \<le> listen_port c \<and> listen_port c \<le> 65535 \<and> 1280 \<le> mtu c \<and> mtu c \<le> 9000
     \<and> list_all peer_ok (peers c) \<and> list_all bind_scope_ok (bind_addresses c)
     \<and> binds_ok (bind_addresses c) \<and> address_plan c"
  by (auto simp: wireguard_errors_iff validate_bind_scopes_iff)

subsection \<open>Routes and DNS\<close>

definition has_gateway :: "project_config \<Rightarrow> nat \<Rightarrow> bool" where
  "has_gateway c v \<longleftrightarrow> v \<in> if_version ` set (gateway_addresses (wireguard c))"

lemma unsupported_families_Nil:
  "unsupported_families c = [] \<longleftrightarrow> (\<forall>r \<in> set (effective_routes c). has_gateway c (net_version r))"
proof -
  have "unsupported_families c = [] \<longleftrightarrow> set (unsupported_families c) = {}"
    by simp
  then show ?thesis
    by (auto simp: unsupported_families_def has_gateway_def)
qed

definition dns_reachable :: "project_config \<Rightarrow> ip_address \<Rightarrow> bool" where
  "dns_reachable c up \<longleftrightarrow>
     (\<forall>g \<in> set (gateway_addresses (wireguard c)). \<not> in_network up (if_network g))
     \<and> (\<exists>r \<in> set (effective_routes c). in_network up r)
     \<and> (\<forall>p \<in> set (peers (wireguard c)). \<exists>i \<in> set (peer_addresses p). if_version i = version up)"

lemma cross_fields_iff:
  "validate_cross_fields c = Inr () \<longleftrightarrow>
     (\<forall>r \<in> set (effective_routes c). has_gateway c (net_version r))
     \<and> (\<forall>up. dns_enabled (dns c) \<and> upstream (dns c) = Some up \<longrightarrow> dns_reachable c up)"
proof (cases "unsupported_families c = []")
  case False
  then show ?thesis
    by (auto simp: validate_cross_fields_def unsupported_families_Nil)
next
  case True
  have fam: "(version up = if_version g \<and> in_network up (if_network g)) = in_network up (if_network g)" for up g
    using in_network_version [of up "if_network g"] by (auto simp: if_version_network)
  have net: "(net_version r = version up \<and> in_network up r) = in_network up r" for up r
    using in_network_version [of up r] by auto
  have nil: "(filter P xs = []) = (\<forall>x \<in> set xs. \<not> P x)" for P :: "peer_config \<Rightarrow> bool" and xs
    by (induction xs) auto
  show ?thesis
  proof (cases "dns_enabled (dns c) \<and> upstream (dns c) \<noteq> None")
    case False
    then show ?thesis
      using True unsupported_families_Nil [of c] by (auto simp: validate_cross_fields_def Let_def)
  next
    case dns: True
    then obtain up where up: "upstream (dns c) = Some up" by blast
    have "validate_cross_fields c = Inr () \<longleftrightarrow> dns_reachable c up"
      using True dns up
      by (simp add: validate_cross_fields_def Let_def dns_reachable_def list_ex_iff list_all_iff nil fam net)
    then show ?thesis
      using True unsupported_families_Nil [of c] dns up by simp
  qed
qed

lemma project_errors_Nil:
  "project_errors c = [] \<longleftrightarrow> config_version c = 1 \<and> PROJECT_PATTERN (project c)
     \<and> wireguard_errors [''wireguard''] (wireguard c) = [] \<and> ssh_errors [''ssh''] (ssh c) = []
     \<and> validate_routes (routing c) = Inr () \<and> validate_upstream (dns c) = Inr ()
     \<and> backend_errors [''backend''] (backend c) = [] \<and> validate_cross_fields c = Inr ()"
  by (auto simp: project_errors_def validate_version_def validate_project_def)

lemma upstream_accepted:
  "validate_upstream d = Inr () \<longleftrightarrow>
     (dns_enabled d \<longleftrightarrow> upstream d \<noteq> None)
     \<and> (\<forall>a. upstream d = Some a \<longrightarrow> \<not> is_unspecified a \<and> \<not> is_multicast a)"
  by (auto simp: validate_upstream_def guard_def split: option.splits)

text \<open>A concrete dual-stack configuration: the one of the test fixtures.\<close>

definition phone_config_example :: peer_config where
  "phone_config_example = \<lparr>peer_name = ''phone'',
     peer_addresses = [Iface (V4 0x0A4D0002) 32, Iface (V6 0xFD770000000000000000000000000002 None) 128],
     persistent_keepalive_seconds = 25\<rparr>"

definition tablet_config_example :: peer_config where
  "tablet_config_example = \<lparr>peer_name = ''tablet'',
     peer_addresses = [Iface (V4 0x0A4D0003) 32, Iface (V6 0xFD770000000000000000000000000003 None) 128],
     persistent_keepalive_seconds = 0\<rparr>"

definition wireguard_example :: wireguard_config where
  "wireguard_example = \<lparr>bind_addresses = [V4 0x7F000001, V6 1 None],
     endpoint_host = ''gate.example.test'', listen_port = 51820,
     gateway_addresses = [Iface (V4 0x0A4D0001) 24, Iface (V6 0xFD770000000000000000000000000001 None) 64],
     mtu = 1420, peers = [phone_config_example, tablet_config_example]\<rparr>"

definition ssh_example :: ssh_config where
  "ssh_example = \<lparr>ssh_host = ''ssh.example.test'', ssh_user = ''tester'', ssh_port = 2222,
     identity_file = Path False [''secrets'', ''id_ed25519''],
     known_hosts_file = Path False [''secrets'', ''known_hosts''], remote_python = ''python3'',
     connect_timeout_seconds = 10, server_alive_interval_seconds = 15, server_alive_count_max = 3\<rparr>"

definition project_example :: project_config where
  "project_example = \<lparr>config_version = 1, project = ''test-gate'', wireguard = wireguard_example,
     ssh = ssh_example,
     routing = \<lparr>routing_mode = Selected,
       networks = [Net4 0x0A000000 8, Net6 0xFD201234000000000000000000000000 None 48]\<rparr>,
     dns = \<lparr>dns_enabled = True, upstream = Some (V6 0xFD201234000000000000000000000053 None)\<rparr>,
     backend = \<lparr>backend_mode = ''sshuttle'', backend_method = ''nft-tproxy'',
       startup_timeout_seconds = 45, verbose = False\<rparr>\<rparr>"

definition full_example :: project_config where
  "full_example = project_example\<lparr>routing := \<lparr>routing_mode = Full, networks = []\<rparr>,
     dns := \<lparr>dns_enabled = True, upstream = Some (V4 0x01010101)\<rparr>\<rparr>"

lemmas pattern_defs = PROJECT_PATTERN_def PEER_PATTERN_def USER_PATTERN_def PYTHON_NAME_PATTERN_def
  PYTHON_PATH_PATTERN_def HOST_LABEL_PATTERN_def INTERFACE_PATTERN_def head_then_def run_of_def
  is_name_char_def char_class_defs

lemmas example_defs = phone_config_example_def tablet_config_example_def wireguard_example_def
  ssh_example_def project_example_def full_example_def

lemmas parse_ip_eval = parse_ip_def parse_v4_def parse_octet_def digit_val_def parse_v6_def
  parse_v6_number_def Let_def

lemma example_host: "validate_endpoint_host ''gate.example.test'' = Inr ()"
  "validate_endpoint_host ''ssh.example.test'' = Inr ()"
  by (simp_all add: validate_endpoint_host_def strip_def parse_ip_eval host_labels_def rstrip_dots_def
      pattern_defs)

lemma example_wireguard: "wireguard_errors [''wireguard''] wireguard_example = []"
  unfolding wireguard_errors_iff validate_bind_scopes_iff
  by (simp add: wireguard_example_def phone_config_example_def tablet_config_example_def example_host
      peer_ok_def required_prefix_def if_version_def pattern_defs binds_ok_def address_plan_def
      gateway_ok_def ipv4_mapped_def v4_multicast_def v4_link_local_def netmask4_def netmask6_def mask_numeral)

lemmas example_wireguard_fields =
  example_wireguard [unfolded wireguard_example_def phone_config_example_def tablet_config_example_def]

lemma example_ssh: "ssh_errors loc ssh_example = []"
  by (simp add: ssh_errors_def ssh_example_def example_host validate_user_def validate_remote_python_def
      validate_secret_path_def isprintable_def pattern_defs Let_def)

lemma example_project: "project_errors project_example = []"
  unfolding project_errors_Nil cross_fields_iff dns_reachable_def
  by (simp add: project_example_def example_wireguard_fields example_ssh backend_errors_def validate_backend_def
      validate_routes_def upstream_accepted effective_routes_def has_gateway_def
      wireguard_example_def phone_config_example_def tablet_config_example_def if_version_def pattern_defs
      ipv4_mapped_def v4_multicast_def netmask4_def netmask6_def mask_numeral)

lemma example_full: "project_errors full_example = []"
  unfolding project_errors_Nil cross_fields_iff dns_reachable_def
  by (simp add: full_example_def project_example_def example_wireguard_fields example_ssh backend_errors_def
      validate_backend_def validate_routes_def upstream_accepted effective_routes_def has_gateway_def
      wireguard_example_def phone_config_example_def tablet_config_example_def if_version_def pattern_defs
      v4_multicast_def netmask4_def netmask6_def mask_numeral in_default_route4)

text \<open>
  C34: in an accepted configuration every route handed to the phones and to sshuttle has
  a gateway of its family, and with DNS enabled the one upstream is a unicast address
  outside every gateway network, inside a route, and of a family every peer has.
\<close>

theorem accepted_routes_and_dns:
  assumes "project_errors c = []"
  shows "(\<forall>r \<in> set (effective_routes c). has_gateway c (net_version r))
    \<and> (dns_enabled (dns c) \<longleftrightarrow> upstream (dns c) \<noteq> None)
    \<and> (\<forall>up. upstream (dns c) = Some up \<longrightarrow>
         \<not> is_unspecified up \<and> \<not> is_multicast up \<and> dns_reachable c up)"
  using assms by (auto simp: project_errors_Nil cross_fields_iff upstream_accepted)

theorem accepted_routes_and_dns_witness:
  "dns_reachable project_example (V6 0xFD201234000000000000000000000053 None)"
proof -
  have "upstream (dns project_example) = Some (V6 0xFD201234000000000000000000000053 None)"
    by (simp add: project_example_def)
  then show ?thesis using accepted_routes_and_dns [OF example_project] by blast
qed

text \<open>
  full routing routes exactly the families of the gateways, and within them every
  address: nothing a peer can send falls beside the tunnel.
\<close>

theorem full_routing_covers:
  assumes "routing_mode (routing c) = Full" and "has_gateway c (version a)"
  shows "\<exists>r \<in> set (effective_routes c). in_network a r"
proof -
  have "version a = 4 \<or> version a = 6" by (cases a) auto
  then show ?thesis
    using assms in_default_route4 [of a] in_default_route6 [of a]
    by (auto simp: effective_routes_def has_gateway_def Let_def)
qed

theorem full_routing_covers_witness:
  "\<exists>r \<in> set (effective_routes full_example). in_network (V4 0x08080808) r"
proof -
  have "routing_mode (routing full_example) = Full" by (simp add: full_example_def)
  moreover have "has_gateway full_example (version (V4 0x08080808))"
    by (simp add: has_gateway_def full_example_def project_example_def wireguard_example_def if_version_def)
  ultimately show ?thesis by (rule full_routing_covers)
qed

end
