(* ===== verification/FilesProps.thy ===== *)
theory FilesProps
  imports Files ConfigProps
begin

text \<open>
  What the operations of \<open>files.py\<close> leave alone (rules for \<open>confined\<close> and \<open>keeps\<close>),
  and their properties: atomic replacement under every crash and I/O fault, and the
  confinement of secrets and exports.
\<close>

subsection \<open>Frames\<close>

lemma mkdir_plain_conf [obeys_rules]: "on_line r p \<Longrightarrow> obeys (confined r) (mkdir_plain p m e)"
  unfolding mkdir_plain_def by (intro obeys_rules)

lemma mkdir_parents_conf [obeys_rules]: "on_line r p \<Longrightarrow> obeys (confined r) (mkdir_parents p m e)"
proof (induction p m e rule: mkdir_parents.induct)
  case (1 p m e)
  show ?case
    by (subst mkdir_parents.simps) (intro obeys_rules 1 on_line_butlast; assumption)
qed

lemma mkdir_plain_keeps [obeys_rules]: "p \<notin> A \<Longrightarrow> obeys (keeps A) (mkdir_plain p m e)"
  unfolding mkdir_plain_def by (intro obeys_rules)

lemma mkdir_parents_keeps:
  "(\<And>q. prefix q p \<Longrightarrow> q \<notin> A) \<Longrightarrow> obeys (keeps A) (mkdir_parents p m e)"
proof (induction p m e rule: mkdir_parents.induct)
  case (1 p m e)
  have b: "prefix q (butlast p) \<Longrightarrow> q \<notin> A" for q
    using 1(2) [of q] by (meson prefix_order.order_trans prefixeq_butlast)
  show ?case
    by (subst mkdir_parents.simps) (intro obeys_rules 1(1) 1(2) b; simp)
qed

lemma ensure_private_directory_conf [obeys_rules]:
  "on_line r p \<Longrightarrow> obeys (confined r) (ensure_private_directory p)"
  unfolding ensure_private_directory_def
  by (intro obeys_rules) (auto dest: returns_opens)

lemma ensure_private_directory_keeps:
  "(\<And>q. prefix q p \<Longrightarrow> q \<notin> A) \<Longrightarrow> obeys (keeps A) (ensure_private_directory p)"
  unfolding ensure_private_directory_def
  by (intro obeys_rules mkdir_parents_keeps) (auto dest: returns_opens)

lemma fsync_directory_ro [obeys_rules]: "obeys same_store (fsync_directory p)"
  unfolding fsync_directory_def by (intro obeys_rules)

lemmas fsync_directory_conf [obeys_rules] = fsync_directory_ro [THEN reader_confined]
lemmas fsync_directory_keeps [obeys_rules] = fsync_directory_ro [THEN reader_keeps]

lemma stat_required_ro [obeys_rules]: "obeys same_store (stat_required p l)"
  unfolding stat_required_def by (intro obeys_rules)

lemma require_file_ro [obeys_rules]:
  "obeys same_store (require_private_file p l)" "obeys same_store (require_regular_file p l)"
  unfolding require_private_file_def require_regular_file_def by (intro obeys_rules)+

lemma read_text_secret_ro [obeys_rules]: "obeys same_store (read_text_secret p l)"
  unfolding read_text_secret_def by (intro obeys_rules)

lemma resolve_config_path_ro [obeys_rules]: "obeys same_store (resolve_config_path c p)"
  unfolding resolve_config_path_def by (intro obeys_rules)

lemma validate_ssh_files_ro [obeys_rules]: "obeys same_store (validate_ssh_files c p)"
  unfolding validate_ssh_files_def by (intro obeys_rules)

lemma resolve_export_path_ro [obeys_rules]: "obeys same_store (resolve_export_path p r)"
  unfolding resolve_export_path_def Let_def by (intro obeys_rules)

lemma mkstemp_obeys:
  assumes "\<And>u v w. R u v \<Longrightarrow> R v w \<Longrightarrow> R u w" and "\<And>w. R w w"
    and "\<And>w x. R w (w\<lparr>suffixes := x\<rparr>)" and "\<And>s. obeys R (os_open_excl (d @ [pre @ s]) 0x180)"
  shows "obeys R (mkstemp pre d)"
proof (rule obeysI)
  fix w
  show "R w (snd (mkstemp pre d w))"
    using assms(4)
  proof (induction pre d w rule: mkstemp.induct)
    case (1 pre d w)
    show ?case
    proof (cases "suffixes w")
      case Nil
      then show ?thesis by (subst mkstemp.simps) (simp add: assms)
    next
      case (Cons s ss)
      obtain r w1 where o: "os_open_excl (d @ [pre @ s]) 0x180 (w\<lparr>suffixes := ss\<rparr>) = (r, w1)" by fastforce
      have w1: "R w w1" using assms(1) [OF assms(3) obeysD [OF 1(2) o]] .
      have "R w (snd (mkstemp pre d (w1\<lparr>suffixes := ss\<rparr>)))" if "r = Exn (OSError EEXIST)"
        using assms(1) [OF w1 assms(1) [OF assms(3) 1(1) [OF Cons o [symmetric] that refl]]] 1(2) by blast
      then show ?thesis
        using w1 Cons o by (subst mkstemp.simps) (auto split: outcome.splits)
    qed
  qed
qed

lemma mkstemp_hoare:
  assumes "\<And>w x. P w \<Longrightarrow> P (w\<lparr>suffixes := x\<rparr>)"
    and "\<And>s. hoare P (os_open_excl (d @ [pre @ s]) 0x180) (\<lambda>fd. Q (fd, d @ [pre @ s])) (\<lambda>_. P) P"
  shows "hoare P (mkstemp pre d) Q (\<lambda>_. P) P"
proof (rule hoareI)
  fix w
  assume "P w"
  then show "case mkstemp pre d w of (Ret a, w') \<Rightarrow> Q a w' | (Exn e, w') \<Rightarrow> P w' | (Halt, w') \<Rightarrow> P w'"
    using assms(2)
  proof (induction pre d w rule: mkstemp.induct)
    case (1 pre d w)
    show ?case
    proof (cases "suffixes w")
      case Nil
      then show ?thesis using 1(2) by (subst mkstemp.simps) simp
    next
      case (Cons s ss)
      obtain r w1 where o: "os_open_excl (d @ [pre @ s]) 0x180 (w\<lparr>suffixes := ss\<rparr>) = (r, w1)" by fastforce
      note post = 1(3) [of s, unfolded hoare_def, rule_format, OF assms(1) [OF 1(2)], of ss, unfolded o]
      show ?thesis
      proof (cases r)
        case (Exn e)
        then have P1: "P (w1\<lparr>suffixes := ss\<rparr>)" using post assms(1) by simp
        show ?thesis
          using 1(1) [OF Cons o [symmetric] Exn _ P1 1(3)] Cons o Exn post
          by (subst mkstemp.simps) simp
      qed (use post Cons o in \<open>subst mkstemp.simps, simp\<close>)+
    qed
  qed
qed

text \<open>\<open>confined\<close> for the whole replacement: nothing outside the parent directory changes.\<close>

lemma mkstemp_returns: "returns (mkstemp pre d) r \<Longrightarrow> fd_path (fst r) = snd r \<and> (\<exists>s. snd r = d @ [pre @ s])"
proof (erule returnsE)
  fix w w'
  have "hoare (\<lambda>_. True) (mkstemp pre d) (\<lambda>r _. fd_path (fst r) = snd r \<and> (\<exists>s. snd r = d @ [pre @ s]))
      (\<lambda>_ _. True) (\<lambda>_. True)"
  proof (rule mkstemp_hoare)
    fix s
    show "hoare (\<lambda>_. True) (os_open_excl (d @ [pre @ s]) 0x180)
        (\<lambda>fd _. fd_path (fst (fd, d @ [pre @ s])) = snd (fd, d @ [pre @ s])
           \<and> (\<exists>s'. snd (fd, d @ [pre @ s]) = d @ [pre @ s'])) (\<lambda>_ _. True) (\<lambda>_. True)"
      by (auto simp: hoare_def split: outcome.splits intro!: returns_open_excl dest: returnsI)
  qed simp
  then show "mkstemp pre d w = (Ret r, w') \<Longrightarrow> fd_path (fst r) = snd r \<and> (\<exists>s. snd r = d @ [pre @ s])"
    by (auto dest: hoare_RetD)
qed

lemma mkstemp_conf [obeys_rules]: "prefix r d \<Longrightarrow> obeys (confined r) (mkstemp pre d)"
  by (rule mkstemp_obeys) (auto simp: conf.refl on_line_def intro: conf.trans os_open_excl_conf,
      simp add: confined_def)

lemma unlink_missing_ok_conf [obeys_rules]: "on_line r p \<Longrightarrow> obeys (confined r) (unlink_missing_ok p)"
  unfolding unlink_missing_ok_def by (intro obeys_rules)

lemma unlink_missing_ok_keeps [obeys_rules]: "p \<notin> A \<Longrightarrow> obeys (keeps A) (unlink_missing_ok p)"
  unfolding unlink_missing_ok_def by (intro obeys_rules)

lemma atomic_write_bytes_conf [obeys_rules]:
  assumes "prefix r (butlast path)"
  shows "obeys (confined r) (atomic_write_bytes path c m)"
proof -
  have "prefix r path" using assms by (meson prefix_order.order_trans prefixeq_butlast)
  then show ?thesis
    using assms unfolding atomic_write_bytes_def
    by (intro obeys_rules) (auto dest!: mkstemp_returns simp: on_line_def)
qed

lemma atomic_write_conf [obeys_rules]:
  "prefix r (butlast path) \<Longrightarrow> obeys (confined r) (atomic_write path s m)"
  "prefix r (butlast path) \<Longrightarrow> obeys (confined r) (atomic_write_json path v m)"
  unfolding atomic_write_json_def atomic_write_def by (intro obeys_rules; assumption)+

subsection \<open>Atomic replacement\<close>

text \<open>The temporary name is a sibling of the target that is never the target itself.\<close>

lemma temp_apart:
  assumes "path \<noteq> []"
  shows "\<not> prefix (butlast path @ [temp_prefix path @ s]) path"
    and "\<not> prefix path (butlast path @ [temp_prefix path @ s])"
    and "path \<noteq> butlast path @ [temp_prefix path @ s]"
proof -
  obtain d x where p: "path = d @ [x]" using assms by (cases path rule: rev_cases) auto
  have "temp_prefix path @ s \<noteq> x"
    unfolding temp_prefix_def name_of_def p by (auto dest: arg_cong [of _ _ length])
  then show "\<not> prefix (butlast path @ [temp_prefix path @ s]) path"
    "\<not> prefix path (butlast path @ [temp_prefix path @ s])"
    "path \<noteq> butlast path @ [temp_prefix path @ s]"
    unfolding p by (auto simp: prefix_def)
qed

text \<open>
  The world while the temporary file is written: the target still has its old node,
  its parent is a directory, the temporary file is open.
\<close>

definition replacing :: "comps \<Rightarrow> node option \<Rightarrow> nat \<Rightarrow> descriptor \<Rightarrow> world \<Rightarrow> bool" where
  "replacing path old u fd w \<longleftrightarrow> node_at w path = old \<and> uid w = u \<and> dir_at w (butlast path)
     \<and> fd \<in> set (handles w) \<and> (\<exists>m c. node_at w (fd_path fd) = Some (File m u c))"

definition temp_is :: "descriptor \<Rightarrow> nat \<Rightarrow> string \<Rightarrow> world \<Rightarrow> bool" where
  "temp_is fd m c w \<longleftrightarrow> node_at w (fd_path fd) = Some (File m (uid w) c)"

definition old_or_new :: "comps \<Rightarrow> node option \<Rightarrow> node \<Rightarrow> world \<Rightarrow> bool" where
  "old_or_new path old new w \<longleftrightarrow> node_at w path = old \<or> node_at w path = Some new"

definition installed :: "comps \<Rightarrow> node \<Rightarrow> world \<Rightarrow> bool" where
  "installed path new w \<longleftrightarrow> node_at w path = Some new \<and> path \<notin> unsynced w
     \<and> dir_at w (butlast path) \<and> butlast path \<notin> unsynced w"

lemma butlast_neq: "path \<noteq> [] \<Longrightarrow> butlast path \<noteq> path"
  by (metis append_butlast_last_id append_self_conv not_Cons_self2)

lemma handles_updates [simp]:
  "handles (put_node p n w) = handles w" "handles (mark p w) = handles w"
  by (simp_all add: put_node_def mark_def)

lemma dir_at_simps [simp]:
  "dir_at (mark p w) q = dir_at w q" "dir_at (w\<lparr>fates := x\<rparr>) q = dir_at w q"
  "dir_at (w\<lparr>unsynced := u\<rparr>) q = dir_at w q" "dir_at (w\<lparr>handles := h\<rparr>) q = dir_at w q"
  "dir_at (w\<lparr>locks := l\<rparr>) q = dir_at w q" "dir_at (w\<lparr>suffixes := f\<rparr>) q = dir_at w q"
  "dir_at (w\<lparr>next_fd := k\<rparr>) q = dir_at w q"
  by (simp_all add: dir_at_def)

lemma dir_at_put [simp]: "dir_at (put_node p n w) q = (if q = p then is_dir_node (Some n) else dir_at w q)"
  by (simp add: dir_at_def)

lemma replacing_distinct:
  "replacing path old u fd w \<Longrightarrow> fd_path fd \<noteq> butlast path"
  by (auto simp: replacing_def dir_at_def)

lemma hoare_fchmod_temp:
  assumes "fd_path fd \<noteq> path"
  shows "hoare (replacing path old u fd) (os_fchmod fd m)
    (\<lambda>_ w. replacing path old u fd w \<and> (\<exists>c. temp_is fd m c w)) (\<lambda>_. old_or_new path old n) (old_or_new path old n)"
  unfolding os_fchmod_def
proof (rule hoare_syscall)
  show "hoare (replacing path old u fd) (with_handle fd (\<lambda>p n w. (Ret (), mark p (put_node p (set_mode m n) w))))
    (\<lambda>_ w. replacing path old u fd w \<and> (\<exists>c. temp_is fd m c w)) (\<lambda>_. old_or_new path old n) (old_or_new path old n)"
  proof (rule hoareI)
    fix w
    assume r: "replacing path old u fd w"
    then obtain m0 c0 where "node_at w (fd_path fd) = Some (File m0 u c0)" by (auto simp: replacing_def)
    then show "case with_handle fd (\<lambda>p n w. (Ret (), mark p (put_node p (set_mode m n) w))) w of
        (Ret _, w') \<Rightarrow> replacing path old u fd w' \<and> (\<exists>c. temp_is fd m c w')
      | (Exn _, w') \<Rightarrow> old_or_new path old n w' | (Halt, w') \<Rightarrow> old_or_new path old n w'"
      using r assms replacing_distinct [OF r] by (simp add: with_handle_def replacing_def temp_is_def)
  qed
qed (auto simp: replacing_def old_or_new_def)

lemma store_data_at:
  "node_at w p = Some (File m u c0) \<Longrightarrow> store_data p s w = mark p (put_node p (File m u s) w)"
  by (simp add: store_data_def)

lemma hoare_write_temp:
  assumes "fd_path fd \<noteq> path"
  shows "hoare (\<lambda>w. replacing path old u fd w \<and> (\<exists>c. temp_is fd m c w)) (os_write fd content)
    (\<lambda>_ w. replacing path old u fd w \<and> temp_is fd m content w) (\<lambda>_. old_or_new path old n) (old_or_new path old n)"
  (is "hoare ?P _ ?Q _ _")
  unfolding os_write_def
proof (rule hoare_syscall_torn)
  have store: "replacing path old u fd (store_data (fd_path fd) s w) \<and> temp_is fd m s (store_data (fd_path fd) s w)"
    and data: "\<exists>c. node_at w (fd_path fd) = Some (File m u c)" if P: "?P w" for s w
  proof -
    obtain c0 where c0: "node_at w (fd_path fd) = Some (File m u c0)"
      using P by (auto simp: replacing_def temp_is_def)
    then show "\<exists>c. node_at w (fd_path fd) = Some (File m u c)" by blast
    show "replacing path old u fd (store_data (fd_path fd) s w) \<and> temp_is fd m s (store_data (fd_path fd) s w)"
      unfolding store_data_at [OF c0]
      using P assms replacing_distinct [of path old u fd w]
      by (auto simp: replacing_def temp_is_def)
  qed
  show "hoare ?P (with_handle fd (\<lambda>p n w. case n of
         File m u _ \<Rightarrow> (Ret (), store_data p content w) | _ \<Rightarrow> (Exn (OSError EINVAL), w)))
     ?Q (\<lambda>_. old_or_new path old n) (old_or_new path old n)"
  proof (rule hoareI)
    fix w
    assume P: "?P w"
    obtain c0 where c0: "node_at w (fd_path fd) = Some (File m u c0)" using data [OF P] by blast
    have "fd \<in> set (handles w)" using P by (simp add: replacing_def)
    then have run: "with_handle fd (\<lambda>p n w. case n of
           File m u _ \<Rightarrow> (Ret (), store_data p content w) | _ \<Rightarrow> (Exn (OSError EINVAL), w)) w
        = (Ret (), store_data (fd_path fd) content w)"
      by (simp add: with_handle_def c0)
    show "case with_handle fd (\<lambda>p n w. case n of
           File m u _ \<Rightarrow> (Ret (), store_data p content w) | _ \<Rightarrow> (Exn (OSError EINVAL), w)) w of
        (Ret a, w') \<Rightarrow> ?Q a w' | (Exn _, w') \<Rightarrow> old_or_new path old n w' | (Halt, w') \<Rightarrow> old_or_new path old n w'"
      unfolding run using store [OF P] by simp
  qed
  show "old_or_new path old n (store_data (fd_path fd) (take k content) w)" if "?P w" for k w
    using store [OF that, of "take k content"] unfolding replacing_def old_or_new_def by blast
  then show "old_or_new path old n (store_data (fd_path fd) (take k content) w)" if "?P w" for k w
    using that .
  show "?P (w\<lparr>fates := x\<rparr>)" if "?P w" for w x
    using that unfolding replacing_def temp_is_def by auto
qed

lemma hoare_fsync_temp:
  "hoare (\<lambda>w. replacing path old u fd w \<and> temp_is fd m c w) (os_fsync fd)
    (\<lambda>_ w. replacing path old u fd w \<and> temp_is fd m c w \<and> fd_path fd \<notin> unsynced w)
    (\<lambda>_. old_or_new path old n) (old_or_new path old n)"
  unfolding os_fsync_def
proof (rule hoare_syscall)
  show "hoare (\<lambda>w. replacing path old u fd w \<and> temp_is fd m c w)
    (with_handle fd (\<lambda>p n w. (Ret (), w\<lparr>unsynced := unsynced w - {p}\<rparr>)))
    (\<lambda>_ w. replacing path old u fd w \<and> temp_is fd m c w \<and> fd_path fd \<notin> unsynced w)
    (\<lambda>_. old_or_new path old n) (old_or_new path old n)"
    by (auto simp: hoare_def with_handle_def replacing_def temp_is_def)
qed (auto simp: replacing_def old_or_new_def temp_is_def)

lemma os_close_handle:
  "hoare (\<lambda>w. P w \<and> fd \<in> set (handles w)) (os_close fd)
    (\<lambda>_ w'. \<exists>w. P w \<and> w' = w\<lparr>handles := filter (\<lambda>h. h \<noteq> fd) (handles w),
       locks := filter (\<lambda>l. fst l \<noteq> fd) (locks w)\<rparr>) (\<lambda>_ _. False) (\<lambda>_. False)"
  by (auto simp: hoare_def os_close_def)

lemma os_close_keeps_node: "obeys (keeps {p}) (os_close fd)"
  by (intro obeys_rules)

text \<open>The write and sync under \<open>with\<close>: the descriptor is closed on every exit.\<close>

lemma old_or_new_keeps: "keeps {path} w w' \<Longrightarrow> old_or_new path old n w \<Longrightarrow> old_or_new path old n w'"
  by (simp add: keeps_def old_or_new_def)

lemma hoare_old_or_new:
  assumes "obeys (keeps {path}) m"
  shows "hoare (old_or_new path old n) m (\<lambda>_. old_or_new path old n) (\<lambda>_. old_or_new path old n) (old_or_new path old n)"
proof (rule hoareI)
  fix w
  assume o: "old_or_new path old n w"
  obtain r w' where m: "m w = (r, w')" by fastforce
  have "old_or_new path old n w'" using obeysD [OF assms m] o by (rule old_or_new_keeps)
  then show "case m w of (Ret a, w') \<Rightarrow> old_or_new path old n w' | (Exn e, w') \<Rightarrow> old_or_new path old n w'
      | (Halt, w') \<Rightarrow> old_or_new path old n w'"
    by (cases r) (simp_all add: m)
qed

definition written :: "comps \<Rightarrow> node option \<Rightarrow> node \<Rightarrow> comps \<Rightarrow> world \<Rightarrow> bool" where
  "written path old n t w \<longleftrightarrow> node_at w path = old \<and> dir_at w (butlast path) \<and> node_at w t = Some n
     \<and> t \<notin> unsynced w"

lemma hoare_write_sync:
  assumes t: "fd_path fd \<noteq> path"
  shows "hoare (\<lambda>w. replacing path old u fd w \<and> (\<exists>c. temp_is fd m c w))
    (try_finally (then_do (os_write fd content) (os_fsync fd)) (os_close fd))
    (\<lambda>_. written path old (File m u content) (fd_path fd))
    (\<lambda>_. old_or_new path old (File m u content)) (old_or_new path old (File m u content))"
proof (rule hoare_try_finally)
  show "hoare (\<lambda>w. replacing path old u fd w \<and> (\<exists>c. temp_is fd m c w))
     (then_do (os_write fd content) (os_fsync fd))
     (\<lambda>_ w. replacing path old u fd w \<and> temp_is fd m content w \<and> fd_path fd \<notin> unsynced w)
     (\<lambda>_. old_or_new path old (File m u content)) (old_or_new path old (File m u content))"
    by (rule hoare_bind [OF hoare_write_temp [OF t]]) (rule hoare_fsync_temp)
next
  show "hoare (\<lambda>w. replacing path old u fd w \<and> temp_is fd m content w \<and> fd_path fd \<notin> unsynced w)
     (os_close fd) (\<lambda>_. written path old (File m u content) (fd_path fd))
     (\<lambda>_. old_or_new path old (File m u content)) (old_or_new path old (File m u content))"
    by (rule hoare_conseq [OF os_close_handle
          [of "\<lambda>w. replacing path old u fd w \<and> temp_is fd m content w \<and> fd_path fd \<notin> unsynced w"]])
      (auto simp: replacing_def temp_is_def written_def)
next
  fix e
  show "hoare (old_or_new path old (File m u content)) (os_close fd)
     (\<lambda>_. old_or_new path old (File m u content))
     (\<lambda>_. old_or_new path old (File m u content)) (old_or_new path old (File m u content))"
    by (rule hoare_old_or_new [OF os_close_keeps_node])
qed

lemma hoare_replace_temp:
  assumes p: "path \<noteq> []" and t: "\<not> prefix t path" "\<not> prefix path t" "butlast t = butlast path"
  shows "hoare (written path old n t) (os_replace t path)
    (\<lambda>_ w. node_at w path = Some n \<and> path \<notin> unsynced w \<and> dir_at w (butlast path))
    (\<lambda>_. old_or_new path old n) (old_or_new path old n)"
  unfolding os_replace_def
proof (rule hoare_syscall)
  have tn: "t \<noteq> path" using t(1) by auto
  have up: "\<not> prefix path (butlast path)" "\<not> prefix t (butlast path)" "butlast path \<noteq> path"
  proof -
    show "\<not> prefix path (butlast path)"
      using p by (metis diff_less length_butlast length_greater_0_conv not_le prefix_length_le zero_less_one)
    have "t \<noteq> []" using t(1) by auto
    then show "\<not> prefix t (butlast path)" unfolding t(3) [symmetric]
      by (metis diff_less length_butlast length_greater_0_conv not_le prefix_length_le zero_less_one)
    show "butlast path \<noteq> path" using butlast_neq [OF p] .
  qed
  have un: "path \<notin> unsynced (mark (butlast t) (mark (butlast path) (move_node t path w)))"
    if "t \<notin> unsynced w" for w
    using that t tn up by (auto simp: unsynced_move rebase_def prefix_def)
  show "hoare (written path old n t)
     (\<lambda>w. case replace_error w t path of
         Some e \<Rightarrow> (Exn (OSError e), w)
       | None \<Rightarrow> if t = path then (Ret (), w)
                else (Ret (), mark (butlast t) (mark (butlast path) (move_node t path w))))
     (\<lambda>_ w. node_at w path = Some n \<and> path \<notin> unsynced w \<and> dir_at w (butlast path))
     (\<lambda>_. old_or_new path old n) (old_or_new path old n)"
    using tn un up
    by (auto simp: hoare_def written_def old_or_new_def node_at_move [OF t(1,2)] dir_at_def
        simp del: unsynced_mark split: option.splits)
qed (auto simp: written_def old_or_new_def)

lemma follow_dir: "dir_at w d \<Longrightarrow> \<exists>m u. follow 40 w d = Some (Dir m u) \<and> follow_to 40 w d = d"
proof -
  assume "dir_at w d"
  then obtain m u where "node_at w d = Some (Dir m u)"
    by (auto simp: dir_at_def elim: is_dir_node.elims)
  moreover have "(40::nat) = Suc 39" by simp
  ultimately show ?thesis by (simp only: follow.simps follow_to.simps option.simps node.simps) blast
qed

lemma hoare_open_dir_follow:
  assumes stable: "\<And>w x. P w \<Longrightarrow> P (w\<lparr>fates := x\<rparr>)"
    "\<And>w h k. P w \<Longrightarrow> P (w\<lparr>handles := h, next_fd := k\<rparr>)" and dir: "\<And>w. P w \<Longrightarrow> dir_at w d"
  shows "hoare P (os_open_dir_follow d) (\<lambda>fd w. P w \<and> fd_path fd = d \<and> fd \<in> set (handles w)) (\<lambda>_. P) P"
  unfolding os_open_dir_follow_def
proof (rule hoare_syscall)
  show "hoare P (\<lambda>w. case follow 40 w d of
         None \<Rightarrow> (Exn (OSError ENOENT), w)
       | Some (Dir _ _) \<Rightarrow> new_handle (follow_to 40 w d) w
       | Some _ \<Rightarrow> (Exn (OSError ENOTDIR), w))
     (\<lambda>fd w. P w \<and> fd_path fd = d \<and> fd \<in> set (handles w)) (\<lambda>_. P) P"
  proof (rule hoareI)
    fix w
    assume P: "P w"
    then obtain m u where "follow 40 w d = Some (Dir m u)" "follow_to 40 w d = d"
      using follow_dir [OF dir [OF P]] by blast
    then show "case (case follow 40 w d of
         None \<Rightarrow> (Exn (OSError ENOENT), w)
       | Some (Dir _ _) \<Rightarrow> new_handle (follow_to 40 w d) w
       | Some _ \<Rightarrow> (Exn (OSError ENOTDIR), w)) of
       (Ret fd, w') \<Rightarrow> P w' \<and> fd_path fd = d \<and> fd \<in> set (handles w') | (Exn e, w') \<Rightarrow> P w' | (Halt, w') \<Rightarrow> P w'"
      using P stable(2) by (simp add: new_handle_def)
  qed
qed (use stable in auto)

lemma hoare_fsync_dir:
  assumes stable: "\<And>w x. P w \<Longrightarrow> P (w\<lparr>fates := x\<rparr>)"
    "\<And>w h k. P w \<Longrightarrow> P (w\<lparr>handles := h, next_fd := k\<rparr>)"
    "\<And>w h l. P w \<Longrightarrow> P (w\<lparr>handles := h, locks := l\<rparr>)"
    "\<And>w p. P w \<Longrightarrow> P (w\<lparr>unsynced := unsynced w - {p}\<rparr>)" and dir: "\<And>w. P w \<Longrightarrow> dir_at w d"
  shows "hoare P (fsync_directory d) (\<lambda>_ w. P w \<and> d \<notin> unsynced w) (\<lambda>_. P) P"
  unfolding fsync_directory_def
proof (rule hoare_bind [OF hoare_open_dir_follow])
  fix fd
  let ?H = "\<lambda>w. P w \<and> fd \<in> set (handles w)"
  have sync: "hoare (\<lambda>w. P w \<and> fd_path fd = d \<and> fd \<in> set (handles w)) (os_fsync fd)
      (\<lambda>_ w. (P w \<and> d \<notin> unsynced w) \<and> fd \<in> set (handles w)) (\<lambda>_. ?H) P"
    unfolding os_fsync_def
  proof (rule hoare_syscall)
    have "node_at w d \<noteq> None" if "P w" for w
      using dir [OF that] by (cases "node_at w d") (auto simp: dir_at_def)
    then show "hoare (\<lambda>w. P w \<and> fd_path fd = d \<and> fd \<in> set (handles w))
       (with_handle fd (\<lambda>p n w. (Ret (), w\<lparr>unsynced := unsynced w - {p}\<rparr>)))
       (\<lambda>_ w. (P w \<and> d \<notin> unsynced w) \<and> fd \<in> set (handles w)) (\<lambda>_. ?H) P"
      using stable(4) by (auto simp: hoare_def with_handle_def split: option.splits)
  qed (use stable in auto)
  show "hoare (\<lambda>w. P w \<and> fd_path fd = d \<and> fd \<in> set (handles w))
     (try_finally (os_fsync fd) (os_close fd)) (\<lambda>_ w. P w \<and> d \<notin> unsynced w) (\<lambda>_. P) P"
  proof (rule hoare_try_finally [OF sync])
    show "hoare (\<lambda>w. (P w \<and> d \<notin> unsynced w) \<and> fd \<in> set (handles w)) (os_close fd)
       (\<lambda>_ w. P w \<and> d \<notin> unsynced w) (\<lambda>_. P) P"
      by (rule hoare_conseq [OF os_close_handle [of "\<lambda>w. P w \<and> d \<notin> unsynced w"]]) (use stable in auto)
    show "hoare ?H (os_close fd) (\<lambda>_. P) (\<lambda>_. P) P"
      by (rule hoare_conseq [OF os_close_handle [of P]]) (use stable in auto)
  qed
qed (use assms in auto)

lemma hoare_install:
  assumes p: "path \<noteq> []" and t: "\<not> prefix t path" "\<not> prefix path t" "butlast t = butlast path"
  shows "hoare (written path old n t) (then_do (os_replace t path) (fsync_directory (butlast path)))
    (\<lambda>_. installed path n) (\<lambda>_. old_or_new path old n) (old_or_new path old n)"
proof (rule hoare_bind [OF hoare_replace_temp [OF assms]])
  show "hoare (\<lambda>w. node_at w path = Some n \<and> path \<notin> unsynced w \<and> dir_at w (butlast path))
     (fsync_directory (butlast path))
     (\<lambda>_. installed path n) (\<lambda>_. old_or_new path old n) (old_or_new path old n)"
    by (rule hoare_conseq [OF hoare_fsync_dir
          [of "\<lambda>w. node_at w path = Some n \<and> path \<notin> unsynced w \<and> dir_at w (butlast path)"]])
      (auto simp: installed_def old_or_new_def dir_at_def)
qed

lemma hoare_mkstemp_temp:
  assumes p: "path \<noteq> []"
  shows "hoare (\<lambda>w. node_at w path = old \<and> uid w = u \<and> dir_at w (butlast path))
    (mkstemp (temp_prefix path) (butlast path))
    (\<lambda>(fd, t) w. fd_path fd = t \<and> (\<exists>s. t = butlast path @ [temp_prefix path @ s]) \<and> replacing path old u fd w)
    (\<lambda>_ w. node_at w path = old \<and> uid w = u \<and> dir_at w (butlast path))
    (\<lambda>w. node_at w path = old \<and> uid w = u \<and> dir_at w (butlast path))"
  (is "hoare ?P _ ?Q _ _")
proof (rule mkstemp_hoare)
  fix s
  let ?t = "butlast path @ [temp_prefix path @ s]"
  have t: "?t \<noteq> path" "butlast path \<noteq> ?t" using temp_apart(3) [OF p, of s] by auto
  show "hoare ?P (os_open_excl ?t 0x180) (\<lambda>fd. ?Q (fd, ?t)) (\<lambda>_. ?P) ?P"
    unfolding os_open_excl_def
    by (rule hoare_syscall) (use t in \<open>auto simp: hoare_def new_handle_def replacing_def\<close>)
qed auto

lemma hoare_open_dir:
  "hoare (\<lambda>_. True) (os_open_dir d) (\<lambda>fd w. fd_path fd = d \<and> dir_at w d) (\<lambda>_ _. True) (\<lambda>_. True)"
  unfolding os_open_dir_def
  by (rule hoare_syscall)
    (auto simp: hoare_def new_handle_def dir_at_def split: option.splits node.splits)

lemma hoare_dir_same: "obeys same_store m \<Longrightarrow> hoare (\<lambda>w. dir_at w d) m (\<lambda>_ w. dir_at w d) (\<lambda>_ _. True) (\<lambda>_. True)"
  by (rule hoare_conseq [OF hoare_obeys [of same_store m "\<lambda>w. dir_at w d"]])
    (auto simp: same_store_def dir_at_def node_at_def)

lemma set_mode_dir [simp]: "is_dir_node (Some (set_mode m n)) = is_dir_node (Some n)"
  by (cases n) auto

lemma hoare_fchmod_dir:
  "hoare (\<lambda>w. dir_at w d) (os_fchmod fd m) (\<lambda>_ w. dir_at w d) (\<lambda>_ _. True) (\<lambda>_. True)"
  unfolding os_fchmod_def
  by (rule hoare_syscall) (auto simp: hoare_def with_handle_def dir_at_def split: option.splits)

lemma hoare_private_directory:
  "hoare (\<lambda>_. True) (ensure_private_directory d) (\<lambda>_ w. dir_at w d) (\<lambda>_ _. True) (\<lambda>_. True)"
proof -
  have T: "hoare (\<lambda>_. True) m (\<lambda>_ _. True) (\<lambda>_ _. True) (\<lambda>_. True)" for m :: "'x io"
    by (simp add: hoare_def split: outcome.splits prod.splits)
  have open': "hoare (\<lambda>_. True) (try_except (then_do (mkdir_parents d 0x1C0 True) (os_open_dir d)) is_OSError
      (\<lambda>_. raise (StateError (''cannot create or open private directory: '' @ show_path d))))
      (\<lambda>fd w. fd_path fd = d \<and> dir_at w d) (\<lambda>_ _. True) (\<lambda>_. True)"
    by (rule hoare_try_except [OF hoare_bind [OF T hoare_open_dir]]) (auto intro: hoare_raise)
  have claim: "hoare (\<lambda>w. fd_path fd = d \<and> dir_at w d) (try_finally
      (bind (os_fstat fd) (\<lambda>info. bind (gets uid) (\<lambda>me.
         then_do (require (owned_dir me info)
           (StateError (''private directory ownership or type is invalid: '' @ show_path d)))
         (os_fchmod fd 0x1C0)))) (os_close fd)) (\<lambda>_ w. dir_at w d) (\<lambda>_ _. True) (\<lambda>_. True)" for fd
    by (rule hoare_pre [where P = "\<lambda>w. dir_at w d"],
        rule hoare_try_finally [where ?Q1.0 = "\<lambda>_ w. dir_at w d" and ?E1.0 = "\<lambda>_ _. True"],
        (rule hoare_bind hoare_fchmod_dir hoare_dir_same obeys_rules T)+) simp
  show ?thesis
    unfolding ensure_private_directory_def
    by (rule hoare_bind [OF T], rule hoare_bind [OF T], rule hoare_bind [OF open' claim])
qed

lemma atomic_write_outcome:
  assumes p: "path \<noteq> []"
  shows "case atomic_write_bytes path content mode w of
      (Ret _, w') \<Rightarrow> installed path (File mode (uid w) content) w'
    | (_, w') \<Rightarrow> node_at w' path = node_at w path \<or> node_at w' path = Some (File mode (uid w) content)"
proof -
  let ?n = "File mode (uid w) content"
  let ?J = "\<lambda>v. node_at v path = node_at w path \<and> uid v = uid w"
  let ?O = "old_or_new path (node_at w path) ?n"
  have ensure: "hoare (\<lambda>v. True \<and> ?J v) (ensure_private_directory (butlast path))
      (\<lambda>_ v. dir_at v (butlast path) \<and> ?J v) (\<lambda>_ v. True \<and> ?J v) (\<lambda>v. True \<and> ?J v)"
  proof (rule hoare_stable [OF hoare_private_directory])
    have "q \<noteq> path" if "prefix q (butlast path)" for q
      using that p by (metis butlast_neq prefix_order.antisym prefixeq_butlast)
    then show "obeys (keeps {path}) (ensure_private_directory (butlast path))"
      by (intro ensure_private_directory_keeps) auto
  qed (simp add: keeps_def)
  have body: "hoare (\<lambda>v. fd_path fd = t \<and> (\<exists>s. t = butlast path @ [temp_prefix path @ s])
        \<and> replacing path (node_at w path) (uid w) fd v)
      (try_except
       (then_do (os_fchmod fd mode)
       (then_do (try_finally (then_do (os_write fd content) (os_fsync fd)) (os_close fd))
       (then_do (os_replace t path) (fsync_directory (butlast path)))))
       (\<lambda>_. True)
       (\<lambda>e. then_do (suppress is_OSError (os_close fd)) (then_do (unlink_missing_ok t) (raise e))))
      (\<lambda>_. installed path ?n) (\<lambda>_. ?O) ?O" for fd t
  proof (cases "fd_path fd = t \<and> (\<exists>s. t = butlast path @ [temp_prefix path @ s])")
    case True
    then obtain s where t: "t = butlast path @ [temp_prefix path @ s]" and fd: "fd_path fd = t" by blast
    note apart = temp_apart [OF p, of s, folded t]
    have ne: "fd_path fd \<noteq> path" using fd apart(3) by simp
    have handler: "hoare ?O (then_do (suppress is_OSError (os_close fd)) (then_do (unlink_missing_ok t) (raise e)))
        (\<lambda>_. installed path ?n) (\<lambda>_. ?O) ?O" for e
    proof -
      have "obeys (keeps {path}) (then_do (suppress is_OSError (os_close fd)) (unlink_missing_ok t))"
        using apart(3) by (intro obeys_rules) auto
      from hoare_bind [OF hoare_old_or_new [OF this] hoare_raise [where e = e]]
      show ?thesis by (simp add: bind_assoc)
    qed
    have install: "hoare (written path (node_at w path) ?n (fd_path fd))
        (then_do (os_replace t path) (fsync_directory (butlast path)))
        (\<lambda>_. installed path ?n) (\<lambda>_. ?O) ?O"
      unfolding fd using apart by (intro hoare_install p) (simp_all add: t)
    show ?thesis
      by (rule hoare_pre [OF hoare_try_except [where ?E1.0 = "\<lambda>_. ?O",
            OF hoare_bind [OF hoare_fchmod_temp [OF ne] hoare_bind [OF hoare_write_sync [OF ne] install]]]])
        (use handler in auto)
  qed (auto simp: hoare_def)
  have "hoare ?J (atomic_write_bytes path content mode) (\<lambda>_. installed path ?n) (\<lambda>_. ?O) ?O"
    unfolding atomic_write_bytes_def
  proof (rule hoare_bind)
    show "hoare ?J (ensure_private_directory (butlast path))
        (\<lambda>_ v. node_at v path = node_at w path \<and> uid v = uid w \<and> dir_at v (butlast path)) (\<lambda>_. ?O) ?O"
      by (rule hoare_conseq [OF ensure]) (auto simp: old_or_new_def)
    show "hoare (\<lambda>v. node_at v path = node_at w path \<and> uid v = uid w \<and> dir_at v (butlast path))
        (bind (mkstemp (temp_prefix path) (butlast path)) (\<lambda>(fd, t). try_except
       (then_do (os_fchmod fd mode)
       (then_do (try_finally (then_do (os_write fd content) (os_fsync fd)) (os_close fd))
       (then_do (os_replace t path) (fsync_directory (butlast path)))))
       (\<lambda>_. True)
       (\<lambda>e. then_do (suppress is_OSError (os_close fd)) (then_do (unlink_missing_ok t) (raise e)))))
        (\<lambda>_. installed path ?n) (\<lambda>_. ?O) ?O"
      by (rule hoare_bind [where Q = "\<lambda>(fd, t) v. fd_path fd = t
             \<and> (\<exists>s. t = butlast path @ [temp_prefix path @ s])
             \<and> replacing path (node_at w path) (uid w) fd v"],
          rule hoare_conseq [OF hoare_mkstemp_temp [OF p]])
        (auto simp: old_or_new_def split: prod.splits intro: body)
  qed
  then show ?thesis
    by (force simp: hoare_def old_or_new_def split: outcome.splits prod.splits)
qed

text \<open>
  C12: an atomic write leaves, whatever system call fails and wherever the process
  stops, either the old object at its path or the complete new file with the requested
  mode, and nothing else changed outside the line of the parent directory; when it
  returns, the new file and its directory entry are both synced.
\<close>

theorem atomic_write_atomic:
  assumes "path \<noteq> []"
  shows "confined (butlast path) w (snd (atomic_write path s mode w))
    \<and> (case atomic_write path s mode w of
      (Ret _, w') \<Rightarrow> installed path (File mode (uid w) (utf8_encode s)) w'
    | (_, w') \<Rightarrow> node_at w' path = node_at w path
        \<or> node_at w' path = Some (File mode (uid w) (utf8_encode s)))"
  using atomic_write_outcome [OF assms, where content = "utf8_encode s" and mode = mode and w = w]
    atomic_write_bytes_conf [OF prefix_order.refl, of path "utf8_encode s" mode]
  by (simp add: atomic_write_def obeys_def)

theorem atomic_write_atomic_witness:
  "case atomic_write [''state''] ''data'' 0x180 (system_with [([], Dir 0x1ED 1000)]) of
      (Ret _, w') \<Rightarrow> installed [''state''] (File 0x180 1000 ''data'') w'
    | (_, w') \<Rightarrow> node_at w' [''state''] = None \<or> node_at w' [''state''] = Some (File 0x180 1000 ''data'')"
  using atomic_write_atomic [where path = "[''state'']" and s = "''data''" and mode = "0x180"
      and w = "system_with [([], Dir 0x1ED 1000)]"]
  by (auto simp: code_of_def split: outcome.splits prod.splits)

subsection \<open>Secrets and exports stay where they belong\<close>

definition private_file :: "world \<Rightarrow> comps \<Rightarrow> bool" where
  "private_file w p \<longleftrightarrow> (\<exists>m u d. node_at w p = Some (File m u d) \<and> m AND 0x3F = 0)"

lemma require_private_file_Ret:
  "require_private_file p l w = (Ret u, w') \<Longrightarrow> private_file w p \<and> disk w' = disk w"
  by (auto simp: require_private_file_def stat_required_def run_inv private_file_def open_to_others_def
      dest!: os_lstat_Ret elim!: is_file_node.elims)

lemma require_regular_file_Ret:
  "require_regular_file p l w = (Ret u, w') \<Longrightarrow> is_file_node (node_at w p) \<and> disk w' = disk w"
  by (auto simp: require_regular_file_def stat_required_def run_inv dest!: os_lstat_Ret)

lemma mounted_secret_below:
  assumes "mounted_secret_path paths c = Inr p"
  shows "strict_prefix (ip_secrets paths) p \<and> ''..'' \<notin> set (drop (length (ip_secrets paths)) p)"
proof -
  obtain cs where c: "c = Path False cs"
    using assms by (cases c) (auto simp: mounted_secret_path_def secret_relative_path_def split: if_splits)
  have "2 \<le> length cs" "''..'' \<notin> set cs" "p = ip_secrets paths @ drop 1 cs"
    using assms unfolding c
    by (auto simp: mounted_secret_path_def secret_relative_path_def join_path_def split: if_splits)
  then show ?thesis
    by (auto simp: strict_prefix_def dest: in_set_dropD)
qed

lemma validate_ssh_files_Ret:
  assumes "validate_ssh_files config paths w = (Ret (i, k), w')"
  shows "mounted_secret_path paths (identity_file (ssh config)) = Inr i
    \<and> mounted_secret_path paths (known_hosts_file (ssh config)) = Inr k
    \<and> private_file w i \<and> is_file_node (node_at w k) \<and> disk w' = disk w"
proof -
  have ro: "disk w1 = disk w" if "resolve_config_path c p w = (Ret x, w1)" for c p x w w1
    using obeysD [OF resolve_config_path_ro that] by (simp add: same_store_def)
  from assms obtain w0 w1 w2 u v
    where w0: "resolve_config_path (ip_config paths) (identity_file (ssh config)) w = (Ret i, w0)"
      and w1: "resolve_config_path (ip_config paths) (known_hosts_file (ssh config)) w0 = (Ret k, w1)"
      and p: "mounted_secret_path paths (identity_file (ssh config)) = Inr i"
        "mounted_secret_path paths (known_hosts_file (ssh config)) = Inr k"
      and w2: "require_private_file i ''SSH identity'' w1 = (Ret u, w2)"
      and w3: "require_regular_file k ''SSH known-hosts file'' w2 = (Ret v, w')"
    unfolding validate_ssh_files_def run_inv prod.inject
    by (elim exE conjE, hypsubst) (rule that)
  have d1: "disk w1 = disk w" using ro [OF w0] ro [OF w1] by simp
  have n: "node_at w1 p = node_at w p" for p by (simp add: node_at_def d1)
  have i: "private_file w i" "disk w2 = disk w"
    using require_private_file_Ret [OF w2] d1 by (simp_all add: private_file_def n)
  then have "node_at w2 p = node_at w p" for p by (simp add: node_at_def)
  then have "is_file_node (node_at w k)" "disk w' = disk w"
    using require_regular_file_Ret [OF w3] i(2) by simp_all
  then show ?thesis using i p by simp
qed


text \<open>
  An export goes to a file named directly in the instance's \<open>exports\<close> directory; that
  directory is no link, and the destination is free or a regular file.
\<close>

theorem export_path_confined:
  "case resolve_export_path paths requested w of
     (Ret destination, w') \<Rightarrow>
       w' = w \<and> (\<exists>name. destination = ip_root paths @ [''exports'', name] \<and> name \<noteq> ''..''
          \<and> str_path requested = ''exports/'' @ name \<and> isprintable name)
       \<and> \<not> is_link_node (node_at w (ip_root paths @ [''exports'']))
       \<and> (node_at w (ip_root paths @ [''exports'']) = None \<or> dir_at w (ip_root paths @ [''exports'']))
       \<and> (node_at w destination = None \<or> is_file_node (node_at w destination))
   | (Exn e, w') \<Rightarrow> w' = w \<and> (\<exists>m. e = ConfigurationError m)
   | (Halt, w') \<Rightarrow> False"
proof -
  show ?thesis
  proof (cases requested)
    case (Path abs cs)
    show ?thesis
    proof (cases "isprintable (str_path requested) \<and> \<not> is_absolute requested
         \<and> length (parts requested) = 2 \<and> parts requested ! 0 = ''exports''
         \<and> name_of (path_comps requested) \<notin> {''.'', ''..''}")
      case False
      then show ?thesis
        unfolding resolve_export_path_def
        by (auto simp: require_def raise_run bind_Exn [OF raise_run])
    next
      case True
      then obtain name where cs: "abs = False" "cs = [''exports'', name]" and name: "name \<noteq> ''..''"
        unfolding Path by (cases cs; cases "tl cs") (auto simp: name_of_def)
      have pr: "isprintable name"
        using True unfolding Path cs by (simp add: isprintable_def)
      show ?thesis
        using True name pr unfolding Path cs
        by (auto simp: follow_no_link resolve_export_path_def run_simps p_is_symlink_def p_exists_def p_is_dir_def
            p_is_file_def require_def name_of_def dir_at_def Let_def)
    qed
  qed
qed

subsection \<open>Reading\<close>

lemma read_text_secret_Ret:
  assumes run: "read_text_secret path label w = (Ret v, w')"
  shows "(\<exists>m u d. node_at w path = Some (File m u d) \<and> m AND 0x3F = 0 \<and> v = strip d
      \<and> list_all (\<lambda>c. code_of c < 128) d \<and> length d \<le> 4096)
    \<and> v \<noteq> [] \<and> CHR 0x0A \<notin> set v \<and> CHR 0x0D \<notin> set v \<and> disk w' = disk w"
proof -
  from run obtain w1 w2 w3 info t u
    where w1: "require_private_file path label w = (Ret u, w1)"
      and st: "os_stat path w1 = (Ret info, w2)" and sz: "node_size info \<le> 4096"
      and rd: "read_bytes path w2 = (Ret t, w3)" and asc: "decode_ascii t = Inr t"
      and v: "v = strip t" "v \<noteq> []" "CHR 0x0A \<notin> set v" "CHR 0x0D \<notin> set v" and w3: "w' = w3"
    unfolding read_text_secret_def run_inv read_text_ascii_def prod.inject
    by (elim exE conjE, hypsubst) (auto simp: decode_ascii_def split: if_splits)
  from require_private_file_Ret [OF w1] obtain m x d
    where f: "node_at w path = Some (File m x d)" "m AND 0x3F = 0" and d1: "disk w1 = disk w"
    by (auto simp: private_file_def)
  have d2: "disk w2 = disk w" "disk w3 = disk w"
    using os_stat_Ret [OF st] read_bytes_Ret [OF rd] d1 by simp_all
  have "follow 40 w path = Some (File m x d)" using f by (simp add: follow_no_link)
  then have "info = File m x d" "t = d"
    using os_stat_Ret [OF st] read_bytes_Ret [OF rd] follow_disk [OF d1] follow_disk [OF d2(1)] by auto
  then have "list_all (\<lambda>c. code_of c < 128) d" "length d \<le> 4096" "v = strip d"
    using asc sz v by (auto simp: decode_ascii_def split: if_splits)
  then show ?thesis using f d2 v w3 by simp
qed

text \<open>
  a secret that is read comes from a regular file closed to group and others, is the
  stripped text of that file, and is one non-empty ASCII line of at most 4096 characters.
\<close>

theorem secret_is_one_line:
  "case read_text_secret path label w of
     (Ret v, w') \<Rightarrow> (\<exists>m u d. node_at w path = Some (File m u d) \<and> m AND 0x3F = 0 \<and> v = strip d
         \<and> list_all (\<lambda>c. code_of c < 128) d \<and> length d \<le> 4096)
       \<and> v \<noteq> [] \<and> CHR 0x0A \<notin> set v \<and> CHR 0x0D \<notin> set v \<and> disk w' = disk w
   | _ \<Rightarrow> True"
  by (cases "read_text_secret path label w") (auto dest!: read_text_secret_Ret split: outcome.split)


end
