(* ===== verification/StateFrame.thy ===== *)
theory StateFrame
  imports State FilesProps
begin

text \<open>
  What the operations of \<open>state.py\<close> leave alone: rules for \<open>same_store\<close>, \<open>confined\<close>
  and \<open>keeps\<close>, from the tree recursions up to the phases of \<open>mutate_state\<close>.
\<close>

subsection \<open>Readers\<close>

lemma obeys_case_node [obeys_rules]:
  assumes "\<And>m u d. n = File m u d \<Longrightarrow> obeys R (f m u d)" and "\<And>m u. n = Dir m u \<Longrightarrow> obeys R (g m u)"
    and "\<And>t. n = Symlink t \<Longrightarrow> obeys R (h t)" and "n = Special \<Longrightarrow> obeys R k"
  shows "obeys R (case n of File m u d \<Rightarrow> f m u d | Dir m u \<Rightarrow> g m u | Symlink t \<Rightarrow> h t | Special \<Rightarrow> k)"
  using assms by (cases n) simp_all

lemma out_of_fuel_rules [obeys_rules]:
  "obeys same_store out_of_fuel" "obeys (confined r) out_of_fuel" "obeys (keeps A) out_of_fuel"
  by (simp_all add: obeys_def out_of_fuel_def ro.refl conf.refl kp.refl)

lemma lstat_optional_ro [obeys_rules]: "obeys same_store (lstat_optional p)"
  unfolding lstat_optional_def by (intro obeys_rules)

lemmas lstat_optional_conf [obeys_rules] = lstat_optional_ro [THEN reader_confined]
lemmas lstat_optional_keeps [obeys_rules] = lstat_optional_ro [THEN reader_keeps]

lemma any_present_ro [obeys_rules]: "obeys same_store (any_present d ns)"
  by (induction ns) (auto intro!: obeys_rules)

lemma legacy_state_present_ro [obeys_rules]: "obeys same_store (legacy_state_present paths)"
  unfolding legacy_state_present_def by (intro obeys_rules)

lemma read_manifest_ro [obeys_rules]: "obeys same_store (read_manifest root g)"
  unfolding read_manifest_def Let_def by (intro obeys_rules)

lemma active_generation_ro [obeys_rules]: "obeys same_store (active_generation paths required)"
  unfolding active_generation_def Let_def by (intro obeys_rules)

lemmas active_generation_conf [obeys_rules] = active_generation_ro [THEN reader_confined]
lemmas active_generation_keeps [obeys_rules] = active_generation_ro [THEN reader_keeps]

lemma read_operation_ro [obeys_rules]: "obeys same_store (read_operation h root oper)"
  unfolding read_operation_def Let_def by (intro obeys_rules)

lemmas read_operation_conf [obeys_rules] = read_operation_ro [THEN reader_confined]
lemmas read_operation_keeps [obeys_rules] = read_operation_ro [THEN reader_keeps]

lemma completed_operation_ro [obeys_rules]: "obeys same_store (completed_operation h active oper)"
  unfolding completed_operation_def by (intro obeys_rules)

lemmas completed_operation_keeps [obeys_rules] = completed_operation_ro [THEN reader_keeps]

lemma sync_entry_ro [obeys_rules]: "obeys same_store (sync_entry p)"
  unfolding sync_entry_def by (intro obeys_rules)

lemma walk_sync_ro [obeys_rules]: "obeys same_store (walk_sync n d)"
proof (induction n arbitrary: d)
  case (Suc n)
  show ?case by simp (intro obeys_rules Suc)
qed (simp add: obeys_rules)

lemma fsync_tree_ro [obeys_rules]: "obeys same_store (fsync_tree root)"
  unfolding fsync_tree_def with_fuel_def by (intro obeys_rules)

lemmas fsync_tree_conf [obeys_rules] = fsync_tree_ro [THEN reader_confined]
lemmas fsync_tree_keeps [obeys_rules] = fsync_tree_ro [THEN reader_keeps]

subsection \<open>Writers\<close>

lemma rmtree_at_conf: "prefix r p \<Longrightarrow> obeys (confined r) (rmtree_at n p)"
proof (induction n arbitrary: p)
  case (Suc n)
  have "prefix r (p @ [x])" for x using Suc.prems by (simp add: prefix_append)
  then show ?case by simp (intro obeys_rules Suc on_line_below; simp add: Suc.prems)
qed (simp add: obeys_rules)

lemma rmtree_at_keeps: "(\<And>q. q \<in> A \<Longrightarrow> \<not> prefix p q) \<Longrightarrow> obeys (keeps A) (rmtree_at n p)"
proof (induction n arbitrary: p)
  case (Suc n)
  have b: "\<not> prefix (p @ [x]) q" if "q \<in> A" for x q
    using Suc.prems [OF that] by (meson append_prefixD)
  have "p @ [x] \<notin> A" "p \<notin> A" for x using b [of "p @ [x]" x] Suc.prems [of p] by auto
  then show ?case by simp (intro obeys_rules Suc.IH b; simp)
qed (simp add: obeys_rules)

lemma remove_owned_conf [obeys_rules]: "prefix r p \<Longrightarrow> obeys (confined r) (remove_owned p)"
  unfolding remove_owned_def rmtree_def with_fuel_def
  by (intro obeys_rules rmtree_at_conf on_line_below)

lemma remove_owned_keeps: "(\<And>q. q \<in> A \<Longrightarrow> \<not> prefix p q) \<Longrightarrow> obeys (keeps A) (remove_owned p)"
  unfolding remove_owned_def rmtree_def with_fuel_def
  by (intro obeys_rules rmtree_at_keeps) auto

lemma copy_mode_conf [obeys_rules]: "on_line r dst \<Longrightarrow> obeys (confined r) (copy_mode src dst)"
  unfolding copy_mode_def by (intro obeys_rules)

lemma copy2_conf [obeys_rules]: "on_line r dst \<Longrightarrow> obeys (confined r) (copy2 src dst)"
  unfolding copy2_def by (intro obeys_rules) (auto dest: returns_open_creat)

lemma attempt_conf [obeys_rules]: "obeys (confined r) m \<Longrightarrow> obeys (confined r) (attempt m)"
  unfolding attempt_def by (intro obeys_rules)

lemma makedirs_conf [obeys_rules]: "on_line r p \<Longrightarrow> obeys (confined r) (makedirs p)"
proof (induction p rule: makedirs.induct)
  case (1 p)
  show ?case by (subst makedirs.simps) (intro obeys_rules 1 on_line_butlast; assumption)
qed

lemma copytree_at_conf: "prefix r dst \<Longrightarrow> obeys (confined r) (copytree_at n src dst)"
proof (induction n arbitrary: src dst)
  case (Suc n)
  have "prefix r (dst @ [x])" for x using Suc.prems by (simp add: prefix_append)
  then show ?case by simp (intro obeys_rules Suc on_line_below; simp add: Suc.prems)
qed (simp add: obeys_rules)

lemma copytree_conf [obeys_rules]: "prefix r dst \<Longrightarrow> obeys (confined r) (copytree src dst)"
  unfolding copytree_def with_fuel_def by (intro obeys_rules copytree_at_conf)

lemma copy_active_conf [obeys_rules]: "prefix r d \<Longrightarrow> obeys (confined r) (copy_active src d)"
  unfolding copy_active_def
  by (intro obeys_rules on_line_below) (auto simp: prefix_append)

lemma copy_legacy_state_conf [obeys_rules]: "prefix r d \<Longrightarrow> obeys (confined r) (copy_legacy_state paths d)"
  unfolding copy_legacy_state_def
  by (intro obeys_rules) (auto simp: prefix_append)

lemma write_operation_conf [obeys_rules]: "prefix r d \<Longrightarrow> obeys (confined r) (write_operation h d oper v)"
  unfolding write_operation_def operation_path_def
  by (intro obeys_rules) (simp add: butlast_append prefix_append)

text \<open>An atomic write keeps what is neither its target, nor one of its temporary names, nor above it.\<close>

lemma atomic_write_bytes_keeps:
  assumes up: "\<And>q. q \<in> A \<Longrightarrow> \<not> prefix q (butlast path)" and at: "\<And>q. q \<in> A \<Longrightarrow> \<not> prefix path q"
    and tmp: "\<And>q s. q \<in> A \<Longrightarrow> \<not> prefix (butlast path @ [temp_prefix path @ s]) q"
  shows "obeys (keeps A) (atomic_write_bytes path c m)"
proof -
  have t: "butlast path @ [temp_prefix path @ s] \<notin> A" for s using tmp by auto
  have mk: "obeys (keeps A) (mkstemp (temp_prefix path) (butlast path))"
  proof (rule mkstemp_obeys)
    show "obeys (keeps A) (os_open_excl (butlast path @ [temp_prefix path @ s]) 0x180)" for s
      by (rule os_open_excl_keeps) (rule t)
  qed (auto intro: kp.trans simp: kp.refl, simp add: keeps_def)
  show ?thesis
    unfolding atomic_write_bytes_def
    by (intro obeys_rules mk ensure_private_directory_keeps)
      (auto dest!: mkstemp_returns simp: t tmp at dest: up)
qed

subsection \<open>The working area of a writer\<close>

text \<open>
  What a writer may touch before it publishes: the state directory and those above it,
  the lock, generations other than the active one, staging directories and temporary
  pointers.
\<close>

definition working :: "instance_paths \<Rightarrow> comps option \<Rightarrow> comps \<Rightarrow> bool" where
  "working paths active q \<longleftrightarrow> prefix q (ip_state paths) \<or> q = lock_path paths \<or> q = generations_path paths
     \<or> (\<exists>x. (STAGING_PATTERN x \<or> GENERATION_PATTERN x) \<and> Some (generations_path paths @ [x]) \<noteq> active
          \<and> prefix (generations_path paths @ [x]) q)
     \<or> (\<exists>x. TEMPORARY_CURRENT_PATTERN x \<and> prefix (ip_state paths @ [x]) q)"

definition clear_of :: "instance_paths \<Rightarrow> comps option \<Rightarrow> comps set \<Rightarrow> bool" where
  "clear_of paths active A \<longleftrightarrow> (\<forall>q \<in> A. \<not> working paths active q)"

lemma clear_ofD: "clear_of paths active A \<Longrightarrow> q \<in> A \<Longrightarrow> \<not> working paths active q"
  by (simp add: clear_of_def)

lemma clear_state: "clear_of paths active A \<Longrightarrow> q \<in> A \<Longrightarrow> \<not> prefix q (ip_state paths)"
  by (auto simp: clear_of_def working_def)

lemma clear_lock: "clear_of paths active A \<Longrightarrow> lock_path paths \<notin> A"
  by (auto simp: clear_of_def working_def)

lemma clear_generations:
  assumes "clear_of paths active A" and "q \<in> A"
  shows "\<not> prefix q (generations_path paths)"
proof
  assume "prefix q (generations_path paths)"
  then have "q = generations_path paths \<or> prefix q (ip_state paths)"
    by (auto simp: generations_path_def prefix_snoc)
  then show False using clear_ofD [OF assms] by (auto simp: working_def)
qed

lemma clear_generation:
  "clear_of paths active A \<Longrightarrow> STAGING_PATTERN x \<or> GENERATION_PATTERN x
   \<Longrightarrow> Some (generations_path paths @ [x]) \<noteq> active \<Longrightarrow> q \<in> A \<Longrightarrow> \<not> prefix (generations_path paths @ [x]) q"
  by (auto simp: clear_of_def working_def)

lemma clear_temporary:
  "clear_of paths active A \<Longrightarrow> TEMPORARY_CURRENT_PATTERN x \<Longrightarrow> q \<in> A \<Longrightarrow> \<not> prefix (ip_state paths @ [x]) q"
  by (auto simp: clear_of_def working_def)

lemma staging_not_generation: "STAGING_PATTERN x \<Longrightarrow> \<not> GENERATION_PATTERN x"
  by (cases x) (auto simp: STAGING_PATTERN_def GENERATION_PATTERN_def startswith_def)

lemma returns_creat_or_open:
  "returns (try_except (os_open_creat p m) q (\<lambda>_. raise e)) fd \<Longrightarrow> fd_path fd = p"
  "returns (try_except (os_open p) q (\<lambda>_. raise e)) fd \<Longrightarrow> fd_path fd = p"
  by (auto dest!: returns_try_except dest: returns_open returns_open_creat)

lemma returns_lock_descriptor: "returns (lock_descriptor paths create) fd \<Longrightarrow> fd_path fd = lock_path paths"
  unfolding lock_descriptor_def
  by (auto dest!: returns_bind returns_creat_or_open split: if_split_asm)

lemma lock_descriptor_keeps:
  assumes "clear_of paths active A"
  shows "obeys (keeps A) (lock_descriptor paths create)"
  unfolding lock_descriptor_def
  by (intro obeys_rules ensure_private_directory_keeps clear_lock [OF assms])
    (auto dest: clear_state [OF assms] simp: clear_lock [OF assms]
      dest!: returns_creat_or_open split: if_split_asm)

lemma state_lock_keeps:
  assumes "clear_of paths active A" and "obeys (keeps A) body"
  shows "obeys (keeps A) (state_lock paths exclusive blocking body)"
  unfolding state_lock_def
  by (intro obeys_rules lock_descriptor_keeps [OF assms(1)] assms(2))

lemma glob_names_ro [obeys_rules]: "obeys same_store (glob_names d p)"
  unfolding glob_names_def by (intro obeys_rules)

lemmas glob_names_keeps [obeys_rules] = glob_names_ro [THEN reader_keeps]

lemma clean_incomplete_keeps:
  assumes c: "clear_of paths active A" and a: "\<And>x. active = Some (generations_path paths @ [x]) \<Longrightarrow> GENERATION_PATTERN x"
  shows "obeys (keeps A) (clean_incomplete paths)"
proof -
  have s: "obeys (keeps A) (remove_owned (generations_path paths @ [x]))" if "STAGING_PATTERN x" for x
    using that c a staging_not_generation by (intro remove_owned_keeps) (metis clear_generation)
  have t: "obeys (keeps A) (then_do (require (TEMPORARY_CURRENT_PATTERN x) e)
      (suppress is_OSError (remove_owned (ip_state paths @ [x]))))" for x e
    using clear_temporary [OF c, of x]
    by (cases "TEMPORARY_CURRENT_PATTERN x") (auto intro!: obeys_rules remove_owned_keeps)
  show ?thesis
    unfolding clean_incomplete_def Let_def by (intro obeys_rules s t; assumption)
qed

lemma remove_other_generations_keeps:
  assumes c: "clear_of paths active A"
  shows "obeys (keeps A) (remove_other_generations (generations_path paths) active)"
proof -
  have t: "obeys (keeps A) (then_do (require (GENERATION_PATTERN x) e)
      (suppress is_OSError (remove_owned (generations_path paths @ [x]))))"
    if "Some (generations_path paths @ [x]) \<noteq> active" for x e
    using clear_generation [OF c _ that]
    by (cases "GENERATION_PATTERN x") (auto intro!: obeys_rules remove_owned_keeps)
  show ?thesis
    unfolding remove_other_generations_def by (intro obeys_rules t)
qed

lemma clean_unreferenced_keeps:
  "clear_of paths active A \<Longrightarrow> obeys (keeps A) (clean_unreferenced_generations paths active)"
  unfolding clean_unreferenced_generations_def by (intro obeys_rules remove_other_generations_keeps)

lemma clean_legacy_state_keeps:
  assumes "\<And>x q. x \<in> set LEGACY_DATA_DIRECTORIES \<Longrightarrow> q \<in> A \<Longrightarrow> \<not> prefix (ip_state paths @ [x]) q"
  shows "obeys (keeps A) (clean_legacy_state paths)"
  unfolding clean_legacy_state_def by (intro obeys_rules remove_owned_keeps assms)

end
