(* ===== verification/StateCrash.thy ===== *)
theory StateCrash
  imports StateFrame
begin

text \<open>
  Crash consistency of \<open>mutate_state\<close>. For a client whose mutator stays in the data
  directory it is given and whose validator only reads (the locale \<open>state_client\<close>),
  every interruption of an update leaves either the old state or the new one, complete
  and validated.
\<close>

subsection \<open>Names\<close>

lemma hex32_no_slash: "is_hex32 s \<Longrightarrow> CHR ''/'' \<notin> set s \<and> s \<noteq> []"
  by (auto simp: is_hex32_def list_all_iff is_lower_hex_def char_class_defs)

lemma generation_name:
  assumes "GENERATION_PATTERN g"
  shows "CHR ''/'' \<notin> set g" and "g \<noteq> []" and "g \<noteq> ''.''"
proof -
  have "g = take 4 g @ drop 4 g" by simp
  moreover have "take 4 g = ''gen-''"
    using assms by (simp add: GENERATION_PATTERN_def startswith_def eval_nat_numeral)
  ultimately obtain h where g: "g = ''gen-'' @ h" by metis
  then have "is_hex32 h" using assms by (simp add: GENERATION_PATTERN_def)
  then show "CHR ''/'' \<notin> set g" "g \<noteq> []" "g \<noteq> ''.''" using hex32_no_slash [of h] g by auto
qed

definition pointer_text :: "string \<Rightarrow> string" where
  "pointer_text g = GENERATIONS_DIR @ ''/'' @ g"

lemma split_pointer: "GENERATION_PATTERN g \<Longrightarrow> split_on (CHR ''/'') (pointer_text g) = [GENERATIONS_DIR, g]"
  using split_on_append_sep [of "CHR ''/''" GENERATIONS_DIR g] split_on_noc [of "CHR ''/''" g]
  by (simp add: pointer_text_def GENERATIONS_DIR_def generation_name)

lemma parse_pointer: "GENERATION_PATTERN g \<Longrightarrow> parse_path (pointer_text g) = Path False [GENERATIONS_DIR, g]"
  by (simp add: parse_path_def split_pointer generation_name)
    (simp add: pointer_text_def GENERATIONS_DIR_def startswith_def)

lemma link_dest_pointer:
  "GENERATION_PATTERN g \<Longrightarrow> link_dest (current_path paths) (pointer_text g) = generations_path paths @ [g]"
  by (simp add: link_dest_def split_pointer generation_name)
    (simp add: pointer_text_def GENERATIONS_DIR_def startswith_def current_path_def generations_path_def
      butlast_append)

lemma fresh_names:
  assumes "is_hex32 h"
  shows "GENERATION_PATTERN (''gen-'' @ h)" and "STAGING_PATTERN (''.staging-'' @ h)"
    and "TEMPORARY_CURRENT_PATTERN (''.current-gen-'' @ h)"
  using assms
  by (simp_all add: GENERATION_PATTERN_def STAGING_PATTERN_def TEMPORARY_CURRENT_PATTERN_def startswith_def)

lemma not_temporary:
  "\<not> TEMPORARY_CURRENT_PATTERN CURRENT_LINK" "\<not> TEMPORARY_CURRENT_PATTERN GENERATIONS_DIR"
  "x \<in> set LEGACY_DATA_DIRECTORIES \<Longrightarrow> \<not> TEMPORARY_CURRENT_PATTERN x"
  by (auto simp: TEMPORARY_CURRENT_PATTERN_def startswith_def CURRENT_LINK_def GENERATIONS_DIR_def
      LEGACY_DATA_DIRECTORIES_def)

lemma distinct_names:
  "x \<in> set LEGACY_DATA_DIRECTORIES \<Longrightarrow> x \<notin> {CURRENT_LINK, GENERATIONS_DIR, LOCK_FILE}"
  "CURRENT_LINK \<noteq> GENERATIONS_DIR" "CURRENT_LINK \<noteq> LOCK_FILE" "GENERATIONS_DIR \<noteq> LOCK_FILE"
  by (auto simp: CURRENT_LINK_def GENERATIONS_DIR_def LOCK_FILE_def LEGACY_DATA_DIRECTORIES_def)

subsection \<open>What an update preserves until it publishes, and after\<close>

definition generation_tree :: "instance_paths \<Rightarrow> string \<Rightarrow> comps set" where
  "generation_tree paths g = {q. prefix (generations_path paths @ [g]) q}"

definition legacy_tree :: "instance_paths \<Rightarrow> comps set" where
  "legacy_tree paths = {q. \<exists>x \<in> set LEGACY_DATA_DIRECTORIES. prefix (ip_state paths @ [x]) q}"

text \<open>The active state: the pointer with its generation, or the legacy directories without one.\<close>

definition active_state :: "instance_paths \<Rightarrow> string option \<Rightarrow> comps set" where
  "active_state paths old = insert (current_path paths)
     (case old of Some g \<Rightarrow> generation_tree paths g | None \<Rightarrow> legacy_tree paths)"

definition active_root :: "instance_paths \<Rightarrow> string option \<Rightarrow> comps option" where
  "active_root paths old = map_option (\<lambda>g. generations_path paths @ [g]) old"

lemma current_not_working: "\<not> working paths active (current_path paths)"
  using distinct_names not_temporary(1)
  by (auto simp: working_def current_path_def lock_path_def generations_path_def)

lemma generation_not_working:
  assumes "prefix (generations_path paths @ [g]) q"
  shows "\<not> working paths (Some (generations_path paths @ [g])) q"
proof -
  let ?S = "ip_state paths"
  have long: "length ?S + 2 \<le> length q"
    using prefix_length_le [OF assms] by (simp add: generations_path_def)
  have [dest!]: False if "prefix q ?S"
    using prefix_length_le [OF that] long by simp
  have [dest!]: False if "q = lock_path paths"
    using that long by (simp add: lock_path_def)
  have [dest!]: False if "q = generations_path paths"
    using that long by (simp add: generations_path_def)
  have [dest!]: False if "prefix (generations_path paths @ [x]) q"
    "Some (generations_path paths @ [x]) \<noteq> Some (generations_path paths @ [g])" for x
    using that prefix_sibling [OF that(1) assms] by simp
  have [dest!]: False if t: "TEMPORARY_CURRENT_PATTERN x" and p: "prefix (?S @ [x]) q" for x
  proof -
    have "prefix (?S @ [GENERATIONS_DIR]) q"
      using assms by (metis append_assoc append_prefixD generations_path_def)
    then show False using prefix_sibling [OF p] t not_temporary(2) by blast
  qed
  show ?thesis unfolding working_def by auto
qed

lemma legacy_not_working:
  assumes "x \<in> set LEGACY_DATA_DIRECTORIES" and "prefix (ip_state paths @ [x]) q"
  shows "\<not> working paths active q"
proof -
  let ?S = "ip_state paths"
  have no: "\<not> prefix (?S @ [y]) q" if "y \<noteq> x" for y
    using prefix_sibling [OF assms(2), of y] that by blast
  have [dest!]: False if "prefix q ?S"
    using prefix_length_le [OF that] prefix_length_le [OF assms(2)] by simp
  have [dest!]: False if "q = lock_path paths"
    using that no [of LOCK_FILE] distinct_names(1) [OF assms(1)] by (auto simp: lock_path_def)
  have [dest!]: False if "q = generations_path paths"
    using that no [of GENERATIONS_DIR] distinct_names(1) [OF assms(1)] by (auto simp: generations_path_def)
  have [dest!]: False if "prefix (generations_path paths @ [z]) q" for z
  proof -
    have "prefix (?S @ [GENERATIONS_DIR]) q"
      using that by (metis append_assoc append_prefixD generations_path_def)
    then show False using no [of GENERATIONS_DIR] distinct_names(1) [OF assms(1)] by blast
  qed
  have [dest!]: False if t: "TEMPORARY_CURRENT_PATTERN z" and p: "prefix (?S @ [z]) q" for z
    using no [of z] p t not_temporary(3) [OF assms(1)] by blast
  show ?thesis unfolding working_def by auto
qed

lemma active_state_clear: "clear_of paths (active_root paths old) (active_state paths old)"
  unfolding clear_of_def active_state_def active_root_def
  using current_not_working generation_not_working legacy_not_working
  by (auto simp: generation_tree_def legacy_tree_def split: option.splits)

lemma legacy_apart:
  assumes "x \<in> set LEGACY_DATA_DIRECTORIES" and "q \<in> insert (current_path paths) (generation_tree paths g)"
  shows "\<not> prefix (ip_state paths @ [x]) q"
proof
  assume p: "prefix (ip_state paths @ [x]) q"
  have "q = current_path paths \<or> prefix (ip_state paths @ [GENERATIONS_DIR]) q"
    using assms(2) append_prefixD [of "ip_state paths @ [GENERATIONS_DIR]" "[g]" q]
    by (auto simp: generation_tree_def generations_path_def)
  then have "prefix (ip_state paths @ [CURRENT_LINK]) q \<or> prefix (ip_state paths @ [GENERATIONS_DIR]) q"
    by (auto simp: current_path_def)
  then show False
    using distinct_names(1) [OF assms(1)] prefix_sibling [OF p] by blast
qed

subsection \<open>Which generation is active\<close>

lemma lstat_optional_Ret:
  "lstat_optional p w = (Ret r, w') \<Longrightarrow> r = node_at w p \<and> disk w' = disk w"
proof -
  assume run: "lstat_optional p w = (Ret r, w')"
  have d: "disk w' = disk w" using reader_disk [OF lstat_optional_ro run] .
  from run consider n w1 where "os_lstat p w = (Ret n, w1)" "r = Some n"
    | w1 where "os_lstat p w = (Exn (OSError ENOENT), w1)" "r = None"
    unfolding lstat_optional_def
    by (auto elim!: try_except_RetE simp: run_inv ret_def is_FileNotFound_def bind_def
        split: outcome.splits prod.splits)
  then show ?thesis
  proof cases
    case 1
    then show ?thesis using os_lstat_Ret d by simp
  next
    case 2
    have "node_at w p = None"
    proof (rule ccontr)
      assume "node_at w p \<noteq> None"
      then have "fst (os_lstat p w) \<noteq> Exn (OSError ENOENT)"
        by (auto simp: os_lstat_def syscall_def syscall_torn_def split: list.splits fate.splits)
      then show False using 2(1) by simp
    qed
    then show ?thesis using 2 d by simp
  qed
qed

lemma os_readlink_Ret: "os_readlink p w = (Ret t, w') \<Longrightarrow> node_at w p = Some (Symlink t) \<and> disk w' = disk w"
  unfolding os_readlink_def
  by (erule syscall_RetE) (auto split: option.split_asm node.split_asm)

lemma lift_RetD: "lift r w = (Ret b, w') \<Longrightarrow> r = Inr b \<and> w' = w"
  by (simp add: lift_Ret)

definition manifest_ok :: "world \<Rightarrow> comps \<Rightarrow> string \<Rightarrow> bool" where
  "manifest_ok w root g \<longleftrightarrow> (\<exists>m u d t v. node_at w (root @ [MANIFEST_FILE]) = Some (File m u d)
     \<and> length d \<le> MAX_MANIFEST_BYTES \<and> utf8_decode d = Some t \<and> loads t = Inr v \<and> manifest_matches v g)"

lemma read_manifest_Ret:
  assumes "read_manifest root g w = (Ret u, w')"
  shows "manifest_ok w root g"
proof -
  let ?p = "root @ [MANIFEST_FILE]"
  from assms obtain info w1 b w2 t v where l: "os_lstat ?p w = (Ret info, w1)"
    and f: "is_file_node (Some info)" "node_size info \<le> MAX_MANIFEST_BYTES"
    and r: "read_bytes ?p w1 = (Ret b, w2)" and t: "decode_utf8 b = Inr t" and v: "loads t = Inr v"
    and m: "manifest_matches v g"
    unfolding read_manifest_def Let_def run_inv read_text_utf8_def
    by (elim exE conjE, hypsubst) (rule that)
  obtain mo us d where n: "node_at w ?p = Some (File mo us d)" "info = File mo us d" "node_at w1 ?p = Some (File mo us d)"
    using os_lstat_Ret [OF l] f by (auto simp: node_at_def elim!: is_file_node.elims)
  have "follow 40 w1 ?p = Some (File mo us d)" using n(3) by (simp add: follow_no_link)
  then have "b = d" using read_bytes_Ret [OF r] by simp
  then have "utf8_decode d = Some t" using t by (simp add: decode_utf8_def split: option.splits)
  then show ?thesis using n f v m unfolding manifest_ok_def by auto
qed

text \<open>
  The pointer to a generation, followed: a link into the generations directory, to a
  directory with a manifest that names it.
\<close>

definition points_to :: "instance_paths \<Rightarrow> world \<Rightarrow> comps \<Rightarrow> string \<Rightarrow> bool" where
  "points_to paths w root g \<longleftrightarrow> (\<exists>t. node_at w (current_path paths) = Some (Symlink t)
     \<and> parse_path t = Path False [GENERATIONS_DIR, g]) \<and> GENERATION_PATTERN g
     \<and> root = generations_path paths @ [g] \<and> dir_at w root \<and> manifest_ok w root g"

lemma valid_pointerD:
  "valid_pointer p \<Longrightarrow> \<exists>g. p = Path False [GENERATIONS_DIR, g] \<and> GENERATION_PATTERN g"
  by (cases p; cases "path_comps p"; cases "tl (path_comps p)") (auto simp: valid_pointer_def)

lemma manifest_ok_disk: "disk w' = disk w \<Longrightarrow> manifest_ok w' root g = manifest_ok w root g"
  by (simp add: manifest_ok_def node_at_def)

lemma active_generation_Ret:
  assumes run: "active_generation paths required w = (Ret r, w')"
  shows "case r of None \<Rightarrow> \<not> required \<and> node_at w (current_path paths) = None
    | Some (root, g) \<Rightarrow> points_to paths w root g"
proof -
  let ?c = "current_path paths"
  from run obtain found w1 where l: "lstat_optional ?c w = (Ret found, w1)"
    and rest: "(case found of
        None \<Rightarrow>
          (if required
           then bind (legacy_state_present paths) (\<lambda>legacy.
              if legacy then raise_hinted StateError ''legacy key state requires migration'' [''keys'', ''generate'']
              else raise_hinted StateError ''persistent keys are not initialized'' [''keys'', ''generate''])
           else ret None)
      | Some info \<Rightarrow>
          then_do (require (is_link_node (Some info))
            (StateError (''persistent-state pointer must be a symlink: '' @ show_path ?c)))
         (bind (os_readlink ?c) (\<lambda>target.
          then_do (require (valid_pointer (parse_path target))
            (StateError (''invalid persistent-state pointer: '' @ show_path ?c)))
         (let generation = parts (parse_path target) ! 1;
              root = join_path (ip_state paths) (parse_path target) in
          bind (try_except (os_lstat root) is_FileNotFound
             (\<lambda>_. raise (StateError (''persistent-state pointer is broken: '' @ show_path ?c))))
            (\<lambda>root_info.
             then_do (require (is_dir_node (Some root_info))
               (StateError (''state generation must be a directory: '' @ show_path root)))
            (then_do (read_manifest root generation)
             (ret (Some (root, generation))))))))) w1 = (Ret r, w')"
    unfolding active_generation_def Let_def by (elim bind_RetE)
  have f: "found = node_at w ?c" and d1: "disk w1 = disk w" using lstat_optional_Ret [OF l] by simp_all
  show ?thesis
  proof (cases found)
    case None
    have "\<not> required \<and> r = None"
      using rest None
      by (auto simp: run_inv raise_hinted_run split: if_split_asm)
    then show ?thesis using f None by simp
  next
    case (Some info)
    from rest [unfolded Some option.case Let_def run_inv] obtain t w2 ri w3 u w4
      where t: "os_readlink ?c w1 = (Ret t, w2)" and v: "valid_pointer (parse_path t)"
        and ri: "os_lstat (join_path (ip_state paths) (parse_path t)) w2 = (Ret ri, w3)"
        and d: "is_dir_node (Some ri)"
        and m: "read_manifest (join_path (ip_state paths) (parse_path t)) (parts (parse_path t) ! 1) w3 = (Ret u, w4)"
        and r: "r = Some (join_path (ip_state paths) (parse_path t), parts (parse_path t) ! 1)"
      by (elim exE conjE, hypsubst) (rule that; (assumption | simp))
    obtain g where g: "parse_path t = Path False [GENERATIONS_DIR, g]" "GENERATION_PATTERN g"
      using valid_pointerD [OF v] by blast
    have root: "join_path (ip_state paths) (Path False [GENERATIONS_DIR, g]) = generations_path paths @ [g]"
      by (simp add: join_path_def generations_path_def)
    have dd: "disk w2 = disk w" "disk w3 = disk w"
      using os_readlink_Ret [OF t] os_lstat_Ret [OF ri] d1 by simp_all
    have "points_to paths w (generations_path paths @ [g]) g"
      using g os_readlink_Ret [OF t] os_lstat_Ret [OF ri] d d1 dd read_manifest_Ret [OF m]
        manifest_ok_disk [OF dd(2)]
      by (auto simp: points_to_def root dir_at_def node_at_def)
    then show ?thesis using r g root by simp
  qed
qed

subsection \<open>Publication\<close>

definition manifest_bytes :: "string \<Rightarrow> string" where
  "manifest_bytes g = utf8_encode (dumps indented (manifest_value g) @ [CHR 0x0A])"

text \<open>The places of a generation other than its root, its manifest and the manifest's temporary names.\<close>

definition content_place :: "comps \<Rightarrow> bool" where
  "content_place q \<longleftrightarrow> q \<noteq> [] \<and> hd q \<noteq> MANIFEST_FILE \<and> \<not> prefix (temp_prefix [MANIFEST_FILE]) (hd q)"

text \<open>
  The tree at \<open>root\<close> holds what the validator accepted as the staging tree, and the
  manifest of generation \<open>g\<close>.
\<close>

definition holds_validated ::
  "instance_paths \<Rightarrow> (instance_paths \<Rightarrow> unit io) \<Rightarrow> comps \<Rightarrow> comps \<Rightarrow> world \<Rightarrow> bool" where
  "holds_validated paths validator staging root w \<longleftrightarrow>
     (\<exists>v v'. validator (with_data paths staging) v = (Ret (), v')
        \<and> (\<forall>q. content_place q \<longrightarrow> node_at w (root @ q) = node_at v (staging @ q)))"

definition complete_at ::
  "instance_paths \<Rightarrow> (instance_paths \<Rightarrow> unit io) \<Rightarrow> comps \<Rightarrow> string \<Rightarrow> comps \<Rightarrow> world \<Rightarrow> bool" where
  "complete_at paths validator staging g root w \<longleftrightarrow> dir_at w root
     \<and> node_at w (root @ [MANIFEST_FILE]) = Some (File 0x180 (uid w) (manifest_bytes g))
     \<and> holds_validated paths validator staging root w"

definition published ::
  "instance_paths \<Rightarrow> (instance_paths \<Rightarrow> unit io) \<Rightarrow> comps \<Rightarrow> string \<Rightarrow> world \<Rightarrow> bool" where
  "published paths validator staging g w \<longleftrightarrow>
     node_at w (current_path paths) = Some (Symlink (pointer_text g))
     \<and> complete_at paths validator staging g (generations_path paths @ [g]) w"

lemma complete_keeps:
  "keeps A w w' \<Longrightarrow> {q. prefix root q} \<subseteq> A \<Longrightarrow> complete_at paths validator staging g root w
   \<Longrightarrow> complete_at paths validator staging g root w'"
  by (auto simp: complete_at_def holds_validated_def keeps_def dir_at_def subset_iff)

lemma published_keeps:
  "keeps (insert (current_path paths) (generation_tree paths g)) w w' \<Longrightarrow> published paths validator staging g w
   \<Longrightarrow> published paths validator staging g w'"
  using complete_keeps [of "insert (current_path paths) (generation_tree paths g)" w w' "generations_path paths @ [g]"]
  by (auto simp: published_def generation_tree_def keeps_def)

text \<open>The atomic write of the manifest, in the Hoare form with what it keeps.\<close>

lemma hoare_atomic_write:
  assumes p: "path \<noteq> []" and k: "obeys (keeps A) (atomic_write_bytes path c m)"
  shows "hoare (keeps A w0) (atomic_write_bytes path c m)
    (\<lambda>_ w. keeps A w0 w \<and> node_at w path = Some (File m (uid w) c) \<and> dir_at w (butlast path))
    (\<lambda>_. keeps A w0) (keeps A w0)"
proof (rule hoareI)
  fix w
  assume "keeps A w0 w"
  moreover obtain r w' where run: "atomic_write_bytes path c m w = (r, w')" by fastforce
  moreover have w': "keeps A w w'" using obeysD [OF k run] .
  ultimately have "keeps A w0 w'" by (blast intro: kp.trans)
  moreover have "uid w' = uid w" using w' by (simp add: keeps_def)
  ultimately show "case atomic_write_bytes path c m w of
      (Ret _, w') \<Rightarrow> keeps A w0 w' \<and> node_at w' path = Some (File m (uid w') c) \<and> dir_at w' (butlast path)
    | (Exn _, w') \<Rightarrow> keeps A w0 w' | (Halt, w') \<Rightarrow> keeps A w0 w'"
    using atomic_write_outcome [OF p, where content = c and mode = m and w = w]
    by (cases r) (simp_all add: run installed_def)
qed

lemma hoare_replace_tree:
  assumes "\<not> prefix s d" and "\<not> prefix d s" and "\<And>w x. P w \<Longrightarrow> P (w\<lparr>fates := x\<rparr>)"
    and "\<And>w. P w \<Longrightarrow> replace_error w s d = None \<Longrightarrow> Q (mark (butlast s) (mark (butlast d) (move_node s d w)))"
    and "\<And>w. P w \<Longrightarrow> E w"
  shows "hoare P (os_replace s d) (\<lambda>_. Q) (\<lambda>_. E) E"
  unfolding os_replace_def
  by (rule hoare_syscall) (use assms in \<open>auto simp: hoare_def split: option.splits\<close>)

lemma hoare_keeps:
  "obeys (keeps A) m \<Longrightarrow> hoare (keeps A w0) m (\<lambda>_. keeps A w0) (\<lambda>_. keeps A w0) (keeps A w0)"
  by (rule hoare_obeys [where R = "keeps A"]) (auto intro: kp.trans)

lemma keeps_move:
  assumes "\<not> prefix s d" and "\<not> prefix d s" and "\<And>q. q \<in> A \<Longrightarrow> \<not> prefix s q \<and> \<not> prefix d q"
    and "keeps A w1 w"
  shows "keeps A w1 (mark a (mark b (move_node s d w)))"
  using assms(4) assms(3) by (auto simp: keeps_def node_at_move [OF assms(1,2)])

lemma complete_move:
  assumes "\<not> prefix s d" and "\<not> prefix d s" and "complete_at paths validator staging g s w"
  shows "complete_at paths validator staging g d (mark a (mark b (move_node s d w)))"
proof -
  have "node_at (mark a (mark b (move_node s d w))) (d @ q) = node_at w (s @ q)" for q
    by (simp add: node_at_move [OF assms(1,2)])
  from this [of "[]"] this assms(3) show ?thesis
    by (simp add: complete_at_def holds_validated_def dir_at_def)
qed

lemma hoare_ro: "obeys same_store m \<Longrightarrow> (\<And>w w'. same_store w w' \<Longrightarrow> P w \<Longrightarrow> P w')
    \<Longrightarrow> hoare P m (\<lambda>_. P) (\<lambda>_. P) P"
  by (rule hoare_obeys [where R = same_store])

lemma node_at_disk: "disk w' = disk w \<Longrightarrow> node_at w' = node_at w"
  by (simp add: fun_eq_iff node_at_def)

lemma complete_disk:
  "disk w' = disk w \<Longrightarrow> uid w' = uid w \<Longrightarrow>
   complete_at paths validator staging g root w' = complete_at paths validator staging g root w"
  by (drule node_at_disk) (simp add: complete_at_def holds_validated_def dir_at_def)

lemma keeps_disk: "disk w' = disk w \<Longrightarrow> uid w' = uid w \<Longrightarrow> foreign_locks w' = foreign_locks w
   \<Longrightarrow> keeps A w1 w' = keeps A w1 w"
  by (drule node_at_disk) (simp add: keeps_def)

lemma published_disk:
  "disk w' = disk w \<Longrightarrow> uid w' = uid w \<Longrightarrow>
   published paths validator staging g w' = published paths validator staging g w"
  by (simp add: published_def complete_disk [of w' w] node_at_disk [of w' w])

lemma same_store_stable:
  "same_store w w' \<Longrightarrow> keeps A w1 w \<Longrightarrow> keeps A w1 w'"
  "same_store w w' \<Longrightarrow> complete_at paths validator staging g root w \<Longrightarrow> complete_at paths validator staging g root w'"
  "same_store w w' \<Longrightarrow> published paths validator staging g w \<Longrightarrow> published paths validator staging g w'"
  "same_store w w' \<Longrightarrow> node_at w p = n \<Longrightarrow> node_at w' p = n"
  by (simp_all add: same_store_def keeps_disk [of w' w] complete_disk [of w' w] published_disk [of w' w]
      node_at_disk [of w' w])

lemma fates_irrelevant [simp]:
  "keeps A w1 (w\<lparr>fates := x\<rparr>) = keeps A w1 w"
  "complete_at paths validator staging g root (w\<lparr>fates := x\<rparr>) = complete_at paths validator staging g root w"
  "published paths validator staging g (w\<lparr>fates := x\<rparr>) = published paths validator staging g w"
  by (simp_all add: keeps_disk [of "w\<lparr>fates := x\<rparr>" w] complete_disk [of "w\<lparr>fates := x\<rparr>" w]
      published_disk [of "w\<lparr>fates := x\<rparr>" w])

text \<open>A triple with coarser outcomes.\<close>

lemma hoare_weaken:
  "hoare P m Q (\<lambda>_. E1) H1 \<Longrightarrow> (\<And>w. E1 w \<Longrightarrow> E w) \<Longrightarrow> (\<And>w. H1 w \<Longrightarrow> H w) \<Longrightarrow> hoare P m Q (\<lambda>_. E) H"
  by (erule hoare_conseq)

lemma content_place_apart:
  assumes "content_place q"
  shows "\<not> prefix (st @ q) st" and "\<not> prefix (st @ [MANIFEST_FILE]) (st @ q)"
    and "\<not> prefix (st @ [temp_prefix [MANIFEST_FILE] @ s]) (st @ q)"
proof -
  obtain c cs where q: "q = c # cs" using assms by (cases q) (auto simp: content_place_def)
  show "\<not> prefix (st @ q) st" using prefix_length_le [of "st @ q" st] by (auto simp: q)
  show "\<not> prefix (st @ [MANIFEST_FILE]) (st @ q)" "\<not> prefix (st @ [temp_prefix [MANIFEST_FILE] @ s]) (st @ q)"
    using assms by (auto simp: q content_place_def)
qed

lemma manifest_write_keeps:
  assumes below: "\<And>q. q \<in> A \<Longrightarrow> \<not> prefix st q" and above: "\<And>q. q \<in> A \<Longrightarrow> \<not> prefix q st"
  shows "obeys (keeps (A \<union> {st @ q |q. content_place q})) (atomic_write_bytes (st @ [MANIFEST_FILE]) c m)"
proof (rule atomic_write_bytes_keeps)
  have t: "temp_prefix (st @ [MANIFEST_FILE]) = temp_prefix [MANIFEST_FILE]"
    by (simp add: temp_prefix_def name_of_def)
  fix q s
  assume q: "q \<in> A \<union> {st @ q |q. content_place q}"
  show "\<not> prefix q (butlast (st @ [MANIFEST_FILE]))"
    using q above content_place_apart(1) by auto
  show "\<not> prefix (st @ [MANIFEST_FILE]) q"
    using q below [THEN contrapos_nn, OF _ append_prefixD] content_place_apart(2) by auto
  show "\<not> prefix (butlast (st @ [MANIFEST_FILE]) @ [temp_prefix (st @ [MANIFEST_FILE]) @ s]) q"
    unfolding t using q below [THEN contrapos_nn, OF _ append_prefixD] content_place_apart(3) by auto
qed

text \<open>
  The eight steps of the publication, for a staging directory \<open>st\<close>, a final one
  \<open>fi\<close> and a temporary pointer \<open>tmp\<close> apart from the places \<open>A\<close> to be kept.
\<close>

lemma hoare_stage_manifest:
  assumes "\<And>q. q \<in> A \<Longrightarrow> \<not> prefix st q" and "\<And>q. q \<in> A \<Longrightarrow> \<not> prefix q st"
    and V: "holds_validated paths validator st st w1"
  shows "hoare (\<lambda>w. w = w1) (atomic_write_json (st @ [MANIFEST_FILE]) (manifest_value g) 0x180)
    (\<lambda>_ w. keeps A w1 w \<and> complete_at paths validator st g st w) (\<lambda>_. keeps A w1) (keeps A w1)"
proof -
  let ?A' = "A \<union> {st @ q |q. content_place q}"
  have sub: "keeps ?A' w1 w \<Longrightarrow> keeps A w1 w" for w by (auto simp: keeps_def)
  have "hoare (keeps ?A' w1) (atomic_write_bytes (st @ [MANIFEST_FILE]) (manifest_bytes g) 0x180)
    (\<lambda>_ w. keeps ?A' w1 w \<and> node_at w (st @ [MANIFEST_FILE]) = Some (File 0x180 (uid w) (manifest_bytes g))
       \<and> dir_at w (butlast (st @ [MANIFEST_FILE]))) (\<lambda>_. keeps ?A' w1) (keeps ?A' w1)"
    by (rule hoare_atomic_write [OF _ manifest_write_keeps [OF assms(1,2)]]) auto
  moreover have "complete_at paths validator st g st w"
    if "keeps ?A' w1 w" "node_at w (st @ [MANIFEST_FILE]) = Some (File 0x180 (uid w) (manifest_bytes g))" "dir_at w st" for w
  proof -
    have "node_at w (st @ q) = node_at w1 (st @ q)" if "content_place q" for q
      using \<open>keeps ?A' w1 w\<close> that by (auto simp: keeps_def)
    then show ?thesis using V that by (simp add: complete_at_def holds_validated_def)
  qed
  ultimately show ?thesis
    unfolding atomic_write_json_def atomic_write_def manifest_bytes_def [symmetric]
    by (elim hoare_conseq) (auto simp: kp.refl dest: sub)
qed

lemma hoare_install_generation:
  assumes "\<not> prefix st fi" and "\<not> prefix fi st" and "\<And>q. q \<in> A \<Longrightarrow> \<not> prefix st q \<and> \<not> prefix fi q"
  shows "hoare (\<lambda>w. keeps A w1 w \<and> complete_at paths validator st g st w) (os_replace st fi)
    (\<lambda>_ w. keeps A w1 w \<and> complete_at paths validator st g fi w) (\<lambda>_. keeps A w1) (keeps A w1)"
  by (rule hoare_replace_tree [OF assms(1,2)])
    (auto intro: keeps_move [OF assms] complete_move [OF assms(1,2)])

lemma hoare_temporary_link:
  assumes "tmp \<notin> A" and "\<not> prefix fi tmp"
  shows "hoare (\<lambda>w. keeps A w1 w \<and> complete_at paths validator st g fi w) (os_symlink t tmp)
    (\<lambda>_ w. (keeps A w1 w \<and> complete_at paths validator st g fi w) \<and> node_at w tmp = Some (Symlink t))
    (\<lambda>_. keeps A w1) (keeps A w1)"
proof -
  have "keeps {q. prefix fi q} w (mark (butlast tmp) (put_node tmp (Symlink t) w))" for w
    using assms(2) by (auto simp: keeps_def)
  then have "complete_at paths validator st g fi (mark (butlast tmp) (put_node tmp (Symlink t) w))"
    if "complete_at paths validator st g fi w" for w
    by (rule complete_keeps) (use that in auto)
  moreover have "keeps A w1 (mark (butlast tmp) (put_node tmp (Symlink t) w))" if "keeps A w1 w" for w
    using that assms(1) by (auto simp: keeps_def)
  ultimately show ?thesis
    unfolding os_symlink_def
    by (intro hoare_syscall) (auto simp: hoare_def)
qed

lemma hoare_commit_link:
  assumes tc: "\<not> prefix tmp (current_path paths)" "\<not> prefix (current_path paths) tmp"
    and fi: "fi = generations_path paths @ [g]"
    and off: "\<And>q. prefix fi q \<Longrightarrow> \<not> prefix tmp q \<and> \<not> prefix (current_path paths) q"
  shows "hoare (\<lambda>w. (keeps A w1 w \<and> complete_at paths validator st g fi w)
        \<and> node_at w tmp = Some (Symlink (pointer_text g)))
    (os_replace tmp (current_path paths)) (\<lambda>_. published paths validator st g)
    (\<lambda>_ w. keeps A w1 w \<or> published paths validator st g w)
    (\<lambda>w. keeps A w1 w \<or> published paths validator st g w)"
proof (rule hoare_replace_tree [OF tc])
  fix w
  assume P: "(keeps A w1 w \<and> complete_at paths validator st g fi w)
        \<and> node_at w tmp = Some (Symlink (pointer_text g))"
  let ?w = "mark (butlast tmp) (mark (butlast (current_path paths)) (move_node tmp (current_path paths) w))"
  have "keeps {q. prefix fi q} w ?w"
    using off by (auto simp: keeps_def node_at_move [OF tc])
  then have "complete_at paths validator st g fi ?w"
    by (rule complete_keeps) (use P in auto)
  moreover have "node_at ?w (current_path paths) = Some (Symlink (pointer_text g))"
    using P by (simp add: node_at_move [OF tc])
  ultimately show "published paths validator st g ?w"
    by (simp add: published_def fi)
qed auto

lemma hoare_ro_keeping:
  assumes "obeys same_store m"
  shows "hoare (\<lambda>w. keeps A w1 w \<and> complete_at paths validator st g root w) m
    (\<lambda>_ w. keeps A w1 w \<and> complete_at paths validator st g root w) (\<lambda>_. keeps A w1) (keeps A w1)"
  by (rule hoare_weaken [OF hoare_ro [OF assms]]) (auto elim: same_store_stable)

lemma hoare_publish:
  assumes names: "STAGING_PATTERN x" "GENERATION_PATTERN g" "TEMPORARY_CURRENT_PATTERN (''.current-'' @ g)"
    and A: "clear_of paths active A" and new: "active \<noteq> Some (generations_path paths @ [g])"
    and act: "\<And>x. active = Some (generations_path paths @ [x]) \<Longrightarrow> GENERATION_PATTERN x"
    and st: "st = generations_path paths @ [x]" and V: "holds_validated paths validator st st w1"
  shows "hoare (\<lambda>w. w = w1) (publish paths st g)
    (\<lambda>r w. r = generations_path paths @ [g] \<and> published paths validator st g w)
    (\<lambda>_ w. keeps A w1 w \<or> published paths validator st g w)
    (\<lambda>w. keeps A w1 w \<or> published paths validator st g w)"
proof -
  let ?fi = "generations_path paths @ [g]"
  let ?tmp = "ip_state paths @ [''.current-'' @ g]"
  let ?E = "\<lambda>w. keeps A w1 w \<or> published paths validator st g w"
  let ?S = "\<lambda>w. keeps A w1 w \<and> complete_at paths validator st g st w"
  let ?F = "\<lambda>w. keeps A w1 w \<and> complete_at paths validator st g ?fi w"
  have xg: "x \<noteq> g" using names staging_not_generation by blast
  have sA: "\<not> prefix st q" "\<not> prefix ?fi q" if "q \<in> A" for q
    using clear_generation [OF A _ _ that] names(1,2) new act staging_not_generation unfolding st by metis+
  have uA: "\<not> prefix q st" if "q \<in> A" for q
    using clear_generations [OF A that] sA [OF that] unfolding st by (auto simp: prefix_snoc)
  have tA: "?tmp \<notin> A" using clear_temporary [OF A names(3)] by blast
  have apart: "\<not> prefix st ?fi" "\<not> prefix ?fi st" using xg by (simp_all add: st)
  have cg: "CURRENT_LINK \<noteq> ''.current-'' @ g" "GENERATIONS_DIR \<noteq> ''.current-'' @ g"
    "CURRENT_LINK \<noteq> GENERATIONS_DIR"
    using names(3) not_temporary(1,2) distinct_names(2) by metis+
  have ft: "\<not> prefix ?fi ?tmp" by (simp add: generations_path_def)
  have tc: "\<not> prefix ?tmp (current_path paths)" "\<not> prefix (current_path paths) ?tmp"
    using cg by (auto simp: current_path_def)
  have off: "\<not> prefix ?tmp q \<and> \<not> prefix (current_path paths) q" if "prefix ?fi q" for q
  proof -
    have "prefix (ip_state paths @ [GENERATIONS_DIR]) q"
      using that by (metis append_assoc append_prefixD generations_path_def)
    then show ?thesis
      using prefix_sibling [of "ip_state paths"] cg unfolding current_path_def by metis
  qed
  have E: "keeps A w1 w \<Longrightarrow> ?E w" "published paths validator st g w \<Longrightarrow> ?E w" for w by blast+
  have last: "hoare (published paths validator st g)
      (then_do (fsync_directory (ip_state paths)) (ret ?fi))
      (\<lambda>r w. r = ?fi \<and> published paths validator st g w) (\<lambda>_. ?E) ?E"
    by (rule hoare_bind [OF hoare_weaken [OF hoare_ro [OF fsync_directory_ro]] hoare_ret])
      (auto elim: same_store_stable)
  have linked: "hoare (\<lambda>w. ?F w \<and> node_at w ?tmp = Some (Symlink (pointer_text g)))
      (fsync_directory (ip_state paths))
      (\<lambda>_ w. ?F w \<and> node_at w ?tmp = Some (Symlink (pointer_text g))) (\<lambda>_. ?E) ?E"
    by (rule hoare_weaken [OF hoare_ro [OF fsync_directory_ro]])
      (auto elim: same_store_stable)
  have s1: "hoare (\<lambda>w. w = w1) (atomic_write_json (st @ [MANIFEST_FILE]) (manifest_value g) 0x180)
      (\<lambda>_. ?S) (\<lambda>_. ?E) ?E"
    by (rule hoare_weaken [OF hoare_stage_manifest [OF _ _ V]]) (use sA uA in auto)
  have s2: "hoare ?S (fsync_tree st) (\<lambda>_. ?S) (\<lambda>_. ?E) ?E"
    by (rule hoare_weaken [OF hoare_ro_keeping [OF fsync_tree_ro]]) auto
  have s3: "hoare ?S (os_replace st ?fi) (\<lambda>_. ?F) (\<lambda>_. ?E) ?E"
    by (rule hoare_weaken [OF hoare_install_generation [OF apart]]) (use sA in auto)
  have s4: "hoare ?F (fsync_directory (generations_path paths)) (\<lambda>_. ?F) (\<lambda>_. ?E) ?E"
    by (rule hoare_weaken [OF hoare_ro_keeping [OF fsync_directory_ro]]) auto
  have s5: "hoare ?F (os_symlink (pointer_text g) ?tmp)
      (\<lambda>_ w. ?F w \<and> node_at w ?tmp = Some (Symlink (pointer_text g))) (\<lambda>_. ?E) ?E"
    by (rule hoare_weaken [OF hoare_temporary_link [OF tA ft]]) auto
  have s7: "hoare (\<lambda>w. ?F w \<and> node_at w ?tmp = Some (Symlink (pointer_text g)))
      (os_replace ?tmp (current_path paths)) (\<lambda>_. published paths validator st g) (\<lambda>_. ?E) ?E"
    by (rule hoare_commit_link [OF tc refl off])
  show ?thesis
    unfolding publish_def Let_def pointer_text_def [symmetric]
    by (rule hoare_bind [OF s1 hoare_bind [OF s2 hoare_bind [OF s3 hoare_bind [OF s4
          hoare_bind [OF s5 hoare_bind [OF linked hoare_bind [OF s7 last]]]]]]])
qed

subsection \<open>The clients of \<open>mutate_state\<close>\<close>

text \<open>
  The contract of a mutator and a validator: handed a data directory below the state
  directory, the one changes only what lies on the line of it; the other changes nothing.
\<close>

locale state_client =
  fixes mutator :: "instance_paths \<Rightarrow> 'a io" and validator :: "instance_paths \<Rightarrow> unit io"
  assumes mutator_confined: "prefix (ip_state p) d \<Longrightarrow> obeys (confined d) (mutator (with_data p d))"
    and validator_reads: "obeys same_store (validator p)"

lemma confined_obeys_keeps:
  "obeys (confined r) m \<Longrightarrow> (\<And>q. q \<in> A \<Longrightarrow> \<not> on_line r q) \<Longrightarrow> obeys (keeps A) m"
  by (erule obeys_mono) (auto intro: confined_keeps)

lemma hoare_fix: "(\<And>w1. P w1 \<Longrightarrow> hoare (\<lambda>w. w = w1) m Q E H) \<Longrightarrow> hoare P m Q E H"
  by (auto simp: hoare_def)

lemma on_line_staging:
  assumes A: "clear_of paths active A" and x: "STAGING_PATTERN x"
    and act: "\<And>x. active = Some (generations_path paths @ [x]) \<Longrightarrow> GENERATION_PATTERN x" and q: "q \<in> A"
  shows "\<not> on_line (generations_path paths @ [x]) q"
proof -
  have "\<not> prefix (generations_path paths @ [x]) q"
    using clear_generation [OF A _ _ q] x act staging_not_generation by metis
  moreover have "\<not> prefix q (generations_path paths)" using clear_generations [OF A q] .
  ultimately show ?thesis by (auto simp: on_line_def prefix_snoc)
qed

text \<open>What an interrupted update leaves: the old active state, or the new one published.\<close>

definition old_or_published ::
  "instance_paths \<Rightarrow> (instance_paths \<Rightarrow> unit io) \<Rightarrow> string option \<Rightarrow> string \<Rightarrow> world \<Rightarrow> world \<Rightarrow> bool" where
  "old_or_published paths validator old h w w' \<longleftrightarrow> keeps (active_state paths old) w w'
     \<or> published paths validator (generations_path paths @ [''.staging-'' @ h]) (''gen-'' @ h) w'"

definition active_value :: "instance_paths \<Rightarrow> string option \<Rightarrow> (comps \<times> string) option" where
  "active_value paths old = map_option (\<lambda>g. (generations_path paths @ [g], g)) old"

lemma active_value_root: "map_option fst (active_value paths old) = active_root paths old"
  by (cases old) (simp_all add: active_value_def active_root_def)

lemma hoare_state_lock:
  assumes body: "hoare P body Q (\<lambda>_. E) E"
    and lock: "hoare P (lock_descriptor paths exclusive) (\<lambda>_. P) (\<lambda>_. E) E"
    and P: "\<And>w w'. same_store w w' \<Longrightarrow> P w \<Longrightarrow> P w'" and PE: "\<And>w. P w \<Longrightarrow> E w"
    and Q: "\<And>r w w'. same_store w w' \<Longrightarrow> Q r w \<Longrightarrow> Q r w'" and QE: "\<And>r w. Q r w \<Longrightarrow> E w"
    and E: "\<And>w w'. same_store w w' \<Longrightarrow> E w \<Longrightarrow> E w'"
  shows "hoare P (state_lock paths exclusive blocking body) Q (\<lambda>_. E) E"
  unfolding state_lock_def
proof (rule hoare_bind [OF lock])
  fix fd
  have flock: "hoare P (try_except (os_flock fd exclusive (\<not> blocking)) is_BlockingIO
      (\<lambda>_. raise (StateError ''persistent state is busy; stop the gateway or wait for the active operation'')))
      (\<lambda>_. P) (\<lambda>_. E) E"
    by (rule hoare_weaken [OF hoare_ro [OF _ P]]) (auto intro: obeys_rules PE)
  have unlock: "obeys same_store (then_do (suppress is_OSError (os_unlock fd)) (os_close fd))"
    by (intro obeys_rules)
  show "hoare P (try_finally (then_do (try_except (os_flock fd exclusive (\<not> blocking)) is_BlockingIO
      (\<lambda>_. raise (StateError ''persistent state is busy; stop the gateway or wait for the active operation''))) body)
      (then_do (suppress is_OSError (os_unlock fd)) (os_close fd))) Q (\<lambda>_. E) E"
    by (rule hoare_try_finally [OF hoare_bind [OF flock body]];
        rule hoare_weaken [OF hoare_ro [OF unlock]]) (auto intro: Q QE E)
qed

lemma published_clear:
  assumes "GENERATION_PATTERN g"
  shows "clear_of paths (Some (generations_path paths @ [g])) (insert (current_path paths) (generation_tree paths g))"
  using active_state_clear [of paths "Some g"] by (simp add: active_state_def active_root_def)

lemma published_exists:
  assumes g: "GENERATION_PATTERN g" and p: "published paths validator st g w"
  shows "follow 40 w (current_path paths) \<noteq> None"
proof -
  have forty: "(40::nat) = Suc (Suc 38)" by simp
  have "node_at w (current_path paths) = Some (Symlink (pointer_text g))" using p by (simp add: published_def)
  moreover obtain m u where "node_at w (generations_path paths @ [g]) = Some (Dir m u)"
    using p by (auto simp: published_def complete_at_def dir_at_def elim: is_dir_node.elims)
  ultimately show ?thesis
    unfolding forty follow.simps(2) by (simp add: link_dest_pointer [OF g])
qed

lemma hoare_published:
  assumes "obeys (keeps (insert (current_path paths) (generation_tree paths g))) m"
  shows "hoare (published paths validator st g) m (\<lambda>_. published paths validator st g)
    (\<lambda>_. published paths validator st g) (published paths validator st g)"
  by (rule hoare_obeys [OF assms published_keeps])

lemma hoare_abandon_published:
  assumes g: "GENERATION_PATTERN g" and x: "STAGING_PATTERN x"
  shows "hoare (published paths validator st g)
    (abandon paths (generations_path paths @ [x]) (Some (generations_path paths @ [g])) e)
    (\<lambda>_. published paths validator st g) (\<lambda>_. published paths validator st g) (published paths validator st g)"
proof -
  let ?P = "published paths validator st g"
  have xg: "Some (generations_path paths @ [x]) \<noteq> Some (generations_path paths @ [g])"
    using g x staging_not_generation by auto
  have rm: "hoare ?P (suppress is_OSError (remove_owned (generations_path paths @ [x]))) (\<lambda>_. ?P) (\<lambda>_. ?P) ?P"
    using clear_generation [OF published_clear [OF g] disjI1 [OF x] xg]
    by (intro hoare_published obeys_rules remove_owned_keeps) auto
  have probe: "hoare ?P (bind (p_exists (current_path paths)) (\<lambda>c.
      when_do (\<not> c) (suppress is_OSError (remove_owned (generations_path paths @ [g]))))) (\<lambda>_. ?P) (\<lambda>_. ?P) ?P"
  proof (rule hoare_bind [where Q = "\<lambda>c w. ?P w \<and> c"])
    show "hoare ?P (p_exists (current_path paths)) (\<lambda>c w. ?P w \<and> c) (\<lambda>_. ?P) ?P"
      using published_exists [OF g] by (auto simp: hoare_def p_exists_def gets_def)
    show "hoare (\<lambda>w. ?P w \<and> c) (when_do (\<not> c) (suppress is_OSError (remove_owned (generations_path paths @ [g]))))
        (\<lambda>_. ?P) (\<lambda>_. ?P) ?P" for c
      by (cases c) (simp_all add: hoare_def ret_def)
  qed
  show ?thesis
    unfolding abandon_def option.case
    by (rule hoare_bind [OF rm hoare_bind [OF probe hoare_raise]])
qed

lemma hoare_abandon_unpublished:
  assumes names: "STAGING_PATTERN x" "GENERATION_PATTERN g" and A: "clear_of paths active A"
    and act: "\<And>x. active = Some (generations_path paths @ [x]) \<Longrightarrow> GENERATION_PATTERN x"
  shows "hoare (\<lambda>w. keeps A w0 w \<or> published paths validator st g w)
    (abandon paths (generations_path paths @ [x]) None e) Q
    (\<lambda>_ w. keeps A w0 w \<or> published paths validator st g w)
    (\<lambda>w. keeps A w0 w \<or> published paths validator st g w)"
proof -
  let ?E = "\<lambda>w. keeps A w0 w \<or> published paths validator st g w"
  let ?B = "insert (current_path paths) (generation_tree paths g)"
  have xg: "Some (generations_path paths @ [x]) \<noteq> Some (generations_path paths @ [g])"
    using names staging_not_generation by auto
  have xa: "Some (generations_path paths @ [x]) \<noteq> active" using names act staging_not_generation by blast
  have "obeys (keeps (A \<union> ?B)) (suppress is_OSError (remove_owned (generations_path paths @ [x])))"
    using clear_generation [OF published_clear [OF names(2)] disjI1 [OF names(1)] xg]
      clear_generation [OF A disjI1 [OF names(1)] xa]
    by (intro obeys_rules remove_owned_keeps) auto
  then have rm: "hoare ?E (suppress is_OSError (remove_owned (generations_path paths @ [x]))) (\<lambda>_. ?E) (\<lambda>_. ?E) ?E"
  proof (rule hoare_obeys)
    fix w w'
    assume k: "keeps (A \<union> ?B) w w'" and E: "?E w"
    have "keeps A w w'" "keeps ?B w w'" using k by (auto simp: keeps_def)
    then show "?E w'" using E published_keeps by (blast intro: kp.trans)
  qed
  show ?thesis
    unfolding abandon_def option.case
    by (rule hoare_bind [OF rm]) (auto intro: hoare_raise)
qed

lemma hoare_active_generation:
  assumes old: "\<And>g. old = Some g \<Longrightarrow> GENERATION_PATTERN g"
    and w0: "node_at w0 (current_path paths) = map_option (\<lambda>g. Symlink (pointer_text g)) old"
  shows "hoare (keeps (active_state paths old) w0) (active_generation paths False)
    (\<lambda>r w. keeps (active_state paths old) w0 w \<and> r = active_value paths old)
    (\<lambda>_. keeps (active_state paths old) w0) (keeps (active_state paths old) w0)"
proof (rule hoareI)
  fix w
  assume k: "keeps (active_state paths old) w0 w"
  obtain r w' where run: "active_generation paths False w = (r, w')" by fastforce
  have k': "keeps (active_state paths old) w0 w'"
    using same_store_stable(1) [OF obeysD [OF active_generation_ro run] k] .
  have "a = active_value paths old" if "r = Ret a" for a
  proof -
    have link: "node_at w (current_path paths) = map_option (\<lambda>g. Symlink (pointer_text g)) old"
      using k w0 by (simp add: keeps_def active_state_def)
    note ag = active_generation_Ret [OF run [unfolded that]]
    show ?thesis
    proof (cases old)
      case None
      then show ?thesis using ag link by (cases a) (auto simp: points_to_def active_value_def)
    next
      case (Some g)
      then show ?thesis
        using ag link parse_pointer [OF old [OF Some]]
        by (cases a) (auto simp: points_to_def active_value_def)
    qed
  qed
  then show "case active_generation paths False w of
      (Ret r, w') \<Rightarrow> keeps (active_state paths old) w0 w' \<and> r = active_value paths old
    | (Exn _, w') \<Rightarrow> keeps (active_state paths old) w0 w' | (Halt, w') \<Rightarrow> keeps (active_state paths old) w0 w'"
    using k' by (cases r) (simp_all add: run)
qed

context state_client
begin

lemma hoare_validator:
  "hoare (keeps A w0) (validator (with_data paths st))
    (\<lambda>_ w. keeps A w0 w \<and> holds_validated paths validator st st w) (\<lambda>_. keeps A w0) (keeps A w0)"
proof (rule hoareI)
  fix w
  assume k: "keeps A w0 w"
  obtain r w' where run: "validator (with_data paths st) w = (r, w')" by fastforce
  have s: "same_store w w'" using obeysD [OF validator_reads run] .
  then have "node_at w' = node_at w" by (simp add: same_store_def node_at_disk [of w' w])
  then have "holds_validated paths validator st st w'" if "r = Ret ()"
    using run that unfolding holds_validated_def by metis
  moreover have "keeps A w0 w'" using same_store_stable(1) [OF s k] .
  ultimately show "case validator (with_data paths st) w of
      (Ret _, w') \<Rightarrow> keeps A w0 w' \<and> holds_validated paths validator st st w'
    | (Exn _, w') \<Rightarrow> keeps A w0 w' | (Halt, w') \<Rightarrow> keeps A w0 w'"
    by (cases r) (simp_all add: run)
qed

lemma hoare_build:
  assumes h: "is_hex32 h" and old: "\<And>g. old = Some g \<Longrightarrow> GENERATION_PATTERN g \<and> g \<noteq> ''gen-'' @ h"
  shows "hoare (keeps (active_state paths old) w0)
    (build_generation sha paths mutator validator publish_if operation (active_value paths old)
       (generations_path paths @ [''.staging-'' @ h]) (''gen-'' @ h))
    (\<lambda>b w. case b of
        Inl r \<Rightarrow> keeps (active_state paths old) w0 w \<and> (\<exists>p. publish_if = Some p \<and> \<not> p r)
      | Inr (r, f) \<Rightarrow> f = generations_path paths @ [''gen-'' @ h]
          \<and> published paths validator (generations_path paths @ [''.staging-'' @ h]) (''gen-'' @ h) w)
    (\<lambda>_. old_or_published paths validator old h w0) (old_or_published paths validator old h w0)"
proof -
  let ?A = "active_state paths old"
  let ?x = "''.staging-'' @ h"
  let ?st = "generations_path paths @ [?x]"
  let ?g = "''gen-'' @ h"
  let ?E = "old_or_published paths validator old h w0"
  note names = fresh_names [OF h]
  have names': "TEMPORARY_CURRENT_PATTERN (''.current-'' @ ?g)" using names(3) by simp
  have act: "GENERATION_PATTERN x" if "active_root paths old = Some (generations_path paths @ [x])" for x
    using that old by (cases old) (auto simp: active_root_def)
  have new: "active_root paths old \<noteq> Some (generations_path paths @ [?g])"
    using old by (cases old) (auto simp: active_root_def)
  have off: "\<not> on_line ?st q" if "q \<in> ?A" for q
    by (rule on_line_staging [OF active_state_clear names(2) act that])
  have E: "keeps ?A w0 w \<Longrightarrow> ?E w" for w by (simp add: old_or_published_def)
  have keep: "hoare (keeps ?A w0) m (\<lambda>_. keeps ?A w0) (\<lambda>_. ?E) ?E" if "obeys (confined ?st) m" for m :: "'b io"
    by (rule hoare_weaken [OF hoare_keeps [OF confined_obeys_keeps [OF that off]]]) (auto simp: E)
  have receipt: "obeys (confined ?st) (case operation of None \<Rightarrow> ret () | Some oper \<Rightarrow> write_operation sha ?st oper r)" for r
    by (intro obeys_rules) simp
  have validate: "hoare (keeps ?A w0) (validator (with_data paths ?st))
      (\<lambda>_ w. keeps ?A w0 w \<and> holds_validated paths validator ?st ?st w) (\<lambda>_. ?E) ?E"
    by (rule hoare_weaken [OF hoare_validator]) (auto simp: E)
  have publish: "hoare (\<lambda>w. keeps ?A w0 w \<and> holds_validated paths validator ?st ?st w) (publish paths ?st ?g)
      (\<lambda>r w. r = generations_path paths @ [?g] \<and> published paths validator ?st ?g w) (\<lambda>_. ?E) ?E"
  proof (rule hoare_fix)
    fix w1
    assume w1: "keeps ?A w0 w1 \<and> holds_validated paths validator ?st ?st w1"
    show "hoare (\<lambda>w. w = w1) (publish paths ?st ?g)
        (\<lambda>r w. r = generations_path paths @ [?g] \<and> published paths validator ?st ?g w) (\<lambda>_. ?E) ?E"
      by (rule hoare_weaken [OF hoare_publish [OF names(2,1) names' active_state_clear new act refl]])
        (use w1 in \<open>auto simp: old_or_published_def intro: kp.trans\<close>)
  qed
  show ?thesis
    unfolding build_generation_def Let_def
  proof (intro hoare_bind [OF keep] hoare_bind [OF keep [OF mutator_confined]])
    fix u v r
    show "hoare (keeps ?A w0)
      (if case publish_if of None \<Rightarrow> False | Some p \<Rightarrow> \<not> p r
       then then_do (remove_owned ?st) (ret (Inl r))
       else then_do (case operation of None \<Rightarrow> ret () | Some oper \<Rightarrow> write_operation sha ?st oper r)
         (then_do (validator (with_data paths ?st))
         (bind (publish paths ?st ?g) (\<lambda>final. ret (Inr (r, final))))))
      (\<lambda>b w. case b of
        Inl r \<Rightarrow> keeps ?A w0 w \<and> (\<exists>p. publish_if = Some p \<and> \<not> p r)
      | Inr (r, f) \<Rightarrow> f = generations_path paths @ [?g] \<and> published paths validator ?st ?g w) (\<lambda>_. ?E) ?E"
    proof (cases "case publish_if of None \<Rightarrow> False | Some p \<Rightarrow> \<not> p r")
      case True
      then show ?thesis
        by (simp, intro hoare_bind [OF keep] hoare_ret obeys_rules) (auto split: option.splits)
    next
      case False
      have "hoare (\<lambda>w. ra = generations_path paths @ [?g] \<and> published paths validator ?st ?g w) (ret (Inr (r, ra)))
        (\<lambda>b w. case b of
        Inl r \<Rightarrow> keeps ?A w0 w \<and> (\<exists>p. publish_if = Some p \<and> \<not> p r)
      | Inr (r, f) \<Rightarrow> f = generations_path paths @ [?g] \<and> published paths validator ?st ?g w) (\<lambda>_. ?E) ?E" for ra
        by (rule hoare_ret) simp
      then show ?thesis
        unfolding if_not_P [OF False]
        by (rule hoare_bind [OF keep [OF receipt] hoare_bind [OF validate hoare_bind [OF publish]]])
    qed
  qed (intro obeys_rules mutator_confined; simp add: generations_path_def)+
qed

lemma verify_publication_ro: "obeys same_store (verify_publication paths validator final)"
  unfolding verify_publication_def by (intro obeys_rules validator_reads)

text \<open>After the pointer has moved, nothing an update still does can undo it.\<close>

lemma hoare_after_publication:
  assumes g: "GENERATION_PATTERN g" and x: "STAGING_PATTERN x"
  shows "hoare (published paths validator st g)
    (then_do (try_except (verify_publication paths validator (generations_path paths @ [g])) (\<lambda>_. True)
        (abandon paths (generations_path paths @ [x]) (Some (generations_path paths @ [g]))))
      (then_do (clean_old_generations paths (generations_path paths @ [g]))
      (then_do (clean_legacy_state paths) (ret r))))
    (\<lambda>_. published paths validator st g) (\<lambda>_. published paths validator st g) (published paths validator st g)"
proof -
  let ?P = "published paths validator st g"
  have v: "hoare ?P (verify_publication paths validator (generations_path paths @ [g])) (\<lambda>_. ?P) (\<lambda>_. ?P) ?P"
    by (rule hoare_ro [OF verify_publication_ro]) (auto elim: same_store_stable)
  have o: "hoare ?P (clean_old_generations paths (generations_path paths @ [g])) (\<lambda>_. ?P) (\<lambda>_. ?P) ?P"
    unfolding clean_old_generations_def
    by (rule hoare_published [OF remove_other_generations_keeps [OF published_clear [OF g]]])
  have l: "hoare ?P (clean_legacy_state paths) (\<lambda>_. ?P) (\<lambda>_. ?P) ?P"
    by (rule hoare_published [OF clean_legacy_state_keeps [OF legacy_apart]])
  have "hoare ?P (try_except (verify_publication paths validator (generations_path paths @ [g])) (\<lambda>_. True)
        (abandon paths (generations_path paths @ [x]) (Some (generations_path paths @ [g])))) (\<lambda>_. ?P) (\<lambda>_. ?P) ?P"
    by (rule hoare_try_except [OF v hoare_abandon_published [OF g x]]) simp
  from hoare_bind [OF this hoare_bind [OF o hoare_bind [OF l hoare_ret]]] show ?thesis by simp
qed

lemma hoare_build_and_publish:
  assumes h: "is_hex32 h" and old: "\<And>g. old = Some g \<Longrightarrow> GENERATION_PATTERN g \<and> g \<noteq> ''gen-'' @ h"
  shows "hoare (keeps (active_state paths old) w0)
    (build_and_publish sha h paths mutator validator publish_if operation (active_value paths old))
    (\<lambda>r w. (keeps (active_state paths old) w0 w \<and> (\<exists>p. publish_if = Some p \<and> \<not> p r))
       \<or> published paths validator (generations_path paths @ [''.staging-'' @ h]) (''gen-'' @ h) w)
    (\<lambda>_. old_or_published paths validator old h w0) (old_or_published paths validator old h w0)"
proof -
  let ?A = "active_state paths old"
  let ?st = "generations_path paths @ [''.staging-'' @ h]"
  let ?E = "old_or_published paths validator old h w0"
  let ?P = "published paths validator ?st (''gen-'' @ h)"
  let ?B = "\<lambda>b w. case b of
        Inl r \<Rightarrow> keeps ?A w0 w \<and> (\<exists>p. publish_if = Some p \<and> \<not> p r)
      | Inr (r, f) \<Rightarrow> f = generations_path paths @ [''gen-'' @ h] \<and> ?P w"
  note names = fresh_names [OF h]
  have act: "GENERATION_PATTERN x" if "active_root paths old = Some (generations_path paths @ [x])" for x
    using that old by (cases old) (auto simp: active_root_def)
  have undo: "hoare ?E (abandon paths ?st None e) ?B (\<lambda>_. ?E) ?E" for e
    using hoare_abandon_unpublished [OF names(2,1) active_state_clear act]
    by (simp add: old_or_published_def [abs_def])
  have built: "hoare (keeps ?A w0)
      (try_except (build_generation sha paths mutator validator publish_if operation (active_value paths old) ?st (''gen-'' @ h))
         (\<lambda>_. True) (abandon paths ?st None)) ?B (\<lambda>_. ?E) ?E"
    by (rule hoare_try_except [OF hoare_build [OF h old] undo]) auto
  have PE: "?P w \<Longrightarrow> ?E w" for w by (simp add: old_or_published_def)
  have rest: "hoare (?B b)
      (case b of Inl r \<Rightarrow> ret r
      | Inr (r, final) \<Rightarrow>
          then_do (try_except (verify_publication paths validator final) (\<lambda>_. True)
             (abandon paths ?st (Some final)))
         (then_do (clean_old_generations paths final) (then_do (clean_legacy_state paths) (ret r))))
      (\<lambda>r w. (keeps ?A w0 w \<and> (\<exists>p. publish_if = Some p \<and> \<not> p r)) \<or> ?P w) (\<lambda>_. ?E) ?E" for b
  proof (cases b)
    case (Inl r)
    then show ?thesis by (auto intro: hoare_ret)
  next
    case (Inr x)
    obtain r f where x: "x = (r, f)" by fastforce
    show ?thesis
    proof (cases "f = generations_path paths @ [''gen-'' @ h]")
      case True
      show ?thesis
        unfolding Inr x sum.case prod.case True
        by (rule hoare_conseq [OF hoare_after_publication [OF names(1,2)]]) (auto intro: PE)
    qed (simp add: Inr x hoare_def)
  qed
  have d: "drop 4 (''gen-'' @ h) = h" by simp
  show ?thesis
    unfolding build_and_publish_def Let_def d by (rule hoare_bind [OF built rest])
qed

text \<open>The whole update: interrupted anywhere, the old state or the new one is active.\<close>

lemma hoare_mutate_state:
  assumes h: "is_hex32 h" and old: "\<And>g. old = Some g \<Longrightarrow> GENERATION_PATTERN g \<and> g \<noteq> ''gen-'' @ h"
    and w0: "node_at w0 (current_path paths) = map_option (\<lambda>g. Symlink (pointer_text g)) old"
  shows "hoare (\<lambda>w. w = w0) (mutate_state sha h paths mutator validator publish_if operation)
    (\<lambda>r w. (keeps (active_state paths old) w0 w
         \<and> ((\<exists>p. publish_if = Some p \<and> \<not> p r) \<or> (operation \<noteq> None \<and> old \<noteq> None)))
       \<or> published paths validator (generations_path paths @ [''.staging-'' @ h]) (''gen-'' @ h) w)
    (\<lambda>_. old_or_published paths validator old h w0) (old_or_published paths validator old h w0)"
proof -
  let ?A = "active_state paths old"
  let ?I = "keeps ?A w0"
  let ?E = "old_or_published paths validator old h w0"
  let ?P = "published paths validator (generations_path paths @ [''.staging-'' @ h]) (''gen-'' @ h)"
  let ?Q = "\<lambda>r w. (?I w \<and> ((\<exists>p. publish_if = Some p \<and> \<not> p r) \<or> (operation \<noteq> None \<and> old \<noteq> None))) \<or> ?P w"
  note clear = active_state_clear [of paths old]
  have act: "GENERATION_PATTERN x" if "active_root paths old = Some (generations_path paths @ [x])" for x
    using that old by (cases old) (auto simp: active_root_def)
  have IE: "?I w \<Longrightarrow> ?E w" for w by (simp add: old_or_published_def)
  have keep: "hoare ?I m (\<lambda>_. ?I) (\<lambda>_. ?E) ?E" if "obeys (keeps ?A) m" for m :: "'b io"
    by (rule hoare_weaken [OF hoare_keeps [OF that]]) (auto simp: IE)
  have ag: "hoare ?I (active_generation paths False) (\<lambda>r w. ?I w \<and> r = active_value paths old) (\<lambda>_. ?E) ?E"
    by (rule hoare_weaken [OF hoare_active_generation [OF _ w0]]) (use old IE in auto)
  have receipt: "hoare ?I (completed_operation sha (active_value paths old) operation)
      (\<lambda>c w. ?I w \<and> (c \<noteq> None \<longrightarrow> operation \<noteq> None \<and> old \<noteq> None)) (\<lambda>_. ?E) ?E"
    using keep [OF completed_operation_keeps [of ?A sha "active_value paths old" operation]]
    by (cases old; cases operation)
      (auto simp: completed_operation_def active_value_def hoare_def ret_def split: outcome.splits prod.splits)
  have legacy: "obeys (keeps ?A) (clean_legacy_state paths)" if "old \<noteq> None"
  proof (rule clean_legacy_state_keeps)
    fix x q
    assume x: "x \<in> set LEGACY_DATA_DIRECTORIES" and q: "q \<in> ?A"
    from \<open>old \<noteq> None\<close> obtain g where "old = Some g" by blast
    then show "\<not> prefix (ip_state paths @ [x]) q"
      using legacy_apart [OF x, of q paths g] q by (simp add: active_state_def)
  qed
  have tail: "hoare (\<lambda>w. ?I w \<and> (c \<noteq> None \<longrightarrow> operation \<noteq> None \<and> old \<noteq> None))
      (case c of
         Some r \<Rightarrow> then_do (validator (with_data paths (fst (the (active_value paths old)))))
           (then_do (clean_legacy_state paths) (ret r))
       | None \<Rightarrow> build_and_publish sha h paths mutator validator publish_if operation (active_value paths old))
      ?Q (\<lambda>_. ?E) ?E" for c
  proof (cases c)
    case None
    then show ?thesis
      by (auto intro!: hoare_conseq [OF hoare_build_and_publish [OF h old]])
  next
    case (Some r)
    show ?thesis
    proof (cases "operation \<noteq> None \<and> old \<noteq> None")
      case True
      have "hoare ?I (then_do (validator (with_data paths (fst (the (active_value paths old)))))
           (then_do (clean_legacy_state paths) (ret r))) ?Q (\<lambda>_. ?E) ?E"
        by (intro hoare_bind [OF keep] hoare_ret reader_keeps [OF validator_reads] legacy) (use True in auto)
      then show ?thesis using Some True by simp
    next
      case False
      then have "\<not> (c \<noteq> None \<longrightarrow> operation \<noteq> None \<and> old \<noteq> None)" using Some by simp
      then show ?thesis unfolding hoare_def by blast
    qed
  qed
  have body: "hoare ?I (then_do (ensure_private_directory (generations_path paths))
       (then_do (clean_incomplete paths)
       (bind (active_generation paths False) (\<lambda>active.
        then_do (clean_unreferenced_generations paths (map_option fst active))
       (bind (completed_operation sha active operation) (\<lambda>completed. case completed of
          Some r \<Rightarrow>
            then_do (validator (with_data paths (fst (the active))))
           (then_do (clean_legacy_state paths) (ret r))
        | None \<Rightarrow> build_and_publish sha h paths mutator validator publish_if operation active))))))
      ?Q (\<lambda>_. ?E) ?E"
  proof (rule hoare_bind [OF keep hoare_bind [OF keep]])
    show "obeys (keeps ?A) (ensure_private_directory (generations_path paths))"
      using clear_generations [OF clear] by (intro ensure_private_directory_keeps) blast
    show "obeys (keeps ?A) (clean_incomplete paths)"
      by (rule clean_incomplete_keeps [OF clear act])
    have rest: "hoare (\<lambda>w. ?I w \<and> a = active_value paths old)
        (then_do (clean_unreferenced_generations paths (map_option fst a))
       (bind (completed_operation sha a operation) (\<lambda>completed. case completed of
          Some r \<Rightarrow>
            then_do (validator (with_data paths (fst (the a))))
           (then_do (clean_legacy_state paths) (ret r))
        | None \<Rightarrow> build_and_publish sha h paths mutator validator publish_if operation a)))
        ?Q (\<lambda>_. ?E) ?E" for a
    proof (cases "a = active_value paths old")
      case True
      show ?thesis
        unfolding True active_value_root
        by (rule hoare_pre [OF hoare_bind [OF keep [OF clean_unreferenced_keeps [OF clear]] hoare_bind [OF receipt tail]]])
          simp
    qed (simp add: hoare_def)
    show "hoare ?I (bind (active_generation paths False) (\<lambda>active.
        then_do (clean_unreferenced_generations paths (map_option fst active))
       (bind (completed_operation sha active operation) (\<lambda>completed. case completed of
          Some r \<Rightarrow>
            then_do (validator (with_data paths (fst (the active))))
           (then_do (clean_legacy_state paths) (ret r))
        | None \<Rightarrow> build_and_publish sha h paths mutator validator publish_if operation active))))
        ?Q (\<lambda>_. ?E) ?E"
      by (rule hoare_bind [OF ag rest])
  qed
  have "hoare ?I (mutate_state sha h paths mutator validator publish_if operation) ?Q (\<lambda>_. ?E) ?E"
    unfolding mutate_state_def
    by (rule hoare_state_lock [OF body keep [OF lock_descriptor_keeps [OF clear]]])
      (unfold old_or_published_def, (blast intro: same_store_stable)+)
  then show ?thesis
    by (rule hoare_pre) (simp add: kp.refl)
qed

end

end
