(* ===== verification/JsonSize.thy ===== *)
theory JsonSize
  imports Json
begin

text \<open>
  How long a printed document can get, for the size limits of the readers: every character of
  a string takes at most six when it is escaped, the order of the keys does not matter, and
  UTF-8 takes at most two bytes for each of the characters that are printed.
\<close>

subsection \<open>Strings\<close>

lemma length_json_char: "length (json_char c) \<le> 6"
  by (simp add: json_char_def)

lemma length_json_string: "length (json_string s) \<le> 6 * length s + 2"
proof -
  have "length (concat (map json_char s)) \<le> 6 * length s"
    using length_json_char by (induction s) (auto simp: add_mono)
  then show ?thesis by (simp add: json_string_def)
qed

lemma length_utf8_encode: "length (utf8_encode s) \<le> 2 * length s"
  by (induction s) auto

subsection \<open>Documents\<close>

text \<open>The layouts indent by two blanks at each depth, and put at most one after a comma or a colon.\<close>

definition small_layout :: "layout \<Rightarrow> bool" where
  "small_layout l \<longleftrightarrow> (\<forall>n. length (line_break l n) \<le> 1 + 2 * n) \<and> length (after_comma l) \<le> 1
     \<and> length (after_colon l) \<le> 1"

lemma small_layouts: "small_layout compact" "small_layout inline" "small_layout indented"
  by (simp_all add: small_layout_def compact_def inline_def indented_def)

fun weight :: "nat \<Rightarrow> json \<Rightarrow> nat" where
  "weight n JNull = 4"
| "weight n (JBool b) = 5"
| "weight n (JInt i) = length (str_int i)"
| "weight n (JFloat t) = length t"
| "weight n (JStr s) = 6 * length s + 2"
| "weight n (JList xs) = 6 + 4 * n + sum_list (map (\<lambda>x. 5 + 2 * n + weight (Suc n) x) xs)"
| "weight n (JObj ms) = 6 + 4 * n + sum_list (map (\<lambda>(k, v). 9 + 2 * n + 6 * length k + weight (Suc n) v) ms)"

lemma sum_list_insort: "sum_list (map f (insort_key g x xs)) = f x + sum_list (map f xs)" for f :: "'a \<Rightarrow> nat"
  by (induction xs) auto

lemma sum_list_sort: "sum_list (map f (sort_key g xs)) = sum_list (map f xs)" for f :: "'a \<Rightarrow> nat"
  by (induction xs) (simp_all add: sum_list_insort)

lemma weight_sort_keys: "weight n (sort_keys v) = weight n v"
proof (induction v arbitrary: n rule: sort_keys.induct)
  case (1 xs)
  then show ?case by (simp add: comp_def cong: map_cong)
next
  case (2 ms)
  let ?w = "\<lambda>(k, v). 9 + 2 * n + 6 * length k + weight (Suc n) v"
  have "map ?w (map (\<lambda>(k, v). (k, sort_keys v)) ms) = map ?w ms"
    using 2 by (auto simp: split_def)
  then show ?case by (simp only: sort_keys.simps weight.simps sum_list_sort)
qed simp_all

lemma small_layoutD:
  assumes "small_layout l"
  shows "length (line_break l n) \<le> 1 + 2 * n" "length (after_comma l) \<le> 1" "length (after_colon l) \<le> 1"
  using assms by (simp_all add: small_layout_def)

lemma dump_length:
  assumes "small_layout l"
  shows "length (dump l n v) \<le> weight n v"
    and "length (dump_items l n xs) \<le> sum_list (map (\<lambda>x. 3 + 2 * n + weight n x) xs)"
    and "length (dump_members l n ms) \<le> sum_list (map (\<lambda>(k, v). 7 + 2 * n + 6 * length k + weight n v) ms)"
  using assms
proof (induction l n v and l n xs and l n ms rule: dump_dump_items_dump_members.induct)
  case (7 l n x xs)
  have "5 + 2 * n = 3 + 2 * Suc n" by simp
  then show ?case
    using 7 small_layoutD(1) [of l "Suc n"] small_layoutD(1) [of l n] by (simp only: weight.simps) simp
next
  case (9 l n m ms)
  have "9 + 2 * n = 7 + 2 * Suc n" by simp
  then show ?case
    using 9 small_layoutD(1) [of l "Suc n"] small_layoutD(1) [of l n] by (simp only: weight.simps) simp
next
  case (12 l n x y xs)
  then show ?case using small_layoutD(1) [of l n] small_layoutD(2,3) [of l] by simp
next
  case (14 l n k v)
  then show ?case using length_json_string [of k] small_layoutD(1) [of l n] small_layoutD(2,3) [of l] by simp
next
  case (15 l n k v m ms)
  then show ?case using length_json_string [of k] small_layoutD(1) [of l n] small_layoutD(2,3) [of l] by (cases m) simp
qed (use length_json_string in auto)

lemma dumps_length: "small_layout l \<Longrightarrow> length (dumps l v) \<le> weight 0 v"
  using dump_length(1) [of l 0 "sort_keys v"] by (simp add: dumps_def weight_sort_keys)

lemma document_length:
  "length (utf8_encode (dumps indented v @ [CHR 0x0A])) \<le> 2 * weight 0 v + 2"
  using length_utf8_encode [of "dumps indented v @ [CHR 0x0A]"] dumps_length [OF small_layouts(3), of v] by simp

lemma utf8_length: "length s \<le> length (utf8_encode s)"
  by (induction s) auto

end
