(* ===== verification/StateProps.thy ===== *)
theory StateProps
  imports StateCrash JsonSize
begin

text \<open>
  The properties of \<open>state.py\<close>: crash consistency of updates, the agreement of what is
  published with what readers accept, receipts, the lock, and the reach of an update.
\<close>

subsection \<open>The manifest a writer writes is the one a reader accepts\<close>

lemma sort_manifest: "sort_keys (manifest_value g) = manifest_value g"
  by (simp add: manifest_value_def)

lemma manifest_accepted: "manifest_matches (manifest_value g) g"
  by (auto simp: manifest_matches_def manifest_value_def STATE_SCHEMA_VERSION_def)

lemma manifest_loads: "loads (dumps indented (manifest_value g) @ [CHR 0x0A]) = Inr (manifest_value g)"
  using loads_document [of "manifest_value g"] sort_manifest
  by (simp add: manifest_value_def)

lemma length_one: "length (str_int 1) = 1"
  by (simp add: str_int_def) (subst str_nat.simps, simp)

lemma manifest_size:
  assumes "length g = 36"
  shows "length (manifest_bytes g) \<le> MAX_MANIFEST_BYTES"
proof -
  have "weight 0 (manifest_value g) \<le> 1000"
    by (simp add: manifest_value_def STATE_SCHEMA_VERSION_def length_one assms)
  then show ?thesis
    using document_length [of "manifest_value g"] by (simp add: manifest_bytes_def MAX_MANIFEST_BYTES_def)
qed

lemma generation_length: "GENERATION_PATTERN g \<Longrightarrow> length g = 36"
proof -
  assume g: "GENERATION_PATTERN g"
  then have "length (drop 4 g) = 32" by (simp add: GENERATION_PATTERN_def is_hex32_def)
  then show ?thesis by simp
qed

lemma published_points_to:
  assumes g: "GENERATION_PATTERN g" and p: "published paths validator st g w"
  shows "points_to paths w (generations_path paths @ [g]) g"
proof -
  have "manifest_ok w (generations_path paths @ [g]) g"
    using p manifest_size [OF generation_length [OF g]] manifest_loads [of g] manifest_accepted [of g]
    unfolding manifest_ok_def manifest_bytes_def published_def complete_at_def by auto
  then show ?thesis
    using p parse_pointer [OF g] g by (auto simp: points_to_def published_def complete_at_def)
qed

subsection \<open>Crash consistency\<close>


text \<open>A client that stores one file, on an instance whose pointer names an all-zero generation.\<close>

definition paths_example :: instance_paths where
  "paths_example = \<lparr>ip_root = [''gate''], ip_config = [''gate'', ''config.yaml''],
     ip_state = [''gate'', ''state''], ip_secrets = [''gate'', ''secrets''], ip_data = None\<rparr>"

definition store_note :: "instance_paths \<Rightarrow> unit io" where
  "store_note p = atomic_write (data_dir p @ [''note'']) ''text'' 0x180"

definition zero_digits :: string where
  "zero_digits = replicate 32 (CHR ''0'')"

definition one_digits :: string where
  "one_digits = replicate 32 (CHR ''1'')"

lemma digits_hex: "is_hex32 zero_digits" "is_hex32 one_digits"
  by (simp_all add: is_hex32_def zero_digits_def one_digits_def list_all_iff is_lower_hex_def is_digit_def
      code_of_def)

lemma store_note_confined: "obeys (confined d) (store_note (with_data p d))"
  unfolding store_note_def by (intro obeys_rules) (simp add: data_dir_def with_data_def)

definition linked_world :: world where
  "linked_world = system_with [([], Dir 0x1ED 1000), ([''gate''], Dir 0x1C0 1000),
     ([''gate'', ''state''], Dir 0x1C0 1000),
     (current_path paths_example, Symlink (pointer_text (''gen-'' @ zero_digits)))]"

lemma linked_world_pointer:
  "node_at linked_world (current_path paths_example) = Some (Symlink (pointer_text (''gen-'' @ zero_digits)))"
  by (simp add: linked_world_def current_path_def paths_example_def)


text \<open>
  What an update publishes is what every reader then finds active: the pointer is a
  link to a directory of the generations directory whose manifest reads back as naming it.
\<close>

theorem published_is_active:
  assumes "is_hex32 h" and "published paths validator st (''gen-'' @ h) w"
  shows "points_to paths w (generations_path paths @ [''gen-'' @ h]) (''gen-'' @ h)"
  by (rule published_points_to [OF fresh_names(1) [OF assms(1)] assms(2)])

definition published_world :: world where
  "published_world = system_with [(current_path paths_example, Symlink (pointer_text (''gen-'' @ one_digits))),
     (generations_path paths_example @ [''gen-'' @ one_digits], Dir 0x1C0 1000),
     (generations_path paths_example @ [''gen-'' @ one_digits, MANIFEST_FILE],
        File 0x180 1000 (manifest_bytes (''gen-'' @ one_digits)))]"

theorem published_is_active_witness:
  "points_to paths_example published_world (generations_path paths_example @ [''gen-'' @ one_digits])
     (''gen-'' @ one_digits)"
proof (rule published_is_active [OF digits_hex(2), where st = "[''none'']" and validator = "\<lambda>_. ret ()"])
  let ?root = "generations_path paths_example @ [''gen-'' @ one_digits]"
  have "node_at published_world (?root @ q) = None" if "content_place q" for q
    using that
    by (auto simp: published_world_def content_place_def current_path_def generations_path_def
        CURRENT_LINK_def GENERATIONS_DIR_def paths_example_def)
  then have "holds_validated paths_example (\<lambda>_. ret ()) [''none''] ?root published_world"
    unfolding holds_validated_def by (intro exI [of _ "system_with []"]) (simp add: ret_def)
  then show "published paths_example (\<lambda>_. ret ()) [''none''] (''gen-'' @ one_digits) published_world"
    by (auto simp: published_def complete_at_def dir_at_def published_world_def current_path_def
        generations_path_def CURRENT_LINK_def GENERATIONS_DIR_def paths_example_def MANIFEST_FILE_def)
qed

subsection \<open>Readers\<close>

text \<open>
  C16: a generation reported active is a real one: the pointer is a relative link to
  \<open>generations/gen-\<dots>\<close> (no other place can be reached through it), that directory exists
  and its manifest, of bounded size, names exactly this generation; without a pointer the
  answer is \<open>None\<close>, and only where a generation is not required. Asking changes nothing.
\<close>

theorem active_generation_sound:
  "case active_generation paths required w of
     (Ret None, w') \<Rightarrow> \<not> required \<and> node_at w (current_path paths) = None \<and> disk w' = disk w
   | (Ret (Some (root, g)), w') \<Rightarrow> points_to paths w root g \<and> disk w' = disk w
   | (_, w') \<Rightarrow> disk w' = disk w"
proof (cases "active_generation paths required w")
  case (Pair r w')
  have d: "disk w' = disk w"
    using obeysD [OF active_generation_ro Pair] by (simp add: same_store_def)
  show ?thesis
  proof (cases r)
    case (Ret x)
    show ?thesis
      using active_generation_Ret [OF Pair [unfolded Ret]] d Pair Ret
      by (cases x) (auto split: prod.splits)
  qed (simp_all add: Pair d)
qed

lemma os_flock_Ret:
  assumes "os_flock fd exclusive nb w = (Ret u, w')"
  shows "\<not> lock_conflict w fd exclusive \<and> (fd, exclusive) \<in> set (locks w') \<and> disk w' = disk w
    \<and> foreign_locks w' = foreign_locks w"
proof -
  have c: "lock_conflict (w\<lparr>fates := x\<rparr>) fd exclusive = lock_conflict w fd exclusive" for x
    by (simp add: lock_conflict_def)
  show ?thesis
    using assms unfolding os_flock_def
    by (elim syscall_RetE) (auto simp: with_handle_def c split: option.split_asm if_split_asm)
qed

lemma foreign_kept: "obeys (keeps {}) m \<Longrightarrow> m w = (r, w') \<Longrightarrow> foreign_locks w' = foreign_locks w"
  by (drule obeysD, assumption) (simp add: keeps_def)

lemma locked_body:
  assumes "state_lock paths exclusive blocking body w = (Ret a, w')"
  obtains w0 w1 w2 fd where "lock_descriptor paths exclusive w = (Ret fd, w0)" and "disk w1 = disk w0"
    and "body w1 = (Ret a, w2)" and "disk w' = disk w2"
    and "(fd, exclusive) \<in> set (locks w1)" and "fd_path fd = lock_path paths"
    and "\<And>e. (lock_path paths, e) \<in> set (foreign_locks w) \<Longrightarrow> \<not> exclusive \<and> \<not> e"
proof -
  let ?busy = "StateError ''persistent state is busy; stop the gateway or wait for the active operation''"
  from assms obtain fd w0 where l: "lock_descriptor paths exclusive w = (Ret fd, w0)"
    and t: "try_finally
       (then_do (try_except (os_flock fd exclusive (\<not> blocking)) is_BlockingIO (\<lambda>_. raise ?busy)) body)
       (then_do (suppress is_OSError (os_unlock fd)) (os_close fd)) w0 = (Ret a, w')"
    unfolding state_lock_def by (elim bind_RetE)
  from t obtain w2 where
    b: "then_do (try_except (os_flock fd exclusive (\<not> blocking)) is_BlockingIO (\<lambda>_. raise ?busy)) body w0 = (Ret a, w2)"
    and u: "then_do (suppress is_OSError (os_unlock fd)) (os_close fd) w2 = (Ret (), w')"
    by (elim try_finally_Ret)
  from b obtain v w1 where f: "os_flock fd exclusive (\<not> blocking) w0 = (Ret v, w1)" and body: "body w1 = (Ret a, w2)"
    unfolding bind_Ret_iff try_except_raise_Ret by blast
  have path: "fd_path fd = lock_path paths" by (rule returns_lock_descriptor, rule returnsI, rule l)
  have "obeys (keeps {}) (lock_descriptor paths exclusive)"
    by (rule lock_descriptor_keeps [of _ None]) (simp add: clear_of_def)
  from foreign_kept [OF this l] have fl: "foreign_locks w0 = foreign_locks w" .
  note fk = os_flock_Ret [OF f]
  have "obeys same_store (then_do (suppress is_OSError (os_unlock fd)) (os_close fd))"
    by (intro obeys_rules)
  then have d: "disk w' = disk w2" using u by (rule reader_disk)
  have "\<not> exclusive \<and> \<not> e" if "(lock_path paths, e) \<in> set (foreign_locks w)" for e
    using fk that fl path by (auto simp: lock_conflict_def list_ex_iff)
  then show thesis using that l body d fk path by blast
qed


lemma bind_gets_const: "bind (gets f) (\<lambda>_. m) = m"
  by (simp add: bind_def gets_def fun_eq_iff)



subsection \<open>Receipts\<close>

definition receipt_text :: "'a state_operation \<Rightarrow> 'a \<Rightarrow> string" where
  "receipt_text oper r = dumps indented (receipt_value oper r) @ [CHR 0x0A]"

definition receipt_node :: "nat \<Rightarrow> 'a state_operation \<Rightarrow> 'a \<Rightarrow> node" where
  "receipt_node u oper r = File 0x180 u (utf8_encode (receipt_text oper r))"

lemma sort_receipt: "sort_keys (receipt_value oper r) = JObj
     [(''kind'', JStr (op_kind oper)), (''request_id'', JStr (request_id oper)),
      (''result'', sort_keys (op_encode oper r)), (''schema_version'', JInt 1)]"
  by (simp add: receipt_value_def OPERATION_SCHEMA_VERSION_def)

lemma receipt_loads:
  assumes "no_float (op_encode oper r)"
  shows "loads (receipt_text oper r) = Inr (sort_keys (receipt_value oper r))"
  unfolding receipt_text_def using assms by (intro loads_document) (simp add: receipt_value_def)

lemma receipt_accepted:
  "receipt_matches (sort_keys (receipt_value oper r)) oper"
  "jget (sort_keys (receipt_value oper r)) ''result'' = Some (sort_keys (op_encode oper r))"
  by (simp_all add: sort_receipt receipt_matches_def OPERATION_SCHEMA_VERSION_def)

text \<open>
  A receipt that answers: at its place lies a small file with a matching document whose
  result decodes.
\<close>

definition receipt_at :: "(string \<Rightarrow> string) \<Rightarrow> comps \<Rightarrow> 'a state_operation \<Rightarrow> 'a \<Rightarrow> world \<Rightarrow> bool" where
  "receipt_at sha root oper r w \<longleftrightarrow> (\<exists>m u d t v. node_at w (operation_path sha root oper) = Some (File m u d)
     \<and> length d \<le> MAX_MANIFEST_BYTES \<and> utf8_decode d = Some t \<and> loads t = Inr v
     \<and> receipt_matches v oper \<and> op_decode oper (the (jget v ''result'')) = Inr r)"

lemma read_operation_Ret:
  assumes "read_operation sha root oper w = (Ret x, w')"
  shows "case x of None \<Rightarrow> node_at w (operation_path sha root oper) = None
    | Some r \<Rightarrow> receipt_at sha root oper r w"
proof -
  let ?p = "operation_path sha root oper"
  from assms obtain found w1 where l: "lstat_optional ?p w = (Ret found, w1)"
    and rest: "(case found of
        None \<Rightarrow> ret None
      | Some info \<Rightarrow>
          then_do (require (is_file_node (Some info) \<and> node_size info \<le> MAX_MANIFEST_BYTES)
            (StateError (''invalid operation receipt: '' @ show_path ?p)))
         (bind (try_except
             (bind (read_text_utf8 ?p) (\<lambda>t. lift (loads t)))
             is_load_error
             (\<lambda>e. raise (StateError (''cannot read operation receipt '' @ show_path ?p @ '': '' @ exn_str e))))
           (\<lambda>v. then_do (require (receipt_matches v oper)
               (StateError (''operation ID was already used for another request: '' @ request_id oper)))
             (bind (lift (op_decode oper (the (jget v ''result'')))) (\<lambda>r. ret (Some r)))))) w1 = (Ret x, w')"
    unfolding read_operation_def Let_def by (elim bind_RetE)
  have f: "found = node_at w ?p" and d1: "disk w1 = disk w" using lstat_optional_Ret [OF l] by simp_all
  show ?thesis
  proof (cases found)
    case None
    then show ?thesis using rest f by (auto simp: run_inv)
  next
    case (Some info)
    from rest [unfolded Some option.case run_inv read_text_utf8_def] obtain b w2 t v r
      where i: "is_file_node (Some info)" "node_size info \<le> MAX_MANIFEST_BYTES"
        and rd: "read_bytes ?p w1 = (Ret b, w2)" and t: "decode_utf8 b = Inr t" and v: "loads t = Inr v"
        and m: "receipt_matches v oper" and r: "op_decode oper (the (jget v ''result'')) = Inr r" and x: "x = Some r"
      by (elim exE conjE, hypsubst) (rule that; (assumption | simp))
    obtain mo us d where n: "node_at w ?p = Some (File mo us d)" "info = File mo us d"
      using f Some i(1) by (auto elim!: is_file_node.elims)
    have "node_at w1 ?p = Some (File mo us d)" using n node_at_disk [OF d1] by simp
    then have "b = d" using read_bytes_Ret [OF rd] by (simp add: follow_no_link)
    then have "utf8_decode d = Some t" using t by (simp add: decode_utf8_def split: option.splits)
    then show ?thesis using n i v m r x by (auto simp: receipt_at_def)
  qed
qed

lemma receipt_functional: "receipt_at sha root oper r w \<Longrightarrow> receipt_at sha root oper r' w \<Longrightarrow> r = r'"
  by (auto simp: receipt_at_def)

lemma receipt_at_disk: "node_at w' = node_at w \<Longrightarrow> receipt_at sha root oper r w' = receipt_at sha root oper r w"
  by (simp add: receipt_at_def)


definition void_example :: "unit state_operation" where
  "void_example = \<lparr>request_id = ''op-1'', op_kind = ''rotate'', op_encode = (\<lambda>_. JNull), op_decode = void_decode\<rparr>"

lemma void_example_accepted: "void_operation ''op-1'' ''rotate'' = Inr void_example"
  by (simp add: void_operation_def make_operation_def void_example_def OPERATION_ID_PATTERN_def
      OPERATION_KIND_PATTERN_def pattern_defs)

lemma void_example_small: "length (utf8_encode (receipt_text void_example ())) \<le> MAX_MANIFEST_BYTES"
proof -
  have "weight 0 (receipt_value void_example ()) \<le> 1000"
    by (simp add: receipt_value_def void_example_def OPERATION_SCHEMA_VERSION_def length_one)
  then show ?thesis
    using document_length [of "receipt_value void_example ()"] by (simp add: receipt_text_def MAX_MANIFEST_BYTES_def)
qed


subsection \<open>A completed operation is not repeated\<close>

text \<open>Two programs that act alike from the worlds of \<open>P\<close>.\<close>

definition agree :: "('w \<Rightarrow> bool) \<Rightarrow> ('w, 'a) prog \<Rightarrow> ('w, 'a) prog \<Rightarrow> bool" where
  "agree P m m' \<longleftrightarrow> (\<forall>w. P w \<longrightarrow> m w = m' w)"

lemma agree_refl: "agree P m m"
  by (simp add: agree_def)

lemma agree_bind:
  assumes "hoare P m Q E H" and "\<And>a. agree (Q a) (f a) (g a)"
  shows "agree P (bind m f) (bind m g)"
proof -
  have "bind m f w = bind m g w" if "P w" for w
  proof (cases "m w")
    case (Pair r v)
    then show ?thesis
      using hoare_RetD [OF assms(1) that] assms(2) by (cases r) (auto simp: bind_def agree_def)
  qed
  then show ?thesis by (simp add: agree_def)
qed

lemma agree_state_lock:
  assumes lock: "hoare P (lock_descriptor paths exclusive) (\<lambda>_. P) E H"
    and P: "\<And>w w'. same_store w w' \<Longrightarrow> P w \<Longrightarrow> P w'" and b: "agree P m m'"
  shows "agree P (state_lock paths exclusive blocking m) (state_lock paths exclusive blocking m')"
  unfolding state_lock_def
proof (rule agree_bind [OF lock])
  fix fd
  let ?flock = "try_except (os_flock fd exclusive (\<not> blocking)) is_BlockingIO (\<lambda>_. raise (StateError
        ''persistent state is busy; stop the gateway or wait for the active operation''))"
  have "hoare P ?flock (\<lambda>_. P) (\<lambda>_. P) P"
    by (rule hoare_ro [OF _ P]) (auto intro: obeys_rules)
  from agree_bind [OF this b] have "agree P (then_do ?flock m) (then_do ?flock m')" .
  then show "agree P (try_finally (then_do ?flock m) (then_do (suppress is_OSError (os_unlock fd)) (os_close fd)))
      (try_finally (then_do ?flock m') (then_do (suppress is_OSError (os_unlock fd)) (os_close fd)))"
    by (simp add: agree_def try_finally_def)
qed

text \<open>The update with its last branch, the one that runs the mutator, left open.\<close>

definition update_with ::
  "(string \<Rightarrow> string) \<Rightarrow> instance_paths \<Rightarrow> (instance_paths \<Rightarrow> unit io) \<Rightarrow> 'a state_operation option
   \<Rightarrow> ((comps \<times> string) option \<Rightarrow> 'a io) \<Rightarrow> 'a io" where
  "update_with sha paths validator operation build =
       then_do (ensure_private_directory (generations_path paths))
       (then_do (clean_incomplete paths)
       (bind (active_generation paths False) (\<lambda>active.
        then_do (clean_unreferenced_generations paths (map_option fst active))
       (bind (completed_operation sha active operation) (\<lambda>completed. case completed of
          Some r \<Rightarrow>
            then_do (validator (with_data paths (fst (the active))))
           (then_do (clean_legacy_state paths) (ret r))
        | None \<Rightarrow> build active)))))"

lemma mutate_state_update:
  "mutate_state sha h paths mutator validator publish_if operation = state_lock paths True False
     (update_with sha paths validator operation
        (build_and_publish sha h paths mutator validator publish_if operation))"
  by (simp add: mutate_state_def update_with_def)

lemma completed_replay:
  assumes v: "\<And>p. obeys same_store (validator p)" and g: "GENERATION_PATTERN g"
    and w0: "node_at w0 (current_path paths) = Some (Symlink (pointer_text g))"
    and r: "receipt_at sha (generations_path paths @ [g]) oper r w0"
  defines "I \<equiv> keeps (active_state paths (Some g)) w0"
  shows "hoare I (update_with sha paths validator (Some oper) build) (\<lambda>x w. I w \<and> x = r) (\<lambda>_. I) I"
    and "agree I (update_with sha paths validator (Some oper) build) (update_with sha paths validator (Some oper) build')"
proof -
  let ?A = "active_state paths (Some g)"
  note clear = active_state_clear [of paths "Some g"]
  have act: "GENERATION_PATTERN x" if "active_root paths (Some g) = Some (generations_path paths @ [x])" for x
    using that g by (simp add: active_root_def)
  have keep: "hoare I m (\<lambda>_. I) (\<lambda>_. I) I" if "obeys (keeps ?A) m" for m :: "'b io"
    unfolding I_def by (rule hoare_keeps [OF that])
  have 1: "obeys (keeps ?A) (ensure_private_directory (generations_path paths))"
    using clear_generations [OF clear] by (intro ensure_private_directory_keeps) blast
  have 2: "obeys (keeps ?A) (clean_incomplete paths)" by (rule clean_incomplete_keeps [OF clear act])
  have ag: "hoare I (active_generation paths False) (\<lambda>a w. I w \<and> a = Some (generations_path paths @ [g], g)) (\<lambda>_. I) I"
    unfolding I_def using hoare_active_generation [of "Some g" w0 paths] g w0
    by (simp add: active_value_def)
  have 3: "obeys (keeps ?A) (clean_unreferenced_generations paths (Some (generations_path paths @ [g])))"
    using clean_unreferenced_keeps [OF clear] by (simp add: active_root_def)
  have rc: "hoare I (completed_operation sha (Some (generations_path paths @ [g], g)) (Some oper))
      (\<lambda>c w. I w \<and> c = Some r) (\<lambda>_. I) I"
  proof (rule hoareI)
    fix w
    assume I: "I w"
    obtain x w' where run: "completed_operation sha (Some (generations_path paths @ [g], g)) (Some oper) w = (x, w')"
      by fastforce
    have I': "I w'"
      using same_store_stable(1) [OF obeysD [OF completed_operation_ro run]] I by (simp add: I_def)
    have "operation_path sha (generations_path paths @ [g]) oper \<in> ?A"
      by (simp add: active_state_def generation_tree_def operation_path_def)
    then have at: "receipt_at sha (generations_path paths @ [g]) oper r w"
      using r I by (simp add: receipt_at_def I_def keeps_def)
    have "c = Some r" if "x = Ret c" for c
      using read_operation_Ret [of sha "generations_path paths @ [g]" oper w c w'] run that at receipt_functional [OF at]
      by (cases c) (auto simp: completed_operation_def receipt_at_def)
    then show "case completed_operation sha (Some (generations_path paths @ [g], g)) (Some oper) w of
        (Ret c, w') \<Rightarrow> I w' \<and> c = Some r | (Exn e, w') \<Rightarrow> I w' | (Halt, w') \<Rightarrow> I w'"
      using I' by (cases x) (simp_all add: run)
  qed
  have 4: "obeys (keeps ?A) (clean_legacy_state paths)"
  proof (rule clean_legacy_state_keeps)
    fix x q
    assume "x \<in> set LEGACY_DATA_DIRECTORIES" and "q \<in> ?A"
    then show "\<not> prefix (ip_state paths @ [x]) q"
      using legacy_apart [of x q paths g] by (simp add: active_state_def)
  qed
  have fin: "hoare I (then_do (validator p) (then_do (clean_legacy_state paths) (ret r))) (\<lambda>x w. I w \<and> x = r) (\<lambda>_. I) I" for p
    by (rule hoare_bind [OF keep [OF reader_keeps [OF v]] hoare_bind [OF keep [OF 4] hoare_ret]]) simp
  have branch: "hoare (\<lambda>w. I w \<and> c = Some r)
      (case c of Some r \<Rightarrow> then_do (validator p) (then_do (clean_legacy_state paths) (ret r)) | None \<Rightarrow> k)
      (\<lambda>x w. I w \<and> x = r) (\<lambda>_. I) I" for c p k
    using fin by (cases "c = Some r") (simp_all add: hoare_def)
  have rest: "hoare (\<lambda>w. I w \<and> a = Some (generations_path paths @ [g], g))
      (then_do (clean_unreferenced_generations paths (map_option fst a))
       (bind (completed_operation sha a (Some oper)) (\<lambda>completed. case completed of
          Some r \<Rightarrow> then_do (validator (with_data paths (fst (the a)))) (then_do (clean_legacy_state paths) (ret r))
        | None \<Rightarrow> build a))) (\<lambda>x w. I w \<and> x = r) (\<lambda>_. I) I" for a
  proof (cases "a = Some (generations_path paths @ [g], g)")
    case True
    show ?thesis
      unfolding True option.map fst_conv
      by (rule hoare_pre [OF hoare_bind [OF keep [OF 3] hoare_bind [OF rc branch]]]) simp
  qed (simp add: hoare_def)
  show "hoare I (update_with sha paths validator (Some oper) build) (\<lambda>x w. I w \<and> x = r) (\<lambda>_. I) I"
    unfolding update_with_def by (rule hoare_bind [OF keep [OF 1] hoare_bind [OF keep [OF 2] hoare_bind [OF ag rest]]])
  have abranch: "agree (\<lambda>w. I w \<and> c = Some r)
      (case c of Some r \<Rightarrow> then_do (validator p) (then_do (clean_legacy_state paths) (ret r)) | None \<Rightarrow> k)
      (case c of Some r \<Rightarrow> then_do (validator p) (then_do (clean_legacy_state paths) (ret r)) | None \<Rightarrow> k')" for c p k k'
    by (cases "c = Some r") (simp_all add: agree_def)
  have arest: "agree (\<lambda>w. I w \<and> a = Some (generations_path paths @ [g], g))
      (then_do (clean_unreferenced_generations paths (map_option fst a))
       (bind (completed_operation sha a (Some oper)) (\<lambda>completed. case completed of
          Some r \<Rightarrow> then_do (validator (with_data paths (fst (the a)))) (then_do (clean_legacy_state paths) (ret r))
        | None \<Rightarrow> build a)))
      (then_do (clean_unreferenced_generations paths (map_option fst a))
       (bind (completed_operation sha a (Some oper)) (\<lambda>completed. case completed of
          Some r \<Rightarrow> then_do (validator (with_data paths (fst (the a)))) (then_do (clean_legacy_state paths) (ret r))
        | None \<Rightarrow> build' a)))" for a
  proof (cases "a = Some (generations_path paths @ [g], g)")
    case True
    have "agree I
      (then_do (clean_unreferenced_generations paths (Some (generations_path paths @ [g])))
       (bind (completed_operation sha a (Some oper)) (\<lambda>completed. case completed of
          Some r \<Rightarrow> then_do (validator (with_data paths (fst (the a)))) (then_do (clean_legacy_state paths) (ret r))
        | None \<Rightarrow> build a)))
      (then_do (clean_unreferenced_generations paths (Some (generations_path paths @ [g])))
       (bind (completed_operation sha a (Some oper)) (\<lambda>completed. case completed of
          Some r \<Rightarrow> then_do (validator (with_data paths (fst (the a)))) (then_do (clean_legacy_state paths) (ret r))
        | None \<Rightarrow> build' a)))"
      unfolding True by (rule agree_bind [OF keep [OF 3] agree_bind [OF rc abranch]])
    then show ?thesis using True by (simp add: agree_def)
  qed (simp add: agree_def)
  show "agree I (update_with sha paths validator (Some oper) build) (update_with sha paths validator (Some oper) build')"
    unfolding update_with_def
    by (rule agree_bind [OF keep [OF 1] agree_bind [OF keep [OF 2] agree_bind [OF ag arest]]])
qed

text \<open>
  C11: while the active generation holds the receipt of an operation, a repeated request
  for it never runs the mutator again (the whole behaviour is the same for every mutator
  and every publication rule), leaves the active generation as it is under every fault and
  crash, and when it returns, returns the recorded result.
\<close>

theorem completed_operation_not_repeated:
  assumes v: "\<And>p. obeys same_store (validator p)" and g: "GENERATION_PATTERN g"
    and w: "node_at w (current_path paths) = Some (Symlink (pointer_text g))"
    and r: "receipt_at sha (generations_path paths @ [g]) oper r w"
  shows "mutate_state sha h paths mutator validator publish_if (Some oper) w
      = mutate_state sha h paths mutator' validator publish_if' (Some oper) w
    \<and> (case mutate_state sha h paths mutator validator publish_if (Some oper) w of
      (Ret x, w') \<Rightarrow> x = r \<and> keeps (active_state paths (Some g)) w w'
    | (_, w') \<Rightarrow> keeps (active_state paths (Some g)) w w')"
proof -
  let ?I = "keeps (active_state paths (Some g)) w"
  note replay = completed_replay [OF v g w r]
  have lock: "hoare ?I (lock_descriptor paths True) (\<lambda>_. ?I) (\<lambda>_. ?I) ?I"
    by (rule hoare_keeps [OF lock_descriptor_keeps [OF active_state_clear]])
  have start: "?I w" by (rule kp.refl)
  have same: "agree ?I (mutate_state sha h paths mutator validator publish_if (Some oper))
      (mutate_state sha h paths mutator' validator publish_if' (Some oper))"
    unfolding mutate_state_update by (rule agree_state_lock [OF lock _ replay(2)]) (rule same_store_stable)
  have "hoare ?I (mutate_state sha h paths mutator validator publish_if (Some oper)) (\<lambda>x w. ?I w \<and> x = r) (\<lambda>_. ?I) ?I"
    unfolding mutate_state_update
    by (rule hoare_state_lock [OF replay(1) lock]) (auto elim: same_store_stable)
  then have "hoare (\<lambda>v. v = w) (mutate_state sha h paths mutator validator publish_if (Some oper))
      (\<lambda>x w. x = r \<and> ?I w) (\<lambda>_. ?I) ?I"
    by (rule hoare_conseq) (use start in auto)
  from hoare_at [OF this] same start show ?thesis by (simp add: agree_def)
qed

definition receipt_world :: world where
  "receipt_world = system_with [(current_path paths_example, Symlink (pointer_text (''gen-'' @ one_digits))),
     (operation_path id (generations_path paths_example @ [''gen-'' @ one_digits]) void_example,
        receipt_node 1000 void_example ())]"

theorem completed_operation_not_repeated_witness:
  "mutate_state id zero_digits paths_example store_note (\<lambda>_. ret ()) None (Some void_example) receipt_world
   = mutate_state id zero_digits paths_example (\<lambda>_. raise (StateError ''never'')) (\<lambda>_. ret ()) None
       (Some void_example) receipt_world"
proof -
  have g: "GENERATION_PATTERN (''gen-'' @ one_digits)" by (rule fresh_names(1) [OF digits_hex(2)])
  have c: "node_at receipt_world (current_path paths_example) = Some (Symlink (pointer_text (''gen-'' @ one_digits)))"
    by (simp add: receipt_world_def)
  have r: "receipt_at id (generations_path paths_example @ [''gen-'' @ one_digits]) void_example () receipt_world"
    using void_example_small receipt_loads [of void_example "()"] receipt_accepted [of void_example "()"]
    by (simp add: receipt_at_def receipt_world_def receipt_node_def operation_path_def current_path_def
        generations_path_def paths_example_def void_example_def void_decode_def CURRENT_LINK_def GENERATIONS_DIR_def)
  from completed_operation_not_repeated [where validator = "\<lambda>_. ret ()" and mutator = store_note
      and mutator' = "\<lambda>_. raise (StateError ''never'')" and publish_if = None and publish_if' = None
      and h = zero_digits, OF ro.ret g c r]
  show ?thesis by blast
qed

end
