(* ===== verification/Render.thy ===== *)
theory Render
  imports Config Json
begin

text \<open>
  \<open>render.py\<close>: the server configuration \<open>wg setconf\<close> reads, the client configuration of one
  peer and the fingerprint of everything whose change requires a new import.
\<close>

definition render_host :: "string \<Rightarrow> string" where
  "render_host host = (case parse_ip host of
       None \<Rightarrow> host
     | Some (V4 a) \<Rightarrow> str_ip (V4 a)
     | Some (V6 a s) \<Rightarrow> CHR ''['' # str_ip (V6 a s) @ '']'')"

definition endpoint :: "project_config \<Rightarrow> string" where
  "endpoint config = render_host (endpoint_host (wireguard config)) @ '':''
     @ str_int (listen_port (wireguard config))"

definition peer_allowed_routes :: "project_config \<Rightarrow> string list" where
  "peer_allowed_routes config = map str_network (effective_routes config)"

text \<open>\<open>"\<backslash>n".join(lines) + "\<backslash>n"\<close>.\<close>

definition text_lines :: "string list \<Rightarrow> string" where
  "text_lines ls = join [CHR 0x0A] ls @ [CHR 0x0A]"

definition peer_section :: "peer_config \<Rightarrow> string \<times> string \<Rightarrow> string list" where
  "peer_section peer keys = (case keys of (public_key, preshared_key) \<Rightarrow>
     [[], ''[Peer]'', ''# '' @ peer_name peer,
      ''PublicKey = '' @ public_key,
      ''PresharedKey = '' @ preshared_key,
      ''AllowedIPs = '' @ join '', '' (map str_interface (peer_addresses peer))])"

text \<open>The loop over the peers; a peer without keys is a \<open>KeyError\<close>.\<close>

fun peer_sections :: "(string \<times> string \<times> string) list \<Rightarrow> peer_config list \<Rightarrow> exn + string list" where
  "peer_sections peer_keys [] = Inr []"
| "peer_sections peer_keys (peer # ps) = (case map_of peer_keys (peer_name peer) of
       None \<Rightarrow> Inl (KeyError (peer_name peer))
     | Some keys \<Rightarrow> rbind (peer_sections peer_keys ps) (\<lambda>rest. Inr (peer_section peer keys @ rest)))"

definition render_server_config :: "project_config \<Rightarrow> string \<Rightarrow> (string \<times> string \<times> string) list \<Rightarrow> exn + string" where
  "render_server_config config server_private_key peer_keys =
     rbind (peer_sections peer_keys (peers (wireguard config))) (\<lambda>sections.
     Inr (text_lines ([''[Interface]'', ''PrivateKey = '' @ server_private_key,
        ''ListenPort = '' @ str_int (listen_port (wireguard config))] @ sections)))"

definition render_phone_config :: "project_config \<Rightarrow> peer_config \<Rightarrow> string \<Rightarrow> string \<Rightarrow> string \<Rightarrow> string" where
  "render_phone_config config peer server_public_key peer_private_key preshared_key =
     text_lines
      ([''[Interface]'',
        ''PrivateKey = '' @ peer_private_key,
        ''Address = '' @ join '', '' (map str_interface (peer_addresses peer))]
       @ (case (dns_enabled (dns config), upstream (dns config)) of
            (True, Some a) \<Rightarrow> [''DNS = '' @ str_ip a] | _ \<Rightarrow> [])
       @ [[], ''[Peer]'',
        ''PublicKey = '' @ server_public_key,
        ''PresharedKey = '' @ preshared_key,
        ''Endpoint = '' @ endpoint config,
        ''AllowedIPs = '' @ join '', '' (peer_allowed_routes config),
        ''PersistentKeepalive = '' @ str_int (persistent_keepalive_seconds peer)])"

text \<open>\<open>str(config.dns.upstream)\<close> of an absent upstream is the text \<open>None\<close>.\<close>

definition fingerprint_value ::
  "(string \<Rightarrow> string) \<Rightarrow> project_config \<Rightarrow> peer_config \<Rightarrow> string \<Rightarrow> string \<Rightarrow> string \<Rightarrow> json" where
  "fingerprint_value sha256_hex config peer server_public_key peer_public_key preshared_key = JObj
     [(''addresses'', JList (map (JStr \<circ> str_interface) (peer_addresses peer))),
      (''allowed_routes'', JList (map JStr (peer_allowed_routes config))),
      (''dns'', if dns_enabled (dns config)
                then JStr (case upstream (dns config) of None \<Rightarrow> ''None'' | Some a \<Rightarrow> str_ip a) else JNull),
      (''endpoint'', JStr (endpoint config)),
      (''keepalive'', JInt (persistent_keepalive_seconds peer)),
      (''peer_public_key'', JStr peer_public_key),
      (''preshared_key_digest'', JStr (sha256_hex preshared_key)),
      (''server_public_key'', JStr server_public_key)]"

text \<open>A preshared key outside ASCII cannot be encoded.\<close>

definition phone_fingerprint ::
  "(string \<Rightarrow> string) \<Rightarrow> project_config \<Rightarrow> peer_config \<Rightarrow> string \<Rightarrow> string \<Rightarrow> string \<Rightarrow> exn + string" where
  "phone_fingerprint sha256_hex config peer server_public_key peer_public_key preshared_key =
     (if list_all (\<lambda>c. code_of c < 128) preshared_key
      then Inr (sha256_hex (dumps compact (fingerprint_value sha256_hex config peer
                  server_public_key peer_public_key preshared_key)))
      else Inl UnicodeError)"

subsection \<open>Reading the text back\<close>

text \<open>
  A reference reader of WireGuard's configuration format: blank lines and comments do not
  count, a line in brackets opens a section, any other line is a field of the section it
  stands in.
\<close>

definition newline_free :: "string \<Rightarrow> bool" where
  "newline_free s \<longleftrightarrow> CHR 0x0A \<notin> set s"

definition cut_field :: "string \<Rightarrow> string \<times> string" where
  "cut_field l = (let key = takeWhile (\<lambda>c. c \<noteq> CHR '' '') l in (key, drop (length key + 3) l))"

fun wg_lines :: "string list \<Rightarrow> (string \<times> string) list \<times> (string \<times> (string \<times> string) list) list" where
  "wg_lines [] = ([], [])"
| "wg_lines (l # ls) =
     (if l = [] \<or> hd l = CHR ''#'' then wg_lines ls
      else if hd l = CHR ''['' then ([], (butlast (tl l), fst (wg_lines ls)) # snd (wg_lines ls))
      else (cut_field l # fst (wg_lines ls), snd (wg_lines ls)))"

definition wg_sections :: "string \<Rightarrow> (string \<times> (string \<times> string) list) list" where
  "wg_sections t = snd (wg_lines (split_on (CHR 0x0A) t))"

lemma join_snoc: "ls \<noteq> [] \<Longrightarrow> join sep (ls @ [x]) = join sep ls @ sep @ x"
  by (induction sep ls rule: join.induct) auto

lemma split_text_lines:
  assumes "ls \<noteq> []" and "list_all newline_free ls"
  shows "split_on (CHR 0x0A) (text_lines ls) = ls @ [[]]"
proof -
  have "text_lines ls = join [CHR 0x0A] (ls @ [[]])"
    using assms(1) by (simp add: text_lines_def join_snoc)
  then show ?thesis
    using assms(2) by (auto simp: list_all_iff newline_free_def intro!: split_on_join)
qed

lemma wg_lines_blank: "wg_lines (ls @ [[]]) = wg_lines ls"
  by (induction ls) simp_all

lemma wg_sections_lines:
  "ls \<noteq> [] \<Longrightarrow> list_all newline_free ls \<Longrightarrow> wg_sections (text_lines ls) = snd (wg_lines ls)"
  by (simp add: wg_sections_def split_text_lines wg_lines_blank)

lemma newline_free_append [simp]: "newline_free (s @ t) \<longleftrightarrow> newline_free s \<and> newline_free t"
  by (auto simp: newline_free_def)

lemma newline_free_Cons [simp]: "newline_free (c # s) \<longleftrightarrow> c \<noteq> CHR 0x0A \<and> newline_free s"
  by (auto simp: newline_free_def)

lemma newline_free_Nil [simp]: "newline_free []"
  by (simp add: newline_free_def)

lemma newline_free_join [simp]:
  "newline_free sep \<Longrightarrow> list_all newline_free xs \<Longrightarrow> newline_free (join sep xs)"
  by (induction sep xs rule: join.induct) auto

lemma newline_free_digits: "list_all is_digit s \<Longrightarrow> newline_free s"
  by (auto simp: newline_free_def list_all_iff char_class_defs)

lemma newline_free_str_int [simp]: "newline_free (str_int i)"
  using newline_free_digits [OF str_nat_digits] by (simp add: str_int_def)

text \<open>Addresses are printed on one line, whatever their bits; only a scope is free text.\<close>

lemma newline_free_str_nat [simp]: "newline_free (str_nat n)"
  by (rule newline_free_digits) (rule str_nat_digits)

lemma newline_free_str_v4 [simp]: "newline_free (str_v4 a)"
  by (simp add: str_v4_def)

lemma hex_digit_free: "n < 16 \<Longrightarrow> hex_digit n \<noteq> CHR 0x0A"
  using hex_char_cases [of n] by (auto simp: hex_digit_def)

lemma newline_free_str_hex [simp]: "newline_free (str_hex n)"
  by (induction n rule: str_hex.induct) (subst str_hex.simps, auto simp: hex_digit_free)

lemma list_all_take: "list_all P xs \<Longrightarrow> list_all P (take n xs)"
  by (auto simp: list_all_iff dest: in_set_takeD)

lemma list_all_drop: "list_all P xs \<Longrightarrow> list_all P (drop n xs)"
  by (auto simp: list_all_iff dest: in_set_dropD)

lemma newline_free_compress: "list_all newline_free hs \<Longrightarrow> list_all newline_free (compress_hextets hs)"
  by (auto simp: compress_hextets_def Let_def list_all_take list_all_drop split: prod.splits)

lemma newline_free_str_v6 [simp]: "newline_free (str_v6 a)"
  unfolding str_v6_def str_hextets_def
  by (auto split: option.splits intro!: newline_free_join newline_free_compress)

lemma newline_free_str_ip:
  "newline_free (str_ip a) \<longleftrightarrow> (case scope_id a of None \<Rightarrow> True | Some s \<Rightarrow> newline_free s)"
  by (cases a) (auto simp: with_scope_def split: option.splits)

lemma newline_free_str_interface:
  "newline_free (str_interface i) \<longleftrightarrow> newline_free (str_ip (if_address i))"
  by (simp add: str_interface_def)

lemma newline_free_str_network:
  "newline_free (str_network n) \<longleftrightarrow> newline_free (str_ip (network_address n))"
  by (simp add: str_network_def)

lemma newline_free_endpoint:
  "newline_free (endpoint_host (wireguard c)) \<Longrightarrow>
   (\<And>a s. parse_ip (endpoint_host (wireguard c)) = Some (V6 a (Some s)) \<Longrightarrow> newline_free s) \<Longrightarrow>
   newline_free (endpoint c)"
  by (auto simp: endpoint_def render_host_def with_scope_def split: option.splits ip_address.splits)

lemmas one_line = newline_free_str_ip newline_free_str_interface newline_free_str_network

text \<open>The fields a phone configuration holds, as a table.\<close>

definition phone_sections ::
  "project_config \<Rightarrow> peer_config \<Rightarrow> string \<Rightarrow> string \<Rightarrow> string \<Rightarrow> (string \<times> (string \<times> string) list) list" where
  "phone_sections config peer server_public_key peer_private_key preshared_key =
     [(''Interface'',
       [(''PrivateKey'', peer_private_key),
        (''Address'', join '', '' (map str_interface (peer_addresses peer)))]
       @ (case (dns_enabled (dns config), upstream (dns config)) of
            (True, Some a) \<Rightarrow> [(''DNS'', str_ip a)] | _ \<Rightarrow> [])),
      (''Peer'',
       [(''PublicKey'', server_public_key),
        (''PresharedKey'', preshared_key),
        (''Endpoint'', endpoint config),
        (''AllowedIPs'', join '', '' (peer_allowed_routes config)),
        (''PersistentKeepalive'', str_int (persistent_keepalive_seconds peer))])]"

definition server_sections ::
  "project_config \<Rightarrow> string \<Rightarrow> (string \<times> string \<times> string) list \<Rightarrow> (string \<times> (string \<times> string) list) list" where
  "server_sections config server_private_key peer_keys =
     (''Interface'', [(''PrivateKey'', server_private_key),
        (''ListenPort'', str_int (listen_port (wireguard config)))])
     # map (\<lambda>p. (''Peer'',
         [(''PublicKey'', fst (the (map_of peer_keys (peer_name p)))),
          (''PresharedKey'', snd (the (map_of peer_keys (peer_name p)))),
          (''AllowedIPs'', join '', '' (map str_interface (peer_addresses p)))]))
       (peers (wireguard config))"

text \<open>Every text of the configuration that a rendered line takes over stays on its line.\<close>

definition renders_on_lines :: "project_config \<Rightarrow> bool" where
  "renders_on_lines config \<longleftrightarrow>
     newline_free (endpoint config)
     \<and> list_all newline_free (peer_allowed_routes config)
     \<and> (case upstream (dns config) of None \<Rightarrow> True | Some a \<Rightarrow> newline_free (str_ip a))
     \<and> list_all (\<lambda>p. newline_free (peer_name p) \<and> list_all newline_free (map str_interface (peer_addresses p)))
         (peers (wireguard config))"

end
