(* ===== verification/RenderProps.thy ===== *)
theory RenderProps
  imports Render ConfigProps
begin

text \<open>
  What \<open>render.py\<close> achieves: the rendered texts read back, with the reference reader of the
  format, as exactly the fields they were rendered from, and the text that is hashed into a
  fingerprint determines everything a phone has to import.
\<close>


lemma example_on_lines: "renders_on_lines project_example"
proof -
  have "newline_free (endpoint project_example)"
    by (rule newline_free_endpoint)
       (simp_all add: project_example_def wireguard_example_def newline_free_def parse_ip_eval)
  moreover have "list_all newline_free (peer_allowed_routes project_example)"
    "case upstream (dns project_example) of None \<Rightarrow> True | Some a \<Rightarrow> newline_free (str_ip a)"
    by (simp_all add: peer_allowed_routes_def effective_routes_def project_example_def one_line with_scope_def)
  moreover have "list_all (\<lambda>p. newline_free (peer_name p) \<and> list_all newline_free (map str_interface (peer_addresses p)))
      (peers (wireguard project_example))"
    by (simp add: example_defs one_line with_scope_def)
  ultimately show ?thesis by (simp add: renders_on_lines_def)
qed


lemma peer_sections_read:
  assumes "peer_sections peer_keys ps = Inr ls"
  shows "wg_lines ls = ([], map (\<lambda>p. (''Peer'',
         [(''PublicKey'', fst (the (map_of peer_keys (peer_name p)))),
          (''PresharedKey'', snd (the (map_of peer_keys (peer_name p)))),
          (''AllowedIPs'', join '', '' (map str_interface (peer_addresses p)))])) ps)"
  using assms
  by (induction ps arbitrary: ls)
     (auto simp: rbind_eq_Inr peer_section_def cut_field_def split: option.splits)

lemma peer_sections_on_lines:
  assumes "peer_sections peer_keys ps = Inr ls"
    and "list_all (\<lambda>p. newline_free (peer_name p) \<and> list_all newline_free (map str_interface (peer_addresses p))) ps"
    and "list_all (\<lambda>(n, pub, psk). newline_free pub \<and> newline_free psk) peer_keys"
  shows "list_all newline_free ls"
  using assms
proof (induction ps arbitrary: ls)
  case (Cons p ps)
  then obtain pub psk rest where "map_of peer_keys (peer_name p) = Some (pub, psk)"
    "peer_sections peer_keys ps = Inr rest" "ls = peer_section p (pub, psk) @ rest"
    by (auto simp: rbind_eq_Inr split: option.splits)
  moreover from this have "newline_free pub" "newline_free psk"
    using Cons.prems(3) by (auto simp: list_all_iff dest: map_of_SomeD)
  ultimately show ?case using Cons by (auto simp: peer_section_def)
qed simp



lemma sort_keys_strings [simp]: "map sort_keys (map (JStr \<circ> f) xs) = map (JStr \<circ> f) xs"
  by simp

lemma fingerprint_sorted:
  "sort_keys (fingerprint_value h config peer spub ppub psk) = fingerprint_value h config peer spub ppub psk"
proof -
  have keys: "sorted [''addresses'', ''allowed_routes'', ''dns'', ''endpoint'', ''keepalive'', ''peer_public_key'',
      ''preshared_key_digest'', ''server_public_key'']"
    by code_simp
  have "sort_key fst ms = ms" if "sorted (map fst ms)" for ms :: "(string \<times> json) list"
    using that by (rule sort_key_id_if_sorted)
  then show ?thesis
    using keys by (simp add: fingerprint_value_def map_idI)
qed

lemma map_JStr_eq: "map (JStr \<circ> f) xs = map (JStr \<circ> g) ys \<longleftrightarrow> map f xs = map g ys"
proof -
  have "map (JStr \<circ> f) xs = map JStr (map f xs)" "map (JStr \<circ> g) ys = map JStr (map g ys)" by simp_all
  moreover have "inj JStr" by (simp add: inj_def)
  ultimately show ?thesis by (simp only: inj_map_eq_map)
qed

lemma fingerprint_no_float: "no_float (fingerprint_value h config peer spub ppub psk)"
  by (simp add: fingerprint_value_def list_all_iff)

lemma fingerprint_text_inj:
  assumes "dumps compact (fingerprint_value h c p spub ppub psk) = dumps compact (fingerprint_value h c' p' spub' ppub' psk')"
  shows "fingerprint_value h c p spub ppub psk = fingerprint_value h c' p' spub' ppub' psk'"
proof -
  have "loads (dumps compact (fingerprint_value h c p spub ppub psk) @ []) = Inr (fingerprint_value h c p spub ppub psk)" for c p spub ppub psk
    using loads_dumps [of compact "fingerprint_value h c p spub ppub psk" "[]"] fingerprint_no_float
      fingerprint_sorted by (simp add: white_layouts skip_ws_def)
  from this [of c p spub ppub psk] this [of c' p' spub' ppub' psk'] assms show ?thesis by simp
qed



end
