(* ===== verification/Runner.thy ===== *)
theory Runner
  imports Frame
begin

text \<open>
  \<open>runner.py\<close>: the fixed-command runner. \<open>subprocess.run\<close> starts a program outside the
  repository; it is the parameter \<open>launch\<close>, which for a command, its input, its time limit and
  its environment raises (\<open>OSError ENOENT\<close> for a missing program, \<open>TimeoutExpired\<close>) or gives
  the exit status with both outputs, and may change the world. Time limits are whole seconds.
\<close>

record command_result =
  cr_args :: "string list"
  returncode :: int
  cr_stdout :: string
  cr_stderr :: string

definition DEFAULT_TIMEOUT_SECONDS :: nat where
  "DEFAULT_TIMEOUT_SECONDS = 30"

definition MAX_DIAGNOSTIC_CHARS :: nat where
  "MAX_DIAGNOSTIC_CHARS = 8192"

record run_options =
  input_text :: "string option"
  run_timeout :: nat
  run_check :: bool
  run_env :: "(string \<times> string) list option"

text \<open>The keyword defaults of \<open>Runner.run\<close>.\<close>

definition default_options :: run_options where
  "default_options = \<lparr>input_text = None, run_timeout = DEFAULT_TIMEOUT_SECONDS, run_check = True, run_env = None\<rparr>"

abbreviation tolerant :: run_options where
  "tolerant \<equiv> default_options\<lparr>run_check := False\<rparr>"

abbreviation feeding :: "string \<Rightarrow> run_options" where
  "feeding t \<equiv> default_options\<lparr>input_text := Some t\<rparr>"

type_synonym runner = "string list \<Rightarrow> run_options \<Rightarrow> command_result io"

type_synonym launcher =
  "string list \<Rightarrow> string option \<Rightarrow> nat \<Rightarrow> (string \<times> string) list option \<Rightarrow> (int \<times> string \<times> string) io"

text \<open>The first bytes of the error output, or of the output when there is none.\<close>

definition diagnostic_of :: "nat \<Rightarrow> string \<Rightarrow> string \<Rightarrow> string" where
  "diagnostic_of limit err out = take limit (strip (if err \<noteq> [] then err else out))"

definition colon_suffix :: "string \<Rightarrow> string" where
  "colon_suffix d = (if d = [] then [] else '': '' @ d)"

fun is_TimeoutExpired :: "exn \<Rightarrow> bool" where
  "is_TimeoutExpired (TimeoutExpired _) = True"
| "is_TimeoutExpired _ = False"

definition SubprocessRunner :: "launcher \<Rightarrow> runner" where
  "SubprocessRunner launch command opts =
     then_do (require (command \<noteq> []) (ValueError ''command must not be empty''))
    (bind (try_except
        (try_except (launch command (input_text opts) (run_timeout opts) (run_env opts)) is_FileNotFound
          (\<lambda>_. raise (CommandError (''required command not found: '' @ hd command))))
        is_TimeoutExpired
        (\<lambda>_. raise (CommandError (''command timed out after '' @ str_nat (run_timeout opts) @ ''s: '' @ hd command))))
      (\<lambda>(status, out, err).
       let result = \<lparr>cr_args = command, returncode = status, cr_stdout = out, cr_stderr = err\<rparr> in
       then_do (require (\<not> (run_check opts \<and> status \<noteq> 0))
         (CommandError (hd command @ '' exited with status '' @ str_int status
            @ colon_suffix (diagnostic_of MAX_DIAGNOSTIC_CHARS err out))))
       (ret result)))"

text \<open>
  A checked run that returns was started with exactly the given argument vector and
  exited with status 0: no caller goes on after a failed command.
\<close>

lemma SubprocessRunner_Ret:
  assumes "SubprocessRunner launch command opts w = (Ret r, w')"
  obtains out err where "command \<noteq> []"
    and "launch command (input_text opts) (run_timeout opts) (run_env opts) w
      = (Ret (returncode r, out, err), w')"
    and "r = \<lparr>cr_args = command, returncode = returncode r, cr_stdout = out, cr_stderr = err\<rparr>"
    and "run_check opts \<Longrightarrow> returncode r = 0"
  using assms unfolding SubprocessRunner_def Let_def
  by (elim bind_RetE) (auto simp: run_inv split: prod.splits intro: that)

end
