(* ===== verification/Keys.thy ===== *)
theory Keys
  imports State Runner Render
begin

text \<open>
  The WireGuard half of \<open>keys.py\<close>: reading and generating key pairs, the phone
  configurations rendered from them, and the updates of the persistent state, each a
  mutator and a validator given to \<open>mutate_state\<close>. The programs \<open>wg genkey\<close>,
  \<open>wg pubkey\<close> and \<open>wg genpsk\<close> are reached through the runner.
\<close>

subsection \<open>Names\<close>

definition PRIVATE_KEY :: string where
  "PRIVATE_KEY = ''private.key''"

definition PUBLIC_KEY :: string where
  "PUBLIC_KEY = ''public.key''"

definition PRESHARED_KEY :: string where
  "PRESHARED_KEY = ''preshared.key''"

definition PHONE_CONFIG :: string where
  "PHONE_CONFIG = ''phone.conf''"

definition FINGERPRINT :: string where
  "FINGERPRINT = ''fingerprint.json''"

record key_pair =
  key_private :: string
  key_public :: string

subsection \<open>Base64\<close>

text \<open>
  \<open>base64.b64decode(value, validate=True)\<close>: quads of the alphabet, the last one padded with
  one or two equal signs, and nothing else; \<open>None\<close> is its error.
\<close>

definition b64_val :: "char \<Rightarrow> nat option" where
  "b64_val c = (if is_upper c then Some (code_of c - 65)
     else if is_lower c then Some (code_of c - 71)
     else if is_digit c then Some (code_of c + 4)
     else if c = CHR ''+'' then Some 62
     else if c = CHR ''/'' then Some 63 else None)"

definition byte :: "nat \<Rightarrow> char" where
  "byte n = char_of (n mod 256)"

fun b64decode :: "string \<Rightarrow> string option" where
  "b64decode [] = Some []"
| "b64decode (a # b # c # d # rest) = (case (b64_val a, b64_val b) of
       (Some x, Some y) \<Rightarrow>
         (if c = CHR ''='' then (if d = CHR ''='' \<and> rest = [] then Some [byte (4 * x + y div 16)] else None)
          else (case b64_val c of
              None \<Rightarrow> None
            | Some z \<Rightarrow>
                (if d = CHR ''='' then
                   (if rest = [] then Some [byte (4 * x + y div 16), byte (16 * y + z div 4)] else None)
                 else (case b64_val d of
                     None \<Rightarrow> None
                   | Some u \<Rightarrow> map_option (\<lambda>bs. byte (4 * x + y div 16) # byte (16 * y + z div 4)
                         # byte (64 * z + u) # bs) (b64decode rest)))))
     | _ \<Rightarrow> None)"
| "b64decode _ = None"

definition validate_wireguard_key :: "string \<Rightarrow> string \<Rightarrow> exn + string" where
  "validate_wireguard_key value label =
     (if value = [] \<or> CHR 0x0A \<in> set value \<or> CHR 0x0D \<in> set value
      then Inl (StateError (label @ '' must contain exactly one key''))
      else (case b64decode value of
          None \<Rightarrow> Inl (StateError (label @ '' is not valid base64''))
        | Some decoded \<Rightarrow>
            (if length decoded \<noteq> 32 \<or> length value \<noteq> 44
             then Inl (StateError (label @ '' must encode exactly 32 bytes''))
             else Inr value)))"

subsection \<open>Reading and generating keys\<close>

definition read_public_key :: "comps \<Rightarrow> string \<Rightarrow> string io" where
  "read_public_key path label =
     then_do (require_regular_file path label)
    (bind (try_except
        (bind (os_stat path) (\<lambda>info.
         then_do (require (node_size info \<le> 4096) (StateError (label @ '' is unexpectedly large'')))
         (bind (read_text_ascii path) (\<lambda>t. ret (strip t)))))
        is_read_error
        (\<lambda>e. raise (StateError (''cannot read '' @ label @ '': '' @ exn_str e))))
      (\<lambda>value. lift (validate_wireguard_key value label)))"

definition generate_key_pair :: "runner \<Rightarrow> key_pair io" where
  "generate_key_pair run =
     bind (run [''wg'', ''genkey''] default_options) (\<lambda>r1.
     bind (lift (validate_wireguard_key (strip (cr_stdout r1)) ''generated WireGuard private key'')) (\<lambda>private.
     bind (run [''wg'', ''pubkey''] (feeding (private @ [CHR 0x0A]))) (\<lambda>r2.
     bind (lift (validate_wireguard_key (strip (cr_stdout r2)) ''generated WireGuard public key'')) (\<lambda>public.
     ret \<lparr>key_private = private, key_public = public\<rparr>))))"

definition generate_preshared_key :: "runner \<Rightarrow> string io" where
  "generate_preshared_key run =
     bind (run [''wg'', ''genpsk''] default_options) (\<lambda>r.
     lift (validate_wireguard_key (strip (cr_stdout r)) ''generated WireGuard preshared key''))"

text \<open>\<open>complete\<close>, \<open>partial\<close> or \<open>missing\<close> by which of the named files exist.\<close>

definition presence_status :: "comps \<Rightarrow> string list \<Rightarrow> string io" where
  "presence_status directory names =
     bind (map_each (\<lambda>name. p_exists (directory @ [name])) names) (\<lambda>present.
     ret (if list_all id present then ''complete''
          else if list_ex id present then ''partial'' else ''missing''))"

definition key_pair_status :: "comps \<Rightarrow> string io" where
  "key_pair_status directory = presence_status directory [PRIVATE_KEY, PUBLIC_KEY]"

definition peer_key_status :: "comps \<Rightarrow> string io" where
  "peer_key_status directory = presence_status directory [PRIVATE_KEY, PUBLIC_KEY, PRESHARED_KEY]"

definition selected_peers :: "project_config \<Rightarrow> string option \<Rightarrow> exn + peer_config list" where
  "selected_peers config name = (case name of
       None \<Rightarrow> Inr (peers (wireguard config))
     | Some n \<Rightarrow> (case filter (\<lambda>p. peer_name p = n) (peers (wireguard config)) of
          [] \<Rightarrow> Inl (StateError (''peer is not declared in config.yaml: '' @ n))
        | p # _ \<Rightarrow> Inr [p]))"

definition load_server_keys_at :: "instance_paths \<Rightarrow> key_pair io" where
  "load_server_keys_at paths =
     bind (key_pair_status (server_dir paths)) (\<lambda>status.
     if status \<noteq> ''complete'' then raise_hinted StateError ''server keys are missing'' [''keys'', ''generate'']
     else
     bind (read_text_secret (server_dir paths @ [PRIVATE_KEY]) ''server private key'') (\<lambda>v.
     bind (lift (validate_wireguard_key v ''server private key'')) (\<lambda>private.
     bind (read_public_key (server_dir paths @ [PUBLIC_KEY]) ''server public key'') (\<lambda>public.
     ret \<lparr>key_private = private, key_public = public\<rparr>))))"

definition load_server_keys :: "instance_paths \<Rightarrow> key_pair io" where
  "load_server_keys paths = read_state paths load_server_keys_at True"

definition load_peer_keys_at :: "instance_paths \<Rightarrow> string \<Rightarrow> (key_pair \<times> string) io" where
  "load_peer_keys_at paths name =
     (let directory = peer_dir paths name in
      bind (peer_key_status directory) (\<lambda>status.
      if status \<noteq> ''complete''
      then raise_hinted StateError (''keys for peer '' @ name @ '' are missing'')
             [''keys'', ''generate'', ''--peer'', name]
      else
      bind (read_text_secret (directory @ [PRIVATE_KEY]) (name @ '' private key'')) (\<lambda>v.
      bind (lift (validate_wireguard_key v (name @ '' private key''))) (\<lambda>private.
      bind (read_public_key (directory @ [PUBLIC_KEY]) (name @ '' public key'')) (\<lambda>public.
      bind (read_text_secret (directory @ [PRESHARED_KEY]) (name @ '' preshared key'')) (\<lambda>p.
      bind (lift (validate_wireguard_key p (name @ '' preshared key''))) (\<lambda>preshared.
      ret (\<lparr>key_private = private, key_public = public\<rparr>, preshared))))))))"

definition load_peer_keys :: "instance_paths \<Rightarrow> string \<Rightarrow> (key_pair \<times> string) io" where
  "load_peer_keys paths name = read_state paths (\<lambda>snapshot. load_peer_keys_at snapshot name) True"

subsection \<open>Phone configurations\<close>

definition phone_artifacts ::
  "(string \<Rightarrow> string) \<Rightarrow> project_config \<Rightarrow> instance_paths \<Rightarrow> peer_config \<Rightarrow> key_pair \<Rightarrow> (string \<times> string) io" where
  "phone_artifacts sha256_hex config paths peer server =
     bind (load_peer_keys_at paths (peer_name peer)) (\<lambda>(pair, preshared).
     let rendered = render_phone_config config peer (key_public server) (key_private pair) preshared in
     bind (lift (phone_fingerprint sha256_hex config peer (key_public server) (key_public pair) preshared))
       (\<lambda>fingerprint. ret (rendered, fingerprint)))"

definition fingerprint_document :: "string \<Rightarrow> json" where
  "fingerprint_document fingerprint = JObj [(''schema_version'', JInt 1), (''fingerprint'', JStr fingerprint)]"

definition render_phone_configs ::
  "(string \<Rightarrow> string) \<Rightarrow> project_config \<Rightarrow> instance_paths \<Rightarrow> peer_config list \<Rightarrow> unit io" where
  "render_phone_configs sha256_hex config paths selected =
     bind (load_server_keys_at paths) (\<lambda>server.
     for_each (\<lambda>peer.
       bind (phone_artifacts sha256_hex config paths peer server) (\<lambda>(rendered, fingerprint).
       then_do (atomic_write (peer_dir paths (peer_name peer) @ [PHONE_CONFIG]) rendered 0x180)
       (atomic_write_json (peer_dir paths (peer_name peer) @ [FINGERPRINT]) (fingerprint_document fingerprint) 0x180)))
       selected)"

text \<open>The bound the phone configuration and its fingerprint share.\<close>

definition private_bounded :: "node \<Rightarrow> bool" where
  "private_bounded info \<longleftrightarrow> is_file_node (Some info) \<and> \<not> open_to_others info \<and> node_size info \<le> 64 * 1024"

definition read_phone_config_at :: "instance_paths \<Rightarrow> string \<Rightarrow> string io" where
  "read_phone_config_at paths name =
     (let path = peer_dir paths name @ [PHONE_CONFIG] in
      try_except
        (bind (os_lstat path) (\<lambda>info.
         then_do (require (private_bounded info) (StateError (''invalid phone configuration: '' @ show_path path)))
         (read_text_utf8 path)))
        is_read_error
        (\<lambda>e. raise (StateError (''cannot read phone configuration for '' @ name @ '': '' @ exn_str e))))"

definition read_phone_config :: "instance_paths \<Rightarrow> string \<Rightarrow> string io" where
  "read_phone_config paths name = read_state paths (\<lambda>snapshot. read_phone_config_at snapshot name) True"

definition read_phone_artifacts :: "instance_paths \<Rightarrow> string \<Rightarrow> (json \<times> string) io" where
  "read_phone_artifacts paths name =
     (let path = peer_dir paths name @ [FINGERPRINT] in
      try_except
        (bind (os_lstat path) (\<lambda>info.
         then_do (require (private_bounded info)
           (StateError (''phone config fingerprint for '' @ name @ '' is unexpectedly large'')))
         (bind (read_text_utf8 path) (\<lambda>t.
          bind (lift (loads t)) (\<lambda>value.
          bind (read_phone_config_at paths name) (\<lambda>actual_config. ret (value, actual_config)))))))
        (\<lambda>e. is_load_error e \<or> is_StateError e)
        (\<lambda>_. raise_hinted StateError (''phone config for '' @ name @ '' is missing or invalid'')
               [''phone-config'', name]))"

definition fingerprint_matches :: "json \<Rightarrow> string \<Rightarrow> bool" where
  "fingerprint_matches value fingerprint \<longleftrightarrow> is_JObj value
     \<and> json_is_int (jget value ''schema_version'') 1
     \<and> jget value ''fingerprint'' = Some (JStr fingerprint)"

definition require_selected_phone_configs ::
  "(string \<Rightarrow> string) \<Rightarrow> project_config \<Rightarrow> instance_paths \<Rightarrow> peer_config list \<Rightarrow> unit io" where
  "require_selected_phone_configs sha256_hex config paths selected =
     bind (load_server_keys_at paths) (\<lambda>server.
     for_each (\<lambda>peer.
       bind (phone_artifacts sha256_hex config paths peer server) (\<lambda>(expected_config, expected_fingerprint).
       bind (read_phone_artifacts paths (peer_name peer)) (\<lambda>(value, actual_config).
       if \<not> fingerprint_matches value expected_fingerprint \<or> actual_config \<noteq> expected_config
       then raise_hinted StateError (''phone config for '' @ peer_name peer @ '' is stale'')
              [''phone-config'', peer_name peer]
       else ret ())))
       selected)"

definition require_current_phone_configs_at ::
  "(string \<Rightarrow> string) \<Rightarrow> project_config \<Rightarrow> instance_paths \<Rightarrow> unit io" where
  "require_current_phone_configs_at sha256_hex config paths =
     require_selected_phone_configs sha256_hex config paths (peers (wireguard config))"

definition require_current_phone_configs ::
  "(string \<Rightarrow> string) \<Rightarrow> project_config \<Rightarrow> instance_paths \<Rightarrow> unit io" where
  "require_current_phone_configs sha256_hex config paths =
     read_state paths (require_current_phone_configs_at sha256_hex config) True"

subsection \<open>Validators\<close>

definition validate_selected_keys :: "instance_paths \<Rightarrow> peer_config list \<Rightarrow> unit io" where
  "validate_selected_keys paths selected =
     then_do (load_server_keys_at paths)
     (for_each (\<lambda>peer. then_do (load_peer_keys_at paths (peer_name peer)) (ret ())) selected)"

definition validate_snapshot :: "(string \<Rightarrow> string) \<Rightarrow> project_config \<Rightarrow> instance_paths \<Rightarrow> unit io" where
  "validate_snapshot sha256_hex config paths =
     then_do (validate_selected_keys paths (peers (wireguard config)))
     (require_current_phone_configs_at sha256_hex config paths)"

definition validate_phone_snapshot ::
  "(string \<Rightarrow> string) \<Rightarrow> project_config \<Rightarrow> peer_config list \<Rightarrow> instance_paths \<Rightarrow> unit io" where
  "validate_phone_snapshot sha256_hex config selected paths =
     then_do (validate_selected_keys paths selected)
     (require_selected_phone_configs sha256_hex config paths selected)"

definition partial_peer :: "string \<Rightarrow> exn" where
  "partial_peer name = StateError (''peer '' @ name @ '' key state is partial; rotate it explicitly'')"

definition validate_available_keys :: "project_config \<Rightarrow> instance_paths \<Rightarrow> unit io" where
  "validate_available_keys config paths =
     then_do (load_server_keys_at paths)
     (for_each (\<lambda>peer.
        bind (peer_key_status (peer_dir paths (peer_name peer))) (\<lambda>status.
        if status = ''missing'' then ret ()
        else then_do (require (status \<noteq> ''partial'') (partial_peer (peer_name peer)))
            (then_do (load_peer_keys_at paths (peer_name peer)) (ret ()))))
        (peers (wireguard config)))"

subsection \<open>Mutators\<close>

definition key_line :: "string \<Rightarrow> string" where
  "key_line k = k @ [CHR 0x0A]"

definition generate_server_keys :: "instance_paths \<Rightarrow> runner \<Rightarrow> string list io" where
  "generate_server_keys paths run =
     bind (key_pair_status (server_dir paths)) (\<lambda>status.
     then_do (require (status \<noteq> ''partial'')
       (StateError ''server key state is partial; rotate or repair it explicitly''))
     (if status = ''missing'' then
        bind (generate_key_pair run) (\<lambda>pair.
        then_do (atomic_write (server_dir paths @ [PRIVATE_KEY]) (key_line (key_private pair)) 0x180)
       (then_do (atomic_write (server_dir paths @ [PUBLIC_KEY]) (key_line (key_public pair)) 0x1A4)
        (ret [''server''])))
      else ret []))"

definition generate_peer_keys :: "instance_paths \<Rightarrow> runner \<Rightarrow> peer_config \<Rightarrow> string list io" where
  "generate_peer_keys paths run peer =
     (let directory = peer_dir paths (peer_name peer) in
      bind (peer_key_status directory) (\<lambda>status.
      then_do (require (status \<noteq> ''partial'') (partial_peer (peer_name peer)))
      (if status = ''missing'' then
         bind (generate_key_pair run) (\<lambda>pair.
         bind (generate_preshared_key run) (\<lambda>preshared.
         then_do (atomic_write (directory @ [PRIVATE_KEY]) (key_line (key_private pair)) 0x180)
        (then_do (atomic_write (directory @ [PUBLIC_KEY]) (key_line (key_public pair)) 0x1A4)
        (then_do (atomic_write (directory @ [PRESHARED_KEY]) (key_line preshared) 0x180)
         (ret [peer_name peer])))))
       else ret [])))"

definition generate_missing_keys_at ::
  "(string \<Rightarrow> string) \<Rightarrow> project_config \<Rightarrow> runner \<Rightarrow> peer_config list \<Rightarrow> instance_paths \<Rightarrow> string list io" where
  "generate_missing_keys_at sha256_hex config run selected paths =
     then_do (ensure_private_directory (ip_state paths))
    (bind (generate_server_keys paths run) (\<lambda>server.
     bind (map_each (generate_peer_keys paths run) selected) (\<lambda>created.
     then_do (validate_selected_keys paths selected)
    (then_do (render_phone_configs sha256_hex config paths selected)
     (ret (server @ concat created))))))"

definition generate_missing_keys ::
  "(string \<Rightarrow> string) \<Rightarrow> string \<Rightarrow> project_config \<Rightarrow> instance_paths \<Rightarrow> runner \<Rightarrow> string option \<Rightarrow> string list io" where
  "generate_missing_keys sha256_hex uuid_hex config paths run name =
     bind (lift (selected_peers config name)) (\<lambda>selected.
     mutate_state sha256_hex uuid_hex paths
       (generate_missing_keys_at sha256_hex config run selected)
       (validate_phone_snapshot sha256_hex config selected) None None)"

definition regenerate_phone_config ::
  "(string \<Rightarrow> string) \<Rightarrow> string \<Rightarrow> project_config \<Rightarrow> instance_paths \<Rightarrow> string \<Rightarrow> unit io" where
  "regenerate_phone_config sha256_hex uuid_hex config paths name =
     bind (lift (selected_peers config (Some name))) (\<lambda>selected.
     mutate_state sha256_hex uuid_hex paths
       (\<lambda>snapshot. render_phone_configs sha256_hex config snapshot selected)
       (validate_phone_snapshot sha256_hex config selected) None None)"

definition rotate_peer_at ::
  "(string \<Rightarrow> string) \<Rightarrow> project_config \<Rightarrow> runner \<Rightarrow> peer_config list \<Rightarrow> instance_paths \<Rightarrow> unit io" where
  "rotate_peer_at sha256_hex config run selected snapshot =
     (let directory = peer_dir snapshot (peer_name (selected ! 0)) in
      bind (generate_key_pair run) (\<lambda>pair.
      bind (generate_preshared_key run) (\<lambda>preshared.
      then_do (atomic_write (directory @ [PUBLIC_KEY]) (key_line (key_public pair)) 0x1A4)
     (then_do (atomic_write (directory @ [PRESHARED_KEY]) (key_line preshared) 0x180)
     (then_do (atomic_write (directory @ [PRIVATE_KEY]) (key_line (key_private pair)) 0x180)
      (render_phone_configs sha256_hex config snapshot selected))))))"

definition rotate_peer ::
  "(string \<Rightarrow> string) \<Rightarrow> string \<Rightarrow> project_config \<Rightarrow> instance_paths \<Rightarrow> runner \<Rightarrow> string \<Rightarrow> string \<Rightarrow> unit io" where
  "rotate_peer sha256_hex uuid_hex config paths run name operation_id =
     bind (lift (selected_peers config (Some name))) (\<lambda>selected.
     bind (lift (void_operation operation_id (''keys.rotate-peer.'' @ name))) (\<lambda>operation.
     mutate_state sha256_hex uuid_hex paths
       (rotate_peer_at sha256_hex config run selected)
       (validate_phone_snapshot sha256_hex config selected) None (Some operation)))"

definition rotate_server_at ::
  "(string \<Rightarrow> string) \<Rightarrow> project_config \<Rightarrow> runner \<Rightarrow> instance_paths \<Rightarrow> unit io" where
  "rotate_server_at sha256_hex config run snapshot =
     bind (generate_key_pair run) (\<lambda>pair.
     then_do (atomic_write (server_dir snapshot @ [PUBLIC_KEY]) (key_line (key_public pair)) 0x1A4)
    (then_do (atomic_write (server_dir snapshot @ [PRIVATE_KEY]) (key_line (key_private pair)) 0x180)
     (render_phone_configs sha256_hex config snapshot (peers (wireguard config)))))"

definition rotate_server ::
  "(string \<Rightarrow> string) \<Rightarrow> string \<Rightarrow> project_config \<Rightarrow> instance_paths \<Rightarrow> runner \<Rightarrow> string \<Rightarrow> unit io" where
  "rotate_server sha256_hex uuid_hex config paths run operation_id =
     bind (lift (void_operation operation_id ''keys.rotate-server'')) (\<lambda>operation.
     mutate_state sha256_hex uuid_hex paths
       (rotate_server_at sha256_hex config run)
       (validate_snapshot sha256_hex config) None (Some operation))"

text \<open>The loop over the directory: a declared name stays, anything but a directory is an error.\<close>

definition prune_child :: "project_config \<Rightarrow> comps \<Rightarrow> string \<Rightarrow> string list io" where
  "prune_child config peers_root name =
     (if name \<in> set (map peer_name (peers (wireguard config))) then ret []
      else
      bind (p_is_symlink (peers_root @ [name])) (\<lambda>link.
      bind (p_is_dir (peers_root @ [name])) (\<lambda>dir.
      then_do (require (\<not> (link \<or> \<not> dir))
        (StateError (''refusing to prune unexpected peer state: '' @ show_path (peers_root @ [name]))))
     (then_do (rmtree (peers_root @ [name])) (ret [name])))))"

definition prune_at :: "project_config \<Rightarrow> instance_paths \<Rightarrow> string list io" where
  "prune_at config snapshot =
     (let peers_root = data_dir snapshot @ [''peers''] in
      bind (p_exists peers_root) (\<lambda>there.
      if \<not> there then ret []
      else bind (os_listdir peers_root) (\<lambda>names.
        bind (map_each (prune_child config peers_root) names) (\<lambda>removed.
        ret (sort (concat removed))))))"

definition prune_orphaned_peers ::
  "(string \<Rightarrow> string) \<Rightarrow> string \<Rightarrow> project_config \<Rightarrow> instance_paths \<Rightarrow> string list io" where
  "prune_orphaned_peers sha256_hex uuid_hex config paths =
     mutate_state sha256_hex uuid_hex paths (prune_at config) (validate_available_keys config)
       (Some (\<lambda>removed. removed \<noteq> [])) None"

subsection \<open>Peer rows\<close>

definition phone_state :: "(string \<Rightarrow> string) \<Rightarrow> project_config \<Rightarrow> instance_paths \<Rightarrow> peer_config \<Rightarrow> string io" where
  "phone_state sha256_hex config paths peer =
     bind (p_is_file (peer_dir paths (peer_name peer) @ [PHONE_CONFIG])) (\<lambda>phone.
     bind (p_is_file (peer_dir paths (peer_name peer) @ [FINGERPRINT])) (\<lambda>fingerprint.
     if \<not> phone \<or> \<not> fingerprint then ret ''missing''
     else try_except
       (then_do (require_selected_phone_configs sha256_hex config paths [peer]) (ret ''current''))
       is_StateError (\<lambda>_. ret ''stale'')))"

definition peer_rows_at ::
  "(string \<Rightarrow> string) \<Rightarrow> project_config \<Rightarrow> instance_paths \<Rightarrow> (string \<times> string \<times> string) list io" where
  "peer_rows_at sha256_hex config paths =
     map_each (\<lambda>peer.
       bind (peer_key_status (peer_dir paths (peer_name peer))) (\<lambda>key_state.
       bind (phone_state sha256_hex config paths peer) (\<lambda>phone.
       ret (peer_name peer, key_state, phone))))
       (peers (wireguard config))"

definition peer_rows ::
  "(string \<Rightarrow> string) \<Rightarrow> project_config \<Rightarrow> instance_paths \<Rightarrow> (string \<times> string \<times> string) list io" where
  "peer_rows sha256_hex config paths = read_state paths (peer_rows_at sha256_hex config) False"

end
