(* ===== verification/KeysFrame.thy ===== *)
theory KeysFrame
  imports Keys StateCrash
begin

text \<open>
  What the operations of \<open>keys.py\<close> leave alone: readers change nothing, mutators stay on the
  line of the data directory they are given, so each pair given to \<open>mutate_state\<close> meets
  the contract \<open>state_client\<close>.
\<close>

subsection \<open>Readers\<close>

lemma read_public_key_ro [obeys_rules]: "obeys same_store (read_public_key path label)"
  unfolding read_public_key_def by (intro obeys_rules)

lemma presence_status_ro [obeys_rules]: "obeys same_store (presence_status d names)"
  unfolding presence_status_def by (intro obeys_rules)

lemma status_ro [obeys_rules]:
  "obeys same_store (key_pair_status d)" "obeys same_store (peer_key_status d)"
  unfolding key_pair_status_def peer_key_status_def by (intro obeys_rules)+

lemma load_server_keys_at_ro [obeys_rules]: "obeys same_store (load_server_keys_at paths)"
  unfolding load_server_keys_at_def by (intro obeys_rules)

lemma load_peer_keys_at_ro [obeys_rules]: "obeys same_store (load_peer_keys_at paths name)"
  unfolding load_peer_keys_at_def Let_def by (intro obeys_rules)

lemma phone_artifacts_ro [obeys_rules]: "obeys same_store (phone_artifacts sha config paths peer server)"
  unfolding phone_artifacts_def Let_def by (intro obeys_rules)

lemma read_phone_config_at_ro [obeys_rules]: "obeys same_store (read_phone_config_at paths name)"
  unfolding read_phone_config_at_def Let_def by (intro obeys_rules)

lemma read_phone_artifacts_ro [obeys_rules]: "obeys same_store (read_phone_artifacts paths name)"
  unfolding read_phone_artifacts_def Let_def by (intro obeys_rules)

lemma require_selected_ro [obeys_rules]: "obeys same_store (require_selected_phone_configs sha config paths selected)"
  unfolding require_selected_phone_configs_def by (intro obeys_rules)

lemma validate_selected_keys_ro [obeys_rules]: "obeys same_store (validate_selected_keys paths selected)"
  unfolding validate_selected_keys_def by (intro obeys_rules)

lemma validators_ro [obeys_rules]:
  "obeys same_store (validate_snapshot sha config paths)"
  "obeys same_store (validate_phone_snapshot sha config selected paths)"
  "obeys same_store (validate_available_keys config paths)"
  unfolding validate_snapshot_def validate_phone_snapshot_def validate_available_keys_def
    require_current_phone_configs_at_def
  by (intro obeys_rules)+

text \<open>
  The documented behaviour of the programs the runner starts here: \<open>wg genkey\<close>,
  \<open>wg pubkey\<close> and \<open>wg genpsk\<close> write to their output only.
\<close>

definition quiet :: "runner \<Rightarrow> bool" where
  "quiet run \<longleftrightarrow> (\<forall>cmd opts. hd cmd = ''wg'' \<longrightarrow> obeys same_store (run cmd opts))"

lemma generate_key_pair_ro: "quiet run \<Longrightarrow> obeys same_store (generate_key_pair run)"
  unfolding generate_key_pair_def by (intro obeys_rules) (simp_all add: quiet_def)

lemma generate_preshared_key_ro: "quiet run \<Longrightarrow> obeys same_store (generate_preshared_key run)"
  unfolding generate_preshared_key_def by (intro obeys_rules) (simp_all add: quiet_def)

lemmas keys_readers_conf [obeys_rules] =
  read_public_key_ro [THEN reader_confined] presence_status_ro [THEN reader_confined]
  status_ro [THEN reader_confined] load_server_keys_at_ro [THEN reader_confined]
  load_peer_keys_at_ro [THEN reader_confined] phone_artifacts_ro [THEN reader_confined]
  validate_selected_keys_ro [THEN reader_confined]

lemmas keys_readers_keeps [obeys_rules] =
  read_public_key_ro [THEN reader_keeps] presence_status_ro [THEN reader_keeps]
  status_ro [THEN reader_keeps] load_server_keys_at_ro [THEN reader_keeps]
  load_peer_keys_at_ro [THEN reader_keeps] phone_artifacts_ro [THEN reader_keeps]
  validate_selected_keys_ro [THEN reader_keeps]

lemmas generators_conf =
  generate_key_pair_ro [THEN reader_confined] generate_preshared_key_ro [THEN reader_confined]

lemmas generators_keeps =
  generate_key_pair_ro [THEN reader_keeps] generate_preshared_key_ro [THEN reader_keeps]

subsection \<open>Mutators\<close>

lemma with_data_dirs [simp]:
  "data_dir (with_data p d) = d" "server_dir (with_data p d) = d @ [''server'']"
  "peer_dir (with_data p d) n = d @ [''peers'', n]" "ip_state (with_data p d) = ip_state p"
  by (simp_all add: with_data_def data_dir_def server_dir_def peer_dir_def)

lemma render_phone_configs_conf [obeys_rules]:
  "obeys (confined d) (render_phone_configs sha config (with_data p d) selected)"
  unfolding render_phone_configs_def by (intro obeys_rules) (simp_all add: butlast_append)

lemma rmtree_conf [obeys_rules]: "prefix r p \<Longrightarrow> obeys (confined r) (rmtree p)"
  unfolding rmtree_def with_fuel_def by (intro obeys_rules rmtree_at_conf)

lemma prune_at_conf: "obeys (confined d) (prune_at config (with_data p d))"
  unfolding prune_at_def prune_child_def Let_def by (intro obeys_rules) (simp_all add: butlast_append)

lemma generate_missing_keys_at_conf:
  "quiet run \<Longrightarrow> prefix (ip_state p) d \<Longrightarrow>
   obeys (confined d) (generate_missing_keys_at sha config run selected (with_data p d))"
  unfolding generate_missing_keys_at_def generate_server_keys_def generate_peer_keys_def Let_def
  by (intro obeys_rules generators_conf) (simp_all add: on_line_above butlast_append)

lemma rotate_peer_at_conf: "quiet run \<Longrightarrow> obeys (confined d) (rotate_peer_at sha config run selected (with_data p d))"
  unfolding rotate_peer_at_def Let_def by (intro obeys_rules generators_conf) (simp_all add: butlast_append)

lemma rotate_server_at_conf: "quiet run \<Longrightarrow> obeys (confined d) (rotate_server_at sha config run (with_data p d))"
  unfolding rotate_server_at_def by (intro obeys_rules generators_conf) (simp_all add: butlast_append)

subsection \<open>The contract of \<open>mutate_state\<close>\<close>

interpretation phone: state_client "\<lambda>s. render_phone_configs sha config s selected"
    "validate_phone_snapshot sha config selected" for sha config selected
  by unfold_locales (intro obeys_rules)+

interpretation pruning: state_client "prune_at config" "validate_available_keys config" for config
  by unfold_locales (intro prune_at_conf obeys_rules)+

lemma generate_client:
  "quiet run \<Longrightarrow> state_client (generate_missing_keys_at sha config run selected)
     (validate_phone_snapshot sha config selected)"
  by unfold_locales (intro generate_missing_keys_at_conf obeys_rules, assumption+, intro obeys_rules)

lemma rotate_peer_client:
  "quiet run \<Longrightarrow> state_client (rotate_peer_at sha config run selected) (validate_phone_snapshot sha config selected)"
  by unfold_locales (intro rotate_peer_at_conf obeys_rules, assumption, intro obeys_rules)

lemma rotate_server_client:
  "quiet run \<Longrightarrow> state_client (rotate_server_at sha config run) (validate_snapshot sha config)"
  by unfold_locales (intro rotate_server_at_conf obeys_rules, assumption, intro obeys_rules)

end
