(* ===== verification/KeysProps.thy ===== *)
theory KeysProps
  imports KeysFrame StateProps FilesProps
begin

text \<open>
  What the operations on the WireGuard keys guarantee: exactly the canonical texts of 32-byte
  keys are accepted, a snapshot that passes validation holds the keys and the phone
  configurations rendered from them, and an update leaves, wherever it is interrupted, such a
  snapshot or the old state.
\<close>

subsection \<open>The text of a key\<close>

definition b64_char :: "char \<Rightarrow> bool" where
  "b64_char c \<longleftrightarrow> b64_val c \<noteq> None"

lemma b64_char_not: "b64_char c \<Longrightarrow> c \<noteq> CHR ''='' \<and> c \<noteq> CHR 0x0A \<and> c \<noteq> CHR 0x0D"
  by (auto simp: b64_char_def b64_val_def char_class_defs)

text \<open>A key: 43 characters of the alphabet and one equal sign.\<close>

definition wireguard_key :: "string \<Rightarrow> bool" where
  "wireguard_key k \<longleftrightarrow> length k = 44 \<and> list_all b64_char (take 43 k) \<and> drop 43 k = ''=''"

lemma b64decode_plain:
  "list_all b64_char s \<Longrightarrow> length s = 4 * n \<Longrightarrow> \<exists>d. b64decode (s @ t) = map_option (\<lambda>e. d @ e) (b64decode t) \<and> length d = 3 * n"
proof (induction n arbitrary: s)
  case 0
  then show ?case by (cases "b64decode t") simp_all
next
  case (Suc n)
  have "length s = Suc (Suc (Suc (Suc (4 * n))))" using Suc.prems(2) by simp
  with Suc.prems(1) obtain a b c d r where s: "s = a # b # c # d # r" and r: "length r = 4 * n" "list_all b64_char r"
    by (force simp: length_Suc_conv)
  from Suc.IH [OF r(2,1)] obtain ds where d: "b64decode (r @ t) = map_option (\<lambda>e. ds @ e) (b64decode t)" "length ds = 3 * n"
    by blast
  have "c \<noteq> CHR ''=''" "d \<noteq> CHR ''=''" using Suc.prems(1) b64_char_not by (auto simp: s)
  moreover obtain x y z u where "b64_val a = Some x" "b64_val b = Some y" "b64_val c = Some z" "b64_val d = Some u"
    using Suc.prems(1) by (auto simp: s b64_char_def)
  ultimately have "b64decode (s @ t) = map_option (\<lambda>e. (byte (4 * x + y div 16) # byte (16 * y + z div 4)
      # byte (64 * z + u) # ds) @ e) (b64decode t)"
    by (simp add: s d(1) option.map_comp o_def)
  with d(2) show ?case by (metis (no_types, lifting) length_Cons mult_Suc_right numeral_3_eq_3 add_Suc add_0)
qed

text \<open>A text that decodes is made of full quads and at most one padded one.\<close>

lemma b64decode_shape:
  "b64decode s = Some d \<Longrightarrow> \<exists>p t. s = p @ t \<and> list_all b64_char p
     \<and> (t = [] \<and> length d * 4 = length s * 3
      \<or> t = ''='' \<and> (length d + 1) * 4 = length s * 3
      \<or> t = ''=='' \<and> (length d + 2) * 4 = length s * 3)"
proof (induction s arbitrary: d rule: b64decode.induct)
  case (2 a b c e rest)
  then obtain x y where ab: "b64_val a = Some x" "b64_val b = Some y"
    by (auto split: option.split_asm)
  then have two: "list_all b64_char [a, b]" by (simp add: b64_char_def)
  show ?case
  proof (cases "c = CHR ''=''")
    case True
    then show ?thesis
      using 2 ab two by (intro exI [of _ "[a, b]"] exI [of _ "''==''"]) (auto split: if_split_asm)
  next
    case c: False
    then obtain z where z: "b64_val c = Some z"
      using 2 ab by (auto split: option.split_asm)
    with two have three: "list_all b64_char [a, b, c]" by (simp add: b64_char_def)
    show ?thesis
    proof (cases "e = CHR ''=''")
      case True
      then show ?thesis
        using 2 ab c z three by (intro exI [of _ "[a, b, c]"] exI [of _ "''=''"]) (auto split: if_split_asm)
    next
      case False
      with 2 ab c z obtain u r where u: "b64_val e = Some u" "b64decode rest = Some r" "length d = length r + 3"
        by (auto split: option.split_asm)
      from "2.IH" [OF refl ab c z False u(1,2)] obtain p t where
        "rest = p @ t" "list_all b64_char p" "t = [] \<and> length r * 4 = length rest * 3
          \<or> t = ''='' \<and> (length r + 1) * 4 = length rest * 3 \<or> t = ''=='' \<and> (length r + 2) * 4 = length rest * 3"
        by blast
      moreover have "b64_char e" using u by (simp add: b64_char_def)
      ultimately show ?thesis
        using three u by - (rule exI [of _ "a # b # c # e # p"], rule exI [of _ t], auto)
    qed
  qed
qed auto

lemma validate_wireguard_key_only:
  assumes v: "validate_wireguard_key value label = Inr key"
  shows "key = value \<and> wireguard_key value"
proof -
  have "\<exists>d. b64decode value = Some d \<and> length d = 32 \<and> length value = 44 \<and> key = value"
    using v by (auto simp: validate_wireguard_key_def split: if_split_asm option.split_asm)
  then obtain d where d: "b64decode value = Some d" "length d = 32" "length value = 44" "key = value" by blast
  from b64decode_shape [OF d(1)] obtain p t where s: "value = p @ t \<and> list_all b64_char p
      \<and> (t = [] \<and> length d * 4 = length value * 3 \<or> t = ''='' \<and> (length d + 1) * 4 = length value * 3
        \<or> t = ''=='' \<and> (length d + 2) * 4 = length value * 3)" (is "_ \<and> _ \<and> ?t")
    by (elim exE) (rule that)
  note p = s [THEN conjunct1] s [THEN conjunct2, THEN conjunct1] and t = s [THEN conjunct2, THEN conjunct2]
  have "t = ''=''" using t unfolding d(2,3) by (elim disjE conjE) simp_all
  then have "length p = 43" using d(3) unfolding p(1) by simp
  with p(2) have "wireguard_key (p @ ''='')" by (simp add: wireguard_key_def)
  then show "key = value \<and> wireguard_key value"
    unfolding d(4) p(1) \<open>t = ''=''\<close> by simp
qed

lemma validate_wireguard_key_if:
  assumes k: "key = value \<and> wireguard_key value"
  shows "validate_wireguard_key value label = Inr key"
proof -
  define p q where "p = take 40 value" and "q = drop 40 (take 43 value)"
  have len: "length value = 44" "list_all b64_char (take 43 value)" "drop 43 value = ''=''"
    using k by (simp_all add: wireguard_key_def)
  have pq: "take 43 value = p @ q"
    using append_take_drop_id [of 40 "take 43 value"] by (simp add: p_def q_def)
  have whole: "(p @ q) @ ''='' = value"
    using append_take_drop_id [of 43 "value"] unfolding pq len(3) .
  have alphabet: "list_all b64_char p" "list_all b64_char q"
    using len(2) unfolding pq by simp_all
  have "length p = 4 * 10" "length q = 3" using len(1) by (simp_all add: p_def q_def)
  then obtain a b c where q: "q = [a, b, c]" by (auto simp: length_Suc_conv numeral_3_eq_3)
  have val: "(b64_val a, b64_val b) \<noteq> (None, None)" "b64_val a \<noteq> None" "b64_val b \<noteq> None" "b64_val c \<noteq> None"
    using alphabet(2) by (simp_all add: q b64_char_def)
  have "c \<noteq> CHR ''=''" using alphabet(2) b64_char_not [of c] by (simp add: q)
  with val have "\<exists>e. b64decode (q @ ''='') = Some e \<and> length e = 2"
    by (auto simp: q)
  then obtain e where e: "b64decode (q @ ''='') = Some e" "length e = 2" by blast
  obtain d where "b64decode (p @ q @ ''='') = map_option (\<lambda>e. d @ e) (b64decode (q @ ''=''))" "length d = 3 * 10"
    using b64decode_plain [OF alphabet(1) \<open>length p = 4 * 10\<close>] by blast
  then have "b64decode value = Some (d @ e)" "length (d @ e) = 32"
    using e by (simp_all add: whole [symmetric])
  moreover have "CHR 0x0A \<notin> set value" "CHR 0x0D \<notin> set value"
    using alphabet b64_char_not unfolding whole [symmetric] list_all_iff by auto
  moreover have "value \<noteq> []" using len(1) by auto
  ultimately show "validate_wireguard_key value label = Inr key"
    using k len(1) by (simp add: validate_wireguard_key_def)
qed



subsection \<open>What is stored\<close>

definition stored_secret :: "world \<Rightarrow> comps \<Rightarrow> string \<Rightarrow> bool" where
  "stored_secret w p k \<longleftrightarrow> wireguard_key k
     \<and> (\<exists>m u d. node_at w p = Some (File m u d) \<and> m AND 0x3F = 0 \<and> strip d = k)"

definition stored_public :: "world \<Rightarrow> comps \<Rightarrow> string \<Rightarrow> bool" where
  "stored_public w p k \<longleftrightarrow> wireguard_key k \<and> (\<exists>m u d. node_at w p = Some (File m u d) \<and> strip d = k)"

definition stored_text :: "world \<Rightarrow> comps \<Rightarrow> string \<Rightarrow> bool" where
  "stored_text w p t \<longleftrightarrow> (\<exists>m u d. node_at w p = Some (File m u d) \<and> m AND 0x3F = 0 \<and> utf8_decode d = Some t)"

definition stored_pair :: "world \<Rightarrow> comps \<Rightarrow> key_pair \<Rightarrow> bool" where
  "stored_pair w d pair \<longleftrightarrow> stored_secret w (d @ [PRIVATE_KEY]) (key_private pair)
     \<and> stored_public w (d @ [PUBLIC_KEY]) (key_public pair)"

lemma stored_disk:
  assumes "disk w' = disk w"
  shows "stored_secret w' p k = stored_secret w p k" "stored_public w' p k = stored_public w p k"
    "stored_text w' p t = stored_text w p t" "stored_pair w' d pair = stored_pair w d pair"
  using assms by (simp_all add: stored_secret_def stored_public_def stored_text_def stored_pair_def node_at_def)

lemma lift_validate_Ret:
  "lift (validate_wireguard_key v l) w = (Ret k, w') \<Longrightarrow> k = v \<and> wireguard_key v \<and> w' = w"
  by (auto simp: run_inv dest: validate_wireguard_key_only)

lemma read_public_key_Ret:
  assumes "read_public_key p l w = (Ret k, w')"
  shows "stored_public w p k \<and> disk w' = disk w"
proof -
  from assms obtain w1 w2 w3 info t u
    where w1: "require_regular_file p l w = (Ret u, w1)"
      and st: "os_stat p w1 = (Ret info, w2)"
      and rd: "read_bytes p w2 = (Ret t, w3)" and asc: "decode_ascii t = Inr t"
      and v: "validate_wireguard_key (strip t) l = Inr k" and w3: "w' = w3"
    unfolding read_public_key_def run_inv read_text_ascii_def prod.inject
    by (elim exE conjE, hypsubst) (auto simp: decode_ascii_def split: if_splits)
  from require_regular_file_Ret [OF w1] obtain m x d
    where f: "node_at w p = Some (File m x d)" and d1: "disk w1 = disk w"
    by (auto elim!: is_file_node.elims)
  have d2: "disk w2 = disk w" "disk w3 = disk w"
    using os_stat_Ret [OF st] read_bytes_Ret [OF rd] d1 by simp_all
  have "follow 40 w p = Some (File m x d)" using f by (simp add: follow_no_link)
  then have "t = d" using read_bytes_Ret [OF rd] follow_disk [OF d2(1)] by auto
  with validate_wireguard_key_only [OF v] f d2 w3 show ?thesis by (auto simp: stored_public_def)
qed

lemma read_secret_key_Ret:
  assumes "read_text_secret p l w = (Ret v, w1)" and "lift (validate_wireguard_key v l') w1 = (Ret k, w')"
  shows "stored_secret w p k \<and> disk w' = disk w"
  using read_text_secret_Ret [OF assms(1)] lift_validate_Ret [OF assms(2)] by (auto simp: stored_secret_def)

lemma load_server_keys_at_Ret:
  assumes "load_server_keys_at paths w = (Ret pair, w')"
  shows "stored_pair w (server_dir paths) pair \<and> disk w' = disk w"
proof -
  from assms obtain st w1 v w2 priv w3 public where
      s: "key_pair_status (server_dir paths) w = (Ret st, w1)"
      and v: "read_text_secret (server_dir paths @ [PRIVATE_KEY]) ''server private key'' w1 = (Ret v, w2)"
      and k: "lift (validate_wireguard_key v ''server private key'') w2 = (Ret priv, w3)"
      and p: "read_public_key (server_dir paths @ [PUBLIC_KEY]) ''server public key'' w3 = (Ret public, w')"
      and pair: "pair = \<lparr>key_private = priv, key_public = public\<rparr>"
    unfolding load_server_keys_at_def
    by (auto simp: raise_hinted_def run_inv split: if_split_asm elim!: bind_RetE)
  have d1: "disk w1 = disk w" using reader_disk [OF status_ro(1) s] .
  note a = read_secret_key_Ret [OF v k]
  note b = read_public_key_Ret [OF p]
  from a b d1 have "disk w3 = disk w" "disk w' = disk w" by simp_all
  with a b d1 show ?thesis by (simp add: stored_pair_def pair stored_disk [OF d1] stored_disk [of w3 w])
qed

lemma load_peer_keys_at_Ret:
  assumes "load_peer_keys_at paths name w = (Ret (pair, preshared), w')"
  shows "stored_pair w (peer_dir paths name) pair
    \<and> stored_secret w (peer_dir paths name @ [PRESHARED_KEY]) preshared \<and> disk w' = disk w"
proof -
  let ?d = "peer_dir paths name"
  from assms obtain st w1 v w2 priv w3 public w4 p w5 where
      s: "peer_key_status ?d w = (Ret st, w1)"
      and v: "read_text_secret (?d @ [PRIVATE_KEY]) (name @ '' private key'') w1 = (Ret v, w2)"
      and k: "lift (validate_wireguard_key v (name @ '' private key'')) w2 = (Ret priv, w3)"
      and pub: "read_public_key (?d @ [PUBLIC_KEY]) (name @ '' public key'') w3 = (Ret public, w4)"
      and p: "read_text_secret (?d @ [PRESHARED_KEY]) (name @ '' preshared key'') w4 = (Ret p, w5)"
      and l: "lift (validate_wireguard_key p (name @ '' preshared key'')) w5 = (Ret preshared, w')"
      and pair: "pair = \<lparr>key_private = priv, key_public = public\<rparr>"
    unfolding load_peer_keys_at_def Let_def
    by (auto simp: raise_hinted_def run_inv split: if_split_asm elim!: bind_RetE)
  have d1: "disk w1 = disk w" using reader_disk [OF status_ro(2) s] .
  note a = read_secret_key_Ret [OF v k]
  note b = read_public_key_Ret [OF pub]
  note c = read_secret_key_Ret [OF p l]
  from a b c d1 have d: "disk w3 = disk w" "disk w4 = disk w" "disk w' = disk w" by simp_all
  with a b c show ?thesis
    by (simp add: stored_pair_def pair stored_disk [OF d1] stored_disk [OF d(1)] stored_disk [OF d(2)])
qed


lemma for_each_Ret:
  assumes step: "\<And>x w u w'. f x w = (Ret u, w') \<Longrightarrow> P x w \<and> disk w' = disk w"
    and P: "\<And>x w w'. disk w' = disk w \<Longrightarrow> P x w' = P x w"
  shows "for_each f xs w = (Ret u, w') \<Longrightarrow> (\<forall>x\<in>set xs. P x w) \<and> disk w' = disk w"
proof (induction xs arbitrary: w)
  case (Cons x xs)
  then obtain v w1 where x: "f x w = (Ret v, w1)" and xs: "for_each f xs w1 = (Ret u, w')"
    by (auto elim!: bind_RetE)
  from step [OF x] Cons.IH [OF xs] P [of w1 w] show ?case by auto
qed (simp add: run_inv)

subsection \<open>Phone configurations\<close>

definition phone_ready :: "project_config \<Rightarrow> comps \<Rightarrow> key_pair \<Rightarrow> peer_config \<Rightarrow> world \<Rightarrow> bool" where
  "phone_ready config d server peer w \<longleftrightarrow> (\<exists>pair preshared. stored_pair w (d @ [''peers'', peer_name peer]) pair
     \<and> stored_secret w (d @ [''peers'', peer_name peer, PRESHARED_KEY]) preshared
     \<and> stored_text w (d @ [''peers'', peer_name peer, PHONE_CONFIG])
         (render_phone_config config peer (key_public server) (key_private pair) preshared))"

text \<open>A data directory whose phone configurations are rendered from the keys beside them.\<close>

definition snapshot_ready :: "project_config \<Rightarrow> peer_config list \<Rightarrow> comps \<Rightarrow> world \<Rightarrow> bool" where
  "snapshot_ready config selected d w \<longleftrightarrow> (\<exists>server. stored_pair w (d @ [''server'']) server
     \<and> list_all (\<lambda>peer. phone_ready config d server peer w) selected)"

lemma phone_artifacts_Ret:
  assumes "phone_artifacts sha config paths peer server w = (Ret (rendered, fingerprint), w')"
  obtains pair preshared where "stored_pair w (peer_dir paths (peer_name peer)) pair"
    and "stored_secret w (peer_dir paths (peer_name peer) @ [PRESHARED_KEY]) preshared"
    and "rendered = render_phone_config config peer (key_public server) (key_private pair) preshared"
    and "disk w' = disk w"
proof -
  from assms obtain x w1 where l: "load_peer_keys_at paths (peer_name peer) w = (Ret x, w1)"
      and r: "(case x of (pair, preshared) \<Rightarrow>
        bind (lift (phone_fingerprint sha config peer (key_public server) (key_public pair) preshared))
          (\<lambda>fingerprint. ret (render_phone_config config peer (key_public server) (key_private pair) preshared, fingerprint)))
        w1 = (Ret (rendered, fingerprint), w')"
    unfolding phone_artifacts_def Let_def by (elim bind_RetE)
  obtain pair preshared where x: "x = (pair, preshared)" by (cases x)
  from r have "rendered = render_phone_config config peer (key_public server) (key_private pair) preshared" "w' = w1"
    unfolding x by (auto simp: run_inv)
  with load_peer_keys_at_Ret [OF l [unfolded x]] that show thesis by blast
qed

lemma read_phone_config_at_Ret:
  assumes "read_phone_config_at paths name w = (Ret t, w')"
  shows "stored_text w (peer_dir paths name @ [PHONE_CONFIG]) t \<and> disk w' = disk w"
proof -
  let ?p = "peer_dir paths name @ [PHONE_CONFIG]"
  from assms obtain info w1 b where l: "os_lstat ?p w = (Ret info, w1)" and i: "private_bounded info"
      and b: "read_bytes ?p w1 = (Ret b, w')" and t: "decode_utf8 b = Inr t"
    unfolding read_phone_config_at_def Let_def read_text_utf8_def
    by (auto simp: run_inv elim!: bind_RetE)
  from os_lstat_Ret [OF l] i obtain m x d where f: "node_at w ?p = Some (File m x d)" "m AND 0x3F = 0"
      and d1: "disk w1 = disk w"
    by (auto simp: private_bounded_def open_to_others_def elim!: is_file_node.elims)
  then have "follow 40 w ?p = Some (File m x d)" by (simp add: follow_no_link)
  then have "b = d" "disk w' = disk w" using read_bytes_Ret [OF b] follow_disk [OF d1] d1 by auto
  then show ?thesis using f t by (auto simp: stored_text_def decode_utf8_def split: option.split_asm)
qed

lemma read_phone_artifacts_Ret:
  assumes "read_phone_artifacts paths name w = (Ret (v, actual), w')"
  shows "stored_text w (peer_dir paths name @ [PHONE_CONFIG]) actual \<and> disk w' = disk w"
proof -
  let ?p = "peer_dir paths name @ [FINGERPRINT]"
  from assms obtain info w1 t w2 where l: "os_lstat ?p w = (Ret info, w1)"
      and t: "read_text_utf8 ?p w1 = (Ret t, w2)" and c: "read_phone_config_at paths name w2 = (Ret actual, w')"
    unfolding read_phone_artifacts_def Let_def
    by (elim try_except_RetE) (auto simp: raise_hinted_def run_inv elim!: bind_RetE)
  have ro_text: "obeys same_store (read_text_utf8 ?p)" by (intro obeys_rules)
  have "disk w2 = disk w"
    using os_lstat_Ret [OF l] reader_disk [OF ro_text t] by simp
  with read_phone_config_at_Ret [OF c] show ?thesis by (simp add: stored_disk [of w2 w])
qed

definition phone_stored :: "project_config \<Rightarrow> instance_paths \<Rightarrow> key_pair \<Rightarrow> peer_config \<Rightarrow> world \<Rightarrow> bool" where
  "phone_stored config paths server peer w \<longleftrightarrow> (\<exists>pair preshared. stored_pair w (peer_dir paths (peer_name peer)) pair
      \<and> stored_secret w (peer_dir paths (peer_name peer) @ [PRESHARED_KEY]) preshared
      \<and> stored_text w (peer_dir paths (peer_name peer) @ [PHONE_CONFIG])
          (render_phone_config config peer (key_public server) (key_private pair) preshared))"

lemma phone_stored_disk:
  assumes "disk w' = disk w"
  shows "phone_stored config paths server peer w' = phone_stored config paths server peer w"
  by (simp add: phone_stored_def stored_disk [OF assms])

lemma require_phone_Ret:
  assumes "bind (phone_artifacts sha config paths peer server) (\<lambda>(expected_config, expected_fingerprint).
       bind (read_phone_artifacts paths (peer_name peer)) (\<lambda>(v, actual_config).
       if \<not> fingerprint_matches v expected_fingerprint \<or> actual_config \<noteq> expected_config
       then raise_hinted StateError (''phone config for '' @ peer_name peer @ '' is stale'')
              [''phone-config'', peer_name peer]
       else ret ())) w = (Ret u, w')"
  shows "phone_stored config paths server peer w \<and> disk w' = disk w"
proof -
  from assms obtain x w1 where a: "phone_artifacts sha config paths peer server w = (Ret x, w1)"
      and "(case x of (expected_config, expected_fingerprint) \<Rightarrow>
       bind (read_phone_artifacts paths (peer_name peer)) (\<lambda>(v, actual_config).
       if \<not> fingerprint_matches v expected_fingerprint \<or> actual_config \<noteq> expected_config
       then raise_hinted StateError (''phone config for '' @ peer_name peer @ '' is stale'')
              [''phone-config'', peer_name peer]
       else ret ())) w1 = (Ret u, w')"
    by (elim bind_RetE)
  moreover obtain expected fingerprint where x: "x = (expected, fingerprint)" by (cases x)
  ultimately obtain y w2 where r: "read_phone_artifacts paths (peer_name peer) w1 = (Ret y, w2)"
      and c: "(case y of (v, actual_config) \<Rightarrow>
       if \<not> fingerprint_matches v fingerprint \<or> actual_config \<noteq> expected
       then raise_hinted StateError (''phone config for '' @ peer_name peer @ '' is stale'')
              [''phone-config'', peer_name peer]
       else ret ()) w2 = (Ret u, w')"
    by (auto elim!: bind_RetE)
  obtain v actual where y: "y = (v, actual)" by (cases y)
  have "\<not> (\<not> fingerprint_matches v fingerprint \<or> actual \<noteq> expected)"
    using c unfolding y by (auto simp: raise_hinted_run split: if_split_asm)
  then have e: "actual = expected" "w' = w2" using c unfolding y by (simp_all add: run_inv)
  obtain pair preshared where p: "stored_pair w (peer_dir paths (peer_name peer)) pair"
      "stored_secret w (peer_dir paths (peer_name peer) @ [PRESHARED_KEY]) preshared"
      "expected = render_phone_config config peer (key_public server) (key_private pair) preshared" "disk w1 = disk w"
    using phone_artifacts_Ret [OF a [unfolded x]] .
  from read_phone_artifacts_Ret [OF r [unfolded y]] e
  have "stored_text w (peer_dir paths (peer_name peer) @ [PHONE_CONFIG]) expected" "disk w' = disk w"
    by (simp_all add: stored_disk(3) [OF p(4)] p(4))
  then show ?thesis unfolding phone_stored_def using p(1,2) unfolding p(3) by blast
qed

lemma require_selected_Ret:
  assumes "require_selected_phone_configs sha config paths selected w = (Ret u, w')"
  shows "\<exists>server. stored_pair w (server_dir paths) server
    \<and> (\<forall>peer\<in>set selected. phone_stored config paths server peer w)"
proof -
  from assms obtain server w1 where s: "load_server_keys_at paths w = (Ret server, w1)"
      and f: "for_each (\<lambda>peer. bind (phone_artifacts sha config paths peer server)
        (\<lambda>(expected_config, expected_fingerprint). bind (read_phone_artifacts paths (peer_name peer))
        (\<lambda>(v, actual_config). if \<not> fingerprint_matches v expected_fingerprint \<or> actual_config \<noteq> expected_config
          then raise_hinted StateError (''phone config for '' @ peer_name peer @ '' is stale'')
              [''phone-config'', peer_name peer]
          else ret ()))) selected w1 = (Ret u, w')"
    unfolding require_selected_phone_configs_def by (elim bind_RetE)
  note server = load_server_keys_at_Ret [OF s]
  have "\<forall>peer\<in>set selected. phone_stored config paths server peer w1"
    by (rule for_each_Ret [THEN conjunct1, OF _ _ f]) (erule require_phone_Ret, erule phone_stored_disk)
  with server phone_stored_disk [of w1 w] show ?thesis by blast
qed

text \<open>Validation of a snapshot under \<open>d\<close> that returns has read a ready one.\<close>

lemma validate_phone_snapshot_ready:
  assumes "validate_phone_snapshot sha config selected (with_data paths d) w = (Ret (), w')"
  shows "snapshot_ready config selected d w"
proof -
  from assms obtain v w1 where k: "validate_selected_keys (with_data paths d) selected w = (Ret v, w1)"
      and r: "require_selected_phone_configs sha config (with_data paths d) selected w1 = (Ret (), w')"
    unfolding validate_phone_snapshot_def by (elim bind_RetE)
  have "disk w1 = disk w" using reader_disk [OF validate_selected_keys_ro k] .
  with require_selected_Ret [OF r] show ?thesis
    by (simp add: snapshot_ready_def phone_ready_def phone_stored_def list_all_iff stored_disk [of w1 w])
qed

lemma validate_snapshot_ready:
  assumes "validate_snapshot sha config (with_data paths d) w = (Ret (), w')"
  shows "snapshot_ready config (peers (wireguard config)) d w"
  using assms
  by (intro validate_phone_snapshot_ready [of sha config _ paths _ _ w'])
    (simp add: validate_snapshot_def validate_phone_snapshot_def require_current_phone_configs_at_def)


subsection \<open>Updates\<close>

text \<open>The pointer names generation \<open>g\<close>, and its data directory is ready.\<close>

definition pointed_ready :: "project_config \<Rightarrow> peer_config list \<Rightarrow> instance_paths \<Rightarrow> string \<Rightarrow> world \<Rightarrow> bool" where
  "pointed_ready config selected paths g w \<longleftrightarrow>
     node_at w (current_path paths) = Some (Symlink (pointer_text g))
     \<and> snapshot_ready config selected (generations_path paths @ [g]) w"

lemma snapshot_ready_moved:
  assumes "\<And>q. content_place q \<Longrightarrow> node_at w (d @ q) = node_at v (e @ q)"
  shows "snapshot_ready config selected d w = snapshot_ready config selected e v"
proof -
  have "node_at w (d @ ''server'' # q) = node_at v (e @ ''server'' # q)"
    and "node_at w (d @ ''peers'' # q) = node_at v (e @ ''peers'' # q)" for q
    by (rule assms, simp add: content_place_def MANIFEST_FILE_def temp_prefix_def name_of_def)+
  then show ?thesis
    by (simp add: snapshot_ready_def phone_ready_def stored_pair_def stored_secret_def stored_public_def stored_text_def)
qed

lemma published_ready:
  assumes "published paths validator st g w"
    and "\<And>v v'. validator (with_data paths st) v = (Ret (), v') \<Longrightarrow> snapshot_ready config selected st v"
  shows "pointed_ready config selected paths g w"
proof -
  from assms(1) obtain v v' where v: "validator (with_data paths st) v = (Ret (), v')"
      and n: "\<And>q. content_place q \<Longrightarrow> node_at w ((generations_path paths @ [g]) @ q) = node_at v (st @ q)"
      and p: "node_at w (current_path paths) = Some (Symlink (pointer_text g))"
    by (auto simp: published_def complete_at_def holds_validated_def)
  from snapshot_ready_moved [OF n] assms(2) [OF v] p show ?thesis
    by (simp add: pointed_ready_def)
qed

text \<open>What an update of the keys leaves in every case, and what it leaves when it returns.\<close>

definition old_or_ready ::
  "project_config \<Rightarrow> peer_config list \<Rightarrow> instance_paths \<Rightarrow> string option \<Rightarrow> string \<Rightarrow> world \<Rightarrow> world \<Rightarrow> bool" where
  "old_or_ready config selected paths old h w w' \<longleftrightarrow>
     keeps (active_state paths old) w w' \<or> pointed_ready config selected paths (''gen-'' @ h) w'"

lemma mutate_ready:
  assumes "state_client mutator validator"
    and ready: "\<And>d v v'. validator (with_data paths d) v = (Ret (), v') \<Longrightarrow> snapshot_ready config selected d v"
    and "is_hex32 h" and "\<forall>g. old = Some g \<longrightarrow> GENERATION_PATTERN g \<and> g \<noteq> ''gen-'' @ h"
    and "node_at w (current_path paths) = map_option (\<lambda>g. Symlink (pointer_text g)) old"
    and m: "mutate_state sha h paths mutator validator publish_if operation w = (r, w')"
  shows "old_or_ready config selected paths old h w w'
    \<and> (\<forall>x. r = Ret x \<longrightarrow> publish_if = None \<longrightarrow> operation = None \<longrightarrow> pointed_ready config selected paths (''gen-'' @ h) w')"
proof -
  let ?st = "generations_path paths @ [''.staging-'' @ h]"
  have up: "pointed_ready config selected paths (''gen-'' @ h) w'"
    if "published paths validator ?st (''gen-'' @ h) w'"
    by (rule published_ready [OF that ready])
  have "hoare (\<lambda>v. v = w) (mutate_state sha h paths mutator validator publish_if operation)
    (\<lambda>x v. (keeps (active_state paths old) w v
         \<and> ((\<exists>p. publish_if = Some p \<and> \<not> p x) \<or> (operation \<noteq> None \<and> old \<noteq> None)))
       \<or> published paths validator ?st (''gen-'' @ h) v)
    (\<lambda>_. old_or_published paths validator old h w) (old_or_published paths validator old h w)"
    by (rule state_client.hoare_mutate_state [OF assms(1,3)]) (use assms(4,5) in auto)
  from hoare_at [OF this] m up show ?thesis
    by (cases r) (auto simp: old_or_ready_def old_or_published_def)
qed

lemma unchanged_old_or_ready: "old_or_ready config selected paths old h w w"
  by (simp add: old_or_ready_def kp.refl)

definition chosen :: "project_config \<Rightarrow> string option \<Rightarrow> peer_config list" where
  "chosen config name = (case selected_peers config name of Inl _ \<Rightarrow> [] | Inr ps \<Rightarrow> ps)"

text \<open>
  C2: No update of the keys can leave a gateway and its phones disagreeing: under every I/O
  fault and every crash, rotating the server key, rotating a peer's keys and generating the
  missing ones leave either the old state untouched, or a published generation in which, for
  the peers the update is about, well-formed keys are stored privately and every phone
  configuration on disk is exactly the one rendered from the configuration, the server's public
  key and that peer's keys beside it; a generation of keys that returns has published one.
\<close>
theorem key_updates_atomic:
  assumes "quiet run" and "is_hex32 h" and "\<And>g. old = Some g \<Longrightarrow> GENERATION_PATTERN g \<and> g \<noteq> ''gen-'' @ h"
    and "node_at w (current_path paths) = map_option (\<lambda>g. Symlink (pointer_text g)) old"
  shows "old_or_ready config (peers (wireguard config)) paths old h w
      (snd (rotate_server sha h config paths run operation_id w))
    \<and> old_or_ready config (chosen config (Some name)) paths old h w
      (snd (rotate_peer sha h config paths run name operation_id w))
    \<and> (case generate_missing_keys sha h config paths run only w of
        (Ret _, w') \<Rightarrow> pointed_ready config (chosen config only) paths (''gen-'' @ h) w'
      | (_, w') \<Rightarrow> old_or_ready config (chosen config only) paths old h w w')"
proof (intro conjI)
  have fresh: "\<forall>g. old = Some g \<longrightarrow> GENERATION_PATTERN g \<and> g \<noteq> ''gen-'' @ h"
    using assms(3) by blast
  note update = mutate_ready [OF _ _ assms(2) fresh assms(4)]
  show "old_or_ready config (peers (wireguard config)) paths old h w
      (snd (rotate_server sha h config paths run operation_id w))"
  proof (cases "void_operation operation_id ''keys.rotate-server''")
    case (Inl e)
    then show ?thesis by (simp add: rotate_server_def run_simps unchanged_old_or_ready)
  next
    case (Inr operation)
    then show ?thesis
      using update [OF rotate_server_client [OF assms(1)] validate_snapshot_ready prod.collapse [symmetric]]
      by (simp add: rotate_server_def)
  qed
  show "old_or_ready config (chosen config (Some name)) paths old h w
      (snd (rotate_peer sha h config paths run name operation_id w))"
  proof (cases "selected_peers config (Some name)")
    case (Inl e)
    then show ?thesis by (simp add: rotate_peer_def run_simps unchanged_old_or_ready)
  next
    case sel: (Inr selected)
    show ?thesis
    proof (cases "void_operation operation_id (''keys.rotate-peer.'' @ name)")
      case (Inl e)
      then show ?thesis by (simp add: rotate_peer_def sel run_simps unchanged_old_or_ready)
    next
      case (Inr operation)
      then show ?thesis
        using update [OF rotate_peer_client [OF assms(1)] validate_phone_snapshot_ready prod.collapse [symmetric]]
        by (simp add: rotate_peer_def sel chosen_def)
    qed
  qed
  show "case generate_missing_keys sha h config paths run only w of
        (Ret _, w') \<Rightarrow> pointed_ready config (chosen config only) paths (''gen-'' @ h) w'
      | (_, w') \<Rightarrow> old_or_ready config (chosen config only) paths old h w w'"
  proof (cases "selected_peers config only")
    case (Inl e)
    then show ?thesis by (simp add: generate_missing_keys_def run_simps unchanged_old_or_ready)
  next
    case sel: (Inr selected)
    obtain r w' where m: "generate_missing_keys sha h config paths run only w = (r, w')"
      by (cases "generate_missing_keys sha h config paths run only w")
    with update [OF generate_client [OF assms(1)] validate_phone_snapshot_ready] show ?thesis
      by (cases r) (simp_all add: generate_missing_keys_def sel chosen_def)
  qed
qed

lemma key_updates_atomic_witness:
  "old_or_ready project_example (peers (wireguard project_example)) paths_example (Some (''gen-'' @ zero_digits)) one_digits
     linked_world (snd (rotate_server id one_digits project_example paths_example
       (\<lambda>command opts. raise (CommandError ''no wg'')) ''operation'' linked_world))"
proof -
  have "quiet (\<lambda>command opts. raise (CommandError ''no wg''))"
    by (auto simp: quiet_def intro: obeys_rules)
  moreover have "GENERATION_PATTERN g \<and> g \<noteq> ''gen-'' @ one_digits" if "Some (''gen-'' @ zero_digits) = Some g" for g
    using that fresh_names(1) [OF digits_hex(1)] by (auto simp: zero_digits_def one_digits_def)
  ultimately show ?thesis
    using key_updates_atomic [OF _ digits_hex(2)] linked_world_pointer by fastforce
qed

end
