(* ===== verification/SshKey.thy ===== *)
theory SshKey
  imports State Runner Json
begin

text \<open>
  The SSH half of \<open>keys.py\<close>: the dedicated key pair is replaced by a journalled
  transaction. The new pair is staged beside the old one, a journal records the digests of
  all four files, and installing moves the old files to backups and the staged ones into
  place; an interrupted replacement is finished from the journal. The digest is the
  parameter \<open>sha256_hex\<close>, the random transaction name an argument, and \<open>ssh-keygen\<close> is
  reached through the runner.
\<close>

subsection \<open>Names and bounds\<close>

definition KEYSCAN_SCRIPT :: string where
  "KEYSCAN_SCRIPT = ''exec ssh-keyscan -p '' @ [dquote] @ ''$1'' @ [dquote] @ '' -- '' @ [dquote] @ ''$2''
     @ [dquote] @ '' > '' @ [dquote] @ ''$3'' @ [dquote]"

definition SSH_TRANSACTION_SCHEMA_VERSION :: int where
  "SSH_TRANSACTION_SCHEMA_VERSION = 1"

definition SSH_TRANSACTION_PATTERN :: "string \<Rightarrow> bool" where
  "SSH_TRANSACTION_PATTERN = is_hex32"

definition MAX_SSH_KEY_BYTES :: nat where
  "MAX_SSH_KEY_BYTES = 64 * 1024"

definition MAX_SSH_TRANSACTION_BYTES :: nat where
  "MAX_SSH_TRANSACTION_BYTES = 64 * 1024"

definition is_hex64 :: "string \<Rightarrow> bool" where
  "is_hex64 s \<longleftrightarrow> length s = 64 \<and> list_all is_lower_hex s"

record transaction_files =
  private_stage :: comps
  public_stage :: comps
  private_backup :: comps
  public_backup :: comps

text \<open>\<open>Path(f"{path}{suffix}")\<close>.\<close>

definition suffix_path :: "comps \<Rightarrow> string \<Rightarrow> comps" where
  "suffix_path p s = butlast p @ [name_of p @ s]"

definition ssh_key_paths :: "project_config \<Rightarrow> instance_paths \<Rightarrow> (comps \<times> comps) io" where
  "ssh_key_paths config paths =
     bind (resolve_config_path (ip_config paths) (identity_file (ssh config))) (\<lambda>identity.
     ret (identity, suffix_path identity ''.pub''))"

definition ssh_transaction_path :: "comps \<Rightarrow> comps" where
  "ssh_transaction_path identity = butlast identity @ [CHR ''.'' # name_of identity @ ''.transaction.json'']"

definition ssh_transaction_files :: "comps \<Rightarrow> string \<Rightarrow> transaction_files" where
  "ssh_transaction_files identity transaction =
     (let pre = butlast identity @ [CHR ''.'' # name_of identity @ ''.transaction-'' @ transaction] in
      \<lparr>private_stage = suffix_path pre ''.private.new'', public_stage = suffix_path pre ''.public.new'',
       private_backup = suffix_path pre ''.private.old'', public_backup = suffix_path pre ''.public.old''\<rparr>)"

subsection \<open>Files and digests\<close>

definition path_exists :: "comps \<Rightarrow> bool io" where
  "path_exists p = bind (lstat_optional p) (\<lambda>n. ret (n \<noteq> None))"

definition require_bounded_regular :: "comps \<Rightarrow> string \<Rightarrow> unit io" where
  "require_bounded_regular path label =
     bind (try_except (os_lstat path) is_FileNotFound
        (\<lambda>_. raise (StateError (label @ '' is missing: '' @ show_path path)))) (\<lambda>info.
     then_do (require (is_file_node (Some info))
       (StateError (label @ '' must be a regular non-symlink file: '' @ show_path path)))
     (require (\<not> (node_size info = 0 \<or> MAX_SSH_KEY_BYTES < node_size info))
       (StateError (label @ '' has an invalid size: '' @ show_path path))))"

text \<open>
  The descriptor is given to the buffered reader, which closes it in its own \<open>with\<close>; on
  every way out it is closed once.
\<close>

definition file_digest_of :: "(string \<Rightarrow> string) \<Rightarrow> comps \<Rightarrow> string \<Rightarrow> string io" where
  "file_digest_of sha256_hex path label =
     bind (try_except (os_open path) is_OSError
        (\<lambda>e. raise (StateError (''cannot read '' @ label @ '': '' @ exn_str e)))) (\<lambda>descriptor.
     try_finally
       (bind (os_fstat descriptor) (\<lambda>info.
        then_do (require (is_file_node (Some info) \<and> 0 < node_size info \<and> node_size info \<le> MAX_SSH_KEY_BYTES)
          (StateError (label @ '' has an invalid size: '' @ show_path path)))
        (bind (os_read descriptor (MAX_SSH_KEY_BYTES + 1)) (\<lambda>content. ret (sha256_hex content)))))
       (os_close descriptor))"

definition optional_digest :: "(string \<Rightarrow> string) \<Rightarrow> comps \<Rightarrow> string \<Rightarrow> json io" where
  "optional_digest sha256_hex path label =
     bind (path_exists path) (\<lambda>e.
     if e then bind (file_digest_of sha256_hex path label) (\<lambda>d. ret (JStr d)) else ret JNull)"

definition sync_regular_file :: "comps \<Rightarrow> unit io" where
  "sync_regular_file path = bind (os_open path) (\<lambda>descriptor.
     try_finally (os_fsync descriptor) (os_close descriptor))"

definition matches_digest :: "(string \<Rightarrow> string) \<Rightarrow> comps \<Rightarrow> json \<Rightarrow> string \<Rightarrow> bool io" where
  "matches_digest sha256_hex path expected label = (case expected of
       JStr d \<Rightarrow> bind (path_exists path) (\<lambda>e.
         if e then bind (file_digest_of sha256_hex path label) (\<lambda>actual. ret (actual = d)) else ret False)
     | _ \<Rightarrow> ret False)"

definition replace_and_sync :: "comps \<Rightarrow> comps \<Rightarrow> unit io" where
  "replace_and_sync source destination =
     then_do (os_replace source destination) (fsync_directory (butlast destination))"

subsection \<open>The journal\<close>

text \<open>The text after the first occurrence of \<open>sep\<close>, and the text before the first dot.\<close>

fun after_first :: "string \<Rightarrow> string \<Rightarrow> string option" where
  "after_first sep [] = (if sep = [] then Some [] else None)"
| "after_first sep (c # cs) =
     (if startswith (c # cs) sep then Some (drop (length sep) (c # cs)) else after_first sep cs)"

definition transaction_of :: "string \<Rightarrow> exn + string" where
  "transaction_of name = (case after_first ''.transaction-'' name of
       None \<Rightarrow> Inl IndexError
     | Some rest \<Rightarrow> Inr (takeWhile (\<lambda>c. c \<noteq> CHR ''.'') rest))"

definition new_ssh_transaction ::
  "(string \<Rightarrow> string) \<Rightarrow> comps \<Rightarrow> comps \<Rightarrow> transaction_files \<Rightarrow> string \<Rightarrow> string \<Rightarrow> json io" where
  "new_ssh_transaction sha256_hex identity public files operation_id operation_kind =
     bind (lift (transaction_of (name_of (private_stage files)))) (\<lambda>transaction.
     bind (optional_digest sha256_hex identity ''existing SSH private key'') (\<lambda>private_old.
     bind (optional_digest sha256_hex public ''existing SSH public key'') (\<lambda>public_old.
     bind (file_digest_of sha256_hex (private_stage files) ''generated SSH private key'') (\<lambda>private_new.
     bind (file_digest_of sha256_hex (public_stage files) ''generated SSH public key'') (\<lambda>public_new.
     ret (JObj
      [(''schema_version'', JInt SSH_TRANSACTION_SCHEMA_VERSION),
       (''transaction'', JStr transaction),
       (''operation_id'', JStr operation_id),
       (''operation_kind'', JStr operation_kind),
       (''private_old_digest'', private_old),
       (''public_old_digest'', public_old),
       (''private_new_digest'', JStr private_new),
       (''public_new_digest'', JStr public_new)]))))))"

definition digest_ok :: "json option \<Rightarrow> bool" where
  "digest_ok d \<longleftrightarrow> (case d of None \<Rightarrow> True | Some JNull \<Rightarrow> True | Some (JStr s) \<Rightarrow> is_hex64 s | _ \<Rightarrow> False)"

definition absent :: "json option \<Rightarrow> bool" where
  "absent d \<longleftrightarrow> d = None \<or> d = Some JNull"

definition check_journal :: "comps \<Rightarrow> json \<Rightarrow> exn + string" where
  "check_journal journal_path value =
     (if \<not> is_JObj value \<or> \<not> json_is_int (jget value ''schema_version'') SSH_TRANSACTION_SCHEMA_VERSION
      then Inl (StateError (''invalid SSH key transaction journal: '' @ show_path journal_path))
      else (case json_str (jget value ''transaction'') of
          None \<Rightarrow> Inl (StateError (''invalid SSH key transaction identifier: '' @ show_path journal_path))
        | Some transaction \<Rightarrow>
            if \<not> SSH_TRANSACTION_PATTERN transaction
            then Inl (StateError (''invalid SSH key transaction identifier: '' @ show_path journal_path))
            else (case (json_str (jget value ''operation_id''), json_str (jget value ''operation_kind'')) of
                (Some oid, Some okind) \<Rightarrow>
                  rbind (void_operation oid okind) (\<lambda>_.
                  if list_ex (\<lambda>key. \<not> digest_ok (jget value key))
                      [''private_old_digest'', ''public_old_digest'', ''private_new_digest'', ''public_new_digest'']
                  then Inl (StateError (''invalid SSH key transaction digest: '' @ show_path journal_path))
                  else if absent (jget value ''private_new_digest'') \<or> absent (jget value ''public_new_digest'')
                  then Inl (StateError (''incomplete SSH key transaction journal: '' @ show_path journal_path))
                  else Inr transaction)
              | _ \<Rightarrow> Inl (StateError (''invalid SSH key transaction operation: '' @ show_path journal_path)))))"

definition read_ssh_transaction :: "comps \<Rightarrow> (transaction_files \<times> json) option io" where
  "read_ssh_transaction identity =
     (let journal_path = ssh_transaction_path identity in
      bind (lstat_optional journal_path) (\<lambda>found. case found of
        None \<Rightarrow> ret None
      | Some info \<Rightarrow>
          then_do (require (is_file_node (Some info) \<and> node_size info \<le> MAX_SSH_TRANSACTION_BYTES)
            (StateError (''invalid SSH key transaction journal: '' @ show_path journal_path)))
         (bind (try_except (bind (read_text_utf8 journal_path) (\<lambda>t. lift (loads t))) is_load_error
             (\<lambda>e. raise (StateError (''cannot read SSH key transaction journal: '' @ exn_str e))))
           (\<lambda>value. bind (lift (check_journal journal_path value)) (\<lambda>transaction.
             ret (Some (ssh_transaction_files identity transaction, value)))))))"

text \<open>\<open>journal[key]\<close>.\<close>

definition jindex :: "json \<Rightarrow> string \<Rightarrow> exn + json" where
  "jindex v key = (case jget v key of None \<Rightarrow> Inl (KeyError key) | Some x \<Rightarrow> Inr x)"

subsection \<open>Installing\<close>

definition cannot_resume :: "string \<Rightarrow> exn" where
  "cannot_resume why = StateError (''cannot resume SSH key transaction: '' @ why)"

definition install_transaction_file ::
  "(string \<Rightarrow> string) \<Rightarrow> comps \<Rightarrow> comps \<Rightarrow> comps \<Rightarrow> json \<Rightarrow> json \<Rightarrow> string \<Rightarrow> unit io" where
  "install_transaction_file sha256_hex destination stage backup old_digest new_digest label =
     bind (matches_digest sha256_hex destination new_digest (''new '' @ label)) (\<lambda>installed.
     if installed then ret () else
     bind (matches_digest sha256_hex stage new_digest (''staged '' @ label)) (\<lambda>staged.
     then_do (require staged (cannot_resume (''staged '' @ label @ '' is unavailable'')))
    (then_do
      (if old_digest = JNull then
         bind (path_exists destination) (\<lambda>e. require (\<not> e) (cannot_resume (''unexpected '' @ label)))
       else bind (path_exists backup) (\<lambda>b.
         if \<not> b then
           bind (matches_digest sha256_hex destination old_digest (''old '' @ label)) (\<lambda>m.
           then_do (require m (cannot_resume (''old '' @ label @ '' changed'')))
           (replace_and_sync destination backup))
         else
           bind (matches_digest sha256_hex backup old_digest (''backed-up '' @ label)) (\<lambda>m.
           require m (cannot_resume (label @ '' backup changed'')))))
     (replace_and_sync stage destination))))"

definition finish_ssh_key_transaction ::
  "(string \<Rightarrow> string) \<Rightarrow> comps \<Rightarrow> comps \<Rightarrow> transaction_files \<Rightarrow> json \<Rightarrow> unit io" where
  "finish_ssh_key_transaction sha256_hex identity public files journal =
     bind (lift (jindex journal ''public_old_digest'')) (\<lambda>public_old.
     bind (lift (jindex journal ''public_new_digest'')) (\<lambda>public_new.
     then_do (install_transaction_file sha256_hex public (public_stage files) (public_backup files)
        public_old public_new ''SSH public key'')
    (bind (lift (jindex journal ''private_old_digest'')) (\<lambda>private_old.
     bind (lift (jindex journal ''private_new_digest'')) (\<lambda>private_new.
     then_do (install_transaction_file sha256_hex identity (private_stage files) (private_backup files)
        private_old private_new ''SSH private key'')
    (bind (matches_digest sha256_hex identity private_new ''SSH private key'') (\<lambda>m1.
     bind (if \<not> m1 then ret False else matches_digest sha256_hex public public_new ''SSH public key'') (\<lambda>m2.
     then_do (require (m1 \<and> m2) (StateError ''SSH key transaction could not be verified''))
    (then_do (os_chmod identity 0x180)
    (then_do (os_chmod public 0x1A4)
    (then_do (sync_regular_file identity)
     (sync_regular_file public))))))))))))"

definition remove_ssh_transaction :: "comps \<Rightarrow> transaction_files \<Rightarrow> unit io" where
  "remove_ssh_transaction identity files =
     then_do (for_each unlink_missing_ok
       [private_stage files, public_stage files, private_backup files, public_backup files,
        ssh_transaction_path identity])
     (fsync_directory (butlast identity))"

subsection \<open>Receipts\<close>

definition ascii_digest :: "(string \<Rightarrow> string) \<Rightarrow> string \<Rightarrow> exn + string" where
  "ascii_digest sha256_hex s = (if list_all (\<lambda>c. code_of c < 128) s then Inr (sha256_hex s) else Inl UnicodeError)"

definition ssh_operation_path :: "(string \<Rightarrow> string) \<Rightarrow> instance_paths \<Rightarrow> string \<Rightarrow> exn + comps" where
  "ssh_operation_path sha256_hex paths operation_id =
     rbind (ascii_digest sha256_hex operation_id) (\<lambda>digest.
     Inr (ip_state paths @ [''operations'', ''ssh-'' @ digest @ ''.json'']))"

text \<open>\<open>identity.relative_to(root).as_posix()\<close>.\<close>

definition relative_posix :: "comps \<Rightarrow> comps \<Rightarrow> exn + string" where
  "relative_posix r p = (if prefix r p then Inr (str_path (Path False (drop (length r) p)))
     else Inl (StateError (''SSH identity is outside the instance: '' @ show_path p)))"

definition ssh_receipt_matches :: "json \<Rightarrow> string \<Rightarrow> string \<Rightarrow> string \<Rightarrow> bool" where
  "ssh_receipt_matches value operation_id operation_kind identity_value \<longleftrightarrow> is_JObj value
     \<and> json_is_int (jget value ''schema_version'') SSH_TRANSACTION_SCHEMA_VERSION
     \<and> jget value ''operation_id'' = Some (JStr operation_id)
     \<and> jget value ''operation_kind'' = Some (JStr operation_kind)
     \<and> jget value ''identity'' = Some (JStr identity_value)"

definition ssh_operation_completed ::
  "(string \<Rightarrow> string) \<Rightarrow> instance_paths \<Rightarrow> comps \<Rightarrow> comps \<Rightarrow> string \<Rightarrow> string \<Rightarrow> bool io" where
  "ssh_operation_completed sha256_hex paths identity public operation_id operation_kind =
     bind (lift (ssh_operation_path sha256_hex paths operation_id)) (\<lambda>path.
     bind (lstat_optional path) (\<lambda>found. case found of
       None \<Rightarrow> ret False
     | Some info \<Rightarrow>
         then_do (require (is_file_node (Some info) \<and> node_size info \<le> MAX_SSH_TRANSACTION_BYTES)
           (StateError (''invalid SSH operation receipt: '' @ show_path path)))
        (bind (try_except (bind (read_text_utf8 path) (\<lambda>t. lift (loads t))) is_load_error
            (\<lambda>e. raise (StateError (''cannot read SSH operation receipt '' @ show_path path @ '': '' @ exn_str e))))
          (\<lambda>value.
         bind (lift (relative_posix (ip_root paths) identity)) (\<lambda>identity_value.
         then_do (require (ssh_receipt_matches value operation_id operation_kind identity_value)
           (StateError (''operation ID was already used for another request: '' @ operation_id)))
        (case (json_str (jget value ''private_digest''), json_str (jget value ''public_digest'')) of
           (Some private_digest, Some public_digest) \<Rightarrow>
             bind (matches_digest sha256_hex identity (JStr private_digest) ''recorded SSH private key'') (\<lambda>m1.
             bind (if \<not> m1 then ret False
                   else matches_digest sha256_hex public (JStr public_digest) ''recorded SSH public key'') (\<lambda>m2.
             then_do (require (m1 \<and> m2)
               (StateError (''completed SSH operation was superseded or changed: '' @ operation_id)))
             (ret True)))
         | _ \<Rightarrow> raise (StateError (''invalid SSH operation receipt: '' @ show_path path))))))))"

definition record_ssh_operation ::
  "(string \<Rightarrow> string) \<Rightarrow> instance_paths \<Rightarrow> comps \<Rightarrow> comps \<Rightarrow> json \<Rightarrow> unit io" where
  "record_ssh_operation sha256_hex paths identity public journal =
     bind (lift (jindex journal ''operation_id'')) (\<lambda>i.
     bind (lift (jindex journal ''operation_kind'')) (\<lambda>k. case (i, k) of
       (JStr operation_id, JStr operation_kind) \<Rightarrow>
         bind (ssh_operation_completed sha256_hex paths identity public operation_id operation_kind) (\<lambda>finished.
         if finished then ret () else
         bind (lift (jindex journal ''private_new_digest'')) (\<lambda>pd.
         bind (lift (jindex journal ''public_new_digest'')) (\<lambda>qd. case (pd, qd) of
           (JStr private_digest, JStr public_digest) \<Rightarrow>
             bind (lift (relative_posix (ip_root paths) identity)) (\<lambda>identity_value.
             bind (lift (ssh_operation_path sha256_hex paths operation_id)) (\<lambda>path.
             atomic_write_json path (JObj
               [(''schema_version'', JInt SSH_TRANSACTION_SCHEMA_VERSION),
                (''operation_id'', JStr operation_id),
                (''operation_kind'', JStr operation_kind),
                (''identity'', JStr identity_value),
                (''private_digest'', JStr private_digest),
                (''public_digest'', JStr public_digest)]) 0x180))
         | _ \<Rightarrow> raise (StateError ''SSH key transaction digests are invalid''))))
     | _ \<Rightarrow> raise (StateError ''SSH key transaction operation is invalid'')))"

subsection \<open>Recovery and generation\<close>

definition clean_orphan :: "comps \<Rightarrow> string \<Rightarrow> unit io" where
  "clean_orphan identity name =
     (if \<not> (startswith name (CHR ''.'' # name_of identity @ ''.transaction-'')
          \<or> startswith name (CHR ''.'' # name_of (ssh_transaction_path identity) @ ''.''))
      then ret ()
      else suppress is_FileNotFound
        (let child = butlast identity @ [name] in
         bind (os_lstat child) (\<lambda>info.
         then_do (require (\<not> is_dir_node (Some info))
           (StateError (''unexpected SSH transaction directory: '' @ show_path child)))
         (os_unlink child))))"

definition clean_orphaned_ssh_transaction_files :: "comps \<Rightarrow> unit io" where
  "clean_orphaned_ssh_transaction_files identity =
     bind (p_is_dir (butlast identity)) (\<lambda>dir.
     if \<not> dir then ret ()
     else bind (os_listdir (butlast identity)) (\<lambda>names.
       then_do (for_each (clean_orphan identity) names)
       (fsync_directory (butlast identity))))"

definition recover_ssh_key_transaction ::
  "(string \<Rightarrow> string) \<Rightarrow> project_config \<Rightarrow> instance_paths \<Rightarrow> unit io" where
  "recover_ssh_key_transaction sha256_hex config paths =
     bind (ssh_key_paths config paths) (\<lambda>(identity, public).
     bind (read_ssh_transaction identity) (\<lambda>transaction.
     then_do (case transaction of
        None \<Rightarrow> ret ()
      | Some (files, journal) \<Rightarrow>
          then_do (finish_ssh_key_transaction sha256_hex identity public files journal)
         (then_do (record_ssh_operation sha256_hex paths identity public journal)
          (remove_ssh_transaction identity files)))
     (clean_orphaned_ssh_transaction_files identity)))"

definition require_no_ssh_key_transaction :: "project_config \<Rightarrow> instance_paths \<Rightarrow> unit io" where
  "require_no_ssh_key_transaction config paths =
     bind (ssh_key_paths config paths) (\<lambda>(identity, public).
     bind (path_exists (ssh_transaction_path identity)) (\<lambda>e.
     if e then raise_hinted StateError ''SSH key update was interrupted'' [''config'', ''validate''] else ret ()))"

definition keygen_command :: "project_config \<Rightarrow> transaction_files \<Rightarrow> string list" where
  "keygen_command config files = [''ssh-keygen'', ''-q'', ''-t'', ''ed25519'', ''-N'', [], ''-C'',
     ''shuttle-gate:'' @ project config, ''-f'', show_path (private_stage files)]"

text \<open>The key pair is staged and made durable before the journal names it.\<close>

definition stage_ssh_key :: "runner \<Rightarrow> project_config \<Rightarrow> comps \<Rightarrow> transaction_files \<Rightarrow> unit io" where
  "stage_ssh_key run config identity files =
     (let generated_public = suffix_path (private_stage files) ''.pub'' in
      then_do (run (keygen_command config files) default_options)
     (then_do (require_bounded_regular (private_stage files) ''generated SSH private key'')
     (then_do (require_bounded_regular generated_public ''generated SSH public key'')
     (then_do (os_chmod (private_stage files) 0x180)
     (then_do (os_chmod generated_public 0x1A4)
     (then_do (os_replace generated_public (public_stage files))
     (then_do (sync_regular_file (private_stage files))
     (then_do (sync_regular_file (public_stage files))
      (fsync_directory (butlast identity))))))))))"

definition generate_ssh_key ::
  "(string \<Rightarrow> string) \<Rightarrow> string \<Rightarrow> project_config \<Rightarrow> instance_paths \<Rightarrow> runner \<Rightarrow> bool \<Rightarrow> string \<Rightarrow> comps io" where
  "generate_ssh_key sha256_hex random_hex config paths run force operation_id =
     state_lock paths True False
    (bind (ssh_key_paths config paths) (\<lambda>(identity, public).
     then_do (ensure_private_directory (butlast identity))
    (then_do (recover_ssh_key_transaction sha256_hex config paths)
    (let operation_kind = (if force then ''ssh-key.force'' else ''ssh-key.generate'') in
     then_do (lift (void_operation operation_id operation_kind))
    (bind (ssh_operation_completed sha256_hex paths identity public operation_id operation_kind) (\<lambda>finished.
     if finished then ret identity else
     bind (path_exists identity) (\<lambda>e1.
     bind (if e1 then ret True else path_exists public) (\<lambda>e2.
     then_do (require (\<not> ((e1 \<or> e2) \<and> \<not> force)) (StateError (''SSH key already exists: '' @ show_path identity)))
    (let files = ssh_transaction_files identity random_hex in
     then_do (stage_ssh_key run config identity files)
    (bind (new_ssh_transaction sha256_hex identity public files operation_id operation_kind) (\<lambda>journal.
     then_do (atomic_write_json (ssh_transaction_path identity) journal 0x180)
    (then_do (finish_ssh_key_transaction sha256_hex identity public files journal)
    (then_do (record_ssh_operation sha256_hex paths identity public journal)
    (then_do (remove_ssh_transaction identity files)
     (ret identity)))))))))))))))"

subsection \<open>Setup instructions\<close>

definition setup_text :: "project_config \<Rightarrow> comps \<Rightarrow> comps \<Rightarrow> string" where
  "setup_text config public known_hosts =
     (let nl = [CHR 0x0A];
          destination = ssh_user (ssh config) @ ''@'' @ ssh_host (ssh config);
          copy_command = shlex_join [''ssh-copy-id'', ''-i'', show_path public, ''-p'', str_int (ssh_port (ssh config)),
            ''--'', destination];
          scan_command = shlex_join [''sh'', ''-c'', KEYSCAN_SCRIPT, ''shuttle-gate-keyscan'',
            str_int (ssh_port (ssh config)), ssh_host (ssh config), show_path known_hosts] in
      ''Run this command yourself to authorize the dedicated key:'' @ nl
      @ ''  '' @ copy_command @ nl @ nl
      @ ''Then collect the host key (this does not authenticate it):'' @ nl
      @ ''  '' @ scan_command @ nl
      @ ''Verify the resulting fingerprint through a separate trusted channel before using it.'' @ nl
      @ ''The toolkit never runs either command and never edits the remote server.'')"

definition ssh_setup_instructions ::
  "(string \<Rightarrow> string) \<Rightarrow> project_config \<Rightarrow> instance_paths \<Rightarrow> string io" where
  "ssh_setup_instructions sha256_hex config paths =
     state_lock paths True False
    (then_do (recover_ssh_key_transaction sha256_hex config paths)
    (bind (ssh_key_paths config paths) (\<lambda>(identity, public).
     then_do (try_except (require_bounded_regular public ''SSH public key'') is_StateError
        (\<lambda>_. raise_hinted StateError ''SSH public key is missing or invalid'' [''ssh-key'', ''generate'']))
    (bind (resolve_config_path (ip_config paths) (known_hosts_file (ssh config))) (\<lambda>known_hosts.
     ret (setup_text config public known_hosts))))))"

end
