(* ===== verification/Launch.thy ===== *)
theory Launch
  imports Keys SshKey
begin

text \<open>
  \<open>launch.py\<close>: the manifest a launch is published under, which fixes the identity of the
  instance and the digests of everything the sandbox runs with, and its validation when the
  gateway starts.
\<close>

definition LAUNCH_SCHEMA_VERSION :: int where
  "LAUNCH_SCHEMA_VERSION = 3"

definition MAX_LAUNCH_BYTES :: nat where
  "MAX_LAUNCH_BYTES = 64 * 1024"

definition MAX_INPUT_BYTES :: nat where
  "MAX_INPUT_BYTES = 8 * 1024 * 1024"

definition INSTANCE_PATTERN :: "string \<Rightarrow> bool" where
  "INSTANCE_PATTERN s \<longleftrightarrow> length s = 20 \<and> list_all is_lower_hex s"

definition LAUNCH_ID_PATTERN :: "string \<Rightarrow> bool" where
  "LAUNCH_ID_PATTERN = is_hex32"

definition UNIT_PATTERN :: "string \<Rightarrow> bool" where
  "UNIT_PATTERN s \<longleftrightarrow> length s = 41 \<and> take 13 s = ''shuttle-gate-'' \<and> list_all is_lower_hex (take 20 (drop 13 s))
     \<and> drop 33 s = ''.service''"

definition file_digest :: "(string \<Rightarrow> string) \<Rightarrow> comps \<Rightarrow> string \<Rightarrow> bool \<Rightarrow> string io" where
  "file_digest sha256_hex path label private =
     bind (try_except (os_open path) is_OSError
        (\<lambda>e. raise (StateError (''cannot open '' @ label @ '' '' @ show_path path @ '': '' @ exn_str e)))) (\<lambda>descriptor.
     try_finally
       (bind (os_fstat descriptor) (\<lambda>info.
        then_do (require (is_file_node (Some info) \<and> 0 < node_size info \<and> node_size info \<le> MAX_INPUT_BYTES)
          (StateError (label @ '' must be a bounded regular file: '' @ show_path path)))
       (then_do (require (\<not> (private \<and> open_to_others info))
          (StateError (label @ '' permissions are too open: '' @ show_path path)))
        (bind (os_read descriptor (MAX_INPUT_BYTES + 1)) (\<lambda>content. ret (sha256_hex content))))))
       (os_close descriptor))"

text \<open>The entries both sides compute: the expected values of everything but the identifiers.\<close>

definition launch_inputs ::
  "project_config \<Rightarrow> string option \<Rightarrow> string \<Rightarrow> string \<Rightarrow> string \<Rightarrow> string \<Rightarrow> (string \<times> json) list" where
  "launch_inputs config generation config_digest identity_digest known_hosts_digest application_digest =
     [(''project'', JStr (project config)),
      (''config_digest'', JStr config_digest),
      (''state_generation'', case generation of None \<Rightarrow> JNull | Some g \<Rightarrow> JStr g),
      (''ssh_identity'', JStr (str_path (identity_file (ssh config)))),
      (''ssh_identity_digest'', JStr identity_digest),
      (''ssh_known_hosts'', JStr (str_path (known_hosts_file (ssh config)))),
      (''ssh_known_hosts_digest'', JStr known_hosts_digest),
      (''application_digest'', JStr application_digest),
      (''bind_addresses'', JList (map (JStr \<circ> str_ip) (bind_addresses (wireguard config)))),
      (''listen_port'', JInt (listen_port (wireguard config)))]"

definition launch_value :: "string \<Rightarrow> string \<Rightarrow> string \<Rightarrow> (string \<times> json) list \<Rightarrow> json" where
  "launch_value launch_id instance_id unit_name inputs = JObj
     ([(''schema_version'', JInt LAUNCH_SCHEMA_VERSION), (''launch_id'', JStr launch_id),
       (''instance_id'', JStr instance_id), (''unit'', JStr unit_name)] @ inputs)"

definition input_digests ::
  "(string \<Rightarrow> string) \<Rightarrow> project_config \<Rightarrow> instance_paths \<Rightarrow> string option \<Rightarrow> comps \<Rightarrow> comps \<Rightarrow> comps
   \<Rightarrow> (string \<times> json) list io" where
  "input_digests sha256_hex config paths generation identity known_hosts app_bundle =
     bind (file_digest sha256_hex (ip_config paths) ''configuration'' True) (\<lambda>c.
     bind (file_digest sha256_hex identity ''SSH identity'' True) (\<lambda>i.
     bind (file_digest sha256_hex known_hosts ''SSH known-hosts'' False) (\<lambda>k.
     bind (file_digest sha256_hex app_bundle ''application bundle'' True) (\<lambda>a.
     ret (launch_inputs config generation c i k a)))))"

definition prepare_launch ::
  "(string \<Rightarrow> string) \<Rightarrow> string \<Rightarrow> project_config \<Rightarrow> instance_paths \<Rightarrow> comps \<Rightarrow> comps \<Rightarrow> string \<Rightarrow> string \<Rightarrow> json io" where
  "prepare_launch sha256_hex token_hex config paths launch_path app_bundle instance_id unit_name =
     then_do (require (INSTANCE_PATTERN instance_id) (StateError ''launch instance identifier is invalid''))
    (then_do (require (UNIT_PATTERN unit_name) (StateError ''launch systemd unit name is invalid''))
    (then_do (require_private_file app_bundle ''application bundle'')
    (locked_state_view paths True True False (\<lambda>view.
       then_do (recover_ssh_key_transaction sha256_hex config paths)
      (bind (validate_ssh_files config paths) (\<lambda>(identity, known_hosts).
       then_do (require_current_phone_configs sha256_hex config (view_paths view))
      (if view_generation view = None
       then raise_hinted StateError ''persistent keys are not initialized'' [''keys'', ''generate'']
       else
       bind (input_digests sha256_hex config paths (view_generation view) identity known_hosts app_bundle) (\<lambda>inputs.
       let value = launch_value token_hex instance_id unit_name inputs in
       then_do (atomic_write_json launch_path value 0x180) (ret value)))))))))"

definition read_launch_manifest :: "comps \<Rightarrow> json io" where
  "read_launch_manifest launch_path =
     bind (try_except
        (bind (os_lstat launch_path) (\<lambda>info.
         then_do (require (is_file_node (Some info) \<and> 0 < node_size info \<and> node_size info \<le> MAX_LAUNCH_BYTES)
           (StateError ''launch manifest is not a bounded regular file''))
         (bind (read_text_utf8 launch_path) (\<lambda>t. lift (loads t)))))
        is_load_error
        (\<lambda>e. raise (StateError (''launch manifest is unavailable: '' @ exn_str e)))) (\<lambda>value.
     if \<not> is_JObj value \<or> \<not> json_is_int (jget value ''schema_version'') LAUNCH_SCHEMA_VERSION
     then raise_hinted StateError ''launch manifest has an unsupported format'' [''up'']
     else ret value)"

definition string_field :: "json \<Rightarrow> string \<Rightarrow> (string \<Rightarrow> bool) \<Rightarrow> bool" where
  "string_field value key p = (case jget value key of Some (JStr s) \<Rightarrow> p s | _ \<Rightarrow> False)"

text \<open>
  \<open>==\<close> of a value read from JSON and a value of the program. The values compared are
  strings, lists of strings and one integer, which also equals \<open>True\<close> when it is 1.
\<close>

definition json_equal :: "json option \<Rightarrow> json \<Rightarrow> bool" where
  "json_equal found item = (case item of
       JInt n \<Rightarrow> json_is_int found n
     | JNull \<Rightarrow> found = None \<or> found = Some JNull
     | _ \<Rightarrow> found = Some item)"

definition validate_launch_manifest ::
  "(string \<Rightarrow> string) \<Rightarrow> project_config \<Rightarrow> instance_paths \<Rightarrow> string option \<Rightarrow> comps \<Rightarrow> comps \<Rightarrow> json io" where
  "validate_launch_manifest sha256_hex config paths generation launch_path app_bundle =
     bind (read_launch_manifest launch_path) (\<lambda>value.
     then_do (require (string_field value ''launch_id'' LAUNCH_ID_PATTERN)
       (StateError ''launch manifest has an invalid launch identifier''))
    (then_do (require (string_field value ''instance_id'' INSTANCE_PATTERN)
       (StateError ''launch manifest has an invalid instance identifier''))
    (then_do (require (string_field value ''unit'' UNIT_PATTERN)
       (StateError ''launch manifest has an invalid systemd unit''))
    (bind (lift (mounted_secret_path paths (identity_file (ssh config)))) (\<lambda>identity.
     bind (lift (mounted_secret_path paths (known_hosts_file (ssh config)))) (\<lambda>known_hosts.
     then_do (require_private_file identity ''SSH identity'')
    (then_do (require_regular_file known_hosts ''SSH known-hosts file'')
    (then_do (require_private_file app_bundle ''application bundle'')
    (bind (input_digests sha256_hex config paths generation identity known_hosts app_bundle) (\<lambda>expected.
     if list_ex (\<lambda>(key, item). \<not> json_equal (jget value key) item) expected
     then raise_hinted StateError ''configuration or launch inputs changed after prepare'' [''up'']
     else ret value))))))))))"

end
