(* ===== verification/Claim.thy ===== *)
theory Claim
  imports Pathlib Json
begin

text \<open>
  \<open>claim.py\<close>: the wrapper that holds the socket claims of one gateway, lock files named by
  a digest, while it supervises the runtime command. The supervised command is the
  parameter \<open>supervise\<close>: the exit status, or \<open>OSError\<close> when it cannot be executed.
\<close>

definition CLAIM_CONFLICT_EXIT :: int where
  "CLAIM_CONFLICT_EXIT = 73"

definition CLAIM_PATTERN :: "string \<Rightarrow> bool" where
  "CLAIM_PATTERN s \<longleftrightarrow> length s = 69 \<and> list_all is_lower_hex (take 64 s) \<and> drop 64 s = ''.lock''"

text \<open>The leading \<open>--claim PATH\<close> pairs and what follows them.\<close>

fun take_claims :: "string list \<Rightarrow> exn + path list \<times> string list" where
  "take_claims [] = Inr ([], [])"
| "take_claims [a] = (if a = ''--claim'' then Inl (ClaimError ''--claim requires a path'') else Inr ([], [a]))"
| "take_claims (a # b # rest) =
     (if a = ''--claim'' then rbind (take_claims rest) (\<lambda>(claims, values). Inr (parse_path b # claims, values))
      else Inr ([], a # b # rest))"

text \<open>\<open>path.parent\<close> and \<open>path.name\<close>.\<close>

definition parent_of :: "path \<Rightarrow> path" where
  "parent_of p = Path (is_absolute p) (butlast (path_comps p))"

text \<open>\<open>claims == sorted(set(claims), key=str)\<close>: increasing texts, so no path twice.\<close>

definition sorted_unique :: "path list \<Rightarrow> bool" where
  "sorted_unique claims \<longleftrightarrow> sorted (map str_path claims) \<and> distinct claims"

definition parse_arguments :: "string list \<Rightarrow> exn + path list \<times> string list" where
  "parse_arguments arguments =
     rbind (take_claims arguments) (\<lambda>(claims, values).
     if claims = [] \<or> values = [] \<or> hd values \<noteq> ''--'' \<or> length values < 2
     then Inl (ClaimError ''expected one or more claims followed by -- COMMAND'')
     else if \<not> sorted_unique claims then Inl (ClaimError ''claim paths must be unique and sorted'')
     else if list_ex (\<lambda>claim. \<not> is_absolute claim \<or> parent_of claim \<noteq> parent_of (hd claims)
              \<or> \<not> CLAIM_PATTERN (name_of (path_comps claim))) claims
     then Inl (ClaimError ''claim paths have an invalid structure'')
     else (let command = tl values in
       if \<not> is_absolute (parse_path (hd command))
       then Inl (ClaimError ''runtime command must use an absolute executable path'')
       else Inr (claims, command)))"

subsection \<open>Holding the claims\<close>

definition claim_node_ok :: "nat \<Rightarrow> node \<Rightarrow> bool" where
  "claim_node_ok me info \<longleftrightarrow> (case info of File m u _ \<Rightarrow> u = me \<and> m = 0x180 | _ \<Rightarrow> False)"

text \<open>
  The loop over the claims with the supervised command at its end. Each descriptor is
  closed after everything the later claims and the command do, so in reverse order, and
  \<open>False\<close> of \<open>os_flock\<close> is the early return of the conflict status.
\<close>

definition try_lock :: "descriptor \<Rightarrow> bool io" where
  "try_lock fd = try_except (then_do (os_flock fd True True) (ret True)) is_BlockingIO (\<lambda>_. ret False)"

definition claim_conflict :: "int io" where
  "claim_conflict = then_do (echo_err ''shuttle-gate claim error: host UDP socket is already in use'')
     (ret CLAIM_CONFLICT_EXIT)"

fun run_claimed :: "(string list \<Rightarrow> int io) \<Rightarrow> comps list \<Rightarrow> string list \<Rightarrow> int io" where
  "run_claimed supervise [] command =
     try_except (supervise command) is_OSError
       (\<lambda>e. raise (ClaimError (''cannot execute runtime command: '' @ exn_str e)))"
| "run_claimed supervise (claim # claims) command =
     bind (os_open_rw claim) (\<lambda>descriptor.
     try_finally
       (bind (os_fstat descriptor) (\<lambda>info.
        bind (gets uid) (\<lambda>me.
        then_do (require (claim_node_ok me info)
          (ClaimError ''claim file ownership, type, or permissions are invalid''))
       (bind (try_lock descriptor) (\<lambda>locked.
        if locked then run_claimed supervise claims command else claim_conflict)))))
       (suppress is_OSError (os_close descriptor)))"

fun is_ClaimError :: "exn \<Rightarrow> bool" where
  "is_ClaimError (ClaimError _) = True"
| "is_ClaimError _ = False"

text \<open>\<open>main\<close>: the status the process exits with.\<close>

definition claim_main :: "(string list \<Rightarrow> int io) \<Rightarrow> string list \<Rightarrow> int io" where
  "claim_main supervise argv =
     try_except
       (bind (lift (parse_arguments argv)) (\<lambda>(claims, command).
        run_claimed supervise (map path_comps claims) command))
       is_ClaimError (\<lambda>e. then_do (echo_err (''shuttle-gate claim error: '' @ exn_str e)) (ret 2))"

end
