(* ===== verification/ClaimProps.thy ===== *)
theory ClaimProps
  imports Claim StateProps
begin

text \<open>
  The claim wrapper runs the gateway only while it holds every one of its claims, so two
  gateways that share a socket never run at the same time.
\<close>

definition held :: "world \<Rightarrow> comps \<Rightarrow> bool" where
  "held w c \<longleftrightarrow> list_ex (\<lambda>(fd, e). e \<and> fd_path fd = c) (locks w)"

definition taken_elsewhere :: "world \<Rightarrow> comps \<Rightarrow> bool" where
  "taken_elsewhere w c \<longleftrightarrow> list_ex (\<lambda>(p, e). p = c) (foreign_locks w)"

text \<open>What a step that only opens, inspects or locks files below \<open>c\<close> leaves alone.\<close>

definition lock_step :: "comps set \<Rightarrow> world \<Rightarrow> world \<Rightarrow> bool" where
  "lock_step C w w' \<longleftrightarrow> disk w' = disk w \<and> foreign_locks w' = foreign_locks w
     \<and> (\<forall>l \<in> set (locks w). fd_path (fst l) \<notin> C \<longrightarrow> l \<in> set (locks w'))"

lemma lock_step_refl: "lock_step C w w"
  by (simp add: lock_step_def)

lemma lock_step_trans: "lock_step C w w1 \<Longrightarrow> lock_step C w1 w2 \<Longrightarrow> lock_step C w w2"
  by (auto simp: lock_step_def)

lemma lock_step_mono: "lock_step C w w' \<Longrightarrow> C \<subseteq> D \<Longrightarrow> lock_step D w w'"
  by (auto simp: lock_step_def)

lemma held_step: "lock_step C w w' \<Longrightarrow> held w c \<Longrightarrow> c \<notin> C \<Longrightarrow> held w' c"
  by (fastforce simp: lock_step_def held_def list_ex_iff)

lemma taken_step: "lock_step C w w' \<Longrightarrow> taken_elsewhere w' c = taken_elsewhere w c"
  by (simp add: lock_step_def taken_elsewhere_def)

lemma os_open_rw_step:
  assumes "os_open_rw p w = (Ret fd, w')"
  shows "fd_path fd = p \<and> lock_step {} w w'"
  using assms unfolding os_open_rw_def
  by (elim syscall_RetE) (auto simp: lock_step_def new_handle_def Let_def split: option.split_asm node.split_asm)

lemma os_fstat_step: "os_fstat fd w = (Ret n, w') \<Longrightarrow> lock_step {} w w'"
  unfolding os_fstat_def
  by (elim syscall_RetE) (auto simp: lock_step_def with_handle_def ret_def split: option.split_asm if_split_asm)

lemma os_flock_step:
  assumes "os_flock fd True nb w = (Ret u, w')"
  shows "lock_step {fd_path fd} w w' \<and> held w' (fd_path fd) \<and> \<not> taken_elsewhere w' (fd_path fd)"
proof -
  have "lock_step {fd_path fd} w w'"
    using assms unfolding os_flock_def
    by (elim syscall_RetE) (auto simp: lock_step_def with_handle_def split: option.split_asm if_split_asm)
  moreover have "held w' (fd_path fd) \<and> \<not> taken_elsewhere w' (fd_path fd)"
    using os_flock_Ret [OF assms]
    by (auto simp: held_def taken_elsewhere_def lock_conflict_def list_ex_iff)
  ultimately show ?thesis by simp
qed

lemma claim_conflict_Ret: "claim_conflict w = (Ret status, w') \<longleftrightarrow> status = CLAIM_CONFLICT_EXIT
    \<and> w' = snd (claim_conflict w)"
  by (auto simp: claim_conflict_def echo_err_def put_text_def prog_defs)

text \<open>One claim: the descriptor that is locked is the one that was opened.\<close>

lemma run_claimed_Cons:
  assumes "run_claimed supervise (claim # claims) command w = (Ret status, w')"
    and "status \<noteq> CLAIM_CONFLICT_EXIT"
  obtains w1 w2 where "lock_step {claim} w w1" and "held w1 claim" and "\<not> taken_elsewhere w1 claim"
    and "run_claimed supervise claims command w1 = (Ret status, w2)"
proof -
  from assms obtain fd w0 n w2 m w3 w4 locked w5 where
      o: "os_open_rw claim w = (Ret fd, w0)" and f: "os_fstat fd w0 = (Ret n, w2)"
      and l: "try_lock fd w2 = (Ret locked, w3)"
      and r: "(if locked then run_claimed supervise claims command else claim_conflict) w3 = (Ret status, w4)"
    by (auto simp: run_inv elim!: bind_RetE try_finally_Ret)
  from r assms(2) have "locked" by (auto simp: claim_conflict_Ret split: if_splits)
  with l obtain w6 where k: "os_flock fd True True w2 = (Ret w6, w3)"
    unfolding try_lock_def by (elim try_except_RetE) (auto simp: run_inv elim!: bind_RetE)
  from os_open_rw_step [OF o] have p: "fd_path fd = claim" and s: "lock_step {} w w0" by simp_all
  note k = os_flock_step [OF k, unfolded p]
  have "lock_step {claim} w w3"
    by (rule lock_step_trans [OF lock_step_mono [OF s] lock_step_trans [OF lock_step_mono [OF os_fstat_step [OF f]]]])
       (use k in simp_all)
  with k r \<open>locked\<close> that show thesis by simp
qed

lemma run_claimed_holds:
  assumes "run_claimed supervise claims command w = (Ret status, w')"
    and "status \<noteq> CLAIM_CONFLICT_EXIT" and "distinct claims"
  shows "\<exists>w1 w2. supervise command w1 = (Ret status, w2) \<and> lock_step (set claims) w w1
    \<and> (\<forall>c\<in>set claims. held w1 c \<and> \<not> taken_elsewhere w1 c)"
  using assms
proof (induction claims arbitrary: w w')
  case Nil
  then show ?case
    using lock_step_refl by (auto simp: try_except_raise_Ret)
next
  case (Cons claim claims)
  from Cons.prems obtain w1 w2 where s: "lock_step {claim} w w1" "held w1 claim" "\<not> taken_elsewhere w1 claim"
    and r: "run_claimed supervise claims command w1 = (Ret status, w2)"
    by (elim run_claimed_Cons) auto
  from Cons.IH [OF r] Cons.prems obtain w3 w4 where t: "supervise command w3 = (Ret status, w4)"
    "lock_step (set claims) w1 w3" "\<forall>c\<in>set claims. held w3 c \<and> \<not> taken_elsewhere w3 c"
    by auto
  have "held w3 claim" using held_step [OF t(2) s(2)] Cons.prems(3) by simp
  moreover have "\<not> taken_elsewhere w3 claim" using taken_step [OF t(2)] s(3) by simp
  moreover have "lock_step (set (claim # claims)) w w3"
    by (rule lock_step_trans [OF lock_step_mono [OF s(1)] lock_step_mono [OF t(2)]]) auto
  ultimately show ?case using t by auto
qed


lemma parse_arguments_Inr:
  assumes "parse_arguments argv = Inr (claims, command)"
  shows "claims \<noteq> [] \<and> sorted_unique claims \<and> list_all is_absolute claims"
  using assms unfolding parse_arguments_def
  by (cases "take_claims argv")
    (auto simp: list_all_iff list_ex_iff Let_def split: if_splits prod.splits)

lemma distinct_path_comps:
  "list_all is_absolute claims \<Longrightarrow> distinct claims \<Longrightarrow> distinct (map path_comps claims)"
  by (auto simp: distinct_map inj_on_def list_all_iff intro: path.expand)

text \<open>
  C17: The wrapper gives its gateway a run only under all its claims: when it exits with a
  status that is neither its own usage error nor the conflict status, that status is the one
  the supervised command returned, and the command was started in a world where an exclusive
  lock is held on every claim file of the command line and no other process holds a lock on
  any of them; up to that moment the wrapper had not changed the disk.
\<close>
theorem claims_held_while_running:
  assumes "claim_main supervise argv w = (Ret status, w')"
    and "status \<noteq> 2" and "status \<noteq> CLAIM_CONFLICT_EXIT"
  shows "\<exists>claims command w1 w2. parse_arguments argv = Inr (claims, command) \<and> claims \<noteq> []
    \<and> supervise command w1 = (Ret status, w2) \<and> disk w1 = disk w
    \<and> list_all (\<lambda>c. held w1 (path_comps c) \<and> \<not> taken_elsewhere w (path_comps c)) claims"
proof -
  from assms(1,2) obtain claims command where
      p: "parse_arguments argv = Inr (claims, command)"
      and r: "run_claimed supervise (map path_comps claims) command w = (Ret status, w')"
    unfolding claim_main_def
    by (elim try_except_RetE) (auto simp: run_inv elim!: bind_RetE)
  note c = parse_arguments_Inr [OF p]
  then have "distinct (map path_comps claims)"
    by (intro distinct_path_comps) (simp_all add: sorted_unique_def)
  from run_claimed_holds [OF r assms(3) this] obtain w1 w2 where
    s: "supervise command w1 = (Ret status, w2)" "lock_step (set (map path_comps claims)) w w1"
      "\<forall>c\<in>set (map path_comps claims). held w1 c \<and> \<not> taken_elsewhere w1 c" by blast
  moreover from s(2) have "disk w1 = disk w" by (simp add: lock_step_def)
  ultimately show ?thesis using p c taken_step [OF s(2)] by (auto simp: list_all_iff)
qed

definition claim_example_name :: string where
  "claim_example_name = replicate 64 (CHR ''a'') @ ''.lock''"

definition claim_example_world :: world where
  "claim_example_world = system_with
     [([''run''], Dir 0x1C0 1000), ([''run'', claim_example_name], File 0x180 1000 [])]"

definition claim_example_arguments :: "string list" where
  "claim_example_arguments = [''--claim'', ''/run/'' @ claim_example_name, ''--'', ''/usr/bin/pasta'', ''--quiet'']"

lemma claim_example_runs:
  "fst (claim_main (\<lambda>command. ret 0) claim_example_arguments claim_example_world) = Ret 0"
  by code_simp

lemma claims_held_while_running_witness:
  "\<exists>claims command. parse_arguments claim_example_arguments = Inr (claims, command) \<and> claims \<noteq> []
    \<and> list_all (\<lambda>c. \<not> taken_elsewhere claim_example_world (path_comps c)) claims"
proof -
  have "claim_main (\<lambda>command. ret 0) claim_example_arguments claim_example_world
    = (Ret 0, snd (claim_main (\<lambda>command. ret 0) claim_example_arguments claim_example_world))"
    by (simp add: claim_example_runs prod_eq_iff)
  from claims_held_while_running [OF this] show ?thesis
    by (auto simp: CLAIM_CONFLICT_EXIT_def list_all_iff)
qed

end
