(* ===== verification/NftTproxy.thy ===== *)
theory NftTproxy
  imports Config Runner "HOL-Library.Product_Lexorder"
begin

text \<open>
  \<open>nft_tproxy.py\<close>: the nftables table of the transparent proxy, its installation and
  removal, and the original destination of a received datagram. The base class of the method
  and the sockets are sshuttle's and the kernel's: a socket operation is a parameter.
\<close>

subsection \<open>Constants\<close>

definition IP_TRANSPARENT :: nat where
  "IP_TRANSPARENT = 19"

definition IP_ORIGDSTADDR :: nat where
  "IP_ORIGDSTADDR = 20"

definition IP_RECVORIGDSTADDR :: nat where
  "IP_RECVORIGDSTADDR = IP_ORIGDSTADDR"

definition SOL_IPV6 :: nat where
  "SOL_IPV6 = 41"

definition IPV6_ORIGDSTADDR :: nat where
  "IPV6_ORIGDSTADDR = 74"

definition IPV6_RECVORIGDSTADDR :: nat where
  "IPV6_RECVORIGDSTADDR = IPV6_ORIGDSTADDR"

definition NFT_TIMEOUT_SECONDS :: nat where
  "NFT_TIMEOUT_SECONDS = 10"

definition PROXY_INGRESS_INTERFACE :: string where
  "PROXY_INGRESS_INTERFACE = ''wg0''"

text \<open>Linux values of the \<open>socket\<close> module.\<close>

definition AF_INET :: nat where
  "AF_INET = 2"

definition AF_INET6 :: nat where
  "AF_INET6 = 10"

definition SOL_IP :: nat where
  "SOL_IP = 0"

definition SOL_SOCKET :: nat where
  "SOL_SOCKET = 1"

definition SO_REUSEADDR :: nat where
  "SO_REUSEADDR = 2"

subsection \<open>The table\<close>

record subnet =
  sn_family :: nat
  sn_width :: int
  sn_exclude :: bool
  sn_network :: string
  sn_first :: int
  sn_last :: int

definition nft_table_name :: "int \<Rightarrow> exn + string" where
  "nft_table_name port =
     (if \<not> (1 \<le> port \<and> port \<le> 65535)
      then Inl (ValueError (''invalid transparent proxy port: '' @ str_int port))
      else Inr (''shuttle_gate_tproxy_'' @ str_int port))"

definition family_tokens :: "nat \<Rightarrow> exn + string \<times> string \<times> int" where
  "family_tokens family =
     (if family = AF_INET then Inr (''ip'', ''ip'', 32)
      else if family = AF_INET6 then Inr (''ip6'', ''ip6'', 128)
      else Inl (ValueError (''unsupported address family: '' @ str_nat family)))"

text \<open>\<open>first_port or -65535\<close>: a port of 0 stands for no port.\<close>

definition subnet_weight :: "subnet \<Rightarrow> int \<times> int \<times> bool" where
  "subnet_weight s = (- sn_last s + (if sn_first s = 0 then -65535 else sn_first s), sn_width s, sn_exclude s)"

definition match_text :: "string \<Rightarrow> string \<Rightarrow> string \<Rightarrow> int \<Rightarrow> int \<Rightarrow> string" where
  "match_text protocol address_token network lo hi = join '' ''
     [address_token @ '' daddr '' @ network,
      if lo \<noteq> 0 then protocol @ '' dport '' @ (if lo = hi then str_int lo
                       else str_int lo @ ''-'' @ str_int hi)
      else ''meta l4proto '' @ protocol]"

definition mark_ok :: "string \<Rightarrow> bool" where
  "mark_ok tmark \<longleftrightarrow> startswith tmark ''0x'' \<and> drop 2 tmark \<noteq> []
     \<and> list_all (\<lambda>c. c \<in> set ''0123456789abcdefABCDEF'') (drop 2 tmark)"

text \<open>\<open>ip_network(f"{network}/{width}", strict=False)\<close>.\<close>

definition parse_network :: "string \<Rightarrow> int \<Rightarrow> ip_network option" where
  "parse_network network width = (case parse_ip network of
       Some a \<Rightarrow> (if 0 \<le> width \<and> width \<le> (if version a = 4 then 32 else 128)
                  then Some (if_network (Iface a (nat width))) else None)
     | None \<Rightarrow> None)"

text \<open>One rule of the chain: a match and what happens to a packet it matches.\<close>

record tproxy_rule =
  tr_protocol :: string
  tr_network :: ip_network
  tr_first :: int
  tr_last :: int
  tr_exclude :: bool

definition rule_text :: "string \<Rightarrow> int \<Rightarrow> string \<Rightarrow> tproxy_rule \<Rightarrow> string" where
  "rule_text address_token port tmark r =
     ''    '' @ match_text (tr_protocol r) address_token (str_network (tr_network r)) (tr_first r) (tr_last r)
     @ (if tr_exclude r then '' return''
        else '' tproxy to :'' @ str_int port @ '' meta mark set '' @ tmark @ '' accept'')"

definition protocols :: "bool \<Rightarrow> string list" where
  "protocols udp = (if udp then [''tcp'', ''udp''] else [''tcp''])"

definition subnet_rules :: "nat \<Rightarrow> int \<Rightarrow> bool \<Rightarrow> subnet \<Rightarrow> exn + tproxy_rule list" where
  "subnet_rules family max_width udp s =
     (if sn_family s \<noteq> family then Inl (ValueError ''sshuttle passed a subnet for the wrong address family'')
      else if \<not> (0 \<le> sn_width s \<and> sn_width s \<le> max_width)
      then Inl (ValueError (''invalid subnet width: '' @ str_int (sn_width s)))
      else (case parse_network (sn_network s) (sn_width s) of
          None \<Rightarrow> Inl (ValueError (sn_network s @ ''/'' @ str_int (sn_width s)
                    @ '' does not appear to be an IPv4 or IPv6 network''))
        | Some parsed \<Rightarrow>
            (if net_version parsed \<noteq> (if family = AF_INET then 4 else 6)
             then Inl (ValueError (''subnet family mismatch: '' @ sn_network s @ ''/'' @ str_int (sn_width s)))
             else if \<not> (0 \<le> sn_first s \<and> sn_first s \<le> sn_last s \<and> sn_last s \<le> 65535)
             then Inl (ValueError (''invalid port range: '' @ str_int (sn_first s) @ ''-'' @ str_int (sn_last s)))
             else Inr (map (\<lambda>protocol. \<lparr>tr_protocol = protocol, tr_network = parsed, tr_first = sn_first s,
                    tr_last = sn_last s, tr_exclude = sn_exclude s\<rparr>) (protocols udp)))))"

fun collect_rules :: "nat \<Rightarrow> int \<Rightarrow> bool \<Rightarrow> subnet list \<Rightarrow> exn + tproxy_rule list" where
  "collect_rules family max_width udp [] = Inr []"
| "collect_rules family max_width udp (s # ss) =
     rbind (subnet_rules family max_width udp s) (\<lambda>rs.
     rbind (collect_rules family max_width udp ss) (\<lambda>rest. Inr (rs @ rest)))"

text \<open>\<open>sorted(key=\<dots>, reverse=True)\<close>, which keeps the order of equal keys.\<close>

definition most_specific_first :: "subnet list \<Rightarrow> subnet list" where
  "most_specific_first subnets = rev (sort_key subnet_weight (rev subnets))"

definition double_quote :: char where
  "double_quote = CHR 0x22"

definition ingress_rules :: "string \<Rightarrow> string list" where
  "ingress_rules tmark =
     [''    iifname != '' @ double_quote # PROXY_INGRESS_INTERFACE @ double_quote # '' return'',
      ''    fib daddr type local return'',
      ''    socket transparent 1 meta mark set '' @ tmark @ '' accept'']"

definition render_tproxy_table :: "int \<Rightarrow> nat \<Rightarrow> subnet list \<Rightarrow> bool \<Rightarrow> string \<Rightarrow> exn + string" where
  "render_tproxy_table port family subnets udp tmark =
     rbind (family_tokens family) (\<lambda>(nft_family, address_token, max_width).
     if \<not> mark_ok tmark then Inl (ValueError (''invalid packet mark: '' @ tmark))
     else rbind (nft_table_name port) (\<lambda>table.
     rbind (collect_rules family max_width udp (most_specific_first subnets)) (\<lambda>rules.
     Inr (join [CHR 0x0A]
       ([''table '' @ nft_family @ '' '' @ table @ '' {'',
         ''  chain prerouting {'',
         ''    type filter hook prerouting priority mangle; policy accept;'']
        @ ingress_rules tmark @ map (rule_text address_token port tmark) rules
        @ [''  }'', ''}'']) @ [CHR 0x0A]))))"

subsection \<open>Running nft\<close>

definition is_run_failure :: "exn \<Rightarrow> bool" where
  "is_run_failure e \<longleftrightarrow> is_OSError e \<or> is_TimeoutExpired e"

definition run_nft :: "launcher \<Rightarrow> string list \<Rightarrow> string option \<Rightarrow> bool \<Rightarrow> unit io" where
  "run_nft launch arguments rules check =
     bind (try_except (launch (''nft'' # arguments) rules NFT_TIMEOUT_SECONDS None) is_run_failure
        (\<lambda>e. raise (Fatal (''cannot execute native nftables command: '' @ exn_str e))))
       (\<lambda>(status, out, err). require (\<not> (check \<and> status \<noteq> 0))
          (Fatal (''native nftables command failed with status '' @ str_int status @ '': ''
             @ diagnostic_of 4096 err out)))"

definition restore_firewall :: "launcher \<Rightarrow> int \<Rightarrow> nat \<Rightarrow> unit io" where
  "restore_firewall launch port family =
     bind (lift (family_tokens family)) (\<lambda>(nft_family, address_token, width).
     bind (lift (nft_table_name port)) (\<lambda>table.
     run_nft launch [''delete'', ''table'', nft_family, table] None False))"

definition setup_firewall ::
  "launcher \<Rightarrow> int \<Rightarrow> nat \<Rightarrow> subnet list \<Rightarrow> bool \<Rightarrow> string option \<Rightarrow> string option \<Rightarrow> string \<Rightarrow> unit io" where
  "setup_firewall launch port family subnets udp user grp tmark =
     then_do (require (user = None \<and> grp = None)
       (Fatal ''native nft-tproxy does not support user/group filters''))
    (then_do (restore_firewall launch port family)
    (bind (lift (render_tproxy_table port family subnets udp tmark)) (\<lambda>rules.
     then_do (run_nft launch [''--check'', ''--file'', ''-''] (Some rules) True)
     (run_nft launch [''--file'', ''-''] (Some rules) True))))"

subsection \<open>Datagrams\<close>

text \<open>
  \<open>struct.unpack("=HH", payload[0:4])\<close> on a little-endian machine: the family in host
  order and the port as the two bytes stand; \<open>htons\<close> swaps them, so the port is read
  big-endian.
\<close>

definition le16 :: "char \<Rightarrow> char \<Rightarrow> nat" where
  "le16 a b = code_of a + 256 * code_of b"

definition swap16 :: "nat \<Rightarrow> nat" where
  "swap16 n = (n mod 256) * 256 + n div 256"

definition unpack_HH :: "string \<Rightarrow> exn + nat \<times> nat" where
  "unpack_HH b = (case b of [a, b, c, d] \<Rightarrow> Inr (le16 a b, le16 c d) | _ \<Rightarrow> Inl StructError)"

definition bytes_nat :: "string \<Rightarrow> nat" where
  "bytes_nat b = foldl (\<lambda>n c. 256 * n + code_of c) 0 b"

text \<open>
  \<open>inet_ntop\<close>: dotted decimal, and the compressed hextets of \<open>ipaddress\<close> except that an
  address of six leading zero hextets, or of five and \<open>ffff\<close>, ends in dotted decimal.
\<close>

definition inet_ntop4 :: "string \<Rightarrow> exn + string" where
  "inet_ntop4 b = (if length b = 4 then Inr (str_v4 (of_nat (bytes_nat b)))
     else Inl (ValueError ''invalid length of packed IP address string''))"

definition hextets :: "128 word \<Rightarrow> string list" where
  "hextets a = map str_hex [hextet 7 a, hextet 6 a, hextet 5 a, hextet 4 a,
     hextet 3 a, hextet 2 a, hextet 1 a, hextet 0 a]"

definition ntop6 :: "128 word \<Rightarrow> string" where
  "ntop6 a = (let run = best_run 0 (0, 0) (0, 0) (hextets a) in
     if run = (0, 6) then ''::'' @ str_v4 (ucast a)
     else if run = (0, 5) \<and> hextet 2 a = 0xFFFF then ''::ffff:'' @ str_v4 (ucast a)
     else str_hextets a)"

definition inet_ntop6 :: "string \<Rightarrow> exn + string" where
  "inet_ntop6 b = (if length b = 16 then Inr (ntop6 (of_nat (bytes_nat b)))
     else Inl (ValueError ''invalid length of packed IP address string''))"

type_synonym cmsg = "nat \<times> nat \<times> string"

text \<open>The loop over the control messages; the first one that carries a destination counts.\<close>

fun original_destination :: "cmsg list \<Rightarrow> exn + (string \<times> nat) option" where
  "original_destination [] = Inr None"
| "original_destination ((level, kind, payload) # rest) =
     (if level = SOL_IP \<and> kind = IP_ORIGDSTADDR then
        rbind (unpack_HH (take 4 payload)) (\<lambda>(family, network_port).
        if family \<noteq> AF_INET then Inl (Fatal (''unsupported original IPv4 socket family: '' @ str_nat family))
        else rbind (inet_ntop4 (take 4 (drop 4 payload))) (\<lambda>host. Inr (Some (host, swap16 network_port))))
      else if level = SOL_IPV6 \<and> kind = IPV6_ORIGDSTADDR then
        rbind (unpack_HH (take 4 payload)) (\<lambda>(family, network_port).
        if family \<noteq> AF_INET6 then Inl (Fatal (''unsupported original IPv6 socket family: '' @ str_nat family))
        else rbind (inet_ntop6 (take 16 (drop 8 payload))) (\<lambda>host. Inr (Some (host, swap16 network_port))))
      else original_destination rest)"

text \<open>\<open>recv_udp\<close>, given what \<open>recvmsg\<close> returned; a datagram without a destination is dropped.\<close>

definition receive_udp ::
  "string \<Rightarrow> cmsg list \<Rightarrow> 'src \<Rightarrow> exn + 'src \<times> (string \<times> nat) option \<times> string" where
  "receive_udp data ancillary source =
     rbind (original_destination ancillary) (\<lambda>destination. Inr (source, destination, data))"

definition recv_udp :: "string \<Rightarrow> cmsg list \<Rightarrow> 'src \<Rightarrow> exn + ('src \<times> (string \<times> nat) \<times> string) option" where
  "recv_udp data ancillary source =
     rbind (receive_udp data ancillary source) (\<lambda>(source, destination, data).
     Inr (case destination of None \<Rightarrow> None | Some d \<Rightarrow> Some (source, d, data)))"

subsection \<open>Sockets\<close>

record 'addr socket_calls =
  sock_open :: "nat \<Rightarrow> nat io"
  sock_setsockopt :: "nat \<Rightarrow> nat \<Rightarrow> nat \<Rightarrow> nat \<Rightarrow> unit io"
  sock_bind :: "nat \<Rightarrow> 'addr \<Rightarrow> unit io"
  sock_sendto :: "nat \<Rightarrow> string \<Rightarrow> 'addr \<Rightarrow> unit io"
  sock_close :: "nat \<Rightarrow> unit io"

definition is_PermissionError :: "exn \<Rightarrow> bool" where
  "is_PermissionError e \<longleftrightarrow> e = OSError EPERM \<or> e = OSError EACCES"

definition setsockopt_error :: "'a io" where
  "setsockopt_error = raise (Fatal ''NET_ADMIN is required for transparent proxy sockets'')"

definition make_transparent :: "'addr socket_calls \<Rightarrow> nat \<Rightarrow> unit io" where
  "make_transparent calls sock =
     try_except (sock_setsockopt calls sock SOL_IP IP_TRANSPARENT 1) is_PermissionError (\<lambda>_. setsockopt_error)"

definition send_udp :: "'addr socket_calls \<Rightarrow> nat \<Rightarrow> 'addr option \<Rightarrow> 'addr \<Rightarrow> string \<Rightarrow> unit io" where
  "send_udp calls family source destination data = (case source of
       None \<Rightarrow> ret ()
     | Some src \<Rightarrow>
         bind (sock_open calls family) (\<lambda>sender.
         try_finally
           (then_do (sock_setsockopt calls sender SOL_SOCKET SO_REUSEADDR 1)
           (then_do (make_transparent calls sender)
           (then_do (sock_bind calls sender src)
            (sock_sendto calls sender data destination))))
           (sock_close calls sender)))"

definition setup_tcp_listener :: "'addr socket_calls \<Rightarrow> nat \<Rightarrow> unit io" where
  "setup_tcp_listener calls listener = make_transparent calls listener"

text \<open>A UDP listener has an IPv4 and an IPv6 socket, either possibly absent.\<close>

definition setup_udp_listener :: "'addr socket_calls \<Rightarrow> nat \<Rightarrow> nat option \<Rightarrow> nat option \<Rightarrow> unit io" where
  "setup_udp_listener calls listener v4 v6 =
     then_do (make_transparent calls listener)
    (then_do (case v4 of None \<Rightarrow> ret () | Some s \<Rightarrow> sock_setsockopt calls s SOL_IP IP_RECVORIGDSTADDR 1)
     (case v6 of None \<Rightarrow> ret () | Some s \<Rightarrow> sock_setsockopt calls s SOL_IPV6 IPV6_RECVORIGDSTADDR 1))"

end
