(* ===== verification/NftProps.thy ===== *)
theory NftProps
  imports NftTproxy ConfigProps
begin

text \<open>
  What the firewall table decides. nftables takes the first rule of a chain that matches:
  \<open>return\<close> leaves the packet to the kernel's own routing, \<open>tproxy\<close> hands it to the proxy. The
  semantics of the chain is stated on the rules the text is printed from, and compared with
  a direct reading of the subnets: the most specific one decides.
\<close>

subsection \<open>A chain of rules\<close>

record packet =
  pk_protocol :: string
  pk_destination :: ip_address
  pk_port :: int

definition ports_match :: "int \<Rightarrow> int \<Rightarrow> int \<Rightarrow> bool" where
  "ports_match lo hi port \<longleftrightarrow> lo = 0 \<or> (lo \<le> port \<and> port \<le> hi)"

definition rule_matches :: "tproxy_rule \<Rightarrow> packet \<Rightarrow> bool" where
  "rule_matches r p \<longleftrightarrow> tr_protocol r = pk_protocol p \<and> in_network (pk_destination p) (tr_network r)
     \<and> ports_match (tr_first r) (tr_last r) (pk_port p)"

fun proxied :: "tproxy_rule list \<Rightarrow> packet \<Rightarrow> bool" where
  "proxied [] p = False"
| "proxied (r # rs) p = (if rule_matches r p then \<not> tr_exclude r else proxied rs p)"

text \<open>The same question asked of a subnet that sshuttle passed.\<close>

definition subnet_matches :: "bool \<Rightarrow> subnet \<Rightarrow> packet \<Rightarrow> bool" where
  "subnet_matches udp s p \<longleftrightarrow> pk_protocol p \<in> set (protocols udp)
     \<and> (case parse_network (sn_network s) (sn_width s) of None \<Rightarrow> False
        | Some n \<Rightarrow> in_network (pk_destination p) n)
     \<and> ports_match (sn_first s) (sn_last s) (pk_port p)"

lemma proxied_append:
  "proxied (rs @ rs') p = (if \<exists>r\<in>set rs. rule_matches r p then proxied rs p else proxied rs' p)"
  by (induction rs) auto

lemma proxied_block:
  assumes "\<forall>r\<in>set rs. tr_exclude r = x" and "\<exists>r\<in>set rs. rule_matches r p"
  shows "proxied rs p = (\<not> x)"
  using assms by (induction rs) auto

lemma subnet_rules_Inr:
  assumes "subnet_rules family mw udp s = Inr rs"
  shows "(\<exists>r\<in>set rs. rule_matches r p) = subnet_matches udp s p"
    and "\<forall>r\<in>set rs. tr_exclude r = sn_exclude s"
  using assms
  by (auto simp: subnet_rules_def subnet_matches_def rule_matches_def split: if_splits option.splits)

text \<open>The first subnet of the list that matches decides.\<close>

fun first_decides :: "bool \<Rightarrow> subnet list \<Rightarrow> packet \<Rightarrow> bool" where
  "first_decides udp [] p = False"
| "first_decides udp (s # ss) p = (if subnet_matches udp s p then \<not> sn_exclude s else first_decides udp ss p)"

lemma proxied_collect_rules:
  "collect_rules family mw udp ss = Inr rs \<Longrightarrow> proxied rs p = first_decides udp ss p"
proof (induction ss arbitrary: rs)
  case (Cons s ss)
  then obtain r1 r2 where r: "subnet_rules family mw udp s = Inr r1"
    "collect_rules family mw udp ss = Inr r2" "rs = r1 @ r2"
    by (auto simp: rbind_eq_Inr)
  show ?case
    using Cons.IH [OF r(2)] subnet_rules_Inr(1) [OF r(1), of p] subnet_rules_Inr(2) [OF r(1)]
      proxied_block [of r1 "sn_exclude s" p]
    by (simp add: r(3) proxied_append)
qed simp

subsection \<open>The most specific subnet decides\<close>

lemma first_decides_sorted:
  assumes "sorted (rev (map subnet_weight ss))"
  shows "first_decides udp ss p \<longleftrightarrow>
    (\<exists>s\<in>set ss. \<not> sn_exclude s \<and> subnet_matches udp s p
      \<and> (\<forall>t\<in>set ss. sn_exclude t \<and> subnet_matches udp t p \<longrightarrow> subnet_weight t < subnet_weight s))"
  using assms
proof (induction ss)
  case (Cons s ss)
  from Cons.prems have below: "\<forall>t\<in>set ss. subnet_weight t \<le> subnet_weight s"
    and "sorted (rev (map subnet_weight ss))"
    by (auto simp: sorted_append)
  note IH = Cons.IH [OF this(2)]
  have tie: "subnet_weight t < subnet_weight s"
    if "t \<in> set ss" "sn_exclude t" "\<not> sn_exclude s" for t
    using below that by (auto simp: subnet_weight_def order.order_iff_strict)
  show ?case
  proof (cases "subnet_matches udp s p")
    case True
    show ?thesis
    proof (cases "sn_exclude s")
      case True
      then show ?thesis using \<open>subnet_matches udp s p\<close> below by (auto simp: not_less [symmetric])
    qed (use True tie in auto)
  qed (use IH in auto)
qed simp

lemma sorted_most_specific_first: "sorted (rev (map subnet_weight (most_specific_first ss)))"
  by (simp add: most_specific_first_def rev_map [symmetric] del: rev_map)

lemma set_most_specific_first [simp]: "set (most_specific_first ss) = set ss"
  by (simp add: most_specific_first_def)

definition decision :: "bool \<Rightarrow> subnet list \<Rightarrow> packet \<Rightarrow> bool" where
  "decision udp ss p \<longleftrightarrow>
    (\<exists>s\<in>set ss. \<not> sn_exclude s \<and> subnet_matches udp s p
      \<and> (\<forall>t\<in>set ss. sn_exclude t \<and> subnet_matches udp t p \<longrightarrow> subnet_weight t < subnet_weight s))"

lemma proxied_decision:
  "collect_rules family mw udp (most_specific_first ss) = Inr rs \<Longrightarrow> proxied rs p = decision udp ss p"
  by (simp add: proxied_collect_rules first_decides_sorted [OF sorted_most_specific_first] decision_def)


text \<open>The printed table: a head, the rules of the ingress, and one line for each rule.\<close>

definition table_text :: "string \<Rightarrow> string \<Rightarrow> string \<Rightarrow> int \<Rightarrow> string \<Rightarrow> tproxy_rule list \<Rightarrow> string" where
  "table_text nft_family table address_token port tmark rules = join [CHR 0x0A]
     ([''table '' @ nft_family @ '' '' @ table @ '' {'',
       ''  chain prerouting {'',
       ''    type filter hook prerouting priority mangle; policy accept;'']
      @ ingress_rules tmark @ map (rule_text address_token port tmark) rules
      @ [''  }'', ''}'']) @ [CHR 0x0A]"

lemma render_tproxy_table_Inr:
  assumes "render_tproxy_table port family subnets udp tmark = Inr text"
  obtains nft_family token mw table rules where "family_tokens family = Inr (nft_family, token, mw)"
    and "nft_table_name port = Inr table" and "mark_ok tmark"
    and "collect_rules family mw udp (most_specific_first subnets) = Inr rules"
    and "text = table_text nft_family table token port tmark rules"
  using assms that
  by (auto simp: render_tproxy_table_def table_text_def rbind_eq_Inr split: if_splits)


definition example_subnets :: "subnet list" where
  "example_subnets =
     [\<lparr>sn_family = AF_INET, sn_width = 8, sn_exclude = False, sn_network = ''10.0.0.0'', sn_first = 0, sn_last = 0\<rparr>,
      \<lparr>sn_family = AF_INET, sn_width = 16, sn_exclude = True, sn_network = ''10.1.0.0'', sn_first = 0, sn_last = 0\<rparr>]"

definition example_packet :: "32 word \<Rightarrow> packet" where
  "example_packet a = \<lparr>pk_protocol = ''udp'', pk_destination = V4 a, pk_port = 53\<rparr>"

lemma example_networks:
  "parse_network ''10.0.0.0'' 8 = Some (Net4 0x0A000000 8)"
  "parse_network ''10.1.0.0'' 16 = Some (Net4 0x0A010000 16)"
  by (simp_all add: parse_network_def parse_ip_eval netmask4_def is_digit_def code_of_def mask_eq_exp_minus_1)

lemma example_decision:
  "decision True example_subnets (example_packet 0x0A020304)"
  "\<not> decision True example_subnets (example_packet 0x0A010203)"
  by (simp_all add: decision_def example_subnets_def example_packet_def subnet_matches_def example_networks
        netmask4_def mask_eq_exp_minus_1 ports_match_def protocols_def subnet_weight_def)

lemma example_rendered: "\<not> isl (render_tproxy_table 12300 AF_INET example_subnets True ''0x1'')"
  by (simp add: render_tproxy_table_def family_tokens_def mark_ok_def nft_table_name_def most_specific_first_def
        example_subnets_def subnet_weight_def subnet_rules_def example_networks AF_INET_def startswith_def)


subsection \<open>The original destination of a datagram\<close>

text \<open>
  What Linux puts into the control message: \<open>struct sockaddr_in\<close> and \<open>struct sockaddr_in6\<close>,
  the family in host order (little-endian), the port and the address in network order.
\<close>

definition byte :: "nat \<Rightarrow> char" where
  "byte n = char_of n"

definition network_port :: "nat \<Rightarrow> string" where
  "network_port port = [byte (port div 256), byte (port mod 256)]"

definition bytes4 :: "32 word \<Rightarrow> string" where
  "bytes4 a = map (\<lambda>i. byte (octet i a)) [3, 2, 1, 0]"

definition bytes16 :: "128 word \<Rightarrow> string" where
  "bytes16 a = concat (map (\<lambda>i. network_port (hextet i a)) [7, 6, 5, 4, 3, 2, 1, 0])"

definition sockaddr_in :: "nat \<Rightarrow> 32 word \<Rightarrow> string" where
  "sockaddr_in port a = [byte AF_INET, byte 0] @ network_port port @ bytes4 a @ replicate 8 (byte 0)"

definition sockaddr_in6 :: "nat \<Rightarrow> 128 word \<Rightarrow> string" where
  "sockaddr_in6 port a = [byte AF_INET6, byte 0] @ network_port port @ replicate 4 (byte 0) @ bytes16 a @ replicate 4 (byte 0)"

lemma code_of_byte: "n < 256 \<Longrightarrow> code_of (byte n) = n"
  by (simp add: code_of_def byte_def)

lemma octet_less: "octet k a < 256"
proof -
  have "drop_bit (8 * k) a AND 0xFF \<le> (0xFF :: 32 word)" by (rule word_and_le1)
  then show ?thesis by (simp add: octet_def word_le_nat_alt)
qed

lemma hextet_less: "hextet k a < 65536"
proof -
  have "drop_bit (16 * k) a AND 0xFFFF \<le> (0xFFFF :: 128 word)" by (rule word_and_le1)
  then show ?thesis by (simp add: hextet_def word_le_nat_alt)
qed

lemma swap16_network_port: "port < 65536 \<Longrightarrow>
  swap16 (le16 (byte (port div 256)) (byte (port mod 256))) = port"
  by (simp add: swap16_def le16_def code_of_byte)

lemma unat_and_mask: "unat (x AND mask n :: 'a :: len word) = unat x mod 2 ^ n"
  by (metis take_bit_eq_mask take_bit_eq_mod unsigned_take_bit_eq)

lemma octet_div_mod: "octet k a = unat a div 256 ^ k mod 256"
proof -
  have "octet k a = unat (drop_bit (8 * k) a AND mask 8)"
    by (simp add: octet_def mask_eq_exp_minus_1)
  also have "\<dots> = drop_bit (8 * k) (unat a) mod 2 ^ 8" by (simp only: unat_and_mask unat_drop_bit_eq)
  finally show ?thesis by (simp add: drop_bit_eq_div power_mult)
qed

lemma hextet_div_mod: "hextet k a = unat a div 65536 ^ k mod 65536"
proof -
  have "hextet k a = unat (drop_bit (16 * k) a AND mask 16)"
    by (simp add: hextet_def mask_eq_exp_minus_1)
  also have "\<dots> = drop_bit (16 * k) (unat a) mod 2 ^ 16" by (simp only: unat_and_mask unat_drop_bit_eq)
  finally show ?thesis by (simp add: drop_bit_eq_div power_mult)
qed

text \<open>Reading digits from the most significant one on.\<close>

lemma foldl_digits: "0 < b \<Longrightarrow> foldl (\<lambda>n i. b * n + x div b ^ i mod b) (x div b ^ k) (rev [0..<k]) = (x :: nat)"
proof (induction k)
  case (Suc k)
  have "b * (x div b ^ Suc k) + x div b ^ k mod b = x div b ^ k"
    using mult_div_mod_eq [of b "x div b ^ k"] by (simp only: power_Suc2 div_mult2_eq)
  with Suc show ?case by (simp del: power_Suc)
qed simp

lemma octets_value: "foldl (\<lambda>n i. 256 * n + octet i a) 0 [3, 2, 1, 0] = unat a"
proof -
  have "unat a < 256 ^ 4" using unsigned_less [of a] by simp
  then have "foldl (\<lambda>n i. 256 * n + octet i a) 0 (rev [0..<4]) = unat a"
    using foldl_digits [of 256 "unat a" 4] by (simp only: octet_div_mod div_less)
  moreover have "rev [0..<4] = [3, 2, 1, 0 :: nat]" by (simp add: upt_rec)
  ultimately show ?thesis by (simp only:)
qed

lemma hextets_value_of: "foldl (\<lambda>n i. 65536 * n + hextet i a) 0 [7, 6, 5, 4, 3, 2, 1, 0] = unat a"
proof -
  have "unat a < 65536 ^ 8" using unsigned_less [of a] by simp
  then have "foldl (\<lambda>n i. 65536 * n + hextet i a) 0 (rev [0..<8]) = unat a"
    using foldl_digits [of 65536 "unat a" 8] by (simp only: hextet_div_mod div_less)
  moreover have "rev [0..<8] = [7, 6, 5, 4, 3, 2, 1, 0 :: nat]" by (simp add: upt_rec)
  ultimately show ?thesis by (simp only:)
qed

lemma bytes_nat_bytes4: "bytes_nat (bytes4 a) = unat a"
  using octets_value [of a] by (simp add: bytes_nat_def bytes4_def code_of_byte octet_less)

lemma bytes_nat_port: "foldl (\<lambda>n c. 256 * n + code_of c) m (network_port (hextet i a)) = 65536 * m + hextet i a"
  using hextet_less [of i a] by (simp add: network_port_def code_of_byte less_mult_imp_div_less)

lemma bytes_nat_bytes16: "bytes_nat (bytes16 a) = unat a"
  using hextets_value_of [of a] by (simp add: bytes_nat_def bytes16_def bytes_nat_port)

subsection \<open>The destination that is read\<close>

fun relevant :: "cmsg \<Rightarrow> bool" where
  "relevant (level, kind, payload) \<longleftrightarrow>
     level = SOL_IP \<and> kind = IP_ORIGDSTADDR \<or> level = SOL_IPV6 \<and> kind = IPV6_ORIGDSTADDR"

lemma original_destination_skip:
  "list_all (\<lambda>m. \<not> relevant m) ms \<Longrightarrow> original_destination (ms @ rest) = original_destination rest"
  by (induction ms rule: original_destination.induct) auto

lemma inet_ntop4_bytes4: "inet_ntop4 (bytes4 a) = Inr (str_v4 a)"
  by (simp add: inet_ntop4_def bytes_nat_bytes4) (simp add: bytes4_def)

lemma length_bytes16 [simp]: "length (bytes16 a) = 16"
  by (simp add: bytes16_def network_port_def)

lemma inet_ntop6_bytes16: "inet_ntop6 (bytes16 a) = Inr (ntop6 a)"
  by (simp add: inet_ntop6_def bytes_nat_bytes16)

lemma read_sockaddr_in:
  assumes "port < 65536"
  shows "original_destination ((SOL_IP, IP_ORIGDSTADDR, sockaddr_in port a) # rest)
    = Inr (Some (str_v4 a, port))"
proof -
  have "take 4 (sockaddr_in port a) = [byte AF_INET, byte 0] @ network_port port"
    and "take 4 (drop 4 (sockaddr_in port a)) = bytes4 a"
    by (simp_all add: sockaddr_in_def network_port_def bytes4_def)
  moreover have "le16 (byte AF_INET) (byte 0) = AF_INET"
    by (simp add: le16_def code_of_byte AF_INET_def)
  ultimately show ?thesis
    by (simp add: unpack_HH_def network_port_def inet_ntop4_bytes4 swap16_network_port assms)
qed

lemma read_sockaddr_in6:
  assumes "port < 65536"
  shows "original_destination ((SOL_IPV6, IPV6_ORIGDSTADDR, sockaddr_in6 port b) # rest)
    = Inr (Some (ntop6 b, port))"
proof -
  have "take 4 (sockaddr_in6 port b) = [byte AF_INET6, byte 0] @ network_port port"
    and "take 16 (drop 8 (sockaddr_in6 port b)) = bytes16 b"
    by (simp_all add: sockaddr_in6_def network_port_def)
  moreover have "le16 (byte AF_INET6) (byte 0) = AF_INET6"
    by (simp add: le16_def code_of_byte AF_INET6_def)
  moreover have "SOL_IPV6 \<noteq> SOL_IP" by (simp add: SOL_IPV6_def SOL_IP_def)
  ultimately show ?thesis
    by (simp add: unpack_HH_def network_port_def inet_ntop6_bytes16 swap16_network_port assms)
qed

text \<open>
  C31: A received datagram keeps its destination: for the control message Linux attaches
  (whatever irrelevant messages come before it), \<open>recv_udp\<close> returns the printed address and
  the port the datagram was sent to, for both families; without such a message the datagram
  is dropped, not misdirected.
\<close>
theorem datagram_destination_read:
  assumes port: "port < 65536" and skip: "list_all (\<lambda>m. \<not> relevant m) ms"
  shows "recv_udp data (ms @ (SOL_IP, IP_ORIGDSTADDR, sockaddr_in port a) # rest) source
      = Inr (Some (source, (str_v4 a, port), data))
    \<and> recv_udp data (ms @ (SOL_IPV6, IPV6_ORIGDSTADDR, sockaddr_in6 port b) # rest) source
      = Inr (Some (source, (ntop6 b, port), data))
    \<and> recv_udp data ms source = Inr None"
proof -
  have "original_destination ms = Inr None" using original_destination_skip [OF skip, of "[]"] by simp
  then show ?thesis
    by (simp add: recv_udp_def receive_udp_def original_destination_skip [OF skip]
        read_sockaddr_in [OF port] read_sockaddr_in6 [OF port] del: original_destination.simps)
qed

lemma datagram_destination_read_witness:
  "recv_udp ''payload'' ([(SOL_SOCKET, 29, ''now'')] @ (SOL_IP, IP_ORIGDSTADDR, sockaddr_in 5353 0x0A000001) # []) ''peer''
      = Inr (Some (''peer'', (str_v4 0x0A000001, 5353), ''payload''))
    \<and> recv_udp ''payload'' [(SOL_SOCKET, 29, ''now'')] ''peer'' = Inr None"
proof -
  have skip: "list_all (\<lambda>m. \<not> relevant m) [(SOL_SOCKET, 29 :: nat, ''now'')]"
    by (simp add: SOL_SOCKET_def SOL_IP_def SOL_IPV6_def)
  have port: "(5353 :: nat) < 65536" by simp
  from datagram_destination_read [OF port skip, of "''payload''" "0x0A000001" "[]" "''peer''" 0]
  show ?thesis by simp
qed

subsection \<open>Installation\<close>

lemma run_nft_Ret:
  assumes "run_nft launch arguments rules True w = (Ret u, w')"
  obtains out err where "launch (''nft'' # arguments) rules NFT_TIMEOUT_SECONDS None w = (Ret (0, out, err), w')"
  using assms unfolding run_nft_def
  by (elim bind_RetE try_except_RetE) (auto simp: run_inv intro: that)

text \<open>
  A table is loaded only after nft has checked it: when the installation returns, no
  user or group filter was asked for, the old table was removed first, the check of the
  rendered text exited with status 0, and then the load of the very same text did, with
  nothing in between.
\<close>
theorem table_checked_then_loaded:
  assumes "setup_firewall launch port family subnets udp user grp tmark w = (Ret (), w')"
  shows "user = None \<and> grp = None \<and> (\<exists>rules w1 w2 out1 err1 out2 err2.
    render_tproxy_table port family subnets udp tmark = Inr rules
    \<and> restore_firewall launch port family w = (Ret (), w1)
    \<and> launch [''nft'', ''--check'', ''--file'', ''-''] (Some rules) NFT_TIMEOUT_SECONDS None w1
        = (Ret (0, out1, err1), w2)
    \<and> launch [''nft'', ''--file'', ''-''] (Some rules) NFT_TIMEOUT_SECONDS None w2
        = (Ret (0, out2, err2), w'))"
proof -
  from assms obtain rules w1 w2 where filters: "user = None \<and> grp = None"
    and r: "render_tproxy_table port family subnets udp tmark = Inr rules"
      "restore_firewall launch port family w = (Ret (), w1)"
    and c: "run_nft launch [''--check'', ''--file'', ''-''] (Some rules) True w1 = (Ret (), w2)"
    and l: "run_nft launch [''--file'', ''-''] (Some rules) True w2 = (Ret (), w')"
    unfolding setup_firewall_def by (auto simp: run_inv elim!: bind_RetE)
  from run_nft_Ret [OF c] run_nft_Ret [OF l] filters r show ?thesis by metis
qed

definition quiet_launch :: launcher where
  "quiet_launch command input limit environment = ret (0, [], [])"

lemma table_checked_then_loaded_witness:
  "\<exists>rules. render_tproxy_table 12300 AF_INET [] False ''0x1'' = Inr rules"
proof -
  have "setup_firewall quiet_launch 12300 AF_INET [] False None None ''0x1'' w = (Ret (), w)" for w
    by (simp add: setup_firewall_def restore_firewall_def run_nft_def quiet_launch_def family_tokens_def
        nft_table_name_def render_tproxy_table_def mark_ok_def startswith_def most_specific_first_def run_simps)
  from table_checked_then_loaded [OF this] show ?thesis by blast
qed

end
