(* ===== verification/Host.thy ===== *)
theory Host
  imports Launch "HOL-Library.Product_Lexorder"
begin

text \<open>
  The first half of \<open>host.py\<close>: choosing and creating the instance directory, the private
  runtime paths, running host commands, and the command lines of the sandbox, of pasta, of
  the claim wrapper and of the systemd unit. What the interpreter and the account database
  say (\<open>sys.prefix\<close>, \<open>sys.executable\<close>, \<open>shutil.which\<close>, \<open>pwd\<close>, the working directory)
  is the record \<open>host_env\<close>, and starting a host program is its field \<open>host_launch\<close>.
\<close>

subsection \<open>Constants and environment\<close>

definition STATUS_FILE :: string where
  "STATUS_FILE = ''status.json''"

definition LIFECYCLE_LOCK :: string where
  "LIFECYCLE_LOCK = ''.lifecycle.lock''"

definition APP_BUNDLE :: string where
  "APP_BUNDLE = ''application.pyz''"

definition LAUNCH_FILE :: string where
  "LAUNCH_FILE = ''launch.json''"

definition SYSTEM_PATH :: string where
  "SYSTEM_PATH = ''/usr/local/sbin:/usr/local/bin:/usr/sbin:/usr/bin:/sbin:/bin''"

definition REQUIRED_RUNTIME_COMMANDS :: "string list" where
  "REQUIRED_RUNTIME_COMMANDS = [''bwrap'', ''ip'', ''journalctl'', ''nft'', ''pasta'', ''ssh'', ''ssh-keygen'',
     ''systemctl'', ''systemd-run'', ''wg'']"

definition OPERATOR_COMMANDS :: "string list" where
  "OPERATOR_COMMANDS = [''config'', ''doctor'', ''init'', ''keys'', ''peers'', ''phone-config'', ''ssh-key'']"

definition DEFAULT_INSTANCE_PARTS :: "string list" where
  "DEFAULT_INSTANCE_PARTS = [''shuttle-gate'', ''default'']"

record host_env =
  which :: "string \<Rightarrow> string option"
  account_home :: path
  sys_prefix :: comps
  sys_base_prefix :: comps
  sys_executable :: string
  working_dir :: comps
  host_launch :: "string list \<Rightarrow> bool \<Rightarrow> (string \<times> string) list \<Rightarrow> (int \<times> string \<times> string) io"

definition getenv :: "string \<Rightarrow> string option io" where
  "getenv name = gets (\<lambda>w. map_of (environ w) name)"

record host_paths =
  hp_instance_id :: string
  hp_unit_name :: string
  hp_root :: comps
  hp_inputs :: comps
  hp_output :: comps
  hp_launch :: comps
  hp_bundle :: comps

subsection \<open>The default instance\<close>

text \<open>The directory \<open>.config\<close> of the user, from \<open>HOME\<close> or the account database.\<close>

definition home_config :: "host_env \<Rightarrow> path io" where
  "home_config env = bind (getenv ''HOME'') (\<lambda>home_value. case home_value of
       None \<Rightarrow> ret (account_home env)
     | Some v \<Rightarrow>
         if v = [] then ret (account_home env)
         else then_do (require (isprintable v) (HostError ''HOME must contain only printable characters''))
             (then_do (require (is_absolute (parse_path v)) (HostError ''HOME must be an absolute path''))
              (ret (parse_path v))))"

definition default_base :: "host_env \<Rightarrow> comps io" where
  "default_base env = bind (getenv ''XDG_CONFIG_HOME'') (\<lambda>configured.
     let c = (case configured of None \<Rightarrow> [] | Some v \<Rightarrow> v) in
     then_do (require (c = [] \<or> isprintable c)
       (HostError ''XDG_CONFIG_HOME must contain only printable characters''))
     (if c \<noteq> [] \<and> is_absolute (parse_path c) then ret (path_comps (parse_path c))
      else bind (home_config env) (\<lambda>home. ret (join_path (working_dir env) home @ [''.config'']))))"

definition default_instance_root :: "host_env \<Rightarrow> comps io" where
  "default_instance_root env = bind (default_base env) (\<lambda>base. p_resolve (base @ DEFAULT_INSTANCE_PARTS))"

definition separate_roots :: "comps \<Rightarrow> comps \<Rightarrow> bool" where
  "separate_roots application inst \<longleftrightarrow>
     \<not> (inst = application \<or> prefix application inst \<or> prefix inst application)"

definition validate_root_separation :: "comps \<Rightarrow> comps \<Rightarrow> unit io" where
  "validate_root_separation application inst = require (separate_roots application inst)
     (HostError ''instance and application directories must be separate and non-overlapping'')"

text \<open>The walk up to the first ancestor that exists; the missing ones, deepest first.\<close>

function missing_parents :: "comps \<Rightarrow> comps list io" where
  "missing_parents current =
     bind (try_except (lstat_optional current) is_OSError
       (\<lambda>_. raise (HostError ''default instance parent cannot be inspected''))) (\<lambda>found. case found of
       None \<Rightarrow>
         (if current = [] then raise (HostError ''default instance has no existing directory ancestor'')
          else bind (missing_parents (butlast current)) (\<lambda>rest. ret (current # rest)))
     | Some info \<Rightarrow>
         then_do (require (is_dir_node (Some info)) (HostError ''default instance parent must be a directory''))
         (ret []))"
  by pat_completeness auto
termination
  by (relation "measure length") auto

declare missing_parents.simps [simp del]

definition make_parent :: "comps \<Rightarrow> unit io" where
  "make_parent directory =
     then_do (try_except (os_mkdir directory 0x1C0) is_OSError (\<lambda>e.
        if e = OSError EEXIST then
          bind (try_except (os_lstat directory) is_OSError
            (\<lambda>_. raise (HostError ''default instance parent cannot be inspected''))) (\<lambda>info.
          require (is_dir_node (Some info)) (HostError ''default instance parent must be a directory''))
        else raise (HostError ''default instance parent cannot be created'')))
     (fsync_directory (butlast directory))"

definition create_directory_parents :: "comps \<Rightarrow> unit io" where
  "create_directory_parents path =
     bind (missing_parents path) (\<lambda>missing. for_each make_parent (rev missing))"

definition create_default_instance :: "comps \<Rightarrow> unit io" where
  "create_default_instance root =
     (let namespace = butlast root in
      then_do (create_directory_parents (butlast namespace))
     (then_do (ensure_private_directory namespace)
     (then_do (fsync_directory (butlast namespace))
     (then_do (ensure_private_directory root)
      (fsync_directory namespace)))))"

subsection \<open>Selecting an instance\<close>

text \<open>\<open>Path.resolve(strict=True)\<close>: the resolved path must exist.\<close>

definition p_resolve_strict :: "comps \<Rightarrow> comps io" where
  "p_resolve_strict p = bind (p_resolve p) (\<lambda>r.
     bind (gets (\<lambda>w. r = [] \<or> node_at w r \<noteq> None)) (\<lambda>there.
     if there then ret r else raise (OSError ENOENT)))"

definition resolve_instance_root :: "host_env \<Rightarrow> comps \<Rightarrow> string option \<Rightarrow> comps option \<Rightarrow> bool \<Rightarrow> comps io" where
  "resolve_instance_root env application_root requested cwd create_default =
     bind (p_resolve_strict application_root) (\<lambda>application.
     then_do (require (isprintable (show_path application))
       (HostError ''application paths must contain only printable characters''))
    (let base = (case cwd of None \<Rightarrow> working_dir env | Some d \<Rightarrow> d) in
     then_do (require (case requested of None \<Rightarrow> True | Some r \<Rightarrow> r \<noteq> [] \<and> isprintable r)
       (HostError ''instance paths must contain only printable characters''))
    (bind (case requested of None \<Rightarrow> default_instance_root env
             | Some r \<Rightarrow> ret (join_path base (parse_path r))) (\<lambda>candidate.
     then_do (when_do (requested = None \<and> create_default)
        (bind (p_resolve candidate) (\<lambda>prospective.
         then_do (validate_root_separation application prospective) (create_default_instance prospective))))
    (bind (try_except (p_resolve_strict candidate) is_OSError
        (\<lambda>_. if requested = None then raise_hinted HostError ''default instance is not initialized'' [''init'']
             else raise (HostError ''instance directory does not exist or cannot be resolved''))) (\<lambda>resolved.
     then_do (require (isprintable (show_path resolved))
       (HostError ''instance paths must contain only printable characters''))
    (bind (try_except (os_lstat resolved) is_OSError
        (\<lambda>_. raise (HostError ''instance directory cannot be inspected''))) (\<lambda>info.
     then_do (require (is_dir_node (Some info)) (HostError ''instance path must resolve to a directory''))
    (bind (p_resolve (join_path (working_dir env) (account_home env))) (\<lambda>home.
     then_do (require (resolved \<noteq> [] \<and> resolved \<noteq> home)
       (HostError ''refusing to use a broad system or home directory as an instance''))
    (then_do (validate_root_separation application resolved)
     (ret resolved))))))))))))"

text \<open>The global option in front of the command; what is left are the command's arguments.\<close>

definition is_instance_option :: "string \<Rightarrow> bool" where
  "is_instance_option s \<longleftrightarrow> s = ''--instance'' \<or> startswith s ''--instance=''"

definition split_instance :: "string list \<Rightarrow> exn + string option \<times> string list" where
  "split_instance values = (case values of
       [] \<Rightarrow> Inr (None, [])
     | v # vs \<Rightarrow>
         (if v = ''--instance'' then
            (case vs of [] \<Rightarrow> Inl (HostError ''--instance requires a directory path'')
             | r # rest \<Rightarrow> Inr (Some r, rest))
          else if startswith v ''--instance='' then
            (let requested = drop 1 (dropWhile (\<lambda>c. c \<noteq> CHR ''='') v) in
             if requested = [] then Inl (HostError ''--instance requires a directory path'')
             else Inr (Some requested, vs))
          else Inr (None, v # vs)))"

definition parse_instance :: "string list \<Rightarrow> exn + string option \<times> string list" where
  "parse_instance arguments = rbind (split_instance arguments) (\<lambda>(requested, values).
     if values \<noteq> [] \<and> is_instance_option (hd values)
     then Inl (HostError ''--instance may be specified only once'')
     else Inr (requested, values))"

definition select_instance :: "host_env \<Rightarrow> comps \<Rightarrow> string list \<Rightarrow> comps option \<Rightarrow> (comps \<times> string list) io" where
  "select_instance env application_root arguments cwd =
     bind (lift (parse_instance arguments)) (\<lambda>(requested, values).
     bind (resolve_instance_root env application_root requested cwd (requested = None \<and> values = [''init'']))
       (\<lambda>root. ret (root, values)))"

subsection \<open>Host commands\<close>

definition command_path :: "host_env \<Rightarrow> string \<Rightarrow> exn + string" where
  "command_path env name = (case which env name of
       None \<Rightarrow> Inl (HostError (''required command was not found: '' @ name))
     | Some value \<Rightarrow> Inr (show_path (join_path (working_dir env) (parse_path value))))"

text \<open>
  A completed host command; without \<open>capture\<close> both outputs are \<open>None\<close>, and so is the
  operand of \<open>strip\<close> in the diagnostic of a failed command.
\<close>

record completed =
  status_code :: int
  captured_out :: "string option"
  captured_err :: "string option"

definition child_environment :: "(string \<times> string) list \<Rightarrow> (string \<times> string) list" where
  "child_environment e =
     [(''PATH'', SYSTEM_PATH), (''LANG'', ''C.UTF-8''), (''LC_ALL'', ''C.UTF-8'')]
     @ concat (map (\<lambda>name. case map_of e name of
          Some v \<Rightarrow> (if v = [] then [] else [(name, v)]) | None \<Rightarrow> [])
        [''DBUS_SESSION_BUS_ADDRESS'', ''XDG_RUNTIME_DIR''])"

definition failure_diagnostic :: "completed \<Rightarrow> exn + string" where
  "failure_diagnostic c = (case (captured_err c, captured_out c) of
       (Some err, Some out) \<Rightarrow> Inr (diagnostic_of 4096 err out)
     | _ \<Rightarrow> Inl AttributeError)"

definition base_name :: "string \<Rightarrow> string" where
  "base_name s = name_of (path_comps (parse_path s))"

definition host_run :: "host_env \<Rightarrow> string list \<Rightarrow> bool \<Rightarrow> bool \<Rightarrow> completed io" where
  "host_run env command capture check =
     then_do (require (command \<noteq> []) (ValueError ''command must not be empty''))
    (bind (gets (\<lambda>w. child_environment (environ w))) (\<lambda>environment.
     bind (try_except (host_launch env command capture environment) is_OSError
        (\<lambda>e. raise (HostError (''cannot execute '' @ hd command @ '': '' @ exn_str e)))) (\<lambda>(status, out, err).
     let result = \<lparr>status_code = status, captured_out = (if capture then Some out else None),
                   captured_err = (if capture then Some err else None)\<rparr> in
     if check \<and> status \<noteq> 0 then
       bind (lift (failure_diagnostic result)) (\<lambda>diagnostic.
       raise (HostError (base_name (hd command) @ '' failed with status '' @ str_int status
          @ colon_suffix diagnostic)))
     else ret result)))"

definition with_command :: "host_env \<Rightarrow> string \<Rightarrow> (string \<Rightarrow> 'a io) \<Rightarrow> 'a io" where
  "with_command env name f = bind (lift (command_path env name)) f"

subsection \<open>Runtime paths\<close>

definition runtime_paths :: "(string \<Rightarrow> string) \<Rightarrow> comps \<Rightarrow> host_paths io" where
  "runtime_paths sha256_hex instance_root =
     bind (p_resolve instance_root) (\<lambda>resolved.
     let instance_id = take 20 (sha256_hex (utf8_encode (show_path resolved))) in
     bind (getenv ''XDG_RUNTIME_DIR'') (\<lambda>xdg_value.
     let value = (case xdg_value of None \<Rightarrow> [] | Some v \<Rightarrow> v); xdg = parse_path value in
     then_do (require (value \<noteq> [])
       (HostError ''XDG_RUNTIME_DIR is unavailable; a systemd user session is required''))
    (then_do (require (is_absolute xdg) (HostError ''XDG_RUNTIME_DIR must be an absolute path''))
    (then_do (require (isprintable (str_path xdg))
       (HostError ''XDG_RUNTIME_DIR must contain only printable characters''))
    (let base = path_comps xdg @ [''shuttle-gate'', instance_id] in
     ret \<lparr>hp_instance_id = instance_id, hp_unit_name = ''shuttle-gate-'' @ instance_id @ ''.service'',
          hp_root = base, hp_inputs = base @ [''inputs''], hp_output = base @ [''output''],
          hp_launch = base @ [''inputs'', LAUNCH_FILE], hp_bundle = base @ [''inputs'', APP_BUNDLE]\<rparr>)))))"

definition prepare_runtime_directories :: "host_paths \<Rightarrow> unit io" where
  "prepare_runtime_directories paths =
     then_do (ensure_private_directory (butlast (hp_root paths)))
    (then_do (ensure_private_directory (hp_root paths))
    (then_do (ensure_private_directory (hp_inputs paths))
     (ensure_private_directory (hp_output paths))))"

subsection \<open>The sandbox\<close>

text \<open>Every directory above a destination, by depth and then by text, as \<open>--dir\<close> options.\<close>

definition proper_parents :: "comps \<Rightarrow> comps list" where
  "proper_parents d = map (\<lambda>k. take k d) [1 ..< length d]"

definition parent_directories :: "comps list \<Rightarrow> string list" where
  "parent_directories destinations =
     concat (map (\<lambda>p. [''--dir'', show_path p])
       (sort_key (\<lambda>p. (length p, show_path p)) (remdups (concat (map proper_parents destinations)))))"

fun existing :: "comps list \<Rightarrow> comps list io" where
  "existing [] = ret []"
| "existing (p # ps) = bind (p_exists p) (\<lambda>e. bind (existing ps) (\<lambda>rest. ret (if e then p # rest else rest)))"

definition system_sources :: "comps list" where
  "system_sources = [[''usr''], [''bin''], [''sbin''], [''lib''], [''lib64''],
     [''etc'', ''gai.conf''], [''etc'', ''group''], [''etc'', ''hosts''], [''etc'', ''localtime''],
     [''etc'', ''nsswitch.conf''], [''etc'', ''passwd'']]"

definition system_mounts :: "(comps \<times> comps) list io" where
  "system_mounts =
     bind (existing system_sources) (\<lambda>sources.
     let uplink = [''run'', ''systemd'', ''resolve'', ''resolv.conf'']; conventional = [''etc'', ''resolv.conf''] in
     bind (p_is_file uplink) (\<lambda>stub.
     let resolver = (if stub then uplink else conventional) in
     bind (p_exists resolver) (\<lambda>e.
     if e then bind (p_resolve_strict resolver) (\<lambda>r.
        ret (map (\<lambda>s. (s, s)) sources @ [(r, conventional)]))
     else ret (map (\<lambda>s. (s, s)) sources))))"

definition python_roots :: "host_env \<Rightarrow> comps list io" where
  "python_roots env =
     (let interpreter = sys_prefix env @ [''bin'', ''python''] in
      bind (p_is_symlink interpreter) (\<lambda>link.
      if link then bind (os_readlink interpreter) (\<lambda>t.
        let target = parse_path t in
        ret ([sys_prefix env, sys_base_prefix env]
          @ (if is_absolute target \<and> 2 \<le> length (path_comps target)
             then [butlast (butlast (path_comps target))] else [])))
      else ret [sys_prefix env, sys_base_prefix env]))"

definition python_mounts :: "host_env \<Rightarrow> (comps \<times> comps) list io" where
  "python_mounts env = bind (python_roots env) (\<lambda>roots.
     ret (map (\<lambda>s. (s, s)) (filter (\<lambda>s. \<not> prefix [''usr''] s) (sort_key show_path (remdups roots)))))"

definition bundle_target :: comps where
  "bundle_target = [''opt'', ''shuttle-gate'', ''application.pyz'']"

definition launch_target :: comps where
  "launch_target = [''run'', ''shuttle-gate'', ''launch.json'']"

definition output_target :: comps where
  "output_target = [''run'', ''shuttle-gate'', ''output'']"

definition instance_mounts :: "comps \<Rightarrow> comps \<Rightarrow> host_paths option \<Rightarrow> (comps \<times> comps) list" where
  "instance_mounts instance_root application rt = (case rt of
       None \<Rightarrow> [(application, application), (instance_root, instance_root)]
     | Some r \<Rightarrow>
         [(hp_bundle r, bundle_target), (hp_launch r, launch_target),
          (instance_root @ [''config.yaml''], [''config'', ''config.yaml'']),
          (instance_root @ [''secrets''], [''secrets'']),
          (instance_root @ [''state''], [''state'']),
          (hp_output r, output_target)])"

definition namespace_options :: "bool \<Rightarrow> bool \<Rightarrow> string list" where
  "namespace_options operator_run network_namespace =
     (if operator_run \<and> \<not> network_namespace then [''--unshare-user'', ''--uid'', ''0'', ''--gid'', ''0''] else [])
     @ [''--unshare-pid'', ''--unshare-ipc'', ''--unshare-uts'']
     @ (if network_namespace then [] else [''--unshare-net''])
     @ [''--hostname'', ''shuttle-gate'', ''--new-session'', ''--die-with-parent'', ''--cap-drop'', ''ALL'']
     @ (if network_namespace then [''--cap-add'', ''CAP_NET_ADMIN''] else [])
     @ [''--proc'', ''/proc'', ''--dev'', ''/dev'', ''--tmpfs'', ''/tmp'']
     @ (if operator_run then [''--tmpfs'', ''/run''] else [])"

definition mount_mode :: "comps \<Rightarrow> bool \<Rightarrow> host_paths option \<Rightarrow> comps \<times> comps \<Rightarrow> string" where
  "mount_mode instance_root read_only rt m = (case m of (source, destination) \<Rightarrow>
     (if rt = None \<and> source = instance_root \<and> destination = instance_root
      then (if read_only then ''--ro-bind'' else ''--bind'')
      else if rt \<noteq> None \<and> destination = output_target then ''--bind''
      else ''--ro-bind''))"

definition mount_options :: "comps \<Rightarrow> bool \<Rightarrow> host_paths option \<Rightarrow> (comps \<times> comps) list \<Rightarrow> string list" where
  "mount_options instance_root read_only rt mounts =
     concat (map (\<lambda>(source, destination).
       [mount_mode instance_root read_only rt (source, destination), show_path source, show_path destination]) mounts)"

definition setenv :: "string \<Rightarrow> string \<Rightarrow> string list" where
  "setenv name value = [''--setenv'', name, value]"

definition environment_options :: "comps \<Rightarrow> comps \<Rightarrow> bool \<Rightarrow> string list" where
  "environment_options instance_root application operator_run =
     [''--clearenv''] @ setenv ''HOME'' ''/tmp/home'' @ setenv ''LANG'' ''C.UTF-8'' @ setenv ''LC_ALL'' ''C.UTF-8''
     @ setenv ''PATH'' SYSTEM_PATH @ setenv ''PYTHONDONTWRITEBYTECODE'' ''1''
     @ setenv ''PYTHONPATH'' (if operator_run then show_path (application @ [''src'']) else show_path bundle_target)
     @ setenv ''SHUTTLE_GATE_ROOT'' (if operator_run then show_path instance_root else ''/workspace'')
     @ setenv LAUNCHER_ENV (show_path (application @ [''shuttle-gate'']))
     @ setenv INSTANCE_ENV (show_path instance_root)
     @ (if operator_run then setenv ''SHUTTLE_GATE_APPLICATION_ROOT'' (show_path application)
        else setenv ''SHUTTLE_GATE_CONFIG'' ''/config/config.yaml''
          @ setenv ''SHUTTLE_GATE_STATE'' ''/state''
          @ setenv ''SHUTTLE_GATE_RUNTIME'' (show_path output_target)
          @ setenv ''SHUTTLE_GATE_LAUNCH'' (show_path launch_target)
          @ setenv ''SHUTTLE_GATE_BUNDLE'' (show_path bundle_target))"

text \<open>The command line from the mounts on; the first word is the path of \<open>bwrap\<close>.\<close>

definition sandbox_arguments ::
  "string \<Rightarrow> comps \<Rightarrow> comps \<Rightarrow> string list \<Rightarrow> bool \<Rightarrow> bool \<Rightarrow> host_paths option \<Rightarrow> (comps \<times> comps) list \<Rightarrow> string list" where
  "sandbox_arguments bwrap instance_root application command network_namespace read_only rt mounts =
     (let operator_run = (rt = None);
          destinations = map snd mounts @ [[''tmp'', ''home'']]
            @ (if operator_run then [] else [[''config'', ''config.yaml''], bundle_target, launch_target, output_target]) in
      [bwrap] @ namespace_options operator_run network_namespace
      @ parent_directories destinations @ [''--dir'', ''/tmp/home'']
      @ mount_options instance_root read_only rt mounts
      @ (if operator_run then []
         else [''--bind'', show_path (instance_root @ [''state'', ''.state.lock'']), ''/state/.state.lock''])
      @ environment_options instance_root application operator_run
      @ [''--chdir'', if operator_run then show_path instance_root else ''/'', ''--''] @ command)"

definition bubblewrap_command ::
  "host_env \<Rightarrow> comps \<Rightarrow> string list \<Rightarrow> bool \<Rightarrow> bool \<Rightarrow> comps \<Rightarrow> host_paths option \<Rightarrow> string list io" where
  "bubblewrap_command env instance_root command network_namespace read_only application_root rt =
     then_do (require (command \<noteq> []) (ValueError ''sandbox command must not be empty''))
    (bind (p_resolve_strict instance_root) (\<lambda>inst.
     bind (p_resolve_strict application_root) (\<lambda>application.
     then_do (validate_root_separation application inst)
    (bind system_mounts (\<lambda>sys.
     bind (python_mounts env) (\<lambda>py.
     with_command env ''bwrap'' (\<lambda>bwrap.
     ret (sandbox_arguments bwrap inst application command network_namespace read_only rt
       (sys @ py @ instance_mounts inst application rt)))))))))"

subsection \<open>Pasta, claims and the unit\<close>

definition pasta_arguments :: "string \<Rightarrow> string list \<Rightarrow> project_config option \<Rightarrow> string list" where
  "pasta_arguments pasta inner config =
     [pasta, ''--quiet'', ''--foreground'', ''--tcp-ports'', ''none'', ''--tcp-ns'', ''none'', ''--udp-ns'', ''none'',
      ''--dns'', ''none'', ''--search'', ''none'', ''--no-map-gw'', ''--config-net'']
     @ (case config of
          None \<Rightarrow> [''--udp-ports'', ''none'']
        | Some c \<Rightarrow> concat (map (\<lambda>a. [''--udp-ports'', str_ip a @ ''/'' @ str_int (listen_port (wireguard c))])
            (bind_addresses (wireguard c))))
     @ [''--''] @ inner"

definition pasta_command :: "host_env \<Rightarrow> string list \<Rightarrow> project_config option \<Rightarrow> string list io" where
  "pasta_command env inner config = with_command env ''pasta'' (\<lambda>pasta. ret (pasta_arguments pasta inner config))"

definition claim_text :: "project_config \<Rightarrow> ip_address \<Rightarrow> string" where
  "claim_text config a = join [CHR 0x00] [''udp'', str_nat (version a), str_ip a, str_int (listen_port (wireguard config))]"

fun claim_names :: "(string \<Rightarrow> string) \<Rightarrow> project_config \<Rightarrow> ip_address list \<Rightarrow> exn + string list" where
  "claim_names sha256_hex config [] = Inr []"
| "claim_names sha256_hex config (a # as) =
     rbind (ascii_digest sha256_hex (claim_text config a)) (\<lambda>d.
     rbind (claim_names sha256_hex config as) (\<lambda>ds. Inr ((d @ ''.lock'') # ds)))"

definition socket_claim_paths :: "(string \<Rightarrow> string) \<Rightarrow> host_paths \<Rightarrow> project_config \<Rightarrow> exn + comps list" where
  "socket_claim_paths sha256_hex paths config =
     rbind (claim_names sha256_hex config (bind_addresses (wireguard config))) (\<lambda>names.
     Inr (sort_key show_path (remdups (map (\<lambda>n. butlast (hp_root paths) @ [''claims'', n]) names))))"

definition owned_file :: "nat \<Rightarrow> node \<Rightarrow> bool" where
  "owned_file me n = (case n of File m u d \<Rightarrow> u = me | _ \<Rightarrow> False)"

definition prepare_claim :: "comps \<Rightarrow> unit io" where
  "prepare_claim claim =
     bind (try_except (os_open_creat claim 0x180) is_OSError
        (\<lambda>_. raise (HostError ''cannot create a host UDP socket claim''))) (\<lambda>descriptor.
     try_finally
       (bind (os_fstat descriptor) (\<lambda>info.
        bind (gets uid) (\<lambda>me.
        then_do (require (owned_file me info)
          (HostError ''host UDP socket claim ownership or type is invalid''))
       (then_do (os_fchmod descriptor 0x180) (os_fsync descriptor)))))
       (os_close descriptor))"

definition prepare_socket_claims :: "comps list \<Rightarrow> unit io" where
  "prepare_socket_claims claims =
     then_do (require (claims \<noteq> [] \<and> length (remdups (map butlast claims)) = 1)
       (HostError ''socket claim set is invalid''))
    (let directory = butlast (hd claims) in
     then_do (ensure_private_directory directory)
    (then_do (for_each prepare_claim claims)
     (fsync_directory directory)))"

definition claim_command :: "host_env \<Rightarrow> comps list \<Rightarrow> string list \<Rightarrow> exn + string list" where
  "claim_command env claims inner =
     (if claims = [] \<or> inner = [] then Inl (ValueError ''claims and runtime command must not be empty'')
      else Inr ([sys_executable env, ''-P'', ''-m'', ''shuttle_gate.claim'']
        @ concat (map (\<lambda>c. [''--claim'', show_path c]) claims) @ [''--''] @ inner))"

definition unit_properties :: "string list" where
  "unit_properties =
     [''--collect'', ''--service-type=exec'', ''--expand-environment=no'', ''--property=KillMode=control-group'',
      ''--property=LimitNOFILE=65536'', ''--property=NoNewPrivileges=yes'', ''--property=TasksMax=256'',
      ''--property=TimeoutStopSec=20s'', ''--property=UMask=0077'', ''--property=Restart=no'',
      ''--property=RestartForceExitStatus=75'', ''--property=RestartSec=5s'',
      ''--property=StartLimitIntervalSec=60s'', ''--property=StartLimitBurst=3'',
      ''--description=Rootless shuttle-gate gateway'']"

definition systemd_run_command :: "host_env \<Rightarrow> string \<Rightarrow> string list \<Rightarrow> comps option \<Rightarrow> string list io" where
  "systemd_run_command env unit_name inner python_path = with_command env ''systemd-run'' (\<lambda>systemd_run.
     ret ([systemd_run, ''--user'', ''--unit='' @ unit_name] @ unit_properties
       @ (case python_path of None \<Rightarrow> [] | Some p \<Rightarrow> [''--setenv=PYTHONPATH='' @ show_path p])
       @ [''--''] @ inner))"

end
