(* ===== verification/PyInt.thy ===== *)
theory PyInt
  imports Prelude
begin

text \<open>
  Python's \<open>int(text)\<close>: surrounding blanks, a sign, and decimal digits with single
  underscores between them, at most 4300 of them; \<open>None\<close> is its \<open>ValueError\<close>. And
  \<open>str.splitlines\<close> on Latin-1 text.
\<close>

definition max_int_digits :: nat where
  "max_int_digits = 4300"

definition py_digits :: "string \<Rightarrow> nat option" where
  "py_digits s = (let ds = split_on (CHR ''_'') s in
     if list_all (\<lambda>d. d \<noteq> [] \<and> list_all is_digit d) ds \<and> length (concat ds) \<le> max_int_digits
     then Some (nat_of_digits 0 (concat ds)) else None)"

definition py_int :: "string \<Rightarrow> int option" where
  "py_int text = (case strip text of
       [] \<Rightarrow> None
     | c # cs \<Rightarrow>
         (if c = CHR ''-'' then map_option (\<lambda>n. - int n) (py_digits cs)
          else if c = CHR ''+'' then map_option int (py_digits cs)
          else map_option int (py_digits (c # cs))))"

lemma dropWhile_not_space: "list_all is_digit s \<Longrightarrow> dropWhile is_space s = s"
  by (cases s) (auto simp: char_class_defs)

lemma strip_digits: "list_all is_digit s \<Longrightarrow> strip s = s"
  by (simp add: strip_def dropWhile_not_space list_all_rev)

lemma py_digits_digits: "list_all is_digit s \<Longrightarrow> s \<noteq> [] \<Longrightarrow> length s \<le> max_int_digits \<Longrightarrow>
  py_digits s = Some (nat_of_digits 0 s)"
proof -
  assume a: "list_all is_digit s" "s \<noteq> []" "length s \<le> max_int_digits"
  have "CHR ''_'' \<notin> set s" using a(1) by (auto simp: list_all_iff char_class_defs)
  then show ?thesis using a by (simp add: py_digits_def split_on_noc)
qed

lemma py_int_str_nat: "length (str_nat n) \<le> max_int_digits \<Longrightarrow> py_int (str_nat n) = Some (int n)"
proof -
  assume short: "length (str_nat n) \<le> max_int_digits"
  obtain c cs where c: "str_nat n = c # cs" by (cases "str_nat n") auto
  have d: "list_all is_digit (c # cs)" using str_nat_digits [of n] c by simp
  then have "c \<noteq> CHR ''-''" "c \<noteq> CHR ''+''"
    by (auto simp: char_class_defs)
  then show ?thesis
    unfolding py_int_def strip_digits [OF str_nat_digits]
    using py_digits_digits [OF d] short nat_of_digits_str_nat [of n] c by simp
qed

text \<open>Line boundaries: a carriage return with a line feed counts once.\<close>

definition is_line_end :: "char \<Rightarrow> bool" where
  "is_line_end c \<longleftrightarrow> (10 \<le> code_of c \<and> code_of c \<le> 13) \<or> (28 \<le> code_of c \<and> code_of c \<le> 30) \<or> code_of c = 133"

fun splitlines_from :: "string \<Rightarrow> string \<Rightarrow> string list" where
  "splitlines_from cur [] = (if cur = [] then [] else [cur])"
| "splitlines_from cur [c] = (if is_line_end c then [cur] else [cur @ [c]])"
| "splitlines_from cur (c # d # rest) =
     (if code_of c = 13 \<and> code_of d = 10 then cur # splitlines_from [] rest
      else if is_line_end c then cur # splitlines_from [] (d # rest)
      else splitlines_from (cur @ [c]) (d # rest))"

definition splitlines :: "string \<Rightarrow> string list" where
  "splitlines s = splitlines_from [] s"

end
