(* ===== verification/PyText.thy ===== *)
theory PyText
  imports Json
begin

text \<open>
  What the printed commands use of Python's data model on values read from JSON: \<open>str\<close> and
  \<open>repr\<close>, subscripts, iteration and \<open>join\<close>. A dictionary keeps the place of the first of
  equal keys and the value of the last. As in \<open>Json\<close>, a number with a fraction or an
  exponent is its text.
\<close>

subsection \<open>Dictionaries\<close>

text \<open>The value that a document denotes: of equal keys of an object only one is left, at every depth.\<close>

fun canonical :: "json \<Rightarrow> json" where
  "canonical (JList xs) = JList (map canonical xs)"
| "canonical (JObj ms) =
     (let vs = map (\<lambda>(k, v). (k, canonical v)) ms in
      JObj (map (\<lambda>k. (k, the (map_of (rev vs) k))) (rev (remdups (rev (map fst ms))))))"
| "canonical v = v"

text \<open>\<open>{**value, key: x}\<close>.\<close>

fun json_update :: "json \<Rightarrow> string \<Rightarrow> json \<Rightarrow> json" where
  "json_update (JObj ms) k x = canonical (JObj (ms @ [(k, x)]))"
| "json_update v k x = v"

subsection \<open>Texts\<close>

definition py_quote :: char where
  "py_quote = CHR 0x27"

text \<open>\<open>repr\<close> of a character within a string delimited by \<open>q\<close>.\<close>

definition repr_char :: "char \<Rightarrow> char \<Rightarrow> string" where
  "repr_char q c =
     (if c = q \<or> c = jslash then [jslash, c]
      else if code_of c = 10 then [jslash, CHR ''n'']
      else if code_of c = 13 then [jslash, CHR ''r'']
      else if code_of c = 9 then [jslash, CHR ''t'']
      else if is_printable c then [c]
      else [jslash, CHR ''x'', hex_char (code_of c div 16), hex_char (code_of c mod 16)])"

definition repr_str :: "string \<Rightarrow> string" where
  "repr_str s =
     (let q = if py_quote \<in> set s \<and> jquote \<notin> set s then jquote else py_quote in
      q # concat (map (repr_char q) s) @ [q])"

fun py_repr :: "json \<Rightarrow> string" where
  "py_repr JNull = ''None''"
| "py_repr (JBool b) = (if b then ''True'' else ''False'')"
| "py_repr (JInt n) = str_int n"
| "py_repr (JFloat t) = t"
| "py_repr (JStr s) = repr_str s"
| "py_repr (JList xs) = ''['' @ join '', '' (map py_repr xs) @ '']''"
| "py_repr (JObj ms) = ''{'' @ join '', '' (map (\<lambda>(k, v). repr_str k @ '': '' @ py_repr v) ms) @ ''}''"

definition py_str :: "json \<Rightarrow> string" where
  "py_str v = (case v of JStr s \<Rightarrow> s | _ \<Rightarrow> py_repr (canonical v))"

subsection \<open>Access\<close>

text \<open>\<open>value[key]\<close> and \<open>value.get(key, default)\<close> for a key that is a string.\<close>

definition py_item :: "json \<Rightarrow> string \<Rightarrow> exn + json" where
  "py_item v key =
     (if \<not> is_JObj v then Inl TypeError
      else case jget v key of None \<Rightarrow> Inl (KeyError key) | Some x \<Rightarrow> Inr x)"

definition py_get :: "json \<Rightarrow> string \<Rightarrow> json \<Rightarrow> json" where
  "py_get v key fallback = (case jget v key of None \<Rightarrow> fallback | Some x \<Rightarrow> x)"

text \<open>\<open>iter(value)\<close>: the items of a list, the characters of a string, the keys of a dictionary.\<close>

fun py_iter :: "json \<Rightarrow> exn + json list" where
  "py_iter (JList xs) = Inr xs"
| "py_iter (JStr s) = Inr (map (\<lambda>c. JStr [c]) s)"
| "py_iter (JObj ms) = Inr (map JStr (rev (remdups (rev (map fst ms)))))"
| "py_iter _ = Inl TypeError"

fun all_strings :: "json list \<Rightarrow> exn + string list" where
  "all_strings [] = Inr []"
| "all_strings (JStr s # xs) = rbind (all_strings xs) (\<lambda>ss. Inr (s # ss))"
| "all_strings (_ # xs) = Inl TypeError"

text \<open>\<open>separator.join(value)\<close>.\<close>

definition py_join :: "string \<Rightarrow> json \<Rightarrow> exn + string" where
  "py_join separator v = rbind (py_iter v) (\<lambda>xs. rbind (all_strings xs) (\<lambda>ss. Inr (join separator ss)))"

subsection \<open>Reading back a dictionary\<close>

lemma map_of_rev_sort: "map_of (rev (sort_key fst xs)) k = map_of (rev xs) k"
proof -
  have f: "map_of ys k = map_of (filter (\<lambda>e. fst e = k) ys) k" for ys
    by (induction ys) auto
  have "filter (\<lambda>e. fst e = k) (sort_key fst xs) = filter (\<lambda>e. fst e = k) xs"
    by (rule sort_key_stable)
  then show ?thesis by (subst (1 2) f) (simp add: rev_filter [symmetric])
qed

lemma map_of_rev_map: "map_of (rev (map (\<lambda>(k, v). (k, f v)) ms)) k = map_option f (map_of (rev ms) k)"
  unfolding rev_map by (simp add: map_of_map)

lemma jget_sort_keys [simp]: "jget (sort_keys v) k = map_option sort_keys (jget v k)"
proof (cases v)
  case (JObj ms)
  then show ?thesis by (simp add: map_of_rev_sort map_of_rev_map del: rev_map)
qed simp_all

lemma jget_canonical [simp]: "jget (canonical v) k = map_option canonical (jget v k)"
proof (cases v)
  case (JObj ms)
  let ?vs = "map (\<lambda>(k, v). (k, canonical v)) ms"
  have m: "map_of (rev ?vs) k = map_option canonical (map_of (rev ms) k)"
    by (rule map_of_rev_map)
  have d: "map_of (rev (map (\<lambda>k. (k, f k)) (rev (remdups (rev ks))))) k = (if k \<in> set ks then Some (f k) else None)"
    for f :: "string \<Rightarrow> json" and ks
    by (simp add: rev_map map_of_map_keys [symmetric] map_of_eq_None_iff map_of_map_restrict restrict_map_def)
  show ?thesis
  proof (cases "k \<in> set (map fst ms)")
    case True
    then have "map_of (rev ms) k \<noteq> None" by (simp add: map_of_eq_None_iff)
    with True d m show ?thesis by (auto simp: JObj Let_def)
  next
    case False
    then have "map_of (rev ms) k = None" by (simp add: map_of_eq_None_iff)
    with False d m show ?thesis by (auto simp: JObj Let_def)
  qed
qed simp_all

lemma jget_update: "is_JObj v \<Longrightarrow> jget (json_update v k x) q = map_option canonical (if q = k then Some x else jget v q)"
  by (cases v) (simp_all del: canonical.simps)

lemma is_JObj_sort_keys [simp]: "is_JObj (sort_keys v) = is_JObj v"
  by (cases v) simp_all

end
