(* ===== verification/HostLifecycle.thy ===== *)
theory HostLifecycle
  imports Host PyInt PyText
begin

text \<open>
  The second half of \<open>host.py\<close>: the application bundle, waiting for the gateway, the checks
  of the host's addresses and sockets, the lifecycle lock, and the public commands. Readings
  of \<open>time.monotonic\<close> (in milliseconds) are an argument, a list: with no reading left the
  program still waits. What other processes do while it sleeps is the parameter \<open>pause\<close>;
  the bytes of the zip archive are a parameter of its entries. What the commands print goes
  to the console of the world.
\<close>

definition LOGS_USAGE :: string where
  "LOGS_USAGE = ''usage: ./shuttle-gate logs [--follow] [--timestamps] [--tail LINES|all]''"

definition MAX_LOG_TAIL_LINES :: nat where
  "MAX_LOG_TAIL_LINES = 1000000"

definition STOP_TIMEOUT_SECONDS :: nat where
  "STOP_TIMEOUT_SECONDS = 30"

definition TEMPORARY_SUFFIX_PATTERN :: "string \<Rightarrow> bool" where
  "TEMPORARY_SUFFIX_PATTERN s \<longleftrightarrow> length s = 8 \<and> list_all (\<lambda>c. is_lower c \<or> is_digit c \<or> c = CHR ''_'') s"

definition still_waiting :: "'a io" where
  "still_waiting = (\<lambda>w. (Halt, w))"

subsection \<open>The application bundle\<close>

definition ends_with :: "string \<Rightarrow> string \<Rightarrow> bool" where
  "ends_with s t \<longleftrightarrow> length t \<le> length s \<and> drop (length s - length t) s = t"

text \<open>\<open>sorted(source_root.rglob("*.py"))\<close>.\<close>

definition python_sources :: "comps \<Rightarrow> comps list io" where
  "python_sources source_root = gets (\<lambda>w. sort (remdups (filter
     (\<lambda>p. strict_prefix source_root p \<and> ends_with (name_of p) ''.py'') (map fst (disk w)))))"

definition bundle_entry :: "comps \<Rightarrow> comps \<Rightarrow> (string \<times> string) io" where
  "bundle_entry source_root source =
     bind (os_lstat source) (\<lambda>info.
     then_do (require (is_file_node (Some info))
       (HostError (''application source must be a regular file: '' @ show_path source)))
    (bind (read_bytes source) (\<lambda>content.
     ret (str_path (Path False (''shuttle_gate'' # drop (length source_root) source)), content))))"

definition application_bundle :: "((string \<times> string) list \<Rightarrow> string) \<Rightarrow> comps \<Rightarrow> string io" where
  "application_bundle zip_bytes application_root =
     (let source_root = application_root @ [''src'', ''shuttle_gate''] in
      bind (python_sources source_root) (\<lambda>files.
      then_do (require (source_root @ [''__main__.py''] \<in> set files) (HostError ''application source is incomplete''))
     (bind (map_each (bundle_entry source_root) files) (\<lambda>entries. ret (zip_bytes entries)))))"

definition build_application_bundle :: "((string \<times> string) list \<Rightarrow> string) \<Rightarrow> comps \<Rightarrow> comps \<Rightarrow> unit io" where
  "build_application_bundle zip_bytes application_root destination =
     bind (application_bundle zip_bytes application_root) (\<lambda>content. atomic_write_bytes destination content 0x180)"

subsection \<open>The service and its status\<close>

definition captured :: "completed \<Rightarrow> string" where
  "captured c = (case captured_out c of None \<Rightarrow> [] | Some s \<Rightarrow> s)"

definition host_state :: "host_env \<Rightarrow> host_paths \<Rightarrow> string io" where
  "host_state env paths = with_command env ''systemctl'' (\<lambda>systemctl.
     bind (host_run env [systemctl, ''--user'', ''show'', ''--property=ActiveState'', ''--value'', ''--'',
        hp_unit_name paths] True False) (\<lambda>result.
     ret (if status_code result \<noteq> 0 then ''inactive''
          else if strip (captured result) = [] then ''inactive'' else strip (captured result))))"

definition check_user_manager :: "host_env \<Rightarrow> unit io" where
  "check_user_manager env = with_command env ''systemctl'' (\<lambda>systemctl.
     bind (host_run env [systemctl, ''--user'', ''is-system-running''] True False) (\<lambda>result.
     if strip (captured result) \<in> {''running'', ''degraded''} then ret ()
     else bind (lift (failure_diagnostic result)) (\<lambda>detail.
       raise (HostError (''systemd user manager is not ready'' @ colon_suffix detail)))))"

definition bounded_status :: "node \<Rightarrow> bool" where
  "bounded_status info \<longleftrightarrow> is_file_node (Some info) \<and> 0 < node_size info \<and> node_size info \<le> 64 * 1024"

definition read_status_file :: "host_paths \<Rightarrow> json option io" where
  "read_status_file paths =
     (let path = hp_output paths @ [STATUS_FILE] in
      try_except
       (bind (os_lstat path) (\<lambda>info.
        if \<not> bounded_status info then ret None
        else bind (read_text_utf8 path) (\<lambda>t. bind (lift (loads t)) (\<lambda>value. ret (Some value)))))
       is_load_error (\<lambda>_. ret None))"

definition read_status :: "host_paths \<Rightarrow> json option io" where
  "read_status paths = bind (read_status_file paths) (\<lambda>found. ret (case found of
       None \<Rightarrow> None
     | Some value \<Rightarrow> if is_JObj value \<and> json_is_int (jget value ''schema_version'') 2 then Some value else None))"

datatype readiness = Ready | Failed string | Pending

definition launch_readiness :: "json option \<Rightarrow> string \<Rightarrow> readiness" where
  "launch_readiness status launch_id = (case status of
       None \<Rightarrow> Pending
     | Some v \<Rightarrow>
         (if jget v ''launch_id'' \<noteq> Some (JStr launch_id) then Pending
          else if jget v ''state'' = Some (JStr ''ready'') then Ready
          else if jget v ''state'' = Some (JStr ''failed'')
          then Failed (case jget v ''error'' of Some (JStr e) \<Rightarrow> colon_suffix e | _ \<Rightarrow> [])
          else Pending))"

fun wait_until :: "host_env \<Rightarrow> unit io \<Rightarrow> host_paths \<Rightarrow> string \<Rightarrow> nat \<Rightarrow> nat list \<Rightarrow> unit io" where
  "wait_until env pause paths launch_id deadline [] = still_waiting"
| "wait_until env pause paths launch_id deadline (t # ts) =
     (if t < deadline then
        bind (read_status paths) (\<lambda>status. case launch_readiness status launch_id of
            Ready \<Rightarrow> ret ()
          | Failed detail \<Rightarrow> raise_hinted HostError (''gateway startup failed'' @ detail) [''logs'']
          | Pending \<Rightarrow>
              bind (host_state env paths) (\<lambda>state.
              if state \<in> {''failed'', ''inactive''}
              then raise_hinted HostError ''gateway service stopped before readiness'' [''logs'']
              else then_do pause (wait_until env pause paths launch_id deadline ts)))
      else
        with_command env ''systemctl'' (\<lambda>systemctl.
        then_do (host_run env [systemctl, ''--user'', ''stop'', ''--'', hp_unit_name paths] False False)
        (raise (HostError ''gateway did not become ready before the startup timeout''))))"

definition wait_for_state :: "host_env \<Rightarrow> unit io \<Rightarrow> nat list \<Rightarrow> host_paths \<Rightarrow> string \<Rightarrow> int \<Rightarrow> unit io" where
  "wait_for_state env pause clock paths launch_id timeout = (case clock of
       [] \<Rightarrow> still_waiting
     | t # ts \<Rightarrow> wait_until env pause paths launch_id (t + 1000 * nat timeout) ts)"

subsection \<open>Host addresses\<close>

text \<open>The pairs of local addresses and interface names in the output of \<open>ip -json address show\<close>.\<close>

fun scan_items :: "json option \<Rightarrow> json list \<Rightarrow> exn + (string \<times> string option) list" where
  "scan_items ifname [] = Inr []"
| "scan_items ifname (item # items) =
     (if \<not> is_JObj item then Inl TypeError
      else rbind (scan_items ifname items) (\<lambda>rest. Inr (case json_str (jget item ''local'') of
          None \<Rightarrow> rest | Some local \<Rightarrow> (local, json_str ifname) # rest)))"

fun scan_links :: "json list \<Rightarrow> exn + (string \<times> string option) list" where
  "scan_links [] = Inr []"
| "scan_links (link # links) =
     (if \<not> is_JObj link then Inl TypeError
      else (case jget link ''addr_info'' of
          None \<Rightarrow> scan_links links
        | Some (JList items) \<Rightarrow>
            rbind (scan_items (jget link ''ifname'') items) (\<lambda>here.
            rbind (scan_links links) (\<lambda>rest. Inr (here @ rest)))
        | Some _ \<Rightarrow> Inl TypeError))"

definition assigned_addresses :: "string \<Rightarrow> exn + (string \<times> string option) list" where
  "assigned_addresses text = rbind (loads text) (\<lambda>v. case v of JList links \<Rightarrow> scan_links links | _ \<Rightarrow> Inl TypeError)"

fun bind_address_parts :: "ip_address \<Rightarrow> string \<times> string option" where
  "bind_address_parts (V4 a) = (str_ip (V4 a), None)"
| "bind_address_parts (V6 a s) = (str_ip (V6 a None), s)"

definition host_binding_is_assigned :: "(string \<times> string option) list \<Rightarrow> ip_address \<Rightarrow> bool" where
  "host_binding_is_assigned assigned address = (case bind_address_parts address of
       (host, None) \<Rightarrow> host \<in> set (map fst assigned)
     | (host, Some scope) \<Rightarrow> (host, Some scope) \<in> set assigned)"

definition port_boundary_path :: comps where
  "port_boundary_path = [''proc'', ''sys'', ''net'', ''ipv4'', ''ip_unprivileged_port_start'']"

definition port_boundary :: "int io" where
  "port_boundary =
     bind (try_except (bind (read_text_ascii port_boundary_path) (\<lambda>t. ret (Some t))) is_read_error (\<lambda>_. ret None)) (\<lambda>t.
     case (case t of None \<Rightarrow> None | Some s \<Rightarrow> py_int (strip s)) of
       None \<Rightarrow> raise (HostError ''cannot determine the host unprivileged-port boundary'')
     | Some n \<Rightarrow> ret n)"

definition check_host_bindings :: "host_env \<Rightarrow> project_config \<Rightarrow> unit io" where
  "check_host_bindings env config = with_command env ''ip'' (\<lambda>ip.
     bind (host_run env [ip, ''-json'', ''address'', ''show''] True True) (\<lambda>result.
     bind (lift (case assigned_addresses (captured result) of
         Inl _ \<Rightarrow> Inl (HostError ''cannot parse host interface addresses'') | Inr assigned \<Rightarrow> Inr assigned)) (\<lambda>assigned.
     let missing = map str_ip (filter (\<lambda>a. \<not> host_binding_is_assigned assigned a) (bind_addresses (wireguard config))) in
     then_do (require (missing = [])
       (HostError (''configured bind addresses are not assigned on the host: '' @ join '', '' missing)))
    (bind port_boundary (\<lambda>threshold.
     require (\<not> listen_port (wireguard config) < threshold)
       (HostError (''WireGuard port '' @ str_int (listen_port (wireguard config))
          @ '' is below the host unprivileged-port boundary '' @ str_int threshold)))))))"

subsection \<open>Host sockets\<close>

datatype bind_target = Target4 string int | Target6 string int nat nat

record host_sockets =
  hs_index :: "string \<Rightarrow> nat option"
  hs_open :: "nat \<Rightarrow> nat io"
  hs_v6only :: "nat \<Rightarrow> unit io"
  hs_bind :: "nat \<Rightarrow> bind_target \<Rightarrow> unit io"
  hs_close :: "nat \<Rightarrow> unit io"

definition socket_bind_target :: "host_sockets \<Rightarrow> ip_address \<Rightarrow> int \<Rightarrow> exn + bind_target" where
  "socket_bind_target socks address port = (case address of
       V4 a \<Rightarrow> Inr (Target4 (str_ip address) port)
     | V6 a s \<Rightarrow> (case s of
          None \<Rightarrow> Inr (Target6 (fst (bind_address_parts address)) port 0 0)
        | Some scope \<Rightarrow> (case hs_index socks scope of
            None \<Rightarrow> Inl (HostError (''configured bind interface is unavailable: '' @ scope))
          | Some k \<Rightarrow> Inr (Target6 (fst (bind_address_parts address)) port 0 k))))"

definition bind_probe :: "host_sockets \<Rightarrow> project_config \<Rightarrow> nat \<Rightarrow> ip_address \<Rightarrow> unit io" where
  "bind_probe socks config listener address =
     then_do (when_do (version address \<noteq> 4) (hs_v6only socks listener))
     (try_except (bind (lift (socket_bind_target socks address (listen_port (wireguard config)))) (hs_bind socks listener))
       is_OSError
       (\<lambda>_. raise (HostError (''configured host UDP socket is unavailable: '' @ str_ip address @ ''/''
          @ str_int (listen_port (wireguard config))))))"

definition close_all :: "host_sockets \<Rightarrow> nat list \<Rightarrow> unit io" where
  "close_all socks listeners = for_each (hs_close socks) listeners"

text \<open>The loop, with the listeners opened so far; whatever ends it closes them all.\<close>

fun probe_sockets :: "host_sockets \<Rightarrow> project_config \<Rightarrow> nat list \<Rightarrow> ip_address list \<Rightarrow> unit io" where
  "probe_sockets socks config listeners [] = close_all socks listeners"
| "probe_sockets socks config listeners (a # as) =
     bind (try_except (hs_open socks (if version a = 4 then 2 else 10)) (\<lambda>_. True)
        (\<lambda>e. then_do (close_all socks listeners) (raise e))) (\<lambda>listener.
     then_do (try_except (bind_probe socks config listener a) (\<lambda>_. True)
        (\<lambda>e. then_do (close_all socks (listeners @ [listener])) (raise e)))
     (probe_sockets socks config (listeners @ [listener]) as))"

definition check_host_socket_availability :: "host_sockets \<Rightarrow> project_config \<Rightarrow> unit io" where
  "check_host_socket_availability socks config = probe_sockets socks config [] (bind_addresses (wireguard config))"

subsection \<open>The lifecycle lock\<close>

definition lifecycle_lock :: "comps \<Rightarrow> 'a io \<Rightarrow> 'a io" where
  "lifecycle_lock instance_root body =
     (let state = instance_root @ [''state'']; path = state @ [LIFECYCLE_LOCK] in
      then_do (ensure_private_directory state)
     (bind (try_except (os_open_creat path 0x180) is_OSError
         (\<lambda>e. raise (HostError (''cannot open lifecycle lock '' @ show_path path @ '': '' @ exn_str e)))) (\<lambda>descriptor.
      try_finally
        (bind (os_fstat descriptor) (\<lambda>info.
         then_do (require (is_file_node (Some info))
           (HostError (''lifecycle lock must be a regular file: '' @ show_path path)))
        (then_do (os_fchmod descriptor 0x180)
        (then_do (try_except (os_flock descriptor True True) is_BlockingIO
           (\<lambda>_. raise (HostError ''another up or down operation is already running'')))
         body))))
        (then_do (suppress is_OSError (os_unlock descriptor))
         (suppress is_OSError (os_close descriptor))))))"

subsection \<open>Removing the volatile files\<close>

definition temporary_of :: "string \<Rightarrow> string \<Rightarrow> bool" where
  "temporary_of child name \<longleftrightarrow> startswith child (CHR ''.'' # name @ ''.'')
     \<and> TEMPORARY_SUFFIX_PATTERN (removeprefix child (CHR ''.'' # name @ ''.''))"

definition known_file :: "string list \<Rightarrow> string \<Rightarrow> bool" where
  "known_file names child \<longleftrightarrow> child \<in> set names \<or> list_ex (temporary_of child) names"

definition remove_known :: "comps \<Rightarrow> string list \<Rightarrow> string \<Rightarrow> unit io" where
  "remove_known directory names child =
     bind (p_is_dir (directory @ [child])) (\<lambda>d.
     then_do (require (\<not> (\<not> known_file names child \<or> d))
       (HostError (''refusing to remove unexpected runtime object: '' @ show_path (directory @ [child]))))
     (unlink_missing_ok (directory @ [child])))"

definition clear_directory :: "comps \<Rightarrow> string list \<Rightarrow> unit io" where
  "clear_directory directory names =
     bind (p_exists directory) (\<lambda>there. if \<not> there then ret () else
     bind (p_is_symlink directory) (\<lambda>link. bind (p_is_dir directory) (\<lambda>dir.
     then_do (require (\<not> (link \<or> \<not> dir))
       (HostError (''refusing to remove invalid runtime directory: '' @ show_path directory)))
    (bind (os_listdir directory) (\<lambda>children.
     then_do (for_each (remove_known directory names) children)
     (try_except (os_rmdir directory) is_OSError
       (\<lambda>e. raise (HostError (''cannot remove runtime directory '' @ show_path directory @ '': '' @ exn_str e)))))))))"

definition input_names :: "string list" where
  "input_names = [LAUNCH_FILE, APP_BUNDLE]"

definition output_names :: "string list" where
  "output_names = [STATUS_FILE, ''wireguard.conf'', ''sshuttle-notify.sock'']"

definition remove_known_runtime_files :: "host_paths \<Rightarrow> unit io" where
  "remove_known_runtime_files paths =
     then_do (clear_directory (hp_inputs paths) input_names)
    (then_do (clear_directory (hp_output paths) output_names)
    (then_do (bind (p_exists (hp_root paths)) (\<lambda>there. when_do there
        (try_except (os_rmdir (hp_root paths)) is_OSError
          (\<lambda>_. raise (HostError (''refusing to remove non-empty runtime directory: '' @ show_path (hp_root paths)))))))
     (suppress is_OSError (os_rmdir (butlast (hp_root paths))))))"

subsection \<open>Public commands\<close>

record up_context =
  up_sha :: "string \<Rightarrow> string"
  up_token :: string
  up_zip :: "(string \<times> string) list \<Rightarrow> string"
  up_load :: "comps \<Rightarrow> project_config io"
  up_sockets :: host_sockets
  up_pause :: "unit io"
  up_clock :: "nat list"

definition startup_wait :: "project_config \<Rightarrow> int" where
  "startup_wait config = startup_timeout_seconds (backend config) + 15"

definition instance_of_root :: "comps \<Rightarrow> instance_paths io" where
  "instance_of_root root = from_root root"

definition already_active ::
  "up_context \<Rightarrow> host_env \<Rightarrow> comps \<Rightarrow> host_paths \<Rightarrow> instance_paths \<Rightarrow> project_config \<Rightarrow> int io" where
  "already_active ctx env application_root paths inst config =
     bind (locked_state_view inst True False True (\<lambda>view.
        validate_launch_manifest (up_sha ctx) config (view_paths view) (view_generation view)
          (hp_launch paths) (hp_bundle paths))) (\<lambda>manifest.
     bind (application_bundle (up_zip ctx) application_root) (\<lambda>bundle.
     if jget manifest ''application_digest'' \<noteq> Some (JStr (up_sha ctx bundle))
     then raise_hinted StateError ''application source differs from the active gateway'' [''down'']
     else (case jget manifest ''launch_id'' of
         Some (JStr launch_id) \<Rightarrow>
           then_do (wait_for_state env (up_pause ctx) (up_clock ctx) paths launch_id (startup_wait config))
          (then_do (echo ''shuttle-gate is ready'') (ret 0))
       | _ \<Rightarrow> raise (StateError ''launch manifest identifier is invalid''))))"

definition start_gateway ::
  "up_context \<Rightarrow> host_env \<Rightarrow> comps \<Rightarrow> comps \<Rightarrow> host_paths \<Rightarrow> instance_paths \<Rightarrow> project_config \<Rightarrow> int io" where
  "start_gateway ctx env application_root instance_root paths inst config =
     then_do (check_host_socket_availability (up_sockets ctx) config)
    (then_do (remove_known_runtime_files paths)
    (then_do (prepare_runtime_directories paths)
    (then_do (build_application_bundle (up_zip ctx) application_root (hp_bundle paths))
    (bind (prepare_launch (up_sha ctx) (up_token ctx) config inst (hp_launch paths) (hp_bundle paths)
        (hp_instance_id paths) (hp_unit_name paths)) (\<lambda>manifest.
     bind (bubblewrap_command env instance_root [sys_executable env, ''-m'', ''shuttle_gate'', ''runtime'']
        True True application_root (Some paths)) (\<lambda>sandbox.
     bind (lift (socket_claim_paths (up_sha ctx) paths config)) (\<lambda>claims.
     then_do (prepare_socket_claims claims)
    (bind (pasta_command env sandbox (Some config)) (\<lambda>inner.
     bind (lift (claim_command env claims inner)) (\<lambda>claimed.
     bind (systemd_run_command env (hp_unit_name paths) claimed (Some (hp_bundle paths))) (\<lambda>service.
     then_do (host_run env service False True)
     (case jget manifest ''launch_id'' of
         Some (JStr launch_id) \<Rightarrow>
           then_do (wait_for_state env (up_pause ctx) (up_clock ctx) paths launch_id (startup_wait config))
          (then_do (echo ''shuttle-gate is ready'') (ret 0))
       | _ \<Rightarrow> raise (StateError ''prepared launch identifier is invalid'')))))))))))))"

definition require_commands :: "host_env \<Rightarrow> unit io" where
  "require_commands env = for_each (\<lambda>name. with_command env name (\<lambda>_. ret ())) REQUIRED_RUNTIME_COMMANDS"

definition up :: "up_context \<Rightarrow> host_env \<Rightarrow> comps \<Rightarrow> comps \<Rightarrow> string list \<Rightarrow> int io" where
  "up ctx env application_root instance_root arguments =
     then_do (require (arguments = []) (HostError ''usage: ./shuttle-gate up''))
    (bind (runtime_paths (up_sha ctx) instance_root) (\<lambda>paths.
     bind (instance_of_root instance_root) (\<lambda>inst.
     bind (up_load ctx (ip_config inst)) (\<lambda>config.
     then_do (require_commands env)
    (then_do (check_user_manager env)
    (then_do (check_host_bindings env config)
    (lifecycle_lock instance_root
      (bind (host_state env paths) (\<lambda>state.
       if state \<in> {''active'', ''activating''}
       then already_active ctx env application_root paths inst config
       else start_gateway ctx env application_root instance_root paths inst config)))))))))"

fun wait_stopped :: "host_env \<Rightarrow> unit io \<Rightarrow> host_paths \<Rightarrow> nat \<Rightarrow> nat list \<Rightarrow> unit io" where
  "wait_stopped env pause paths deadline clock =
     bind (host_state env paths) (\<lambda>state.
     if state \<in> {''inactive'', ''failed''} then ret ()
     else (case clock of
         [] \<Rightarrow> still_waiting
       | t # ts \<Rightarrow>
           if deadline \<le> t then raise (HostError ''gateway service did not stop within 30 seconds'')
           else then_do pause (wait_stopped env pause paths deadline ts)))"

definition down :: "up_context \<Rightarrow> host_env \<Rightarrow> comps \<Rightarrow> string list \<Rightarrow> int io" where
  "down ctx env instance_root arguments =
     then_do (require (arguments = []) (HostError ''usage: ./shuttle-gate down''))
    (bind (runtime_paths (up_sha ctx) instance_root) (\<lambda>paths.
     then_do (lifecycle_lock instance_root
      (with_command env ''systemctl'' (\<lambda>systemctl.
       bind (host_run env [systemctl, ''--user'', ''stop'', ''--'', hp_unit_name paths] True False) (\<lambda>result.
       then_do (require (status_code result \<in> {0, 5}) (HostError ''failed to stop the gateway service''))
      (then_do (case up_clock ctx of
          [] \<Rightarrow> still_waiting
        | t # ts \<Rightarrow> wait_stopped env (up_pause ctx) paths (t + 1000 * STOP_TIMEOUT_SECONDS) ts)
       (remove_known_runtime_files paths))))))
    (then_do (echo ''shuttle-gate is stopped'') (ret 0))))"

text \<open>The status of a gateway that runs, or a stopped one, with the state of the service.\<close>

definition status_document :: "json option \<Rightarrow> string \<Rightarrow> json" where
  "status_document status service_state = json_update (case status of
       Some v \<Rightarrow> v
     | None \<Rightarrow> JObj [(''schema_version'', JInt 2), (''state'', JStr ''stopped'')])
     ''service_state'' (JStr service_state)"

definition peer_line :: "json \<Rightarrow> string" where
  "peer_line peer = ''peer '' @ py_str (py_get peer ''name'' (JStr ''unknown'')) @ '': ''
     @ ''handshake='' @ py_str (py_get peer ''latest_handshake'' (JInt 0))
     @ '' rx='' @ py_str (py_get peer ''received_bytes'' (JInt 0))
     @ '' tx='' @ py_str (py_get peer ''sent_bytes'' (JInt 0))"

definition print_ready :: "json \<Rightarrow> unit io" where
  "print_ready v =
     then_do (echo (''interface: '' @ py_str (py_get v ''wireguard_interface'' (JStr ''wg0''))))
    (bind (lift (py_join '', '' (py_get v ''routes'' (JList [])))) (\<lambda>routes.
     then_do (echo (''routes: '' @ routes))
    (bind (lift (py_iter (py_get v ''peers'' (JList [])))) (\<lambda>entries.
     for_each (\<lambda>peer. when_do (is_JObj peer) (echo (peer_line peer))) entries))))"

definition print_status :: "json \<Rightarrow> string \<Rightarrow> unit io" where
  "print_status v service_state =
     bind (lift (py_item v ''state'')) (\<lambda>state.
     then_do (echo (''state: '' @ py_str state))
    (then_do (echo (''service: '' @ service_state))
     (if jget v ''state'' = Some (JStr ''ready'') then print_ready v
      else (case jget v ''error'' of Some (JStr e) \<Rightarrow> echo (''error: '' @ e) | _ \<Rightarrow> ret ()))))"

definition show_status :: "up_context \<Rightarrow> host_env \<Rightarrow> comps \<Rightarrow> string list \<Rightarrow> int io" where
  "show_status ctx env instance_root arguments =
     then_do (require (arguments = [] \<or> arguments = [''--json'']) (HostError ''usage: ./shuttle-gate status [--json]''))
    (bind (runtime_paths (up_sha ctx) instance_root) (\<lambda>paths.
     bind (host_state env paths) (\<lambda>service_state.
     bind (read_status paths) (\<lambda>status.
     let v = status_document status service_state in
     then_do (if arguments = [''--json''] then echo (dumps compact v) else print_status v service_state)
     (ret (if jget v ''state'' = Some (JStr ''ready'') \<and> service_state = ''active'' then 0 else 1))))))"

subsection \<open>Logs\<close>

definition validated_tail :: "string \<Rightarrow> exn + string" where
  "validated_tail value =
     (if value = ''all'' then Inr value
      else if value = [] \<or> \<not> list_all is_digit value then Inl (HostError LOGS_USAGE)
      else if length (str_nat MAX_LOG_TAIL_LINES) < length value \<or> MAX_LOG_TAIL_LINES < nat_of_digits 0 value
      then Inl (HostError (''log tail exceeds '' @ str_nat MAX_LOG_TAIL_LINES @ '' lines''))
      else Inr value)"

record log_options =
  lo_follow :: bool
  lo_timestamps :: bool
  lo_tail :: "string option"

fun parse_logs :: "log_options \<Rightarrow> string list \<Rightarrow> exn + log_options" where
  "parse_logs opts [] = Inr opts"
| "parse_logs opts (a # rest) =
     (if a = ''-f'' \<or> a = ''--follow'' then parse_logs (opts\<lparr>lo_follow := True\<rparr>) rest
      else if a = ''--timestamps'' then parse_logs (opts\<lparr>lo_timestamps := True\<rparr>) rest
      else if a = ''-n'' \<or> a = ''--tail'' then
        (case rest of
           [] \<Rightarrow> Inl (HostError LOGS_USAGE)
         | v # others \<Rightarrow> rbind (validated_tail v) (\<lambda>t. parse_logs (opts\<lparr>lo_tail := Some t\<rparr>) others))
      else if startswith a ''--tail='' then
        rbind (validated_tail (removeprefix a ''--tail='')) (\<lambda>t. parse_logs (opts\<lparr>lo_tail := Some t\<rparr>) rest)
      else Inl (HostError LOGS_USAGE))"

definition journalctl_arguments :: "string \<Rightarrow> string \<Rightarrow> log_options \<Rightarrow> string list" where
  "journalctl_arguments journalctl unit_name opts =
     [journalctl, ''--user'', ''--unit'', unit_name, ''--no-pager'', ''--output'',
      if lo_timestamps opts then ''short-iso-precise'' else ''cat'']
     @ (if lo_tail opts = Some ''all'' then (if lo_follow opts then [''--no-tail''] else [])
        else (case lo_tail opts of
            Some t \<Rightarrow> [''--lines'', t]
          | None \<Rightarrow> if lo_follow opts then [''--lines'', ''10''] else []))
     @ (if lo_follow opts then [''--follow''] else [])"

definition logs_command :: "host_env \<Rightarrow> string \<Rightarrow> string list \<Rightarrow> exn + string list" where
  "logs_command env unit_name arguments =
     rbind (parse_logs \<lparr>lo_follow = False, lo_timestamps = False, lo_tail = None\<rparr> arguments) (\<lambda>opts.
     rbind (command_path env ''journalctl'') (\<lambda>journalctl. Inr (journalctl_arguments journalctl unit_name opts)))"

definition logs :: "up_context \<Rightarrow> host_env \<Rightarrow> comps \<Rightarrow> string list \<Rightarrow> int io" where
  "logs ctx env instance_root arguments =
     (if arguments = [''-h''] \<or> arguments = [''--help''] then then_do (echo LOGS_USAGE) (ret 0)
      else bind (runtime_paths (up_sha ctx) instance_root) (\<lambda>paths.
        bind (lift (logs_command env (hp_unit_name paths) arguments)) (\<lambda>command.
        bind (host_run env command False False) (\<lambda>result. ret (status_code result)))))"

subsection \<open>Operator commands and dispatch\<close>

definition operator_command :: "up_context \<Rightarrow> host_env \<Rightarrow> comps \<Rightarrow> comps \<Rightarrow> string list \<Rightarrow> int io" where
  "operator_command ctx env application_root instance_root arguments =
     (let inner = [sys_executable env, ''-m'', ''shuttle_gate''] @ arguments in
      bind (bubblewrap_command env instance_root inner False False application_root None) (\<lambda>sandbox.
      bind (if arguments \<noteq> [] \<and> hd arguments = ''doctor'' then
          bind (up_load ctx (instance_root @ [''config.yaml''])) (\<lambda>config.
          then_do (require_commands env)
         (then_do (check_user_manager env)
         (then_do (check_host_bindings env config)
         (bind (bubblewrap_command env instance_root inner True True application_root None) (\<lambda>isolated.
          pasta_command env isolated None)))))
        else ret sandbox) (\<lambda>command.
      bind (host_run env command False False) (\<lambda>result. ret (status_code result)))))"

definition HELP_LINES :: "string list" where
  "HELP_LINES = [
     ''usage: ./shuttle-gate [--instance PATH] COMMAND [OPTIONS]'',
     [],
     ''Global options:'',
     ''  --instance PATH         Override the private XDG default instance'',
     [],
     ''Commands:'',
     ''  init                    Create local configuration and protected directories'',
     ''  doctor                  Check host, namespaces, kernel, SSH, and remote Python'',
     ''  config validate         Validate config.yaml'',
     ''  keys ...                Generate, rotate, or prune WireGuard peer state'',
     ''  peers list              List configured peers and generated state'',
     ''  ssh-key ...             Generate a dedicated key or print setup instructions'',
     ''  phone-config NAME       Regenerate one peer'' @ CHR 0x27 # ''s WireGuard configuration'',
     ''  up                      Start the rootless gateway and wait until ready'',
     ''  down                    Stop the gateway and destroy its namespaces'',
     ''  status [--json]         Show gateway and peer status'',
     ''  logs [OPTIONS]          Read gateway logs from the user journal'',
     ''  version                 Print the project version'']"

definition print_help :: "unit io" where
  "print_help = echo (concat (map (\<lambda>line. line @ [CHR 0x0A]) HELP_LINES))"

definition dispatch :: "up_context \<Rightarrow> host_env \<Rightarrow> comps \<Rightarrow> comps \<Rightarrow> string list \<Rightarrow> int io" where
  "dispatch ctx env application_root instance_root values = (case values of
       [] \<Rightarrow> then_do print_help (ret 0)
     | command # rest \<Rightarrow>
         (if command = ''-h'' \<or> command = ''--help'' then then_do print_help (ret 0)
          else if command = ''up'' then up ctx env application_root instance_root rest
          else if command = ''down'' then down ctx env instance_root rest
          else if command = ''status'' then show_status ctx env instance_root rest
          else if command = ''logs'' then logs ctx env instance_root rest
          else if command = ''version'' \<and> rest = [] then then_do (echo application_version) (ret 0)
          else if command \<notin> set OPERATOR_COMMANDS
          then raise_hinted HostError (''unknown command: '' @ command) [''--help'']
          else operator_command ctx env application_root instance_root values))"

definition host_main :: "up_context \<Rightarrow> host_env \<Rightarrow> comps \<Rightarrow> string list \<Rightarrow> int io" where
  "host_main ctx env application_root values =
     bind (p_resolve application_root) (\<lambda>resolved.
     let launcher = show_path (resolved @ [''shuttle-gate'']) in
     with_command_context launcher None
       (if values = [] \<or> hd values = ''-h'' \<or> hd values = ''--help'' then then_do print_help (ret 0)
        else if values = [''version''] then then_do (echo application_version) (ret 0)
        else bind (select_instance env application_root values None) (\<lambda>(instance_root, rest).
          with_command_context launcher (Some (show_path instance_root))
            (dispatch ctx env application_root instance_root rest))))"

definition host_fail :: "string \<Rightarrow> int \<Rightarrow> 'a io" where
  "host_fail message exit_code =
     then_do (echo_err (''shuttle-gate error: '' @ message)) (raise (SystemExit exit_code))"

text \<open>The process ends by the \<open>SystemExit\<close> that this raises.\<close>

definition entrypoint :: "up_context \<Rightarrow> host_env \<Rightarrow> comps \<Rightarrow> string list \<Rightarrow> unit io" where
  "entrypoint ctx env application_root values =
     try_except (bind (host_main ctx env application_root values) (\<lambda>status. raise (SystemExit status)))
       is_ShuttleGateError (\<lambda>e. host_fail (exn_str e) 2)"

end
