(* ===== verification/HostProps.thy ===== *)
theory HostProps
  imports HostLifecycle ClaimProps ConfigProps
begin

text \<open>
  What the host command composes is what the programs it starts understand: the claim wrapper
  reads back the command line built for it, the sandbox binds only two places writable, and
  the log command passes on nothing but a checked line count.
\<close>

subsection \<open>The claim command line\<close>

definition plain_component :: "string \<Rightarrow> bool" where
  "plain_component c \<longleftrightarrow> c \<noteq> [] \<and> c \<noteq> ''.'' \<and> CHR ''/'' \<notin> set c"

lemma parse_show_plain: "list_all plain_component cs \<Longrightarrow> parse_path (show_path cs) = Path True cs"
  by (rule parse_show_path) (auto simp: list_all_iff plain_component_def)

lemma take_claims_words:
  assumes "list_all (list_all plain_component) claims"
  shows "take_claims (concat (map (\<lambda>c. [''--claim'', show_path c]) claims) @ ''--'' # x # xs)
    = Inr (map (Path True) claims, ''--'' # x # xs)"
  using assms by (induction claims) (simp_all add: parse_show_plain)

text \<open>A digest in hexadecimal, as \<open>hashlib.sha256(\<dots>).hexdigest()\<close> gives it.\<close>

definition hex_digest :: "(string \<Rightarrow> string) \<Rightarrow> bool" where
  "hex_digest sha \<longleftrightarrow> (\<forall>s. length (sha s) = 64 \<and> list_all is_lower_hex (sha s))"

lemma claim_names_Inr:
  assumes "hex_digest sha" and "claim_names sha config addresses = Inr names"
  shows "list_all CLAIM_PATTERN names \<and> length names = length addresses"
  using assms(2)
proof (induction addresses arbitrary: names)
  case (Cons a addresses)
  then show ?case
    using assms(1) by (auto simp: rbind_eq_Inr ascii_digest_def CLAIM_PATTERN_def hex_digest_def split: if_splits)
qed simp

lemma CLAIM_PATTERN_plain: "CLAIM_PATTERN n \<Longrightarrow> plain_component n"
proof -
  assume p: "CLAIM_PATTERN n"
  have "set n = set (take 64 n) \<union> set (drop 64 n)"
    by (metis append_take_drop_id set_append)
  moreover have "CHR ''/'' \<notin> set (take 64 n)"
    using p by (auto simp: CLAIM_PATTERN_def list_all_iff is_lower_hex_def char_class_defs)
  ultimately have "CHR ''/'' \<notin> set n" using p by (simp add: CLAIM_PATTERN_def)
  with p show ?thesis by (auto simp: CLAIM_PATTERN_def plain_component_def)
qed

lemma sorted_unique_claims:
  "sorted_unique (map (Path True) (sort_key show_path (remdups cs)))"
proof -
  have "map str_path (map (Path True) (sort_key show_path (remdups cs)))
      = map show_path (sort_key show_path (remdups cs))"
    by (simp add: show_path_def)
  then show ?thesis
    by (simp add: sorted_unique_def distinct_map inj_on_def del: map_map)
qed

text \<open>The claims of a configuration, all in one directory and named by digests.\<close>

lemma socket_claim_paths_Inr:
  assumes "hex_digest sha" and "socket_claim_paths sha paths config = Inr claims"
  obtains names where "list_all CLAIM_PATTERN names"
    and "length names = length (bind_addresses (wireguard config))"
    and "claims = sort_key show_path (remdups (map (\<lambda>n. butlast (hp_root paths) @ [''claims'', n]) names))"
  using assms(2) claim_names_Inr [OF assms(1)] that
  by (auto simp: socket_claim_paths_def rbind_eq_Inr)

lemma claims_plain:
  assumes "list_all CLAIM_PATTERN names" and "list_all plain_component d"
  shows "list_all (list_all plain_component) (map (\<lambda>n. d @ [''claims'', n]) names)"
  using assms CLAIM_PATTERN_plain by (auto simp: list_all_iff) (simp_all add: plain_component_def)

text \<open>
  C23: The claim wrapper reads back what the host builds: for the claim files of any accepted
  set of bind addresses and an inner command with an absolute program, the command line
  starts the module \<open>shuttle_gate.claim\<close>, and \<open>parse_arguments\<close> accepts the rest of it and
  recovers exactly the claim files and the inner command, whatever words that contains.
\<close>
theorem claims_read_back:
  assumes "hex_digest sha" and "list_all plain_component (hp_root paths)"
    and "socket_claim_paths sha paths config = Inr claims" and "bind_addresses (wireguard config) \<noteq> []"
    and "inner \<noteq> []" and "is_absolute (parse_path (hd inner))"
  shows "\<exists>words. claim_command env claims inner
      = Inr ([sys_executable env, ''-P'', ''-m'', ''shuttle_gate.claim''] @ words)
    \<and> parse_arguments words = Inr (map (Path True) claims, inner)"
proof -
  let ?d = "butlast (hp_root paths)"
  let ?words = "concat (map (\<lambda>c. [''--claim'', show_path c]) claims) @ ''--'' # inner"
  obtain names where n: "list_all CLAIM_PATTERN names" "length names = length (bind_addresses (wireguard config))"
    and c: "claims = sort_key show_path (remdups (map (\<lambda>n. ?d @ [''claims'', n]) names))"
    using socket_claim_paths_Inr [OF assms(1,3)] .
  have "list_all plain_component ?d"
    using assms(2) by (auto simp: list_all_iff dest: in_set_butlastD)
  from claims_plain [OF n(1) this] have plain: "list_all (list_all plain_component) claims"
    by (simp add: c list_all_iff)
  have ne: "claims \<noteq> []"
  proof -
    have "set claims = (\<lambda>n. ?d @ [''claims'', n]) ` set names" by (simp add: c)
    with n(2) assms(4) show ?thesis by (cases names) auto
  qed
  have member: "\<exists>n \<in> set names. claim = ?d @ [''claims'', n]" if "claim \<in> set claims" for claim
    using that by (auto simp: c)
  obtain x xs where i: "inner = x # xs" using assms(5) by (cases inner) auto
  have t: "take_claims ?words = Inr (map (Path True) claims, ''--'' # inner)"
    using take_claims_words [OF plain] by (simp add: i)
  have dir: "butlast claim = ?d @ [''claims'']" "CLAIM_PATTERN (name_of claim)" if "claim \<in> set claims" for claim
    using member [OF that] n(1) by (auto simp: butlast_append name_of_def list_all_iff)
  have su: "sorted_unique (map (Path True) claims)" by (simp only: c sorted_unique_claims)
  have "parse_arguments ?words = Inr (map (Path True) claims, inner)"
    unfolding parse_arguments_def t
    using ne assms(5,6) su dir hd_in_set [OF ne]
    by (auto simp: list_ex_iff parent_of_def hd_map i)
  moreover have "claim_command env claims inner
      = Inr ([sys_executable env, ''-P'', ''-m'', ''shuttle_gate.claim''] @ ?words)"
    using ne assms(5) by (simp add: claim_command_def)
  ultimately show ?thesis by blast
qed


definition zero_digest :: "string \<Rightarrow> string" where
  "zero_digest s = replicate 64 (CHR ''0'')"

lemma hex_digest_zero: "hex_digest zero_digest"
  by (simp add: hex_digest_def zero_digest_def is_lower_hex_def char_class_defs list_all_iff)

definition example_paths :: host_paths where
  "example_paths = \<lparr>hp_instance_id = ''i'', hp_unit_name = ''shuttle-gate-i.service'',
     hp_root = [''run'', ''user'', ''shuttle-gate'', ''i''],
     hp_inputs = [''run'', ''user'', ''shuttle-gate'', ''i'', ''inputs''],
     hp_output = [''run'', ''user'', ''shuttle-gate'', ''i'', ''output''],
     hp_launch = [''run'', ''user'', ''shuttle-gate'', ''i'', ''inputs'', LAUNCH_FILE],
     hp_bundle = [''run'', ''user'', ''shuttle-gate'', ''i'', ''inputs'', APP_BUNDLE]\<rparr>"

definition v4_project :: "project_config" where
  "v4_project = project_example\<lparr>wireguard := (wireguard project_example)\<lparr>bind_addresses := [V4 0x7F000001]\<rparr>\<rparr>"

lemma str_nat_ascii: "list_all (\<lambda>c. code_of c < 128) (str_nat n)"
  by (rule list.pred_mono_strong [OF str_nat_digits [of n]]) (simp add: is_digit_def)

lemma str_int_ascii: "list_all (\<lambda>c. code_of c < 128) (str_int n)"
  by (simp add: str_int_def str_nat_ascii) (simp add: code_of_def)

lemma example_claims: "\<exists>claims. socket_claim_paths zero_digest example_paths v4_project = Inr claims"
proof -
  have "list_all (\<lambda>c. code_of c < 128) (claim_text v4_project (V4 0x7F000001))"
    by (simp add: claim_text_def v4_project_def example_defs str_v4_def str_nat_ascii str_int_ascii)
      (simp add: code_of_def)
  then show ?thesis
    by (simp add: socket_claim_paths_def v4_project_def ascii_digest_def)
qed

lemma claims_read_back_witness:
  "\<exists>claims words. socket_claim_paths zero_digest example_paths v4_project = Inr claims
    \<and> parse_arguments words = Inr (map (Path True) claims, [''/usr/bin/pasta'', ''--claim'', ''x''])"
proof -
  obtain claims where c: "socket_claim_paths zero_digest example_paths v4_project = Inr claims"
    using example_claims by blast
  have "list_all plain_component (hp_root example_paths)"
    by (simp add: example_paths_def plain_component_def)
  from claims_read_back [OF hex_digest_zero this c, of "[''/usr/bin/pasta'', ''--claim'', ''x'']" undefined]
  show ?thesis using c by (auto simp: v4_project_def parse_path_def startswith_def)
qed


subsection \<open>What the sandbox may write\<close>

text \<open>How bubblewrap reads its options: each takes a fixed number of words, up to \<open>--\<close>.\<close>

definition option_words :: "string \<Rightarrow> nat" where
  "option_words w =
     (if w \<in> set [''--bind'', ''--ro-bind'', ''--setenv''] then 2
      else if w \<in> set [''--uid'', ''--gid'', ''--hostname'', ''--cap-drop'', ''--cap-add'', ''--proc'', ''--dev'',
        ''--tmpfs'', ''--dir'', ''--chdir''] then 1
      else 0)"

function writable :: "string list \<Rightarrow> (string \<times> string) list" where
  "writable [] = []"
| "writable (w # rest) =
     (if w = ''--'' then []
      else (if w = ''--bind'' \<and> 2 \<le> length rest then [(rest ! 0, rest ! 1)] else [])
        @ writable (drop (option_words w) rest))"
  by pat_completeness auto
termination
  by (relation "measure length") auto

definition consumes :: "(string \<times> string) list \<Rightarrow> string list \<Rightarrow> bool" where
  "consumes ws words \<longleftrightarrow> (\<forall>rest. writable (words @ rest) = ws @ writable rest)"

named_theorems consumes_rules

lemma consumes_Nil [consumes_rules]: "consumes [] []"
  by (simp add: consumes_def)

lemma consumes_append: "consumes ws a \<Longrightarrow> consumes vs b \<Longrightarrow> consumes (ws @ vs) (a @ b)"
  by (simp add: consumes_def)

lemma consumes_none [consumes_rules]: "consumes [] a \<Longrightarrow> consumes [] b \<Longrightarrow> consumes [] (a @ b)"
  using consumes_append [of "[]" a "[]" b] by simp

lemma consumes_option:
  assumes "words = w # args" and "length args = option_words w" and "w \<noteq> ''--''"
  shows "consumes (if w = ''--bind'' then [(args ! 0, args ! 1)] else []) words"
proof -
  have "w = ''--bind'' \<Longrightarrow> length args = 2" using assms(2) by (simp add: option_words_def)
  then show ?thesis using assms by (auto simp: consumes_def nth_append)
qed

lemma consumes_1: "option_words w = 0 \<Longrightarrow> w \<noteq> ''--'' \<Longrightarrow> w \<noteq> ''--bind'' \<Longrightarrow> consumes [] ws \<Longrightarrow> consumes [] (w # ws)"
  and consumes_2: "option_words w = 1 \<Longrightarrow> w \<noteq> ''--'' \<Longrightarrow> w \<noteq> ''--bind'' \<Longrightarrow> consumes [] ws \<Longrightarrow> consumes [] (w # x # ws)"
  and consumes_3: "option_words w = 2 \<Longrightarrow> w \<noteq> ''--'' \<Longrightarrow> w \<noteq> ''--bind'' \<Longrightarrow> consumes [] ws \<Longrightarrow> consumes [] (w # x # y # ws)"
  by (simp_all add: consumes_def numeral_2_eq_2)

lemma consumes_setenv: "consumes [] (setenv n v)"
  unfolding setenv_def by (intro consumes_3 consumes_Nil) (simp_all add: option_words_def)

lemma consumes_environment: "consumes [] (environment_options instance_root application operator_run)"
  unfolding environment_options_def
  by (auto intro!: consumes_none consumes_setenv consumes_1 consumes_Nil simp: option_words_def)

lemma consumes_namespace: "consumes [] (namespace_options operator_run network_namespace)"
  by (simp add: namespace_options_def consumes_def option_words_def)

lemma consumes_concat: "(\<And>x. x \<in> set xs \<Longrightarrow> consumes [] (f x)) \<Longrightarrow> consumes [] (concat (map f xs))"
  by (induction xs) (auto intro: consumes_none consumes_Nil)

lemma consumes_parents: "consumes [] (parent_directories destinations)"
  unfolding parent_directories_def
  by (intro consumes_concat consumes_2 consumes_Nil) (simp_all add: option_words_def)

text \<open>The mounts that are bound writable.\<close>

lemma consumes_mounts:
  "consumes (map (\<lambda>(s, d). (show_path s, show_path d))
      (filter (\<lambda>m. mount_mode instance_root read_only rt m = ''--bind'') mounts))
    (mount_options instance_root read_only rt mounts)"
proof (induction mounts)
  case Nil
  then show ?case by (simp add: mount_options_def consumes_Nil)
next
  case (Cons m mounts)
  obtain s d where m: "m = (s, d)" by (cases m)
  have mode: "mount_mode instance_root read_only rt m = ''--bind'' \<or> mount_mode instance_root read_only rt m = ''--ro-bind''"
    by (simp add: m mount_mode_def)
  have "consumes (if mount_mode instance_root read_only rt m = ''--bind'' then [(show_path s, show_path d)] else [])
      [mount_mode instance_root read_only rt m, show_path s, show_path d]"
    using consumes_option [of _ "mount_mode instance_root read_only rt m" "[show_path s, show_path d]"] mode
    by (auto simp: option_words_def)
  from consumes_append [OF this Cons.IH] show ?case
    by (auto simp: m mount_options_def)
qed


definition state_lock_bind :: "comps \<Rightarrow> string \<times> string" where
  "state_lock_bind inst = (show_path (inst @ [''state'', ''.state.lock'']), ''/state/.state.lock'')"

lemma writable_sandbox:
  "writable (tl (sandbox_arguments bwrap inst application command net ro rt mounts))
    = map (\<lambda>(s, d). (show_path s, show_path d)) (filter (\<lambda>m. mount_mode inst ro rt m = ''--bind'') mounts)
      @ (if rt = None then [] else [state_lock_bind inst])"
proof -
  let ?lock = "if rt = None then []
         else [''--bind'', show_path (inst @ [''state'', ''.state.lock'']), ''/state/.state.lock'']"
  have lock: "consumes (if rt = None then [] else [state_lock_bind inst]) ?lock"
    by (simp add: consumes_def option_words_def state_lock_bind_def numeral_2_eq_2)
  have home: "consumes [] [''--dir'', ''/tmp/home'']"
    by (simp add: consumes_def option_words_def)
  have tail: "writable ([''--chdir'', d, ''--''] @ command) = []" for d
    by (simp add: option_words_def)
  show ?thesis
    using consumes_namespace consumes_parents home consumes_mounts lock consumes_environment tail
    by (simp add: sandbox_arguments_def Let_def consumes_def)
qed

definition allowed_write :: "comps \<Rightarrow> bool \<Rightarrow> host_paths option \<Rightarrow> string \<times> string \<Rightarrow> bool" where
  "allowed_write inst read_only rt b \<longleftrightarrow> (case rt of
       None \<Rightarrow> \<not> read_only \<and> b = (show_path inst, show_path inst)
     | Some r \<Rightarrow> snd b = show_path output_target \<or> b = state_lock_bind inst)"

lemma mount_mode_bind:
  assumes "mount_mode inst read_only rt (s, d) = ''--bind''"
  shows "allowed_write inst read_only rt (show_path s, show_path d)"
  using assms by (cases rt) (auto simp: mount_mode_def allowed_write_def split: if_splits)

lemma allowed_lock: "rt \<noteq> None \<Longrightarrow> allowed_write inst read_only rt (state_lock_bind inst)"
  by (auto simp: allowed_write_def)

lemma p_resolve_strict_Ret: "p_resolve_strict p w = (Ret r, w') \<Longrightarrow> r = resolve w p \<and> w' = w"
  unfolding p_resolve_strict_def p_resolve_def by (auto simp: run_inv split: if_split_asm elim!: bind_RetE)



definition example_env :: host_env where
  "example_env = \<lparr>which = (\<lambda>name. Some (''/usr/bin/'' @ name)), account_home = Path True [''home'', ''user''],
     sys_prefix = [''usr''], sys_base_prefix = [''usr''], sys_executable = ''/usr/bin/python3'',
     working_dir = [''home'', ''user''], host_launch = (\<lambda>command capture environment. ret (0, [], []))\<rparr>"

definition example_host :: world where
  "example_host = system_with
     [([''usr''], Dir 0x1ED 0), ([''opt''], Dir 0x1ED 0), ([''opt'', ''app''], Dir 0x1ED 0),
      ([''srv''], Dir 0x1ED 0), ([''srv'', ''gate''], Dir 0x1C0 1000)]"

fun returned :: "'a outcome \<Rightarrow> bool" where
  "returned (Ret a) = True"
| "returned r = False"

lemma returned_Ret: "returned r \<Longrightarrow> \<exists>a. r = Ret a"
  by (cases r) auto

lemma example_sandbox: "returned (fst (bubblewrap_command example_env [''srv'', ''gate''] [''/bin/true''] True True
    [''opt'', ''app''] (Some example_paths) example_host))"
  by code_simp


subsection \<open>The log command\<close>

definition bounded_count :: "string \<Rightarrow> bool" where
  "bounded_count t \<longleftrightarrow> t \<noteq> [] \<and> list_all is_digit t \<and> nat_of_digits 0 t \<le> MAX_LOG_TAIL_LINES"

definition tail_ok :: "string option \<Rightarrow> bool" where
  "tail_ok t \<longleftrightarrow> (case t of None \<Rightarrow> True | Some v \<Rightarrow> v = ''all'' \<or> bounded_count v)"

lemma validated_tail_Inr: "validated_tail v = Inr t \<Longrightarrow> tail_ok (Some t)"
  by (auto simp: validated_tail_def tail_ok_def bounded_count_def split: if_splits)

lemma parse_logs_tail: "parse_logs opts args = Inr opts' \<Longrightarrow> tail_ok (lo_tail opts) \<Longrightarrow> tail_ok (lo_tail opts')"
proof (induction opts args rule: parse_logs.induct)
  case (2 opts a rest)
  then show ?case
    by (auto simp: rbind_eq_Inr dest: validated_tail_Inr split: if_splits list.splits)
qed auto

definition log_vocabulary :: "string list" where
  "log_vocabulary = [''--user'', ''--unit'', ''--no-pager'', ''--output'', ''short-iso-precise'', ''cat'',
     ''--no-tail'', ''--lines'', ''--follow'']"

text \<open>
  C37: Nothing the caller of \<open>logs\<close> writes reaches journalctl as an option or as another
  unit: every word of an accepted command line, besides its program and the instance's unit
  name, is one of a fixed vocabulary or a number of at most a million lines.
\<close>
theorem logs_words_bounded:
  assumes "logs_command env unit_name arguments = Inr words"
  shows "\<exists>program. command_path env ''journalctl'' = Inr program \<and> hd words = program
    \<and> list_all (\<lambda>word. word \<in> set log_vocabulary \<or> word = unit_name \<or> bounded_count word) (tl words)"
proof -
  from assms obtain opts program where o: "parse_logs \<lparr>lo_follow = False, lo_timestamps = False, lo_tail = None\<rparr> arguments = Inr opts"
    and p: "command_path env ''journalctl'' = Inr program"
    and w: "words = journalctl_arguments program unit_name opts"
    by (auto simp: logs_command_def rbind_eq_Inr)
  have t: "tail_ok (lo_tail opts)" using parse_logs_tail [OF o] by (simp add: tail_ok_def)
  have ten: "bounded_count ''10''"
    by (simp add: bounded_count_def char_class_defs MAX_LOG_TAIL_LINES_def digit_val_def)
  show ?thesis
    using t ten by (auto simp: p w journalctl_arguments_def log_vocabulary_def tail_ok_def split: option.splits)
qed

lemma logs_words_bounded_witness:
  "\<exists>words. logs_command example_env ''shuttle-gate-i.service'' [''-f'', ''--tail=20''] = Inr words
    \<and> list_all (\<lambda>word. word \<in> set log_vocabulary \<or> word = ''shuttle-gate-i.service'' \<or> bounded_count word) (tl words)"
proof -
  have "length ''20'' \<le> length (str_nat MAX_LOG_TAIL_LINES)"
    by (simp add: MAX_LOG_TAIL_LINES_def str_nat.simps)
  then have "\<not> isl (logs_command example_env ''shuttle-gate-i.service'' [''-f'', ''--tail=20''])"
    by (simp add: logs_command_def validated_tail_def command_path_def example_env_def startswith_def
        removeprefix_def char_class_defs digit_val_def MAX_LOG_TAIL_LINES_def)
  then obtain words where w: "logs_command example_env ''shuttle-gate-i.service'' [''-f'', ''--tail=20''] = Inr words"
    by (cases "logs_command example_env ''shuttle-gate-i.service'' [''-f'', ''--tail=20'']") auto
  from logs_words_bounded [OF w] w show ?thesis by blast
qed

subsection \<open>The instance directory\<close>

text \<open>
  C38: The instance directory that is selected is safe to work in: when the selection returns
  \<open>r\<close>, then at that moment \<open>r\<close> is a directory and no link, is neither the root of the file
  system nor the account's home directory, has a printable name, and neither contains nor
  lies inside the resolved application directory.
\<close>
theorem instance_root_sound:
  assumes "resolve_instance_root env application_root requested cwd create_default w = (Ret r, w')"
  shows "is_dir_node (node_at w' r) \<and> r \<noteq> [] \<and> r \<noteq> resolve w' (join_path (working_dir env) (account_home env))
    \<and> isprintable (show_path r) \<and> separate_roots (resolve w application_root) r"
proof -
  from assms obtain application w1 info w2 where
      a: "p_resolve_strict application_root w = (Ret application, w1)"
      and pr: "isprintable (show_path r)"
      and l: "try_except (os_lstat r) is_OSError
         (\<lambda>_. raise (HostError ''instance directory cannot be inspected'')) w2 = (Ret info, w')"
      and d: "is_dir_node (Some info)" "r \<noteq> []" "r \<noteq> resolve w' (join_path (working_dir env) (account_home env))"
        "separate_roots application r"
    unfolding resolve_instance_root_def validate_root_separation_def p_resolve_def Let_def
    by (auto simp: run_inv elim!: bind_RetE)
  from p_resolve_strict_Ret [OF a] have "application = resolve w application_root" by simp
  moreover from l have "os_lstat r w2 = (Ret info, w')"
    by (auto simp: try_except_raise_Ret)
  from os_lstat_Ret [OF this] have "node_at w' r = Some info" by (simp add: node_at_def)
  ultimately show ?thesis using d pr by simp
qed


lemma instance_root_sound_witness:
  "\<exists>r w'. resolve_instance_root example_env [''opt'', ''app''] (Some ''../../srv/gate'') None False example_host = (Ret r, w')
    \<and> is_dir_node (node_at w' r) \<and> separate_roots (resolve example_host [''opt'', ''app'']) r"
proof -
  have "returned (fst (resolve_instance_root example_env [''opt'', ''app''] (Some ''../../srv/gate'') None False example_host))"
    by code_simp
  then obtain r w' where r: "resolve_instance_root example_env [''opt'', ''app''] (Some ''../../srv/gate'') None False
      example_host = (Ret r, w')"
    using returned_Ret by (metis prod.collapse)
  from instance_root_sound [OF this] r show ?thesis by blast
qed

subsection \<open>Removing the volatile files\<close>

definition volatile :: "comps \<Rightarrow> string list \<Rightarrow> comps \<Rightarrow> bool" where
  "volatile directory names p \<longleftrightarrow> p = directory \<or> (p \<noteq> [] \<and> butlast p = directory \<and> known_file names (last p))"

definition removable :: "host_paths \<Rightarrow> comps \<Rightarrow> bool" where
  "removable paths p \<longleftrightarrow> volatile (hp_inputs paths) input_names p \<or> volatile (hp_output paths) output_names p
     \<or> p = hp_root paths \<or> p = butlast (hp_root paths)"

lemma remove_known_keeps:
  assumes "\<And>p. volatile directory names p \<Longrightarrow> p \<notin> A"
  shows "obeys (keeps A) (remove_known directory names child)"
proof (cases "known_file names child")
  case True
  then have "directory @ [child] \<notin> A" using assms by (simp add: volatile_def)
  then show ?thesis unfolding remove_known_def unlink_missing_ok_def by (intro obeys_rules)
next
  case False
  then show ?thesis unfolding remove_known_def by simp (intro obeys_rules)
qed

lemma clear_directory_keeps:
  assumes "\<And>p. volatile directory names p \<Longrightarrow> p \<notin> A"
  shows "obeys (keeps A) (clear_directory directory names)"
proof -
  have "directory \<notin> A" using assms by (simp add: volatile_def)
  then show ?thesis
    unfolding clear_directory_def
    by (intro obeys_rules remove_known_keeps) (simp_all add: assms)
qed

text \<open>
  C27: Clearing the runtime directory destroys nothing unknown: whatever fails and wherever
  it is interrupted, every path that is not one of the instance's four runtime directories or
  a known volatile file (or a left-over temporary of one) directly in the input or output
  directory has the same content, mode and owner as before.
\<close>
theorem only_runtime_files_removed:
  "keeps (- {p. removable paths p}) w (snd (remove_known_runtime_files paths w))"
proof -
  have "obeys (keeps (- {p. removable paths p})) (remove_known_runtime_files paths)"
    unfolding remove_known_runtime_files_def
    by (intro obeys_rules clear_directory_keeps) (auto simp: removable_def)
  then show ?thesis by (simp add: obeys_def)
qed

end
