(* ===== verification/Ending.thy ===== *)
theory Ending
  imports HostProps
begin

text \<open>
  Programs that come to an end: \<open>ends J m\<close> says that \<open>m\<close>, started where \<open>J\<close> holds, returns or
  raises, and leaves \<open>J\<close>. With \<open>J\<close> that no crash is to come, this is termination of the
  waiting loops for every behaviour of the programs they call.
\<close>

definition ends :: "('w \<Rightarrow> bool) \<Rightarrow> ('w, 'a) prog \<Rightarrow> bool" where
  "ends J m \<longleftrightarrow> (\<forall>w. J w \<longrightarrow> fst (m w) \<noteq> Halt \<and> J (snd (m w)))"

named_theorems ends_rules

lemma endsI: "(\<And>w. J w \<Longrightarrow> fst (m w) \<noteq> Halt \<and> J (snd (m w))) \<Longrightarrow> ends J m"
  by (simp add: ends_def)

lemma endsD: "ends J m \<Longrightarrow> J w \<Longrightarrow> fst (m w) \<noteq> Halt \<and> J (snd (m w))"
  by (simp add: ends_def)

lemma ends_ret [ends_rules]: "ends J (ret a)"
  and ends_raise [ends_rules]: "ends J (raise e)"
  and ends_gets [ends_rules]: "ends J (gets f)"
  by (simp_all add: ends_def prog_defs)

lemma ends_require [ends_rules]: "ends J (require b e)"
  by (simp add: require_def ends_ret ends_raise)

lemma ends_lift [ends_rules]: "ends J (lift r)"
  by (cases r) (simp_all add: ends_ret ends_raise)

lemma ends_bind [ends_rules]:
  assumes "ends J m" and "\<And>a. ends J (f a)"
  shows "ends J (bind m f)"
proof (rule endsI)
  fix w assume "J w"
  with endsD [OF assms(1) this] endsD [OF assms(2)]
  show "fst (bind m f w) \<noteq> Halt \<and> J (snd (bind m f w))"
    by (auto simp: bind_def split: prod.splits outcome.splits)
qed

lemma ends_try_except [ends_rules]:
  assumes "ends J m" and "\<And>e. ends J (h e)"
  shows "ends J (try_except m p h)"
proof (rule endsI)
  fix w assume "J w"
  with endsD [OF assms(1) this] endsD [OF assms(2)]
  show "fst (try_except m p h w) \<noteq> Halt \<and> J (snd (try_except m p h w))"
    by (auto simp: try_except_def split: prod.splits outcome.splits)
qed

lemma ends_try_finally [ends_rules]:
  assumes "ends J m" and "ends J f"
  shows "ends J (try_finally m f)"
proof (rule endsI)
  fix w assume "J w"
  obtain r w1 where m: "m w = (r, w1)" by (cases "m w")
  obtain q w2 where f: "f w1 = (q, w2)" by (cases "f w1")
  from endsD [OF assms(1) \<open>J w\<close>] m have "r \<noteq> Halt" "J w1" by simp_all
  moreover from endsD [OF assms(2) \<open>J w1\<close>] f have "q \<noteq> Halt" "J w2" by simp_all
  ultimately show "fst (try_finally m f w) \<noteq> Halt \<and> J (snd (try_finally m f w))"
    by (cases r; cases q) (simp_all add: try_finally_def m f)
qed

lemma ends_suppress [ends_rules]: "ends J m \<Longrightarrow> ends J (suppress p m)"
  unfolding suppress_def by (intro ends_rules)

lemma ends_when_do [ends_rules]: "ends J m \<Longrightarrow> ends J (when_do b m)"
  by (simp add: when_do_def ends_ret)

lemma ends_for_each [ends_rules]: "(\<And>x. ends J (f x)) \<Longrightarrow> ends J (for_each f xs)"
  by (induction xs) (auto intro: ends_rules)

lemma ends_if [ends_rules]: "(b \<Longrightarrow> ends J m) \<Longrightarrow> (\<not> b \<Longrightarrow> ends J m') \<Longrightarrow> ends J (if b then m else m')"
  by simp

lemma ends_case_option [ends_rules]:
  "(x = None \<Longrightarrow> ends J m) \<Longrightarrow> (\<And>a. x = Some a \<Longrightarrow> ends J (f a)) \<Longrightarrow> ends J (case x of None \<Rightarrow> m | Some a \<Rightarrow> f a)"
  by (cases x) auto

subsection \<open>System calls without a crash\<close>

definition no_crash :: "world \<Rightarrow> bool" where
  "no_crash w \<longleftrightarrow> fates w = []"

lemma ends_syscall:
  assumes "\<And>w. fates w = [] \<Longrightarrow> fst (f w) \<noteq> Halt \<and> fates (snd (f w)) = []"
  shows "ends no_crash (syscall f)"
  using assms by (auto simp: ends_def no_crash_def syscall_def syscall_torn_def)

lemma ends_os_lstat [ends_rules]: "ends no_crash (os_lstat p)"
  unfolding os_lstat_def by (rule ends_syscall) (auto split: option.splits)

lemma ends_read_bytes [ends_rules]: "ends no_crash (read_bytes p)"
  unfolding read_bytes_def by (rule ends_syscall) (auto split: option.splits node.splits)

lemma ends_read_text_utf8 [ends_rules]: "ends no_crash (read_text_utf8 p)"
  unfolding read_text_utf8_def by (intro ends_rules)

lemma ends_raise_hinted [ends_rules]: "ends no_crash (raise_hinted E m a)"
  unfolding raise_hinted_def by (intro ends_rules)

subsection \<open>Waiting for the service\<close>

definition prompt_host :: "host_env \<Rightarrow> bool" where
  "prompt_host env \<longleftrightarrow> (\<forall>command capture e. ends no_crash (host_launch env command capture e))"

lemma ends_host_run [ends_rules]: "prompt_host env \<Longrightarrow> ends no_crash (host_run env command capture check)"
  unfolding host_run_def prompt_host_def Let_def
  by (intro ends_rules) (auto intro!: ends_rules split: prod.splits)

lemma ends_host_state [ends_rules]: "prompt_host env \<Longrightarrow> ends no_crash (host_state env paths)"
  unfolding host_state_def with_command_def by (intro ends_rules)

lemma ends_read_status [ends_rules]: "ends no_crash (read_status paths)"
  unfolding read_status_def read_status_file_def Let_def by (intro ends_rules)

lemma ends_wait_until:
  assumes "prompt_host env" and "ends no_crash pause"
  shows "list_ex (\<lambda>t. deadline \<le> t) clock \<Longrightarrow> ends no_crash (wait_until env pause paths launch_id deadline clock)"
proof (induction clock)
  case (Cons t clock)
  show ?case
  proof (cases "t < deadline")
    case True
    with Cons have IH: "ends no_crash (wait_until env pause paths launch_id deadline clock)" by auto
    show ?thesis
      by (simp add: True split: readiness.split)
        (intro ends_rules allI impI conjI IH assms, auto intro!: ends_rules assms IH split: readiness.split)
  next
    case False
    then show ?thesis
      by (simp add: with_command_def) (intro ends_rules assms)
  qed
qed simp

lemma ends_wait_stopped:
  assumes "prompt_host env" and "ends no_crash pause"
  shows "list_ex (\<lambda>t. deadline \<le> t) clock \<Longrightarrow> ends no_crash (wait_stopped env pause paths deadline clock)"
proof (induction clock)
  case (Cons t clock)
  have "ends no_crash (wait_stopped env pause paths deadline clock)" if "t < deadline"
    using Cons that by auto
  then show ?case
    by (subst wait_stopped.simps) (auto intro!: ends_rules assms simp: not_le)
qed simp


text \<open>
  C18: No wait of the host command is endless: as long as the programs it calls return and the
  clock at some time reads a value past the deadline, waiting for the gateway to become ready
  (up to the start-up timeout) and waiting for it to stop both come back, with a result or
  with an error, whatever the service, its status file and the programs answer.
\<close>
theorem host_waits_end:
  assumes "prompt_host env" and "ends no_crash pause" and "no_crash w"
    and "list_ex (\<lambda>t. now + 1000 * nat timeout \<le> t) clock"
  shows "fst (wait_for_state env pause (now # clock) paths launch_id timeout w) \<noteq> Halt
    \<and> fst (wait_stopped env pause paths (now + 1000 * nat timeout) clock w) \<noteq> Halt"
  using endsD [OF ends_wait_until [OF assms(1,2,4)] assms(3)] endsD [OF ends_wait_stopped [OF assms(1,2,4)] assms(3)]
  by (simp add: wait_for_state_def)

lemma host_waits_end_witness:
  "fst (wait_for_state example_env (ret ()) [0, 500, 16000] example_paths ''launch'' 15 example_host) \<noteq> Halt"
proof -
  have p: "prompt_host example_env"
    by (simp add: prompt_host_def example_env_def ends_ret)
  have c: "no_crash example_host" by (simp add: no_crash_def example_host_def system_with_def)
  have l: "list_ex (\<lambda>t. 0 + 1000 * nat 15 \<le> t) [500, 16000 :: nat]" by simp
  from host_waits_end [OF p ends_ret c l] show ?thesis by (rule conjunct1)
qed

end
