(* ===== verification/Runtime.thy ===== *)
theory Runtime
  imports Launch NftTproxy PyInt
begin

text \<open>
  \<open>runtime.py\<close>: the gateway inside its namespace. A program of the gateway runs over a
  \<^emph>\<open>gateway\<close>: the world, the sshuttle child it owns, what the child and the stop event will
  answer (lists of answers, like the fates of the system calls), and the trace of every
  command and signal it issued. Programs of the other components run in its world.
\<close>

subsection \<open>Constants and paths\<close>

definition INTERFACE :: string where
  "INTERFACE = PROXY_INGRESS_INTERFACE"

definition TPROXY_TABLE :: string where
  "TPROXY_TABLE = ''100''"

definition TPROXY_MARK :: string where
  "TPROXY_MARK = ''0x1''"

definition TPROXY_PRIORITY :: string where
  "TPROXY_PRIORITY = ''100''"

definition NFT_TABLE :: string where
  "NFT_TABLE = ''shuttle_gate''"

definition GATEWAY_STATUS :: string where
  "GATEWAY_STATUS = ''status.json''"

definition NOTIFY_FILE :: string where
  "NOTIFY_FILE = ''sshuttle-notify.sock''"

definition ADAPTER_FAILURE_EXIT :: int where
  "ADAPTER_FAILURE_EXIT = 70"

definition MULTICAST_EXCLUSIONS :: "string list" where
  "MULTICAST_EXCLUSIONS = [''224.0.0.0/4'', ''255.255.255.255/32'', ''ff00::/8'']"

definition REMOTE_PYTHON_CHECK_CODE :: string where
  "REMOTE_PYTHON_CHECK_CODE = ''import sys;raise SystemExit(0 if sys.version_info>=(3,9) else 3)''"

definition REMOTE_PYTHON_CHECK_SCRIPT :: string where
  "REMOTE_PYTHON_CHECK_SCRIPT = ''exec '' @ double_quote # ''$1'' @ double_quote # '' -B -c ''
     @ double_quote # ''$2'' @ [double_quote]"

record sandbox_paths =
  sp_config :: comps
  sp_paths :: instance_paths
  sp_runtime :: comps
  sp_launch :: comps
  sp_bundle :: comps

definition env_path :: "world \<Rightarrow> string \<Rightarrow> comps \<Rightarrow> comps" where
  "env_path w name fallback = (case map_of (environ w) name of
       None \<Rightarrow> fallback | Some v \<Rightarrow> path_comps (parse_path v))"

definition fixed_paths :: "sandbox_paths io" where
  "fixed_paths = gets (\<lambda>w.
     let config_path = env_path w ''SHUTTLE_GATE_CONFIG'' [''config'', ''config.yaml''] in
     \<lparr>sp_config = config_path,
      sp_paths = \<lparr>ip_root = [], ip_config = config_path,
        ip_state = env_path w ''SHUTTLE_GATE_STATE'' [''state''], ip_secrets = [''secrets''], ip_data = None\<rparr>,
      sp_runtime = env_path w ''SHUTTLE_GATE_RUNTIME'' [''run'', ''shuttle-gate''],
      sp_launch = env_path w ''SHUTTLE_GATE_LAUNCH'' [''run'', ''shuttle-gate'', ''launch.json''],
      sp_bundle = env_path w ''SHUTTLE_GATE_BUNDLE'' [''opt'', ''shuttle-gate'', ''application.pyz'']\<rparr>)"

subsection \<open>Command lines\<close>

definition ssh_options :: "ssh_config \<Rightarrow> comps \<Rightarrow> comps \<Rightarrow> string list" where
  "ssh_options s identity known_hosts =
     [''ssh'', ''-F'', ''/dev/null'', ''-p'', str_int (ssh_port s), ''-i'', show_path identity,
      ''-o'', ''BatchMode=yes'', ''-o'', ''PasswordAuthentication=no'', ''-o'', ''KbdInteractiveAuthentication=no'',
      ''-o'', ''IdentitiesOnly=yes'', ''-o'', ''StrictHostKeyChecking=yes'',
      ''-o'', ''UserKnownHostsFile='' @ show_path known_hosts,
      ''-o'', ''ConnectTimeout='' @ str_int (connect_timeout_seconds s),
      ''-o'', ''ServerAliveInterval='' @ str_int (server_alive_interval_seconds s),
      ''-o'', ''ServerAliveCountMax='' @ str_int (server_alive_count_max s),
      ''-o'', ''LogLevel=ERROR'']"

definition ssh_arguments :: "project_config \<Rightarrow> instance_paths \<Rightarrow> exn + string list" where
  "ssh_arguments config paths =
     rbind (mounted_secret_path paths (identity_file (ssh config))) (\<lambda>identity.
     rbind (mounted_secret_path paths (known_hosts_file (ssh config))) (\<lambda>known_hosts.
     Inr (ssh_options (ssh config) identity known_hosts)))"

definition ssh_target :: "project_config \<Rightarrow> string" where
  "ssh_target config = ssh_user (ssh config) @ ''@'' @ ssh_host (ssh config)"

definition sshuttle_target :: "project_config \<Rightarrow> string" where
  "sshuttle_target config = ssh_user (ssh config) @ ''@'' @ render_host (ssh_host (ssh config)) @ '':''
     @ str_int (ssh_port (ssh config))"

definition remote_check_command :: "project_config \<Rightarrow> string" where
  "remote_check_command config = shlex_join
     [''sh'', ''-c'', REMOTE_PYTHON_CHECK_SCRIPT, ''shuttle-gate-python-check'', remote_python (ssh config),
      REMOTE_PYTHON_CHECK_CODE]"

definition has_family :: "project_config \<Rightarrow> nat \<Rightarrow> bool" where
  "has_family config v \<longleftrightarrow> v \<in> set (map if_version (gateway_addresses (wireguard config)))"

definition route_families :: "project_config \<Rightarrow> nat list" where
  "route_families config = sort (remdups (map net_version (effective_routes config)))"

definition exclusions :: "project_config \<Rightarrow> string list" where
  "exclusions config =
     filter (\<lambda>n. (CHR '':'' \<in> set n \<and> has_family config 6) \<or> (CHR '':'' \<notin> set n \<and> has_family config 4))
       MULTICAST_EXCLUSIONS
     @ map (\<lambda>g. str_network (if_network g)) (gateway_addresses (wireguard config))"

definition sshuttle_arguments :: "string \<Rightarrow> project_config \<Rightarrow> instance_paths \<Rightarrow> exn + string list" where
  "sshuttle_arguments executable config paths = rbind (ssh_arguments config paths) (\<lambda>ssh_args. Inr
     ([executable, ''-m'', ''shuttle_gate.sshuttle_entry'', ''--method'', ''tproxy'', ''--tmark'', TPROXY_MARK,
       ''--listen'', join '','' ((if has_family config 4 then [''0.0.0.0:0''] else [])
                             @ (if has_family config 6 then [''[::]:0''] else [])),
       ''--remote'', sshuttle_target config, ''--python'', remote_python (ssh config),
       ''--ssh-cmd'', shlex_join ssh_args]
      @ (if verbose (backend config) then [''--verbose''] else [])
      @ concat (map (\<lambda>n. [''--exclude'', n]) (exclusions config))
      @ map str_network (effective_routes config)))"

definition quoted :: "string \<Rightarrow> string" where
  "quoted s = double_quote # s @ [double_quote]"

definition nft_filter :: string where
  "nft_filter = text_lines
     [''table inet '' @ NFT_TABLE @ '' {'',
      ''  chain input {'',
      ''    type filter hook input priority filter; policy accept;'',
      ''    iifname '' @ quoted INTERFACE @ '' meta mark != '' @ TPROXY_MARK @ '' counter drop comment ''
        @ quoted ''direct WireGuard access to namespace'',
      ''  }'',
      ''  chain forward {'',
      ''    type filter hook forward priority filter; policy drop;'',
      ''    iifname '' @ quoted INTERFACE @ '' counter drop comment '' @ quoted ''uncaptured WireGuard traffic'',
      ''    counter drop'',
      ''  }'',
      ''}'']"

definition wireguard_number :: "string \<Rightarrow> string \<Rightarrow> bool \<Rightarrow> exn + int" where
  "wireguard_number value label allow_off =
     (if allow_off \<and> value = ''off'' then Inr 0
      else (case py_int value of
          None \<Rightarrow> Inl (RuntimeFailure (''WireGuard reported an invalid '' @ label))
        | Some n \<Rightarrow> if n < 0 then Inl (RuntimeFailure (''WireGuard reported an invalid '' @ label)) else Inr n))"

subsection \<open>The gateway\<close>

datatype event =
    Issued "string list" "string option"
  | Completed "string list"
  | Spawned "string list"
  | Announced
  | Terminated
  | Killed

record gateway =
  gw_world :: world
  gw_child :: "nat option"
  gw_trace :: "event list"
  gw_polls :: "int option list"
  gw_waits :: "(exn + int) list"

type_synonym 'a gio = "(gateway, 'a) prog"

definition in_world :: "'a io \<Rightarrow> 'a gio" where
  "in_world m = (\<lambda>g. case m (gw_world g) of (r, w) \<Rightarrow> (r, g\<lparr>gw_world := w\<rparr>))"

definition log_event :: "event \<Rightarrow> unit gio" where
  "log_event e = (\<lambda>g. (Ret (), g\<lparr>gw_trace := gw_trace g @ [e]\<rparr>))"

text \<open>The next answer of the child: \<open>None\<close> while it runs, else its exit status.\<close>

definition poll :: "int option gio" where
  "poll = (\<lambda>g. case gw_polls g of [] \<Rightarrow> (Halt, g) | a # as \<Rightarrow> (Ret a, g\<lparr>gw_polls := as\<rparr>))"

definition await_child :: "unit gio" where
  "await_child = (\<lambda>g. case gw_waits g of
       [] \<Rightarrow> (Halt, g)
     | Inl e # as \<Rightarrow> (Exn e, g\<lparr>gw_waits := as\<rparr>)
     | Inr n # as \<Rightarrow> (Ret (), g\<lparr>gw_waits := as\<rparr>))"

text \<open>
  The fields of a \<open>GatewayRuntime\<close> that do not change, and what it reaches outside: the
  runner, \<open>Popen\<close> (a process number), the notification socket, whose \<open>recv\<close> gives the
  inbox in turn, \<open>time.monotonic\<close> (milliseconds) and the stop event's answers.
\<close>

record gateway_runtime =
  rt_config :: project_config
  rt_paths :: instance_paths
  rt_dir :: comps
  rt_launch_id :: string
  rt_sysctl_root :: "comps option"
  rt_runner :: runner
  rt_executable :: string
  rt_popen :: "string list \<Rightarrow> (string \<times> string) list \<Rightarrow> nat io"
  rt_notify_open :: "comps \<Rightarrow> unit io"
  rt_notify_close :: "unit io"
  rt_inbox :: "(exn + string) list"
  rt_clock :: "nat list"
  rt_stops :: "bool list"

definition run_command :: "gateway_runtime \<Rightarrow> string list \<Rightarrow> run_options \<Rightarrow> command_result gio" where
  "run_command rt command opts =
     then_do (log_event (Issued command (input_text opts)))
    (bind (in_world (rt_runner rt command opts)) (\<lambda>r.
     then_do (log_event (Completed command)) (ret r)))"

definition child_running :: "bool gio" where
  "child_running = bind (gets gw_child) (\<lambda>c. case c of
       None \<Rightarrow> ret False | Some _ \<Rightarrow> bind poll (\<lambda>p. ret (p = None)))"

subsection \<open>Status\<close>

definition optional_str :: "string option \<Rightarrow> json" where
  "optional_str s = (case s of None \<Rightarrow> JNull | Some t \<Rightarrow> JStr t)"

definition peer_entry :: "(string \<times> string) list \<Rightarrow> string list \<Rightarrow> exn + json" where
  "peer_entry peer_names columns =
     rbind (wireguard_number (columns ! 4) ''handshake time'' False) (\<lambda>handshake.
     rbind (wireguard_number (columns ! 5) ''received byte count'' False) (\<lambda>received.
     rbind (wireguard_number (columns ! 6) ''sent byte count'' False) (\<lambda>sent.
     rbind (wireguard_number (columns ! 7) ''persistent keepalive'' True) (\<lambda>keepalive.
     Inr (JObj
      [(''name'', JStr (case map_of peer_names (columns ! 0) of None \<Rightarrow> ''unknown'' | Some n \<Rightarrow> n)),
       (''public_key'', JStr (columns ! 0)),
       (''endpoint'', if columns ! 2 = [] \<or> columns ! 2 = ''(none)'' then JNull else JStr (columns ! 2)),
       (''allowed_ips'', JList (if columns ! 3 = [] then [] else map JStr (split_on (CHR '','') (columns ! 3)))),
       (''latest_handshake'', JInt handshake), (''received_bytes'', JInt received), (''sent_bytes'', JInt sent),
       (''persistent_keepalive'', JInt keepalive)])))))"

fun peer_entries :: "(string \<times> string) list \<Rightarrow> string list \<Rightarrow> exn + json list" where
  "peer_entries peer_names [] = Inr []"
| "peer_entries peer_names (line # ls) =
     (let columns = split_on (CHR 0x09) line in
      if length columns < 8 then peer_entries peer_names ls
      else rbind (peer_entry peer_names columns) (\<lambda>e.
           rbind (peer_entries peer_names ls) (\<lambda>es. Inr (e # es))))"

text \<open>Of two peers with one public key the last one names it.\<close>

definition peer_status :: "gateway_runtime \<Rightarrow> json list gio" where
  "peer_status rt =
     bind (in_world (map_each (\<lambda>peer.
        bind (load_peer_keys (rt_paths rt) (peer_name peer)) (\<lambda>(pair, preshared).
        ret (key_public pair, peer_name peer))) (peers (wireguard (rt_config rt))))) (\<lambda>names.
     bind (run_command rt [''wg'', ''show'', INTERFACE, ''dump''] default_options) (\<lambda>r.
     in_world (lift (peer_entries (rev names) (drop 1 (splitlines (cr_stdout r)))))))"

definition status_value :: "gateway_runtime \<Rightarrow> string \<Rightarrow> nat option \<Rightarrow> json list \<Rightarrow> string option \<Rightarrow> json" where
  "status_value rt state child entries error = JObj
     ([(''schema_version'', JInt 2), (''launch_id'', JStr (rt_launch_id rt)), (''state'', JStr state),
       (''sshuttle_pid'', case child of None \<Rightarrow> JNull | Some pid \<Rightarrow> JInt (int pid)),
       (''health'', JStr (if state = ''ready'' then ''ok'' else ''degraded'')),
       (''wireguard_interface'', JStr INTERFACE),
       (''routes'', JList (map (JStr \<circ> str_network) (effective_routes (rt_config rt)))),
       (''peers'', JList entries)]
      @ (case error of None \<Rightarrow> [] | Some m \<Rightarrow> [(''error'', JStr (take 4096 m))]))"

definition write_status :: "gateway_runtime \<Rightarrow> string \<Rightarrow> bool \<Rightarrow> string option \<Rightarrow> unit gio" where
  "write_status rt state ignore_errors error =
     bind (gets gw_child) (\<lambda>child.
     bind (if state = ''ready'' then peer_status rt else ret []) (\<lambda>entries.
     try_except
       (in_world (atomic_write_json (rt_dir rt @ [GATEWAY_STATUS]) (status_value rt state child entries error) 0x180))
       (\<lambda>e. is_OSError e \<and> ignore_errors) (\<lambda>_. ret ())))"

subsection \<open>Cleaning up\<close>

text \<open>\<open>except Exception\<close> and \<open>except BaseException\<close>.\<close>

fun is_Exception :: "exn \<Rightarrow> bool" where
  "is_Exception KeyboardInterrupt = False"
| "is_Exception (SystemExit _) = False"
| "is_Exception _ = True"

definition stop_process :: "nat option \<Rightarrow> unit gio" where
  "stop_process process = (case process of
       None \<Rightarrow> ret ()
     | Some _ \<Rightarrow> bind poll (\<lambda>p.
         if p \<noteq> None then ret ()
         else then_do (log_event Terminated)
           (try_except await_child is_TimeoutExpired (\<lambda>_. then_do (log_event Killed) await_child))))"

definition cleanup_commands :: "string list list" where
  "cleanup_commands =
     [''nft'', ''delete'', ''table'', ''inet'', NFT_TABLE]
     # concat (map (\<lambda>family.
        [[''ip'', family, ''rule'', ''del'', ''fwmark'', TPROXY_MARK, ''lookup'', TPROXY_TABLE,
          ''priority'', TPROXY_PRIORITY],
         [''ip'', family, ''route'', ''flush'', ''table'', TPROXY_TABLE]]) [''-6'', ''-4''])
     @ [[''ip'', ''link'', ''del'', ''dev'', INTERFACE]]"

text \<open>One independent effect: its failure is noted and the cleanup goes on.\<close>

definition collect_failure :: "unit gio \<Rightarrow> bool gio" where
  "collect_failure m = try_except (then_do m (ret False)) is_Exception (\<lambda>_. ret True)"

definition cleanup :: "gateway_runtime \<Rightarrow> unit gio" where
  "cleanup rt =
     then_do (write_status rt ''stopping'' True None)
    (bind (gets gw_child) (\<lambda>child.
     bind (collect_failure (stop_process child)) (\<lambda>f.
     then_do (\<lambda>g. (Ret (), g\<lparr>gw_child := None\<rparr>))
    (bind (map_each (\<lambda>command. collect_failure (then_do (run_command rt command tolerant) (ret ())))
        cleanup_commands) (\<lambda>fs.
     if f \<or> list_ex id fs
     then raise (RuntimeFailure ''cleanup was incomplete; namespace destruction is the final boundary'')
     else ret ())))))"

subsection \<open>Starting\<close>

text \<open>\<open>Path.write_text\<close> and \<open>Path.chmod\<close>, which follow a last link.\<close>

definition write_text :: "comps \<Rightarrow> string \<Rightarrow> unit io" where
  "write_text p s = bind (gets (\<lambda>w. follow_to 40 w p)) (\<lambda>q.
     bind (os_open_creat q 0x1B6) (\<lambda>fd. try_finally (os_write fd s) (os_close fd)))"

definition chmod_follow :: "comps \<Rightarrow> nat \<Rightarrow> unit io" where
  "chmod_follow p m = bind (gets (\<lambda>w. follow_to 40 w p)) (\<lambda>q. os_chmod q m)"

definition namespace_sysctls :: "project_config \<Rightarrow> (comps \<times> string) list" where
  "namespace_sysctls config =
     [([''net'', ''ipv4'', ''ip_unprivileged_port_start''], ''0'' @ [CHR 0x0A])]
     @ (if 4 \<in> set (route_families config) then
          [([''net'', ''ipv4'', ''conf'', ''all'', ''src_valid_mark''], ''0'' @ [CHR 0x0A]),
           ([''net'', ''ipv4'', ''conf'', ''default'', ''src_valid_mark''], ''0'' @ [CHR 0x0A])] else [])
     @ (if 6 \<in> set (route_families config) then
          [([''net'', ''ipv6'', ''bindv6only''], ''1'' @ [CHR 0x0A])] else [])"

definition configure_namespace :: "gateway_runtime \<Rightarrow> unit gio" where
  "configure_namespace rt = (case rt_sysctl_root rt of
       None \<Rightarrow> ret ()
     | Some root \<Rightarrow> in_world (for_each (\<lambda>(relative, value).
         try_except (write_text (root @ relative) value) is_OSError
           (\<lambda>e. raise (RuntimeFailure (''cannot configure namespace sysctl '' @ join ''/'' relative @ '': '' @ exn_str e))))
         (namespace_sysctls (rt_config rt))))"

definition remote_python_check :: "project_config \<Rightarrow> instance_paths \<Rightarrow> (string list \<Rightarrow> run_options \<Rightarrow> ('w, 'a) prog) \<Rightarrow> ('w, 'a) prog" where
  "remote_python_check config paths run =
     bind (lift (ssh_arguments config paths)) (\<lambda>ssh_args.
     run (ssh_args @ [''--'', ssh_target config, remote_check_command config])
       (default_options\<lparr>run_timeout := nat (connect_timeout_seconds (ssh config) + 10)\<rparr>))"

definition check_remote :: "gateway_runtime \<Rightarrow> command_result gio" where
  "check_remote rt = try_except (remote_python_check (rt_config rt) (rt_paths rt) (run_command rt))
     (\<lambda>e. \<exists>m. e = CommandError m) (\<lambda>e. raise (TransientRuntimeFailure (exn_str e)))"

definition family_flag :: "nat \<Rightarrow> string" where
  "family_flag v = (if v = 6 then ''-6'' else ''-4'')"

definition setup_wireguard :: "gateway_runtime \<Rightarrow> unit gio" where
  "setup_wireguard rt =
     (let config = rt_config rt; run = run_command rt in
      then_do (run [''ip'', ''link'', ''del'', ''dev'', INTERFACE] tolerant)
     (then_do (run [''ip'', ''link'', ''add'', ''dev'', INTERFACE, ''type'', ''wireguard''] default_options)
     (then_do (for_each (\<lambda>i. then_do (run [''ip'', family_flag (if_version i), ''address'', ''add'', str_interface i,
          ''dev'', INTERFACE] default_options) (ret ())) (gateway_addresses (wireguard config)))
     (bind (in_world (load_server_keys (rt_paths rt))) (\<lambda>server.
      bind (in_world (map_each (\<lambda>peer.
         bind (load_peer_keys (rt_paths rt) (peer_name peer)) (\<lambda>(pair, preshared).
         ret (peer_name peer, key_public pair, preshared))) (peers (wireguard config)))) (\<lambda>peer_keys.
      bind (in_world (lift (render_server_config config (key_private server) (rev peer_keys)))) (\<lambda>private_config.
      let config_path = rt_dir rt @ [''wireguard.conf''] in
      then_do (in_world (atomic_write config_path private_config 0x180))
     (then_do (run [''wg'', ''setconf'', INTERFACE, show_path config_path] default_options)
     (then_do (run [''ip'', ''link'', ''set'', ''dev'', INTERFACE, ''mtu'', str_int (mtu (wireguard config))] default_options)
      (ret ()))))))))))"

definition policy_rule :: "string \<Rightarrow> string \<Rightarrow> string list" where
  "policy_rule family verb = [''ip'', family, ''rule'', verb, ''fwmark'', TPROXY_MARK, ''lookup'', TPROXY_TABLE,
     ''priority'', TPROXY_PRIORITY]"

definition setup_policy_routing :: "gateway_runtime \<Rightarrow> unit gio" where
  "setup_policy_routing rt = for_each (\<lambda>v.
     let family = family_flag v in
     then_do (run_command rt (policy_rule family ''del'') tolerant)
    (then_do (run_command rt [''ip'', family, ''route'', ''replace'', ''local'', ''default'', ''dev'', ''lo'',
        ''table'', TPROXY_TABLE] default_options)
    (then_do (run_command rt (policy_rule family ''add'') default_options) (ret ()))))
     (route_families (rt_config rt))"

definition contains :: "string \<Rightarrow> string \<Rightarrow> bool" where
  "contains needle s \<longleftrightarrow> list_ex (\<lambda>k. startswith (drop k s) needle) [0 ..< Suc (length s)]"

definition startup_failure :: "int \<Rightarrow> exn" where
  "startup_failure status =
     (let message = ''sshuttle exited during startup with status '' @ str_int status in
      if status = ADAPTER_FAILURE_EXIT then RuntimeFailure message else TransientRuntimeFailure message)"

text \<open>
  \<open>recv\<close> with its time limit: \<open>TimeoutExpired\<close> stands for the \<open>TimeoutError\<close> of a quarter
  of a second without a message. An empty inbox ends the observation.
\<close>

fun await_ready :: "gateway_runtime \<Rightarrow> nat \<Rightarrow> nat list \<Rightarrow> (exn + string) list \<Rightarrow> unit gio" where
  "await_ready rt deadline [] inbox = (\<lambda>g. (Halt, g))"
| "await_ready rt deadline (t # ts) inbox =
     (if \<not> t < deadline then
        raise (TransientRuntimeFailure (''sshuttle did not become ready within ''
          @ str_int (startup_timeout_seconds (backend (rt_config rt))) @ ''s''))
      else bind poll (\<lambda>p. case p of
          Some status \<Rightarrow> raise (startup_failure status)
        | None \<Rightarrow> (case inbox of
              [] \<Rightarrow> (\<lambda>g. (Halt, g))
            | Inl e # later \<Rightarrow> if is_TimeoutExpired e then await_ready rt deadline ts later else raise e
            | Inr message # later \<Rightarrow>
                if contains ''READY=1'' message then log_event Announced else await_ready rt deadline ts later)))"

definition spawn_sshuttle :: "gateway_runtime \<Rightarrow> comps \<Rightarrow> unit gio" where
  "spawn_sshuttle rt notify_path =
     bind (in_world (gets (\<lambda>w. (''NOTIFY_SOCKET'', show_path notify_path)
        # filter (\<lambda>(k, v). k \<noteq> ''NOTIFY_SOCKET'') (environ w)))) (\<lambda>environment.
     bind (in_world (lift (sshuttle_arguments (rt_executable rt) (rt_config rt) (rt_paths rt)))) (\<lambda>command.
     bind (in_world (rt_popen rt command environment)) (\<lambda>pid.
     then_do (\<lambda>g. (Ret (), g\<lparr>gw_child := Some pid\<rparr>)) (log_event (Spawned command)))))"

definition startup_deadline :: "gateway_runtime \<Rightarrow> nat \<Rightarrow> nat" where
  "startup_deadline rt t = t + 1000 * nat (startup_timeout_seconds (backend (rt_config rt)))"

definition start_sshuttle :: "gateway_runtime \<Rightarrow> unit gio" where
  "start_sshuttle rt =
     (let notify_path = rt_dir rt @ [NOTIFY_FILE] in
      then_do (in_world (unlink_missing_ok notify_path))
     (try_finally
       (then_do (in_world (rt_notify_open rt notify_path))
       (then_do (spawn_sshuttle rt notify_path)
        (case rt_clock rt of
           [] \<Rightarrow> (\<lambda>g. (Halt, g))
         | t # ts \<Rightarrow> await_ready rt (startup_deadline rt t) ts (rt_inbox rt))))
       (then_do (in_world (rt_notify_close rt)) (in_world (unlink_missing_ok notify_path)))))"

definition activation_command :: "string list" where
  "activation_command = [''ip'', ''link'', ''set'', ''dev'', INTERFACE, ''up'']"

definition activate_wireguard :: "gateway_runtime \<Rightarrow> unit gio" where
  "activate_wireguard rt = then_do (run_command rt activation_command default_options) (ret ())"

definition postcondition_commands :: "string list list" where
  "postcondition_commands =
     [[''ip'', ''link'', ''show'', ''dev'', INTERFACE], [''wg'', ''show'', INTERFACE, ''dump''],
      [''nft'', ''list'', ''table'', ''inet'', NFT_TABLE]]"

definition verify_postconditions :: "gateway_runtime \<Rightarrow> unit gio" where
  "verify_postconditions rt =
     bind child_running (\<lambda>alive.
     then_do (require alive (RuntimeFailure ''sshuttle is not running after startup''))
     (for_each (\<lambda>c. then_do (run_command rt c default_options) (ret ())) postcondition_commands))"

definition load_filter :: "gateway_runtime \<Rightarrow> unit gio" where
  "load_filter rt =
     then_do (run_command rt [''nft'', ''--check'', ''--file'', ''-''] (feeding nft_filter))
    (then_do (run_command rt [''nft'', ''--file'', ''-''] (feeding nft_filter)) (ret ()))"

definition bring_up :: "gateway_runtime \<Rightarrow> unit gio" where
  "bring_up rt =
     then_do (configure_namespace rt)
    (then_do (check_remote rt)
    (then_do (load_filter rt)
    (then_do (setup_wireguard rt)
    (then_do (setup_policy_routing rt)
    (then_do (start_sshuttle rt)
    (then_do (activate_wireguard rt)
    (then_do (verify_postconditions rt)
     (write_status rt ''ready'' False None))))))))"

definition start :: "gateway_runtime \<Rightarrow> unit gio" where
  "start rt =
     then_do (in_world (mkdir_parents (rt_dir rt) 0x1C0 True))
    (then_do (in_world (chmod_follow (rt_dir rt) 0x1C0))
    (then_do (cleanup rt)
    (then_do (write_status rt ''starting'' False None)
     (try_except (bring_up rt) (\<lambda>_. True)
       (\<lambda>e. then_do (suppress is_RuntimeFailure (cleanup rt)) (raise e))))))"

subsection \<open>Supervision\<close>

text \<open>Each answer of \<open>stopping.wait(1.0)\<close>: whether a stop was requested meanwhile.\<close>

fun supervise :: "gateway_runtime \<Rightarrow> bool list \<Rightarrow> unit gio" where
  "supervise rt [] = (\<lambda>g. (Halt, g))"
| "supervise rt (stop # stops) =
     (if stop then ret ()
      else bind child_running (\<lambda>alive.
        then_do (require alive (TransientRuntimeFailure ''sshuttle exited unexpectedly''))
       (then_do (write_status rt ''ready'' False None)
        (supervise rt stops))))"

fun is_Transient :: "exn \<Rightarrow> bool" where
  "is_Transient (TransientRuntimeFailure _) = True"
| "is_Transient _ = False"

text \<open>\<open>type(exc).__name__\<close> of the exceptions that are not the application's.\<close>

fun os_error_name :: "errno \<Rightarrow> string" where
  "os_error_name ENOENT = ''FileNotFoundError''"
| "os_error_name EEXIST = ''FileExistsError''"
| "os_error_name ENOTDIR = ''NotADirectoryError''"
| "os_error_name EISDIR = ''IsADirectoryError''"
| "os_error_name EAGAIN = ''BlockingIOError''"
| "os_error_name EACCES = ''PermissionError''"
| "os_error_name EPERM = ''PermissionError''"
| "os_error_name ESRCH = ''ProcessLookupError''"
| "os_error_name _ = ''OSError''"

fun type_name :: "exn \<Rightarrow> string" where
  "type_name (OSError e) = os_error_name e"
| "type_name (ClaimError _) = ''ClaimError''"
| "type_name (ValueError _) = ''ValueError''"
| "type_name UnicodeError = ''UnicodeDecodeError''"
| "type_name JSONDecodeError = ''JSONDecodeError''"
| "type_name (KeyError _) = ''KeyError''"
| "type_name TypeError = ''TypeError''"
| "type_name IndexError = ''IndexError''"
| "type_name AttributeError = ''AttributeError''"
| "type_name StructError = ''error''"
| "type_name (TimeoutExpired _) = ''TimeoutExpired''"
| "type_name (Fatal _) = ''Fatal''"
| "type_name (SystemExit _) = ''SystemExit''"
| "type_name KeyboardInterrupt = ''KeyboardInterrupt''"
| "type_name _ = ''ShuttleGateError''"

definition terminal_state :: "exn \<Rightarrow> string" where
  "terminal_state e = (if is_Transient e then ''retrying'' else ''failed'')"

definition failure_message :: "exn \<Rightarrow> exn option \<Rightarrow> string" where
  "failure_message e cleanup_error =
     (if is_ShuttleGateError e then exn_str e else ''unexpected runtime failure: '' @ type_name e)
     @ (case cleanup_error of None \<Rightarrow> [] | Some c \<Rightarrow> ''; '' @ exn_str c)"

definition session :: "gateway_runtime \<Rightarrow> int gio" where
  "session rt =
     then_do (try_except (then_do (start rt) (supervise rt (rt_stops rt))) (\<lambda>_. True)
       (\<lambda>e. bind (try_except (then_do (cleanup rt) (ret None)) is_RuntimeFailure (\<lambda>c. ret (Some c))) (\<lambda>cleanup_error.
          then_do (write_status rt (terminal_state e) True (Some (failure_message e cleanup_error)))
          (raise e))))
    (then_do (cleanup rt)
    (then_do (write_status rt ''stopped'' True None)
     (ret 0)))"

definition in_gateway :: "(world \<Rightarrow> gateway) \<Rightarrow> 'a gio \<Rightarrow> 'a io" where
  "in_gateway g m = (\<lambda>w. case m ((g w)\<lparr>gw_world := w\<rparr>) of (r, g') \<Rightarrow> (r, gw_world g'))"

text \<open>
  \<open>run_gateway\<close>: \<open>load\<close> is \<open>load_config\<close>, \<open>build\<close> makes the runtime object from the
  configuration, the paths of the locked view, the runtime directory and the launch id.
\<close>

definition run_gateway ::
  "(string \<Rightarrow> string) \<Rightarrow> (comps \<Rightarrow> project_config io)
   \<Rightarrow> (project_config \<Rightarrow> instance_paths \<Rightarrow> comps \<Rightarrow> string \<Rightarrow> gateway_runtime) \<Rightarrow> (world \<Rightarrow> gateway) \<Rightarrow> int io" where
  "run_gateway sha256_hex load build g =
     bind fixed_paths (\<lambda>sp.
     bind (load (sp_config sp)) (\<lambda>config.
     locked_state_view (sp_paths sp) True False True (\<lambda>view.
       bind (validate_launch_manifest sha256_hex config (view_paths view) (view_generation view)
          (sp_launch sp) (sp_bundle sp)) (\<lambda>manifest.
       case jget manifest ''launch_id'' of
         Some (JStr launch_id) \<Rightarrow> in_gateway g (session (build config (view_paths view) (sp_runtime sp) launch_id))
       | _ \<Rightarrow> raise (RuntimeFailure ''launch identifier is invalid'')))))"

subsection \<open>Health and diagnosis\<close>

definition read_runtime_status :: "comps \<Rightarrow> json io" where
  "read_runtime_status runtime_dir =
     (let path = runtime_dir @ [GATEWAY_STATUS] in
      bind (try_except
         (bind (os_lstat path) (\<lambda>info.
          then_do (require (is_file_node (Some info) \<and> 0 < node_size info \<and> node_size info \<le> 64 * 1024)
            (RuntimeFailure ''runtime status must be a bounded regular file''))
          (bind (read_text_utf8 path) (\<lambda>t. lift (loads t)))))
         is_load_error
         (\<lambda>e. raise (RuntimeFailure (''runtime status is unavailable: '' @ exn_str e)))) (\<lambda>value.
      then_do (require (is_JObj value \<and> json_is_int (jget value ''schema_version'') 2)
        (RuntimeFailure ''runtime status has an invalid format''))
      (ret value)))"

definition runtime_status :: "json io" where
  "runtime_status = bind fixed_paths (\<lambda>sp. read_runtime_status (sp_runtime sp))"

definition json_pid :: "json option \<Rightarrow> int option" where
  "json_pid v = (case v of Some (JInt n) \<Rightarrow> Some n | Some (JBool b) \<Rightarrow> Some (if b then 1 else 0) | _ \<Rightarrow> None)"

fun all_zero :: "runner \<Rightarrow> string list list \<Rightarrow> bool io" where
  "all_zero run [] = ret True"
| "all_zero run (c # cs) = bind (run c tolerant) (\<lambda>r. if returncode r \<noteq> 0 then ret False else all_zero run cs)"

fun all_marked :: "runner \<Rightarrow> nat list \<Rightarrow> bool io" where
  "all_marked run [] = ret True"
| "all_marked run (v # vs) =
     bind (run [''ip'', family_flag v, ''rule'', ''show'', ''priority'', TPROXY_PRIORITY] tolerant) (\<lambda>r.
     if \<not> contains ''fwmark 0x1 lookup 100'' (cr_stdout r) then ret False else all_marked run vs)"

text \<open>\<open>os.kill(pid, 0)\<close> is the parameter \<open>probe\<close>.\<close>

definition healthcheck :: "(comps \<Rightarrow> project_config io) \<Rightarrow> (int \<Rightarrow> unit io) \<Rightarrow> runner \<Rightarrow> int io" where
  "healthcheck load probe run =
     bind fixed_paths (\<lambda>sp.
     try_except
       (bind (load (sp_config sp)) (\<lambda>config.
        bind (read_runtime_status (sp_runtime sp)) (\<lambda>status.
        if jget status ''state'' \<noteq> Some (JStr ''ready'') then ret 1
        else (case json_pid (jget status ''sshuttle_pid'') of
            None \<Rightarrow> ret 1
          | Some pid \<Rightarrow>
              then_do (probe pid)
             (bind (all_zero run [[''ip'', ''link'', ''show'', ''dev'', INTERFACE],
                                  [''nft'', ''list'', ''table'', ''inet'', NFT_TABLE]]) (\<lambda>checks.
              if \<not> checks then ret 1
              else bind (all_marked run (route_families config)) (\<lambda>marked. ret (if marked then 0 else 1))))))))
       (\<lambda>e. is_OSError e \<or> is_RuntimeFailure e) (\<lambda>_. ret 1))"

definition doctor_interface :: string where
  "doctor_interface = ''sg-doctor0''"

definition doctor_subnets :: "nat \<Rightarrow> nat \<times> int \<times> subnet list" where
  "doctor_subnets v =
     (if v = 4 then (AF_INET, 12001, [\<lparr>sn_family = AF_INET, sn_width = 8, sn_exclude = False,
         sn_network = ''10.0.0.0'', sn_first = 0, sn_last = 0\<rparr>])
      else (AF_INET6, 12002, [\<lparr>sn_family = AF_INET6, sn_width = 48, sn_exclude = False,
         sn_network = ''fd00::'', sn_first = 0, sn_last = 0\<rparr>]))"

definition doctor_tproxy :: "runner \<Rightarrow> nat \<Rightarrow> unit io" where
  "doctor_tproxy run v = (case doctor_subnets v of (family, port, subnets) \<Rightarrow>
     bind (lift (render_tproxy_table port family subnets True ''0x7fff'')) (\<lambda>rules.
     try_finally
       (then_do (run [''nft'', ''--check'', ''--file'', ''-''] (feeding rules))
       (then_do (run [''nft'', ''--file'', ''-''] (feeding rules)) (ret ())))
       (then_do (run [''nft'', ''delete'', ''table'', if family = AF_INET then ''ip'' else ''ip6'',
          ''shuttle_gate_tproxy_'' @ str_int port] tolerant) (ret ()))))"

definition doctor_checks :: "project_config \<Rightarrow> instance_paths \<Rightarrow> runner \<Rightarrow> string list io" where
  "doctor_checks config paths run =
     then_do (try_finally
       (then_do (run [''ip'', ''link'', ''add'', ''dev'', doctor_interface, ''type'', ''wireguard''] default_options) (ret ()))
       (then_do (run [''ip'', ''link'', ''del'', ''dev'', doctor_interface] tolerant) (ret ())))
    (then_do (for_each (doctor_tproxy run) (route_families config))
    (then_do (remote_python_check config paths run)
     (ret [''kernel WireGuard: ok'',
           ''native nftables '' @ join ''/'' (map (\<lambda>f. ''IPv'' @ str_nat f) (route_families config)) @ '' TPROXY: ok'',
           ''SSH authentication and remote Python >= 3.9: ok''])))"

end
