(* ===== verification/RuntimeTrace.thy ===== *)
theory RuntimeTrace
  imports Runtime
begin

text \<open>
  The order of the gateway's effects, as a monitor that reads its trace: the filter table is
  loaded while a load has completed and no deletion was issued since, and the proxy is
  announced from its message on until it is stopped or another one is spawned. The monitor
  rejects a trace in which the WireGuard interface is activated without both.
\<close>

subsection \<open>The monitor\<close>

definition delete_filter :: "string list" where
  "delete_filter = [''nft'', ''delete'', ''table'', ''inet'', NFT_TABLE]"

definition filter_load :: "string list" where
  "filter_load = [''nft'', ''--file'', ''-'']"

fun monitor_step :: "event \<Rightarrow> bool \<times> bool \<Rightarrow> bool \<times> bool" where
  "monitor_step (Issued c i) (loaded, announced) = (loaded \<and> c \<noteq> delete_filter, announced)"
| "monitor_step (Completed c) (loaded, announced) = (loaded \<or> c = filter_load, announced)"
| "monitor_step (Spawned c) (loaded, announced) = (loaded, False)"
| "monitor_step Announced (loaded, announced) = (loaded, True)"
| "monitor_step Terminated (loaded, announced) = (loaded, False)"
| "monitor_step Killed (loaded, announced) = (loaded, False)"

fun permitted :: "bool \<times> bool \<Rightarrow> event \<Rightarrow> bool" where
  "permitted s (Issued c i) = (c = activation_command \<longrightarrow> s = (True, True))"
| "permitted s e = True"

fun monitor :: "bool \<times> bool \<Rightarrow> event list \<Rightarrow> (bool \<times> bool) option" where
  "monitor s [] = Some s"
| "monitor s (e # es) = (if permitted s e then monitor (monitor_step e s) es else None)"

lemma monitor_append: "monitor s (es @ es') = (case monitor s es of None \<Rightarrow> None | Some s' \<Rightarrow> monitor s' es')"
  by (induction s es rule: monitor.induct) auto

text \<open>The trace was accepted and ended in a state with at least these facts.\<close>

definition armed :: "bool \<Rightarrow> bool \<Rightarrow> gateway \<Rightarrow> bool" where
  "armed loaded announced g \<longleftrightarrow> (\<exists>l a. monitor (False, False) (gw_trace g) = Some (l, a)
     \<and> (loaded \<longrightarrow> l) \<and> (announced \<longrightarrow> a))"

lemma armed_weaken: "armed l a g \<Longrightarrow> armed False False g"
  by (auto simp: armed_def)

abbreviation accepted :: "gateway \<Rightarrow> bool" where
  "accepted \<equiv> armed False False"

text \<open>\<open>achieves l a m l' a'\<close>: from \<open>armed l a\<close> to \<open>armed l' a'\<close> when \<open>m\<close> returns.\<close>

definition achieves :: "bool \<Rightarrow> bool \<Rightarrow> 'a gio \<Rightarrow> bool \<Rightarrow> bool \<Rightarrow> bool" where
  "achieves l a m l' a' \<longleftrightarrow> hoare (armed l a) m (\<lambda>_. armed l' a') (\<lambda>_. accepted) accepted"

lemma achieves_bind:
  "achieves l a m l' a' \<Longrightarrow> (\<And>x. achieves l' a' (f x) l'' a'') \<Longrightarrow> achieves l a (bind m f) l'' a''"
  unfolding achieves_def by (rule hoare_bind)


abbreviation holds :: "bool \<Rightarrow> bool \<Rightarrow> 'a gio \<Rightarrow> bool" where
  "holds l a m \<equiv> achieves l a m l a"

named_theorems holds_rules

lemma achieves_weaken_pre: "achieves False False m l a \<Longrightarrow> achieves l' a' m l a"
  unfolding achieves_def by (erule hoare_pre) (rule armed_weaken)

lemma holds_silent:
  assumes "\<And>g. gw_trace (snd (m g)) = gw_trace g"
  shows "holds l a m"
  unfolding achieves_def
proof (rule hoareI)
  fix g assume g: "armed l a g"
  obtain r g' where m: "m g = (r, g')" by (cases "m g")
  with assms [of g] have "gw_trace g' = gw_trace g" by simp
  with g have "armed l a g'" by (simp add: armed_def)
  then show "case m g of (Ret b, w') \<Rightarrow> armed l a w' | (Exn e, w') \<Rightarrow> accepted w' | (Halt, w') \<Rightarrow> accepted w'"
    unfolding m by (cases r) (auto dest: armed_weaken)
qed

lemma holds_ret [holds_rules]: "holds l a (ret x)"
  and holds_raise [holds_rules]: "achieves l a (raise e) l' a'"
  and holds_gets [holds_rules]: "holds l a (gets f)"
  and holds_set_child [holds_rules]: "holds l a (\<lambda>g. (Ret (), g\<lparr>gw_child := c\<rparr>))"
  and holds_end [holds_rules]: "achieves l a (\<lambda>g. (Halt, g)) l' a'"
  by (auto simp: achieves_def hoare_def prog_defs armed_def)

lemma holds_require [holds_rules]: "holds l a (require b e)"
  by (simp add: require_def holds_ret holds_raise)

lemma holds_in_world [holds_rules]: "holds l a (in_world m)"
  by (rule holds_silent) (simp add: in_world_def split: prod.split)

lemma holds_poll [holds_rules]: "holds l a poll"
  by (rule holds_silent) (simp add: poll_def split: list.split)

lemma holds_await_child [holds_rules]: "holds l a await_child"
  by (rule holds_silent) (simp add: await_child_def split: list.split sum.split)

lemma holds_bind [holds_rules]: "holds l a m \<Longrightarrow> (\<And>x. holds l a (f x)) \<Longrightarrow> holds l a (bind m f)"
  by (rule achieves_bind)

lemma achieves_try_raise:
  "achieves l a m l' a' \<Longrightarrow> achieves l a (try_except m p (\<lambda>e. raise (h e))) l' a'"
  unfolding achieves_def
  by (rule hoare_try_except [where ?E1.0 = "\<lambda>_. accepted"]) (auto intro: hoare_raise)

lemma accepted_try [holds_rules]:
  "holds False False m \<Longrightarrow> (\<And>e. holds False False (h e)) \<Longrightarrow> holds False False (try_except m p h)"
  unfolding achieves_def by (rule hoare_try_except [where ?E1.0 = "\<lambda>_. accepted"]) auto

lemma achieves_finally:
  assumes "achieves l a m l' a'" and "\<And>b c. holds b c f"
  shows "achieves l a (try_finally m f) l' a'"
  using assms unfolding achieves_def
  by (intro hoare_try_finally [where ?Q1.0 = "\<lambda>_. armed l' a'" and ?E1.0 = "\<lambda>_. accepted"]) auto

lemma holds_suppress [holds_rules]: "holds False False m \<Longrightarrow> holds False False (suppress p m)"
  unfolding suppress_def by (intro holds_rules)

lemma holds_for_each [holds_rules]: "(\<And>x. holds l a (f x)) \<Longrightarrow> holds l a (for_each f xs)"
  by (induction xs) (auto intro: holds_rules)

lemma holds_map_each [holds_rules]: "(\<And>x. x \<in> set xs \<Longrightarrow> holds l a (f x)) \<Longrightarrow> holds l a (map_each f xs)"
proof (induction xs)
  case (Cons x xs)
  then have "holds l a (map_each f xs)" by simp
  with Cons.prems show ?case by (auto intro!: holds_bind holds_ret)
qed (simp add: holds_ret)

lemma holds_if [holds_rules]: "(b \<Longrightarrow> holds l a m) \<Longrightarrow> (\<not> b \<Longrightarrow> holds l a m') \<Longrightarrow> holds l a (if b then m else m')"
  by simp

lemma holds_option [holds_rules]:
  "holds l a m \<Longrightarrow> (\<And>y. holds l a (f y)) \<Longrightarrow> holds l a (case x of None \<Rightarrow> m | Some y \<Rightarrow> f y)"
  by (cases x) auto

subsection \<open>Events\<close>

lemma armed_event:
  assumes "armed l a g"
    and "\<And>x y. (l \<longrightarrow> x) \<Longrightarrow> (a \<longrightarrow> y) \<Longrightarrow> permitted (x, y) e
      \<and> (l' \<longrightarrow> fst (monitor_step e (x, y))) \<and> (a' \<longrightarrow> snd (monitor_step e (x, y)))"
  shows "armed l' a' (g\<lparr>gw_trace := gw_trace g @ [e]\<rparr>)"
proof -
  from assms(1) obtain x y where m: "monitor (False, False) (gw_trace g) = Some (x, y)" "l \<longrightarrow> x" "a \<longrightarrow> y"
    by (auto simp: armed_def)
  obtain x' y' where s: "monitor_step e (x, y) = (x', y')" by (cases "monitor_step e (x, y)")
  from assms(2) [OF m(2,3)] s show ?thesis by (auto simp: armed_def monitor_append m(1))
qed

lemma achieves_log:
  assumes "\<And>x y. (l \<longrightarrow> x) \<Longrightarrow> (a \<longrightarrow> y) \<Longrightarrow> permitted (x, y) e
      \<and> (l' \<longrightarrow> fst (monitor_step e (x, y))) \<and> (a' \<longrightarrow> snd (monitor_step e (x, y)))"
  shows "achieves l a (log_event e) l' a'"
  unfolding achieves_def
  by (rule hoareI) (simp add: log_event_def armed_event [OF _ assms])

lemma achieves_command:
  assumes "command = activation_command \<Longrightarrow> l \<and> a" and "command = delete_filter \<Longrightarrow> \<not> l"
    and "l' \<Longrightarrow> l \<or> command = filter_load"
  shows "achieves l a (run_command rt command opts) l' a"
proof -
  have "achieves l a (log_event (Issued command (input_text opts))) l a"
    using assms(1,2) by (intro achieves_log) auto
  moreover have "achieves l a (log_event (Completed command)) l' a"
    using assms(3) by (intro achieves_log) auto
  ultimately show ?thesis
    unfolding run_command_def by (blast intro: achieves_bind holds_in_world holds_ret)
qed

lemmas command_names = activation_command_def delete_filter_def filter_load_def INTERFACE_def
  PROXY_INGRESS_INTERFACE_def

lemma holds_command [holds_rules]:
  "command \<noteq> activation_command \<Longrightarrow> command \<noteq> delete_filter \<Longrightarrow> holds l a (run_command rt command opts)"
  by (rule achieves_command) auto

lemma accepted_command [holds_rules]:
  "command \<noteq> activation_command \<Longrightarrow> holds False False (run_command rt command opts)"
  by (rule achieves_command) auto


subsection \<open>The steps of the gateway\<close>

lemma holds_write_status [holds_rules]: "holds l a (write_status rt state ignore error)"
proof -
  have "holds l a (try_except (in_world m) p (\<lambda>_. ret ()))" for m :: "unit io" and p
    by (rule holds_silent) (auto simp: try_except_def in_world_def ret_def split: prod.split outcome.split)
  moreover have "holds l a (peer_status rt)"
    unfolding peer_status_def by (intro holds_rules) (simp_all add: command_names)
  ultimately show ?thesis
    unfolding write_status_def by (intro holds_rules)
qed

lemma accepted_stop_process [holds_rules]: "holds False False (stop_process process)"
proof -
  have "holds False False (log_event Terminated)" "holds False False (log_event Killed)"
    by (rule achieves_log; simp)+
  then show ?thesis unfolding stop_process_def by (intro holds_rules)
qed

lemma cleanup_commands_other: "command \<in> set cleanup_commands \<Longrightarrow> command \<noteq> activation_command"
  by (auto simp: cleanup_commands_def command_names)

lemma accepted_cleanup [holds_rules]: "holds False False (cleanup rt)"
  unfolding cleanup_def collect_failure_def
  by (intro holds_rules) (auto dest: cleanup_commands_other)

lemma holds_configure [holds_rules]: "holds l a (configure_namespace rt)"
  unfolding configure_namespace_def by (intro holds_rules)

lemma holds_check_remote [holds_rules]: "holds l a (check_remote rt)"
proof -
  have "holds l a (remote_python_check (rt_config rt) (rt_paths rt) (run_command rt))"
  proof (cases "ssh_arguments (rt_config rt) (rt_paths rt)")
    case (Inr args)
    then have "hd args = ''ssh'' \<and> args \<noteq> []"
      by (auto simp: ssh_arguments_def rbind_eq_Inr ssh_options_def)
    then show ?thesis
      unfolding remote_python_check_def Inr
      by (cases args) (auto intro!: holds_rules simp: command_names)
  qed (simp add: remote_python_check_def holds_raise)
  then show ?thesis unfolding check_remote_def by (rule achieves_try_raise)
qed

lemma achieves_load_filter: "achieves False False (load_filter rt) True False"
proof -
  have "holds False False (run_command rt [''nft'', ''--check'', ''--file'', ''-''] (feeding nft_filter))"
    by (rule accepted_command) (simp add: command_names)
  moreover have "achieves False False (run_command rt [''nft'', ''--file'', ''-''] (feeding nft_filter)) True False"
    by (rule achieves_command) (simp_all add: command_names)
  ultimately show ?thesis
    unfolding load_filter_def by (blast intro: achieves_bind holds_ret)
qed

lemma holds_setup_wireguard [holds_rules]: "holds l a (setup_wireguard rt)"
  unfolding setup_wireguard_def Let_def
  by (intro holds_rules) (simp_all add: command_names case_prod_beta)

lemma holds_policy [holds_rules]: "holds l a (setup_policy_routing rt)"
  unfolding setup_policy_routing_def Let_def policy_rule_def
  by (intro holds_rules) (simp_all add: command_names)

lemma achieves_await_ready: "achieves l False (await_ready rt deadline clock inbox) l True"
proof (induction rt deadline clock inbox rule: await_ready.induct)
  case (2 rt deadline t ts inbox)
  have "achieves l False (log_event Announced) l True"
    by (rule achieves_log) simp
  with 2 show ?case
    by (auto intro!: achieves_bind holds_poll holds_raise holds_end split: option.split list.split sum.split)
qed (simp add: holds_end)

lemma holds_spawn: "holds l False (spawn_sshuttle rt notify_path)"
proof -
  have "holds l False (log_event (Spawned command))" for command
    by (rule achieves_log) simp
  then show ?thesis unfolding spawn_sshuttle_def by (intro holds_rules)
qed

lemma achieves_start_sshuttle: "achieves True False (start_sshuttle rt) True True"
  unfolding start_sshuttle_def Let_def
  by (rule achieves_bind [OF holds_in_world], rule achieves_finally, rule achieves_bind [OF holds_in_world],
      rule achieves_bind [OF holds_spawn])
    (auto intro!: achieves_await_ready holds_end holds_bind holds_in_world split: list.split)

lemma achieves_activate: "achieves True True (activate_wireguard rt) True True"
  unfolding activate_wireguard_def
  by (rule achieves_bind [OF achieves_command holds_ret]) (auto simp: command_names)

lemma holds_verify: "holds l a (verify_postconditions rt)"
proof -
  have each: "holds l a (for_each (\<lambda>c. then_do (run_command rt c default_options) (ret ())) postcondition_commands)"
    by (simp add: postcondition_commands_def) (intro holds_rules, simp_all add: command_names)
  show ?thesis
    unfolding verify_postconditions_def child_running_def
    by (rule holds_bind, intro holds_rules) (rule holds_bind [OF holds_require each])
qed

lemma achieves_bring_up: "achieves False False (bring_up rt) True True"
  unfolding bring_up_def
  by (rule achieves_bind [OF holds_configure], rule achieves_bind [OF holds_check_remote],
      rule achieves_bind [OF achieves_load_filter], rule achieves_bind [OF holds_setup_wireguard],
      rule achieves_bind [OF holds_policy], rule achieves_bind [OF achieves_start_sshuttle],
      rule achieves_bind [OF achieves_activate], rule achieves_bind [OF holds_verify holds_write_status])

lemma achieves_undo:
  "achieves l a m l' a' \<Longrightarrow> holds False False h
   \<Longrightarrow> achieves l a (try_except m p (\<lambda>e. then_do h (raise e))) l' a'"
  unfolding achieves_def
  by (rule hoare_try_except [where ?E1.0 = "\<lambda>_. accepted"]) (auto intro: hoare_bind hoare_raise)

lemma achieves_start: "achieves False False (start rt) True True"
  unfolding start_def
  by (rule achieves_bind [OF holds_in_world], rule achieves_bind [OF holds_in_world],
      rule achieves_bind [OF accepted_cleanup], rule achieves_bind [OF holds_write_status],
      rule achieves_undo [OF achieves_bring_up]) (intro holds_rules)

lemma accepted_start: "holds False False (start rt)"
  using achieves_start [of rt] unfolding achieves_def
  by (rule hoare_conseq) (auto dest: armed_weaken)

lemma accepted_supervise: "holds False False (supervise rt stops)"
proof (induction stops)
  case (Cons stop stops)
  then show ?case by (simp only: supervise.simps child_running_def) (intro holds_rules)
qed (simp add: holds_end)

lemma accepted_session: "holds False False (session rt)"
  unfolding session_def
  by (intro holds_rules accepted_start accepted_supervise)

lemma achieves_outcome:
  assumes "achieves False False m l a" and "gw_trace g = []" and "m g = (r, g')"
  shows "accepted g' \<and> (\<forall>x. r = Ret x \<longrightarrow> armed l a g')"
proof -
  have "accepted g" by (auto simp: armed_def assms(2))
  with assms(1) have "case m g of (Ret x, w') \<Rightarrow> armed l a w' | (Exn e, w') \<Rightarrow> accepted w' | (Halt, w') \<Rightarrow> accepted w'"
    by (auto simp: achieves_def hoare_def)
  then show ?thesis by (cases r) (auto simp: assms(3) dest: armed_weaken)
qed

text \<open>
  C7: The tunnel is opened only behind the filter and the proxy: whatever the commands answer,
  whatever fails or is interrupted, every activation of the WireGuard interface in the life of
  a gateway comes after a completed load of the filter table that has not been deleted since,
  and after the running proxy announced that it is ready, so no client packet can enter
  before; and whenever \<open>start\<close> returns, both still hold.
\<close>
theorem activation_guarded:
  "monitor (False, False) (gw_trace (snd (session rt (g\<lparr>gw_trace := []\<rparr>)))) \<noteq> None
   \<and> (case start rt (g\<lparr>gw_trace := []\<rparr>) of
        (Ret _, g') \<Rightarrow> monitor (False, False) (gw_trace g') = Some (True, True) | _ \<Rightarrow> True)"
proof -
  let ?g = "g\<lparr>gw_trace := []\<rparr>"
  obtain r g1 where s: "session rt ?g = (r, g1)" by (cases "session rt ?g")
  obtain q g2 where t: "start rt ?g = (q, g2)" by (cases "start rt ?g")
  have "accepted g1" using achieves_outcome [OF accepted_session _ s] by simp
  moreover have "q = Ret x \<Longrightarrow> armed True True g2" for x
    using achieves_outcome [OF achieves_start _ t] by simp
  ultimately show ?thesis by (cases q) (auto simp: s t armed_def)
qed

end
