(* ===== verification/RuntimeProps.thy ===== *)
theory RuntimeProps
  imports RuntimeTrace ConfigProps
begin

text \<open>
  The command lines of the tunnel read back as what they were built from, and the effects of
  cleaning up: every step is tried whatever the others do, once the status could be written.
\<close>

subsection \<open>The words a shell reads\<close>

text \<open>The value of an option in a line of options that take one word each.\<close>

fun option_value :: "string \<Rightarrow> string list \<Rightarrow> string option" where
  "option_value name (a # b # rest) = (if a = name then Some b else option_value name rest)"
| "option_value name rest = None"

definition ssh_setting :: "string \<Rightarrow> string list \<Rightarrow> bool" where
  "ssh_setting s words \<longleftrightarrow> list_ex (\<lambda>k. take 2 (drop k words) = [''-o'', s]) [0 ..< length words]"

lemma ssh_setting_options:
  "ssh_setting ''StrictHostKeyChecking=yes'' (ssh_options s i k)"
  "ssh_setting ''PasswordAuthentication=no'' (ssh_options s i k)"
  "ssh_setting ''BatchMode=yes'' (ssh_options s i k)"
  "ssh_setting (''UserKnownHostsFile='' @ show_path k) (ssh_options s i k)"
  by (simp_all add: ssh_setting_def ssh_options_def upt_rec)


text \<open>
  C22: The tunnel's transport is strict, and reads back: for every configuration whose secret
  paths are accepted, the shell words of the \<open>--ssh-cmd\<close> value given to sshuttle are exactly
  the ssh command with the mounted identity and known-hosts files, whatever characters their
  paths hold, with strict host key checking and no password; and the remote shell reads the
  check command as the script with the interpreter path and the code as its two arguments,
  so no configured text is ever run as shell code.
\<close>
theorem proxy_command_reads_back:
  assumes "sshuttle_arguments executable config paths = Inr words"
  shows "\<exists>identity known_hosts ssh_cmd ssh_words.
    mounted_secret_path paths (identity_file (ssh config)) = Inr identity
    \<and> mounted_secret_path paths (known_hosts_file (ssh config)) = Inr known_hosts
    \<and> option_value ''--ssh-cmd'' (tl words) = Some ssh_cmd
    \<and> shell_words ssh_cmd = Some ssh_words \<and> ssh_words = ssh_options (ssh config) identity known_hosts
    \<and> ssh_setting ''StrictHostKeyChecking=yes'' ssh_words \<and> ssh_setting ''PasswordAuthentication=no'' ssh_words
    \<and> ssh_setting (''UserKnownHostsFile='' @ show_path known_hosts) ssh_words
    \<and> shell_words (remote_check_command config) = Some [''sh'', ''-c'', REMOTE_PYTHON_CHECK_SCRIPT,
        ''shuttle-gate-python-check'', remote_python (ssh config), REMOTE_PYTHON_CHECK_CODE]"
proof -
  from assms obtain identity known_hosts where
      i: "mounted_secret_path paths (identity_file (ssh config)) = Inr identity"
      and k: "mounted_secret_path paths (known_hosts_file (ssh config)) = Inr known_hosts"
      and w: "option_value ''--ssh-cmd'' (tl words) = Some (shlex_join (ssh_options (ssh config) identity known_hosts))"
    by (auto simp: sshuttle_arguments_def ssh_arguments_def rbind_eq_Inr)
  show ?thesis
    using i k w ssh_setting_options by (simp add: shell_words_join remote_check_command_def)
qed

lemma proxy_command_reads_back_witness:
  "\<exists>words ssh_cmd. sshuttle_arguments ''/usr/bin/python3'' project_example
      \<lparr>ip_root = [], ip_config = [''config'', ''config.yaml''], ip_state = [''state''], ip_secrets = [''secrets''],
       ip_data = None\<rparr> = Inr words
    \<and> option_value ''--ssh-cmd'' (tl words) = Some ssh_cmd \<and> shell_words ssh_cmd \<noteq> None"
proof -
  obtain words where w: "sshuttle_arguments ''/usr/bin/python3'' project_example
      \<lparr>ip_root = [], ip_config = [''config'', ''config.yaml''], ip_state = [''state''], ip_secrets = [''secrets''],
       ip_data = None\<rparr> = Inr words"
    by (auto simp: sshuttle_arguments_def ssh_arguments_def mounted_secret_path_def secret_relative_path_def
        project_example_def ssh_example_def parse_path_def startswith_def)
  from proxy_command_reads_back [OF w] w show ?thesis by blast
qed

subsection \<open>Cleaning up\<close>

definition issued :: "event list \<Rightarrow> string list list" where
  "issued es = concat (map (\<lambda>e. case e of Issued c i \<Rightarrow> [c] | _ \<Rightarrow> []) es)"

lemma issued_append [simp]: "issued (es @ es') = issued es @ issued es'"
  by (simp add: issued_def)

text \<open>Commands may fail in any way, but the interpreter is not being torn down.\<close>

definition tame :: "runner \<Rightarrow> bool" where
  "tame run \<longleftrightarrow> (\<forall>c opts w. case fst (run c opts w) of Ret _ \<Rightarrow> True | Exn e \<Rightarrow> is_Exception e | Halt \<Rightarrow> False)"

definition child_answers :: "gateway \<Rightarrow> bool" where
  "child_answers g \<longleftrightarrow> gw_polls g \<noteq> [] \<and> 2 \<le> length (gw_waits g)
     \<and> list_all (\<lambda>a. case a of Inl e \<Rightarrow> is_Exception e | Inr n \<Rightarrow> True) (gw_waits g)"

text \<open>A step that comes back, having issued exactly the commands \<open>cs\<close>.\<close>

definition attempts :: "(gateway \<Rightarrow> bool) \<Rightarrow> 'a gio \<Rightarrow> string list list \<Rightarrow> bool" where
  "attempts P m cs \<longleftrightarrow> (\<forall>g. P g \<longrightarrow> (case m g of (r, g') \<Rightarrow>
     (\<exists>x. r = Ret x) \<and> issued (gw_trace g') = issued (gw_trace g) @ cs \<and> gw_child g' = gw_child g))"

lemma attemptsE:
  assumes "attempts P m cs" and "P g" and "m g = (r, g')"
  obtains x where "r = Ret x" and "issued (gw_trace g') = issued (gw_trace g) @ cs" and "gw_child g' = gw_child g"
proof -
  have "P g \<longrightarrow> (case m g of (r, g') \<Rightarrow>
     (\<exists>x. r = Ret x) \<and> issued (gw_trace g') = issued (gw_trace g) @ cs \<and> gw_child g' = gw_child g)"
    using assms(1) unfolding attempts_def by (rule spec)
  with assms(2) have "case m g of (r, g') \<Rightarrow>
     (\<exists>x. r = Ret x) \<and> issued (gw_trace g') = issued (gw_trace g) @ cs \<and> gw_child g' = gw_child g"
    by (rule rev_mp)
  with assms(3) that show thesis by auto
qed

lemma attempts_command:
  assumes "tame (rt_runner rt)"
  shows "attempts (\<lambda>g. True) (collect_failure (then_do (run_command rt command opts) (ret ()))) [command]"
proof -
  have "case collect_failure (then_do (run_command rt command opts) (ret ())) g of (r, g') \<Rightarrow>
     (\<exists>x. r = Ret x) \<and> issued (gw_trace g') = issued (gw_trace g) @ [command] \<and> gw_child g' = gw_child g" for g
  proof -
    obtain r w where r: "rt_runner rt command opts (gw_world g) = (r, w)"
      by (cases "rt_runner rt command opts (gw_world g)")
    then have "case r of Ret _ \<Rightarrow> True | Exn e \<Rightarrow> is_Exception e | Halt \<Rightarrow> False"
      using assms unfolding tame_def by (metis fst_conv)
    then show ?thesis
      by (cases r) (auto simp: collect_failure_def run_command_def log_event_def in_world_def r prog_defs issued_def)
  qed
  then show ?thesis by (simp add: attempts_def)
qed

lemma attempts_map_each:
  assumes "\<And>c. attempts (\<lambda>g. True) (f c) [c]"
  shows "attempts (\<lambda>g. True) (map_each f cs) cs"
proof (induction cs)
  case Nil
  then show ?case by (simp add: attempts_def ret_def)
next
  case (Cons c cs)
  show ?case
    unfolding attempts_def
  proof (intro allI impI)
    fix g
    obtain r g1 where m: "f c g = (r, g1)" by (cases "f c g")
    obtain x where r: "r = Ret x" "issued (gw_trace g1) = issued (gw_trace g) @ [c]" "gw_child g1 = gw_child g"
      using attemptsE [OF assms TrueI m] .
    obtain q g2 where n: "map_each f cs g1 = (q, g2)" by (cases "map_each f cs g1")
    obtain xs where q: "q = Ret xs" "issued (gw_trace g2) = issued (gw_trace g1) @ cs" "gw_child g2 = gw_child g1"
      using attemptsE [OF Cons TrueI n] .
    show "case map_each f (c # cs) g of (r, g') \<Rightarrow>
        (\<exists>x. r = Ret x) \<and> issued (gw_trace g') = issued (gw_trace g) @ c # cs \<and> gw_child g' = gw_child g"
      using m n r q by (simp add: prog_defs)
  qed
qed

lemma attempts_stop: "attempts child_answers (collect_failure (stop_process process)) []"
  unfolding attempts_def
proof (intro allI impI)
  fix g assume a: "child_answers g"
  then obtain p ps x y zs where g: "gw_polls g = p # ps" "gw_waits g = x # y # zs"
    unfolding child_answers_def by (cases "gw_polls g"; cases "gw_waits g"; cases "tl (gw_waits g)") auto
  with a show "case collect_failure (stop_process process) g of (r, g') \<Rightarrow>
      (\<exists>x. r = Ret x) \<and> issued (gw_trace g') = issued (gw_trace g) @ [] \<and> gw_child g' = gw_child g"
    by (cases process; cases p; cases x; cases y)
      (auto simp: child_answers_def collect_failure_def stop_process_def poll_def await_child_def log_event_def
        prog_defs issued_def)
qed


lemma write_status_stopping:
  assumes "write_status rt ''stopping'' True None g = (r, g')"
  shows "gw_trace g' = gw_trace g \<and> gw_child g' = gw_child g \<and> gw_polls g' = gw_polls g \<and> gw_waits g' = gw_waits g"
  using assms
  by (auto simp: write_status_def prog_defs in_world_def split: prod.splits outcome.splits if_splits)

text \<open>
  C13: Cleaning up is complete: if the first status write comes back, then whatever the child
  does and however the commands fail, the clean-up forgets the child and issues every one of
  its commands, in order (the filter table, both families' rules and routes, the interface),
  and it ends by returning or by reporting that it was incomplete, never by passing on the
  failure of one step before the others were tried.
\<close>
theorem cleanup_complete:
  assumes "tame (rt_runner rt)" and "child_answers g"
    and "fst (write_status rt ''stopping'' True None g) = Ret ()"
  shows "\<exists>r g'. cleanup rt g = (r, g') \<and> gw_child g' = None
    \<and> issued (gw_trace g') = issued (gw_trace g) @ cleanup_commands
    \<and> r \<in> {Ret (), Exn (RuntimeFailure ''cleanup was incomplete; namespace destruction is the final boundary'')}"
proof -
  obtain g1 where w: "write_status rt ''stopping'' True None g = (Ret (), g1)"
    using assms(3) by (metis prod.collapse)
  note g1 = write_status_stopping [OF w]
  have a: "child_answers g1" using assms(2) g1 by (simp add: child_answers_def)
  let ?each = "\<lambda>command. collect_failure (then_do (run_command rt command tolerant) (ret ()))"
  obtain r g2 where s: "collect_failure (stop_process (gw_child g1)) g1 = (r, g2)"
    by (cases "collect_failure (stop_process (gw_child g1)) g1")
  obtain f where f: "r = Ret f" "issued (gw_trace g2) = issued (gw_trace g1) @ []" "gw_child g2 = gw_child g1"
    using attemptsE [OF attempts_stop a s] .
  let ?g2 = "g2\<lparr>gw_child := None\<rparr>"
  obtain q g3 where m: "map_each ?each cleanup_commands ?g2 = (q, g3)" by (cases "map_each ?each cleanup_commands ?g2")
  obtain fs where q: "q = Ret fs" "issued (gw_trace g3) = issued (gw_trace ?g2) @ cleanup_commands"
      "gw_child g3 = gw_child ?g2"
    using attemptsE [OF attempts_map_each [OF attempts_command [OF assms(1)]] TrueI m] .
  show ?thesis
    using w s m f q g1 by (simp add: cleanup_def prog_defs)
qed


definition example_runner :: runner where
  "example_runner command opts = ret \<lparr>cr_args = command, returncode = 0, cr_stdout = [], cr_stderr = []\<rparr>"

definition example_runtime :: gateway_runtime where
  "example_runtime = \<lparr>rt_config = project_example,
     rt_paths = \<lparr>ip_root = [], ip_config = [''config'', ''config.yaml''], ip_state = [''state''],
       ip_secrets = [''secrets''], ip_data = None\<rparr>,
     rt_dir = [''run''], rt_launch_id = ''launch'', rt_sysctl_root = None, rt_runner = example_runner,
     rt_executable = ''/usr/bin/python3'', rt_popen = (\<lambda>c e. ret 7), rt_notify_open = (\<lambda>p. ret ()),
     rt_notify_close = ret (), rt_inbox = [], rt_clock = [], rt_stops = []\<rparr>"

definition example_gateway :: "(comps \<times> node) list \<Rightarrow> gateway" where
  "example_gateway D = \<lparr>gw_world = system_with D, gw_child = Some 7, gw_trace = [],
     gw_polls = [None], gw_waits = [Inl (TimeoutExpired ''sshuttle''), Inr 0]\<rparr>"

text \<open>With no temporary name left, the status write fails with an \<open>OSError\<close>, which is ignored.\<close>

lemma example_status_fails: "fst (atomic_write_bytes [''run'', GATEWAY_STATUS] content 0x180
    (system_with [([''run''], Dir 0x1C0 1000)])) = Exn (OSError EEXIST)"
  by (simp add: atomic_write_bytes_def ensure_private_directory_def p_is_symlink_def mkdir_parents.simps os_mkdir_def
      os_open_dir_def syscall_def syscall_torn_def with_handle_def mkstemp.simps prog_defs system_with_def node_at_def
      new_handle_def os_fstat_def owned_dir_def os_fchmod_def os_close_def mark_def put_node_def p_is_dir_def
      follow_no_link is_FileNotFound_def)

lemma example_status_written:
  "fst (write_status example_runtime ''stopping'' True None (example_gateway [([''run''], Dir 0x1C0 1000)])) = Ret ()"
proof -
  define f where "f c = snd (atomic_write_bytes [''run'', GATEWAY_STATUS] c 0x180
    (system_with [([''run''], Dir 0x1C0 1000)]))" for c
  have "atomic_write_bytes [''run'', GATEWAY_STATUS] c 0x180 (system_with [([''run''], Dir 0x1C0 1000)])
      = (Exn (OSError EEXIST), f c)" for c
    by (simp add: prod_eq_iff example_status_fails f_def)
  then show ?thesis
    by (simp add: write_status_def example_gateway_def example_runtime_def atomic_write_json_def atomic_write_def
        in_world_def prog_defs)
qed

lemma cleanup_complete_witness:
  "\<exists>r g'. cleanup example_runtime (example_gateway [([''run''], Dir 0x1C0 1000)]) = (r, g') \<and> gw_child g' = None
    \<and> issued (gw_trace g') = cleanup_commands"
proof -
  have "tame (rt_runner example_runtime)"
    by (simp add: tame_def example_runtime_def example_runner_def ret_def)
  moreover have "child_answers (example_gateway [([''run''], Dir 0x1C0 1000)])"
    by (simp add: child_answers_def example_gateway_def)
  ultimately show ?thesis
    using cleanup_complete [OF _ _ example_status_written] by (auto simp: example_gateway_def issued_def)
qed

text \<open>
  C40: The clean-up of the gateway depends on its status file: the call passes
  \<open>ignore_errors\<close>, but when the runtime directory has become a symbolic link, the
  \<open>StateError\<close> of \<open>ensure_private_directory\<close> is not among the ignored errors, so the clean-up
  raises it before it signals the child or issues a single command.
\<close>
theorem cleanup_needs_status_directory:
  assumes "is_link_node (node_at (gw_world g) (rt_dir rt))"
  shows "cleanup rt g
    = (Exn (StateError (''private directory must not be a symlink: '' @ show_path (rt_dir rt))), g)"
  using assms
  by (simp add: cleanup_def write_status_def atomic_write_json_def atomic_write_def atomic_write_bytes_def
      ensure_private_directory_def p_is_symlink_def in_world_def prog_defs)

lemma cleanup_needs_status_directory_witness:
  "\<exists>e. cleanup example_runtime (example_gateway [([''run''], Symlink ''elsewhere'')])
    = (Exn (StateError e), example_gateway [([''run''], Symlink ''elsewhere'')])"
proof -
  have "is_link_node (node_at (gw_world (example_gateway [([''run''], Symlink ''elsewhere'')])) (rt_dir example_runtime))"
    by (simp add: example_gateway_def example_runtime_def node_at_def system_with_def)
  from cleanup_needs_status_directory [OF this] show ?thesis by blast
qed

end
