(* ===== verification/Cli.thy ===== *)
theory Cli
  imports Keys SshKey Runtime PyText
begin

text \<open>
  \<open>cli.py\<close>: the commands that run inside the sandbox, one definition per command function,
  with what they print. The option parser is typer, which is not part of the source: a command
  is a value of \<open>cli_command\<close>, and the ways to leave one that typer turns into the end of the
  process are \<open>SystemExit\<close> here, \<open>typer.Exit(n)\<close> with \<open>n\<close> and \<open>typer.Abort\<close> with 1. The answer
  to a confirmation, the identifiers of \<open>uuid4\<close> and what the commands reach outside are the
  fields of \<open>cli_context\<close>.
\<close>

record cli_context =
  cx_sha :: "string \<Rightarrow> string"
  cx_request :: string
  cx_uuid :: string
  cx_runner :: runner
  cx_load :: "comps \<Rightarrow> project_config io"
  cx_confirm :: "string \<Rightarrow> bool io"
  cx_build :: "project_config \<Rightarrow> instance_paths \<Rightarrow> comps \<Rightarrow> string \<Rightarrow> gateway_runtime"
  cx_gateway :: "world \<Rightarrow> gateway"
  cx_probe :: "int \<Rightarrow> unit io"

subsection \<open>Paths and errors\<close>

definition sandbox_instance :: "instance_paths io" where
  "sandbox_instance = bind (gets (\<lambda>w. map_of (environ w) ''SHUTTLE_GATE_ROOT'')) (\<lambda>root. case root of
       None \<Rightarrow> raise (StateError ''internal execution root is unavailable; use the ./shuttle-gate launcher'')
     | Some r \<Rightarrow> from_root (path_comps (parse_path r)))"

definition application_root :: "comps io" where
  "application_root = bind (gets (\<lambda>w. map_of (environ w) ''SHUTTLE_GATE_APPLICATION_ROOT'')) (\<lambda>root. case root of
       None \<Rightarrow> raise (StateError ''internal application root is unavailable; use the ./shuttle-gate launcher'')
     | Some r \<Rightarrow> p_resolve (path_comps (parse_path r)))"

definition configuration :: "cli_context \<Rightarrow> instance_paths \<Rightarrow> project_config io" where
  "configuration cx paths = cx_load cx (ip_config paths)"

definition abort :: "string \<Rightarrow> int \<Rightarrow> 'a io" where
  "abort message code = then_do (echo_err (''shuttle-gate error: '' @ message)) (raise (SystemExit code))"

definition require_confirmation :: "cli_context \<Rightarrow> string \<Rightarrow> bool \<Rightarrow> unit io" where
  "require_confirmation cx message yes =
     (if yes then ret ()
      else bind (cx_confirm cx message) (\<lambda>confirmed. require confirmed (SystemExit 1)))"

text \<open>\<open>operation_id or uuid.uuid4().hex\<close>, which is printed before anything is done.\<close>

definition request_id :: "cli_context \<Rightarrow> string option \<Rightarrow> string" where
  "request_id cx operation_id = (case operation_id of
       Some i \<Rightarrow> if i = [] then cx_request cx else i
     | None \<Rightarrow> cx_request cx)"

subsection \<open>Configuration\<close>

definition write_example :: "instance_paths \<Rightarrow> unit io" where
  "write_example paths =
     bind (p_exists (ip_config paths)) (\<lambda>there.
     bind (if there then ret True else p_is_symlink (ip_config paths)) (\<lambda>taken.
     then_do (if taken then abort (''refusing to overwrite existing configuration: '' @ show_path (ip_config paths)) 2
              else ret ())
    (bind application_root (\<lambda>root.
     let example = root @ [''config.example.yaml''] in
     bind (p_is_file example) (\<lambda>present.
     then_do (if \<not> present then abort (''example configuration is missing: '' @ show_path example) 2 else ret ())
    (then_do (ensure_private_directory (ip_secrets paths))
    (bind (read_text_utf8 example) (\<lambda>content. atomic_write (ip_config paths) content 0x180))))))))"

definition initialize :: "unit io" where
  "initialize =
     bind sandbox_instance (\<lambda>paths.
     then_do (state_lock paths True False (write_example paths))
    (then_do (echo (''created '' @ show_path (ip_config paths)))
     (echo ''edit bind addresses, peers, SSH destination, routes, and DNS before setup'')))"

definition validate_config :: "cli_context \<Rightarrow> unit io" where
  "validate_config cx =
     bind sandbox_instance (\<lambda>paths.
     bind (configuration cx paths) (\<lambda>config.
     then_do (state_lock paths True False
        (then_do (recover_ssh_key_transaction (cx_sha cx) config paths)
        (then_do (validate_ssh_files config paths) (ret ()))))
     (echo ''configuration: valid'')))"

subsection \<open>Keys\<close>

definition keys_generate :: "cli_context \<Rightarrow> string option \<Rightarrow> unit io" where
  "keys_generate cx peer =
     bind sandbox_instance (\<lambda>paths.
     bind (configuration cx paths) (\<lambda>config.
     bind (generate_missing_keys (cx_sha cx) (cx_uuid cx) config paths (cx_runner cx) peer) (\<lambda>created.
     echo (''created: '' @ (if created \<noteq> [] then join '', '' created else ''nothing; all keys exist'')))))"

definition keys_rotate_peer :: "cli_context \<Rightarrow> string \<Rightarrow> bool \<Rightarrow> string option \<Rightarrow> unit io" where
  "keys_rotate_peer cx name yes operation_id =
     then_do (require_confirmation cx (''rotate keys for peer '' @ name @ ''?'') yes)
    (let request = request_id cx operation_id in
     then_do (echo (''operation ID: '' @ request))
    (bind sandbox_instance (\<lambda>paths.
     bind (configuration cx paths) (\<lambda>config.
     then_do (rotate_peer (cx_sha cx) (cx_uuid cx) config paths (cx_runner cx) name request)
     (echo (''rotated peer: '' @ name @ ''; re-import its phone config''))))))"

definition keys_rotate_server :: "cli_context \<Rightarrow> bool \<Rightarrow> string option \<Rightarrow> unit io" where
  "keys_rotate_server cx yes operation_id =
     then_do (require_confirmation cx ''rotate the server key and invalidate every imported phone config?'' yes)
    (let request = request_id cx operation_id in
     then_do (echo (''operation ID: '' @ request))
    (bind sandbox_instance (\<lambda>paths.
     bind (configuration cx paths) (\<lambda>config.
     then_do (rotate_server (cx_sha cx) (cx_uuid cx) config paths (cx_runner cx) request)
     (echo ''rotated server key; re-import every phone config'')))))"

definition keys_prune :: "cli_context \<Rightarrow> bool \<Rightarrow> unit io" where
  "keys_prune cx yes =
     then_do (require_confirmation cx ''delete orphaned peer state?'' yes)
    (bind sandbox_instance (\<lambda>paths.
     bind (configuration cx paths) (\<lambda>config.
     bind (prune_orphaned_peers (cx_sha cx) (cx_uuid cx) config paths) (\<lambda>removed.
     echo (''removed: '' @ (if removed \<noteq> [] then join '', '' removed else ''nothing''))))))"

definition peer_row_text :: "string \<times> string \<times> string \<Rightarrow> string" where
  "peer_row_text row = (case row of (name, keys, phone) \<Rightarrow>
     name @ CHR 0x09 # ''keys='' @ keys @ CHR 0x09 # ''phone-config='' @ phone)"

definition peers_list :: "cli_context \<Rightarrow> unit io" where
  "peers_list cx =
     bind sandbox_instance (\<lambda>paths.
     bind (configuration cx paths) (\<lambda>config.
     bind (peer_rows (cx_sha cx) config paths) (\<lambda>rows.
     for_each (\<lambda>row. echo (peer_row_text row)) rows)))"

subsection \<open>The SSH identity\<close>

definition ssh_key_generate :: "cli_context \<Rightarrow> bool \<Rightarrow> string option \<Rightarrow> unit io" where
  "ssh_key_generate cx force operation_id =
    (let request = request_id cx operation_id in
     then_do (echo (''operation ID: '' @ request))
    (bind sandbox_instance (\<lambda>paths.
     bind (configuration cx paths) (\<lambda>config.
     bind (generate_ssh_key (cx_sha cx) (cx_uuid cx) config paths (cx_runner cx) force request) (\<lambda>identity.
     then_do (echo (''created '' @ show_path identity @ '' and '' @ show_path identity @ ''.pub''))
    (bind (gets (\<lambda>w. with_command_hint w ''manual SSH authorization is required'' [''ssh-key'', ''instructions'']))
     echo))))))"

definition ssh_key_instructions :: "cli_context \<Rightarrow> unit io" where
  "ssh_key_instructions cx =
     bind sandbox_instance (\<lambda>paths.
     bind (configuration cx paths) (\<lambda>config.
     bind (ssh_setup_instructions (cx_sha cx) config paths) echo))"

subsection \<open>The phone profile\<close>

definition export_target :: "instance_paths \<Rightarrow> path option \<Rightarrow> comps option io" where
  "export_target paths output = (case output of
       None \<Rightarrow> ret None
     | Some requested \<Rightarrow> bind (resolve_export_path paths requested) (\<lambda>destination. ret (Some destination)))"

definition phone_config :: "cli_context \<Rightarrow> string \<Rightarrow> path option \<Rightarrow> bool \<Rightarrow> unit io" where
  "phone_config cx name output stdout =
     then_do (if output \<noteq> None \<and> stdout then abort ''--output and --stdout are mutually exclusive'' 2 else ret ())
    (bind sandbox_instance (\<lambda>paths.
     bind (export_target paths output) (\<lambda>destination.
     bind (configuration cx paths) (\<lambda>config.
     then_do (if name \<notin> set (map peer_name (peers (wireguard config)))
              then abort (''peer is not declared in config.yaml: '' @ name) 2 else ret ())
    (then_do (regenerate_phone_config (cx_sha cx) (cx_uuid cx) config paths name)
    (bind (read_phone_config paths name) (\<lambda>rendered.
     if stdout then put_text Stdout rendered
     else (case destination of
         Some target \<Rightarrow> then_do (atomic_write target rendered 0x180) (echo (show_path target))
       | None \<Rightarrow> echo (show_path (peer_dir paths name @ [PHONE_CONFIG]))))))))))"

subsection \<open>The gateway\<close>

definition doctor :: "cli_context \<Rightarrow> unit io" where
  "doctor cx =
     bind sandbox_instance (\<lambda>paths.
     bind (configuration cx paths) (\<lambda>config.
     state_lock paths False True
      (then_do (require_no_ssh_key_transaction config paths)
      (then_do (validate_ssh_files config paths)
      (bind (doctor_checks config paths (cx_runner cx)) (\<lambda>messages. for_each echo messages))))))"

definition runtime_command :: "cli_context \<Rightarrow> unit io" where
  "runtime_command cx =
     bind (try_except (run_gateway (cx_sha cx) (cx_load cx) (cx_build cx) (cx_gateway cx)) is_Transient
        (\<lambda>e. then_do (echo_err (''shuttle-gate transient runtime error: '' @ exn_str e)) (raise (SystemExit 75))))
      (\<lambda>result. raise (SystemExit result))"

definition health_command :: "cli_context \<Rightarrow> unit io" where
  "health_command cx =
     bind (healthcheck (cx_load cx) (cx_probe cx) (cx_runner cx)) (\<lambda>result. raise (SystemExit result))"

definition live_peer_text :: "json \<Rightarrow> exn + string" where
  "live_peer_text peer =
     rbind (py_item peer ''name'') (\<lambda>name.
     rbind (py_item peer ''latest_handshake'') (\<lambda>handshake.
     rbind (py_item peer ''received_bytes'') (\<lambda>received.
     rbind (py_item peer ''sent_bytes'') (\<lambda>sent.
     Inr (''peer '' @ py_str name @ '': handshake='' @ py_str handshake
       @ '' rx='' @ py_str received @ '' tx='' @ py_str sent)))))"

definition print_item :: "string \<Rightarrow> json \<Rightarrow> string \<Rightarrow> unit io" where
  "print_item label v key = bind (lift (py_item v key)) (\<lambda>x. echo (label @ '': '' @ py_str x))"

definition print_live_status :: "json \<Rightarrow> unit io" where
  "print_live_status v =
     then_do (print_item ''state'' v ''state'')
    (then_do (print_item ''health'' v ''health'')
    (then_do (print_item ''interface'' v ''wireguard_interface'')
    (bind (lift (rbind (py_item v ''routes'') (py_join '', ''))) (\<lambda>routes.
     then_do (echo (''routes: '' @ routes))
    (bind (lift (rbind (py_item v ''peers'') py_iter)) (\<lambda>entries.
     for_each (\<lambda>peer. bind (lift (live_peer_text peer)) echo) entries))))))"

definition runtime_status_command :: "bool \<Rightarrow> unit io" where
  "runtime_status_command json_output =
     bind runtime_status (\<lambda>v. if json_output then echo (dumps inline (canonical v)) else print_live_status v)"

subsection \<open>The program\<close>

datatype cli_command =
    Init
  | Config_Validate
  | Keys_Generate "string option"
  | Keys_Rotate_Peer string bool "string option"
  | Keys_Rotate_Server bool "string option"
  | Keys_Prune bool
  | Peers_List
  | Ssh_Key_Generate bool "string option"
  | Ssh_Key_Instructions
  | Phone_Config string "path option" bool
  | Doctor
  | Run_Gateway
  | Health
  | Runtime_Status bool
  | Show_Version

fun command_body :: "cli_context \<Rightarrow> cli_command \<Rightarrow> unit io" where
  "command_body cx Init = initialize"
| "command_body cx Config_Validate = validate_config cx"
| "command_body cx (Keys_Generate peer) = keys_generate cx peer"
| "command_body cx (Keys_Rotate_Peer name yes operation_id) = keys_rotate_peer cx name yes operation_id"
| "command_body cx (Keys_Rotate_Server yes operation_id) = keys_rotate_server cx yes operation_id"
| "command_body cx (Keys_Prune yes) = keys_prune cx yes"
| "command_body cx Peers_List = peers_list cx"
| "command_body cx (Ssh_Key_Generate force operation_id) = ssh_key_generate cx force operation_id"
| "command_body cx Ssh_Key_Instructions = ssh_key_instructions cx"
| "command_body cx (Phone_Config name output stdout) = phone_config cx name output stdout"
| "command_body cx Doctor = doctor cx"
| "command_body cx Run_Gateway = runtime_command cx"
| "command_body cx Health = health_command cx"
| "command_body cx (Runtime_Status json_output) = runtime_status_command json_output"
| "command_body cx Show_Version = echo application_version"

definition cli_main :: "cli_context \<Rightarrow> cli_command \<Rightarrow> unit io" where
  "cli_main cx command =
     try_except (command_body cx command) is_ShuttleGateError
       (\<lambda>e. then_do (echo_err (''shuttle-gate error: '' @ exn_str e)) (raise (SystemExit 2)))"

end
