(* ===== verification/CliProps.thy ===== *)
theory CliProps
  imports RuntimeProps StateProps HostProps Cli HostLifecycle
begin

text \<open>
  The commands together with what they read: the status document the gateway writes suits every
  reader, the exit statuses of the sandboxed program and the restarts they cause, and the one
  command that creates a configuration.
\<close>

subsection \<open>Printing the status\<close>

text \<open>A program that returns in every world.\<close>

definition always_returns :: "unit io \<Rightarrow> bool" where
  "always_returns m \<longleftrightarrow> (\<forall>w. fst (m w) = Ret ())"

lemma returns_intros:
  "always_returns (ret ())" "always_returns (echo t)" "always_returns m \<Longrightarrow> always_returns n \<Longrightarrow> always_returns (then_do m n)"
  "(\<And>x. x \<in> set xs \<Longrightarrow> always_returns (f x)) \<Longrightarrow> always_returns (for_each f xs)"
proof -
  show seq: "always_returns m \<Longrightarrow> always_returns n \<Longrightarrow> always_returns (then_do m n)" for m n
    by (auto simp: always_returns_def bind_def split: prod.splits outcome.splits) (metis fst_conv outcome.distinct)+
  show r: "always_returns (ret ())" "always_returns (echo t)" for t
    by (simp_all add: always_returns_def ret_def echo_def put_text_def)
  show "(\<And>x. x \<in> set xs \<Longrightarrow> always_returns (f x)) \<Longrightarrow> always_returns (for_each f xs)" for xs :: "'a list" and f
    by (induction xs) (auto intro: seq r)
qed

lemma returns_lift: "r = Inr a \<Longrightarrow> always_returns (f a) \<Longrightarrow> always_returns (bind (lift r) f)"
  by simp

lemma all_strings_JStr: "all_strings (map (JStr \<circ> f) xs) = Inr (map f xs)"
  by (induction xs) simp_all

text \<open>The fields of a status document as they are read back, and its entries.\<close>

definition peer_fields :: "json \<Rightarrow> bool" where
  "peer_fields e \<longleftrightarrow> is_JObj e \<and> list_all (\<lambda>k. jget e k \<noteq> None)
     [''name'', ''latest_handshake'', ''received_bytes'', ''sent_bytes'']"

lemma peer_entry_fields: "peer_entry names columns = Inr e \<Longrightarrow> peer_fields e \<and> no_float e"
  by (auto simp: peer_entry_def rbind_eq_Inr peer_fields_def list_all_iff)

lemma peer_entries_fields: "peer_entries names ls = Inr es \<Longrightarrow> list_all (\<lambda>e. peer_fields e \<and> no_float e) es"
  by (induction names ls arbitrary: es rule: peer_entries.induct)
    (auto simp: Let_def rbind_eq_Inr split: if_split_asm dest: peer_entry_fields)

lemma peer_fields_sort: "peer_fields e \<Longrightarrow> peer_fields (sort_keys e)"
  by (auto simp: peer_fields_def)

lemma live_peer_text_Inr: "peer_fields e \<Longrightarrow> \<exists>t. live_peer_text e = Inr t"
  by (auto simp: live_peer_text_def peer_fields_def py_item_def)

lemma status_value_fields:
  assumes "v = status_value rt state child entries error"
  shows "is_JObj v" "jget v ''state'' = Some (JStr state)" "jget v ''schema_version'' = Some (JInt 2)"
    "jget v ''launch_id'' = Some (JStr (rt_launch_id rt))"
    "jget v ''health'' = Some (JStr (if state = ''ready'' then ''ok'' else ''degraded''))"
    "jget v ''wireguard_interface'' = Some (JStr INTERFACE)"
    "jget v ''routes'' = Some (JList (map (JStr \<circ> str_network) (effective_routes (rt_config rt))))"
    "jget v ''peers'' = Some (JList entries)"
    "jget v ''error'' = map_option (\<lambda>m. JStr (take 4096 m)) error"
    "list_all no_float entries \<Longrightarrow> no_float v"
  unfolding assms status_value_def
  by (cases error; simp add: list_all_iff comp_def split: option.splits)+

lemma strings_stable: "map sort_keys (map (JStr \<circ> f) xs) = map (JStr \<circ> f) xs"
  "map canonical (map (JStr \<circ> f) xs) = map (JStr \<circ> f) xs"
  by simp_all

lemma py_join_strings: "py_join sep (JList (map (JStr \<circ> f) xs)) = Inr (join sep (map f xs))"
  by (simp add: py_join_def all_strings_JStr)

lemma py_item_Inr: "is_JObj v \<Longrightarrow> jget v k = Some x \<Longrightarrow> py_item v k = Inr x"
  by (simp add: py_item_def)

lemma returns_print_item: "is_JObj v \<Longrightarrow> jget v k \<noteq> None \<Longrightarrow> always_returns (print_item l v k)"
  by (auto simp: print_item_def py_item_Inr returns_intros)

lemma returns_print_live:
  assumes o: "is_JObj v" and "jget v ''state'' \<noteq> None" "jget v ''health'' \<noteq> None" "jget v ''wireguard_interface'' \<noteq> None"
    and r: "jget v ''routes'' = Some (JList (map (JStr \<circ> f) xs))" and p: "jget v ''peers'' = Some (JList es)"
    and t: "\<And>e. e \<in> set es \<Longrightarrow> \<exists>t. live_peer_text e = Inr t"
  shows "always_returns (print_live_status v)"
proof -
  have "always_returns (bind (lift (live_peer_text e)) echo)" if "e \<in> set es" for e
    using t [OF that] by (auto intro: returns_intros)
  then show ?thesis
    unfolding print_live_status_def py_item_Inr [OF o r] py_item_Inr [OF o p] rbind_Inr py_join_strings py_iter.simps
      lift_Inr bind_ret
    by (intro returns_intros returns_print_item assms)
qed

lemma returns_print_status:
  assumes o: "is_JObj v" and s: "jget v ''state'' \<noteq> None"
    and r: "jget v ''routes'' = Some (JList (map (JStr \<circ> f) xs))" and p: "jget v ''peers'' = Some (JList es)"
  shows "always_returns (print_status v service)"
proof -
  from s obtain x where x: "jget v ''state'' = Some x" by blast
  have w: "always_returns (when_do b (echo t))" for b t by (simp add: when_do_def returns_intros)
  have "always_returns (print_ready v)"
    unfolding print_ready_def py_get_def r p option.case py_join_strings py_iter.simps lift_Inr bind_ret
    by (intro returns_intros w)
  moreover have "always_returns (case jget v ''error'' of Some (JStr e) \<Rightarrow> echo (''error: '' @ e) | _ \<Rightarrow> ret ())"
    by (simp add: returns_intros split: option.splits json.splits)
  ultimately have "always_returns (if jget v ''state'' = Some (JStr ''ready'') then print_ready v
      else case jget v ''error'' of Some (JStr e) \<Rightarrow> echo (''error: '' @ e) | _ \<Rightarrow> ret ())"
    by simp
  then show ?thesis
    unfolding print_status_def py_item_Inr [OF o x] lift_Inr bind_ret by (intro returns_intros)
qed


definition example_dump :: "string list" where
  "example_dump = [join [CHR 0x09] [''key'', ''psk'', ''192.0.2.1:5'', ''10.0.0.2/32'', ''100'', ''5'', ''6'', ''off'']]"

lemma example_dump_entries:
  "case peer_entries [(''key'', ''phone'')] example_dump of Inr entries \<Rightarrow> length entries = 1 | Inl _ \<Rightarrow> False"
  by code_simp


subsection \<open>Exit statuses\<close>

lemma returns_state_lock: "returns (state_lock paths exclusive blocking body) a \<Longrightarrow> returns body a"
  by (erule returnsE, erule locked_body) (rule returnsI)

lemma returns_locked_view:
  assumes "returns (locked_state_view paths required exclusive blocking body) a"
  shows "\<exists>view. returns (body view) a"
proof (cases "ip_data paths")
  case None
  with assms show ?thesis
    unfolding locked_state_view_def
    by (auto dest!: returns_bind returns_state_lock simp: raise_hinted_def split: option.split_asm if_split_asm) blast+
next
  case (Some d)
  with assms show ?thesis by (auto simp: locked_state_view_def)
qed

lemma session_returns: "returns (session rt) n \<Longrightarrow> n = 0"
  unfolding session_def by (auto dest!: returns_bind)

lemma returns_in_gateway: "returns (in_gateway g m) n \<Longrightarrow> returns m n"
proof (erule returnsE)
  fix w w' assume "in_gateway g m w = (Ret n, w')"
  then have "\<exists>g'. m ((g w)\<lparr>gw_world := w\<rparr>) = (Ret n, g')"
    by (cases "m ((g w)\<lparr>gw_world := w\<rparr>)") (simp add: in_gateway_def)
  then show ?thesis by (blast intro: returnsI)
qed

lemma run_gateway_returns: "returns (run_gateway sha load build g) n \<Longrightarrow> n = 0"
  unfolding run_gateway_def
  by (drule returns_bind, clarify, drule returns_bind, clarify, drule returns_locked_view)
    (auto dest!: returns_bind session_returns returns_in_gateway split: option.split_asm json.split_asm)

text \<open>The statuses after which systemd starts the unit of a \<open>systemd-run\<close> command line again.\<close>

definition restarted_for :: "string list \<Rightarrow> int \<Rightarrow> bool" where
  "restarted_for service status \<longleftrightarrow> ''--property=Restart=no'' \<in> set service
     \<and> ''--property=RestartForceExitStatus='' @ str_int status \<in> set (takeWhile (\<lambda>a. a \<noteq> ''--'') (tl service))"

lemma echo_err_run: "echo_err t w = (Ret (), w\<lparr>console := console w @ [(Stderr, t @ [CHR 0x0A])]\<rparr>)"
  by (simp add: echo_err_def put_text_def)

lemma restarted_for_unit:
  assumes "systemd_run_command env unit_name inner python_path v = (Ret service, v')"
  shows "restarted_for service status = (str_int status = ''75'')"
proof -
  from assms obtain program where s: "service = [program, ''--user'', ''--unit='' @ unit_name] @ unit_properties
       @ (case python_path of None \<Rightarrow> [] | Some p \<Rightarrow> [''--setenv=PYTHONPATH='' @ show_path p]) @ [''--''] @ inner"
    by (auto simp: systemd_run_command_def with_command_def run_inv)
  show ?thesis
    unfolding s restarted_for_def unit_properties_def by (auto split: option.split)
qed

lemma status_texts: "str_int 0 \<noteq> ''75''" "str_int 2 \<noteq> ''75''" "str_int 75 = ''75''"
  by code_simp+


definition example_context :: "(comps \<Rightarrow> project_config io) \<Rightarrow> cli_context" where
  "example_context load = \<lparr>cx_sha = id, cx_request = zero_digits, cx_uuid = one_digits,
     cx_runner = (\<lambda>command opts. raise (CommandError ''no wg'')), cx_load = load, cx_confirm = (\<lambda>_. ret True),
     cx_build = (\<lambda>config paths dir launch_id. example_runtime), cx_gateway = (\<lambda>w. example_gateway []),
     cx_probe = (\<lambda>_. ret ())\<rparr>"


subsection \<open>Creating the configuration\<close>

lemma sandbox_instance_Ret:
  "sandbox_instance w = (Ret paths, w') \<longleftrightarrow> w' = w \<and> (\<exists>r. map_of (environ w) ''SHUTTLE_GATE_ROOT'' = Some r
     \<and> from_root (path_comps (parse_path r)) w = (Ret paths, w))"
  by (auto simp: sandbox_instance_def run_inv from_root_def p_resolve_def split: option.split_asm)

text \<open>The text of the example configuration as the command can read it.\<close>

definition example_text :: "string \<Rightarrow> bool" where
  "example_text content \<longleftrightarrow> (\<exists>root. returns application_root root
     \<and> returns (read_text_utf8 (root @ [''config.example.yaml''])) content)"

lemma write_example_taken:
  assumes "node_at w (ip_config paths) \<noteq> None"
  shows "write_example paths w = (Exn (SystemExit 2), w\<lparr>console := console w @ [(Stderr,
    (''shuttle-gate error: refusing to overwrite existing configuration: '' @ show_path (ip_config paths)) @ [CHR 0x0A])]\<rparr>)"
proof -
  have "follow 40 w (ip_config paths) \<noteq> None \<or> is_link_node (node_at w (ip_config paths))"
    using assms follow_no_link by metis
  then have "bind (p_exists (ip_config paths)) (\<lambda>there. if there then ret True else p_is_symlink (ip_config paths)) w = (Ret True, w)"
    by (auto simp: p_exists_def p_is_symlink_def prog_defs)
  then show ?thesis
    unfolding write_example_def bind_assoc [symmetric]
    by (simp add: bind_def abort_def echo_err_run raise_def del: bind_assoc)
qed

lemma hoare_bind_keeping:
  assumes m: "obeys (keeps A) m" and f: "\<And>a. returns m a \<Longrightarrow> hoare (keeps A w0) (f a) Q (\<lambda>_. E) E"
    and E: "\<And>w. keeps A w0 w \<Longrightarrow> E w"
  shows "hoare (keeps A w0) (bind m f) Q (\<lambda>_. E) E"
proof (rule hoareI)
  fix w assume k: "keeps A w0 w"
  obtain r w' where mw: "m w = (r, w')" by fastforce
  then have k': "keeps A w0 w'" using obeysD [OF m mw] k kp.trans by blast
  show "case bind m f w of (Ret a, w') \<Rightarrow> Q a w' | (Exn e, w') \<Rightarrow> E w' | (Halt, w') \<Rightarrow> E w'"
  proof (cases r)
    case (Ret a)
    from f [OF returnsI [of m, OF mw [unfolded Ret]]] k' show ?thesis
      by (simp add: hoare_def bind_def mw Ret)
  qed (use E k' in \<open>simp_all add: bind_def mw\<close>)
qed

definition created :: "world \<Rightarrow> comps \<Rightarrow> world \<Rightarrow> bool" where
  "created w0 c w \<longleftrightarrow> (\<exists>content. example_text content \<and> node_at w c = Some (File 0x180 (uid w0) (utf8_encode content)))"

lemma hoare_create:
  assumes c: "c \<noteq> []" and n: "node_at w0 c = None" and t: "example_text content"
  shows "hoare (keeps {c} w0) (atomic_write c content 0x180) (\<lambda>_. created w0 c)
    (\<lambda>_ w. node_at w c = None \<or> created w0 c w) (\<lambda>w. node_at w c = None \<or> created w0 c w)"
proof (rule hoareI)
  fix w assume k: "keeps {c} w0 w"
  then have "node_at w c = None" "uid w = uid w0" using n by (simp_all add: keeps_def)
  with atomic_write_outcome [OF c, where w = w and content = "utf8_encode content" and mode = "0x180"] t
  show "case atomic_write c content 0x180 w of (Ret a, w') \<Rightarrow> created w0 c w'
    | (Exn e, w') \<Rightarrow> node_at w' c = None \<or> created w0 c w' | (Halt, w') \<Rightarrow> node_at w' c = None \<or> created w0 c w'"
    by (auto simp: created_def installed_def atomic_write_def split: prod.splits outcome.splits)
qed

lemma hoare_write_example:
  assumes paths: "ip_config paths = root @ [''config.yaml'']" "ip_secrets paths = root @ [''secrets'']"
    and n: "node_at w0 (ip_config paths) = None"
  shows "hoare (keeps {ip_config paths} w0) (write_example paths) (\<lambda>_. created w0 (ip_config paths))
    (\<lambda>_ w. node_at w (ip_config paths) = None \<or> created w0 (ip_config paths) w)
    (\<lambda>w. node_at w (ip_config paths) = None \<or> created w0 (ip_config paths) w)"
proof -
  let ?c = "ip_config paths" and ?A = "{ip_config paths}"
  let ?E = "\<lambda>w. node_at w (ip_config paths) = None \<or> created w0 (ip_config paths) w"
  have E: "?E w" if "keeps ?A w0 w" for w using that n by (simp add: keeps_def)
  have abort: "obeys (keeps ?A) (if b then abort message 2 else ret ())" for b message
    unfolding abort_def by (auto intro!: obeys_rules reader_keeps)
  have secrets: "obeys (keeps ?A) (ensure_private_directory (ip_secrets paths))"
    by (rule ensure_private_directory_keeps) (auto simp: paths)
  have root: "obeys (keeps ?A) application_root"
    unfolding application_root_def by (intro obeys_rules reader_keeps)
  have taken: "obeys (keeps ?A) (if b then ret True else p_is_symlink ?c)" for b by (intro obeys_rules)
  have c: "?c \<noteq> []" by (simp add: paths)
  show ?thesis
    unfolding write_example_def Let_def
    by (intro hoare_bind_keeping hoare_create [OF c n])
      (rule abort secrets root taken E | assumption | (intro obeys_rules; fail) | (auto simp: example_text_def)[1])+
qed


definition configured_world :: world where
  "configured_world = (system_with [([''gate''], Dir 0x1C0 1000), ([''gate'', ''config.yaml''], Symlink ''elsewhere'')])
     \<lparr>environ := [(''SHUTTLE_GATE_ROOT'', ''/gate'')]\<rparr>"


end
