(* ===== verification/LaunchProps.thy ===== *)
theory LaunchProps
  imports FilesProps ConfigProps Launch PyText JsonSize
begin

text \<open>
  What an accepted launch manifest says of the files that the gateway is about to use.
\<close>

text \<open>The file under \<open>p\<close> is the one a digest was taken of; a private one is closed to others.\<close>

definition recorded :: "(string \<Rightarrow> string) \<Rightarrow> world \<Rightarrow> comps \<Rightarrow> bool \<Rightarrow> json option \<Rightarrow> bool" where
  "recorded sha w p private d \<longleftrightarrow> (\<exists>m u c. node_at w p = Some (File m u c) \<and> d = Some (JStr (sha c))
     \<and> c \<noteq> [] \<and> length c \<le> MAX_INPUT_BYTES \<and> (private \<longrightarrow> m AND 0x3F = 0))"

lemma recorded_disk: "disk w' = disk w \<Longrightarrow> recorded sha w' p private d = recorded sha w p private d"
  by (simp add: recorded_def node_at_def)

lemma file_digest_ro [obeys_rules]: "obeys same_store (file_digest sha p l private)"
  unfolding file_digest_def by (intro obeys_rules)

lemma file_digest_Ret:
  assumes "file_digest sha p l private w = (Ret d, w')"
  shows "recorded sha w p private (Some (JStr d)) \<and> disk w' = disk w"
proof -
  from assms obtain fd w1 info w2 c w3 where o: "os_open p w = (Ret fd, w1)" and s: "os_fstat fd w1 = (Ret info, w2)"
      and i: "is_file_node (Some info)" "0 < node_size info" "node_size info \<le> MAX_INPUT_BYTES"
      and q: "\<not> (private \<and> open_to_others info)"
      and r: "os_read fd (MAX_INPUT_BYTES + 1) w2 = (Ret c, w3)" and d: "d = sha c"
    unfolding file_digest_def by (auto simp: run_inv elim!: try_finally_Ret)
  have fd: "fd_path fd = p" using returns_open [OF returnsI [of "os_open p", OF o]] .
  have "obeys same_store (os_open p)" by (intro obeys_rules)
  from reader_disk [OF this o] have 1: "disk w1 = disk w" .
  from os_fstat_Ret [OF s] have 2: "node_at w1 p = Some info" "disk w2 = disk w1" by (simp_all add: fd)
  from i(1) obtain m u x where n: "info = File m u x" by (auto elim: is_file_node.elims)
  have "node_at w2 p = Some (File m u x)" "node_at w p = Some (File m u x)"
    using 1 2 n by (simp_all add: node_at_def)
  moreover from this(1) have "c = x"
    using os_read_Ret [OF r, of m u x] i n by (simp add: fd)
  moreover have "disk w' = disk w" using reader_disk [OF file_digest_ro assms] .
  ultimately show ?thesis
    using i q n d by (auto simp: recorded_def open_to_others_def)
qed

lemma read_launch_manifest_Ret:
  assumes "read_launch_manifest p w = (Ret v, w')"
  shows "is_JObj v \<and> json_is_int (jget v ''schema_version'') LAUNCH_SCHEMA_VERSION \<and> disk w' = disk w"
proof -
  have "obeys same_store (read_launch_manifest p)"
    unfolding read_launch_manifest_def by (intro obeys_rules)
  from reader_disk [OF this assms] assms show ?thesis
    by (auto simp: read_launch_manifest_def run_inv raise_hinted_run split: if_split_asm)
qed

text \<open>A returned validation has compared every recorded input.\<close>

lemma input_digests_Ret:
  assumes "input_digests sha config paths generation identity known_hosts bundle w = (Ret inputs, w')"
  obtains c i k a where "inputs = launch_inputs config generation c i k a"
    and "recorded sha w (ip_config paths) True (Some (JStr c))" and "recorded sha w identity True (Some (JStr i))"
    and "recorded sha w known_hosts False (Some (JStr k))" and "recorded sha w bundle True (Some (JStr a))"
    and "disk w' = disk w"
proof -
  from assms obtain c w1 i w2 k w3 a where
      1: "file_digest sha (ip_config paths) ''configuration'' True w = (Ret c, w1)"
      and 2: "file_digest sha identity ''SSH identity'' True w1 = (Ret i, w2)"
      and 3: "file_digest sha known_hosts ''SSH known-hosts'' False w2 = (Ret k, w3)"
      and 4: "file_digest sha bundle ''application bundle'' True w3 = (Ret a, w')"
      and v: "inputs = launch_inputs config generation c i k a"
    by (auto simp: input_digests_def run_inv)
  note r = file_digest_Ret [OF 1] file_digest_Ret [OF 2] file_digest_Ret [OF 3] file_digest_Ret [OF 4]
  have d: "disk w1 = disk w" "disk w2 = disk w" "disk w3 = disk w" "disk w' = disk w" using r by simp_all
  with r v show thesis
    by (intro that) (simp_all add: recorded_disk [OF d(1)] recorded_disk [OF d(2)] recorded_disk [OF d(3)])
qed


section \<open>A launch that is accepted\<close>

definition launch_config :: project_config where
  "launch_config = project_example\<lparr>wireguard := wireguard_example\<lparr>bind_addresses := [], listen_port := 7\<rparr>\<rparr>"
definition launch_paths :: instance_paths where
  "launch_paths = \<lparr>ip_root = [], ip_config = [''c''], ip_state = [''state''], ip_secrets = [''secrets''], ip_data = None\<rparr>"
definition launch_doc :: json where
  "launch_doc = launch_value (replicate 32 (CHR ''0'')) (replicate 20 (CHR ''1''))
     (''shuttle-gate-'' @ replicate 20 (CHR ''1'') @ ''.service'') (launch_inputs launch_config (Some ''g'') ''k'' ''i'' ''h'' ''a'')"

lemma launch_doc_weight: "weight 0 launch_doc \<le> 30000"
  by (simp add: launch_doc_def launch_value_def launch_inputs_def launch_config_def project_example_def
      ssh_example_def str_int_def str_nat.simps [of 3] str_nat.simps [of 7] LAUNCH_SCHEMA_VERSION_def)

text \<open>The launch of that configuration, with the identity function for the digest.\<close>

definition launch_text :: string where
  "launch_text = dumps compact launch_doc"

definition launch_world :: world where
  "launch_world = system_with [([''c''], File 0x180 1000 ''k''), ([''b''], File 0x180 1000 ''a''),
     ([''secrets'', ''id_ed25519''], File 0x180 1000 ''i''), ([''secrets'', ''known_hosts''], File 0x1A4 1000 ''h''),
     ([''launch''], File 0x180 1000 (utf8_encode launch_text))]"

lemma launch_doc_exact: "no_float launch_doc"
  by (simp add: launch_doc_def launch_value_def launch_inputs_def list_all_iff)

lemma launch_text_loads: "loads launch_text = Inr (sort_keys launch_doc)"
  using loads_dumps [of compact launch_doc "[]"] launch_doc_exact
  by (simp add: launch_text_def white_layouts skip_ws_def)

lemma launch_text_size: "0 < length (utf8_encode launch_text)" "length (utf8_encode launch_text) \<le> MAX_LAUNCH_BYTES"
proof -
  have "loads [] = Inl JSONDecodeError" by code_simp
  then have "launch_text \<noteq> []" using launch_text_loads by auto
  then show "0 < length (utf8_encode launch_text)" using utf8_length [of launch_text] by (cases launch_text) auto
  show "length (utf8_encode launch_text) \<le> MAX_LAUNCH_BYTES"
    using utf8_length [of launch_text] dumps_length [OF small_layouts(1), of launch_doc] length_utf8_encode [of launch_text] launch_doc_weight
    by (simp add: MAX_LAUNCH_BYTES_def launch_text_def)
qed

lemma launch_doc_fields:
  "is_JObj launch_doc" "jget launch_doc ''schema_version'' = Some (JInt 3)"
  "jget launch_doc ''launch_id'' = Some (JStr (replicate 32 (CHR ''0'')))"
  "jget launch_doc ''instance_id'' = Some (JStr (replicate 20 (CHR ''1'')))"
  "jget launch_doc ''unit'' = Some (JStr (''shuttle-gate-'' @ replicate 20 (CHR ''1'') @ ''.service''))"
  by (simp_all add: launch_doc_def launch_value_def launch_inputs_def LAUNCH_SCHEMA_VERSION_def)

lemma launch_manifest_read: "read_launch_manifest [''launch''] launch_world = (Ret (sort_keys launch_doc), launch_world)"
proof -
  have "read_text_utf8 [''launch''] launch_world = (Ret launch_text, launch_world)"
    by (simp add: read_text_utf8_def read_bytes_def syscall_def syscall_torn_def launch_world_def prog_defs
        follow_no_link decode_utf8_def)
  moreover have "os_lstat [''launch''] launch_world = (Ret (File 0x180 1000 (utf8_encode launch_text)), launch_world)"
    by (simp add: os_lstat_def syscall_def syscall_torn_def launch_world_def)
  ultimately show ?thesis
    using launch_text_size
    by (simp add: read_launch_manifest_def Let_def bind_def try_except_def require_def ret_def lift_def
        launch_text_loads launch_doc_fields LAUNCH_SCHEMA_VERSION_def)
qed

lemma launch_unit_ok: "UNIT_PATTERN (''shuttle-gate-'' @ replicate 20 (CHR ''1'') @ ''.service'')"
  "LAUNCH_ID_PATTERN (replicate 32 (CHR ''0''))" "INSTANCE_PATTERN (replicate 20 (CHR ''1''))"
  by (simp_all add: UNIT_PATTERN_def LAUNCH_ID_PATTERN_def INSTANCE_PATTERN_def is_hex32_def is_lower_hex_def char_class_defs list_all_iff)

lemma launch_accepted: "\<exists>w'. validate_launch_manifest id launch_config launch_paths (Some ''g'') [''launch''] [''b''] launch_world
    = (Ret (sort_keys launch_doc), w')"
proof -
  have m: "mounted_secret_path launch_paths (identity_file (ssh launch_config)) = Inr [''secrets'', ''id_ed25519'']"
    "mounted_secret_path launch_paths (known_hosts_file (ssh launch_config)) = Inr [''secrets'', ''known_hosts'']"
    by (simp_all add: mounted_secret_path_def secret_relative_path_def launch_config_def project_example_def ssh_example_def
        launch_paths_def join_path_def)
  have f: "require_private_file p l launch_world = (Ret (), launch_world)" if "p = [''b''] \<or> p = [''secrets'', ''id_ed25519'']" for p l
    using that by (auto simp: require_private_file_def stat_required_def os_lstat_def syscall_def syscall_torn_def
        launch_world_def prog_defs open_to_others_def)
  have k: "require_regular_file [''secrets'', ''known_hosts''] l launch_world = (Ret (), launch_world)" for l
    by (simp add: require_regular_file_def stat_required_def os_lstat_def syscall_def syscall_torn_def
        launch_world_def prog_defs)
  have d: "\<exists>w'. input_digests id launch_config launch_paths (Some ''g'') [''secrets'', ''id_ed25519''] [''secrets'', ''known_hosts''] [''b'']
      launch_world = (Ret (launch_inputs launch_config (Some ''g'') ''k'' ''i'' ''h'' ''a''), w')"
    by (simp add: input_digests_def file_digest_def launch_paths_def launch_world_def os_open_def os_fstat_def os_read_def
        os_close_def new_handle_def with_handle_def syscall_def syscall_torn_def prog_defs open_to_others_def
        MAX_INPUT_BYTES_def system_with_def node_at_def)
  then obtain w' where d: "input_digests id launch_config launch_paths (Some ''g'') [''secrets'', ''id_ed25519''] [''secrets'', ''known_hosts''] [''b'']
      launch_world = (Ret (launch_inputs launch_config (Some ''g'') ''k'' ''i'' ''h'' ''a''), w')" by blast
  have e: "\<not> list_ex (\<lambda>(key, item). \<not> json_equal (jget (sort_keys launch_doc) key) item)
      (launch_inputs launch_config (Some ''g'') ''k'' ''i'' ''h'' ''a'')"
    by (simp add: launch_doc_def launch_value_def launch_inputs_def json_equal_def)
  show ?thesis
    unfolding validate_launch_manifest_def
    by (simp add: bind_def launch_manifest_read m f k d e require_def ret_def lift_def string_field_def
        launch_doc_fields launch_unit_ok [simplified] e [simplified])
qed


end
