(* ===== verification/LaunchRoundTrip.thy ===== *)
theory LaunchRoundTrip
  imports LaunchProps StateProps
begin

text \<open>
  What \<open>up\<close> prepares on the host is what the gateway accepts in its sandbox, where the same
  files are mounted under other names.
\<close>

subsection \<open>Checks that pass\<close>

lemma calm_lstat: "fates w = [] \<Longrightarrow> node_at w p = Some n \<Longrightarrow> os_lstat p w = (Ret n, w)"
  by (simp add: os_lstat_def syscall_def syscall_torn_def)

lemma require_private_file_calm:
  "fates w = [] \<Longrightarrow> node_at w p = Some (File m u c) \<Longrightarrow> m AND 0x3F = 0 \<Longrightarrow> require_private_file p l w = (Ret (), w)"
  by (simp add: require_private_file_def stat_required_def prog_defs calm_lstat open_to_others_def)

lemma require_regular_file_calm:
  "fates w = [] \<Longrightarrow> node_at w p = Some (File m u c) \<Longrightarrow> require_regular_file p l w = (Ret (), w)"
  by (simp add: require_regular_file_def stat_required_def prog_defs calm_lstat)

lemma file_digest_calm:
  assumes "fates w = []" and "recorded sha w p private (Some (JStr d))"
  shows "\<exists>w'. file_digest sha p l private w = (Ret d, w') \<and> fates w' = [] \<and> disk w' = disk w"
proof -
  from assms(2) obtain m u c where n: "node_at w p = Some (File m u c)" and d: "d = sha c"
      and c: "c \<noteq> []" "length c \<le> MAX_INPUT_BYTES" "private \<longrightarrow> m AND 0x3F = 0"
    by (auto simp: recorded_def)
  show ?thesis
    using assms(1) n c d
    by (auto simp: file_digest_def prog_defs syscall_def syscall_torn_def with_handle_def os_open_def new_handle_def
        os_fstat_def os_read_def os_close_def open_to_others_def node_at_def)
qed

lemma input_digests_calm:
  assumes f: "fates w = []" and c: "recorded sha w (ip_config paths) True (Some (JStr c))"
    and i: "recorded sha w identity True (Some (JStr i))" and k: "recorded sha w known_hosts False (Some (JStr k))"
    and a: "recorded sha w bundle True (Some (JStr a))"
  shows "\<exists>w'. input_digests sha config paths generation identity known_hosts bundle w
    = (Ret (launch_inputs config generation c i k a), w')"
proof -
  obtain w1 where 1: "file_digest sha (ip_config paths) ''configuration'' True w = (Ret c, w1)" "fates w1 = []" "disk w1 = disk w"
    using file_digest_calm [OF f c] by blast
  obtain w2 where 2: "file_digest sha identity ''SSH identity'' True w1 = (Ret i, w2)" "fates w2 = []" "disk w2 = disk w"
    using file_digest_calm [OF 1(2)] i recorded_disk [OF 1(3)] 1(3) by metis
  obtain w3 where 3: "file_digest sha known_hosts ''SSH known-hosts'' False w2 = (Ret k, w3)" "fates w3 = []" "disk w3 = disk w"
    using file_digest_calm [OF 2(2)] k recorded_disk [OF 2(3)] 2(3) by metis
  obtain w4 where 4: "file_digest sha bundle ''application bundle'' True w3 = (Ret a, w4)"
    using file_digest_calm [OF 3(2)] a recorded_disk [OF 3(3)] by metis
  show ?thesis by (simp add: input_digests_def bind_def 1(1) 2(1) 3(1) 4 ret_def)
qed

subsection \<open>The manifest of a launch\<close>

lemma launch_value_fields:
  assumes "v = launch_value launch_id instance_id unit_name (launch_inputs config g c i k a)"
  shows "is_JObj (sort_keys v)" "no_float v" "jget (sort_keys v) ''schema_version'' = Some (JInt 3)"
    "jget (sort_keys v) ''launch_id'' = Some (JStr launch_id)" "jget (sort_keys v) ''instance_id'' = Some (JStr instance_id)"
    "jget (sort_keys v) ''unit'' = Some (JStr unit_name)"
    "\<not> list_ex (\<lambda>(key, item). \<not> json_equal (jget (sort_keys v) key) item) (launch_inputs config g c i k a)"
proof -
  show "is_JObj (sort_keys v)" "jget (sort_keys v) ''schema_version'' = Some (JInt 3)"
    "jget (sort_keys v) ''launch_id'' = Some (JStr launch_id)" "jget (sort_keys v) ''instance_id'' = Some (JStr instance_id)"
    "jget (sort_keys v) ''unit'' = Some (JStr unit_name)"
    by (simp_all add: assms launch_value_def launch_inputs_def LAUNCH_SCHEMA_VERSION_def)
  show "no_float v"
    by (simp add: assms launch_value_def launch_inputs_def list_all_iff split: option.split)
  have s: "sort_keys (JList (map (JStr \<circ> str_ip) xs)) = JList (map (JStr \<circ> str_ip) xs)" for xs by simp
  show "\<not> list_ex (\<lambda>(key, item). \<not> json_equal (jget (sort_keys v) key) item) (launch_inputs config g c i k a)"
    by (simp add: assms launch_value_def launch_inputs_def json_equal_def split: option.split)
qed

definition manifest_at :: "world \<Rightarrow> comps \<Rightarrow> json \<Rightarrow> bool" where
  "manifest_at w p v \<longleftrightarrow> (\<exists>m u. node_at w p = Some (File m u (utf8_encode (dumps indented v @ [CHR 0x0A]))))"

lemma read_launch_manifest_calm:
  assumes f: "fates w = []" and p: "manifest_at w p v" and nf: "no_float v"
    and s: "length (utf8_encode (dumps indented v @ [CHR 0x0A])) \<le> MAX_LAUNCH_BYTES"
    and o: "is_JObj (sort_keys v)" "jget (sort_keys v) ''schema_version'' = Some (JInt 3)"
  shows "read_launch_manifest p w = (Ret (sort_keys v), w)"
proof -
  let ?t = "dumps indented v @ [CHR 0x0A]"
  from p obtain m u where n: "node_at w p = Some (File m u (utf8_encode ?t))" by (auto simp: manifest_at_def)
  have l: "0 < length (utf8_encode ?t)" using utf8_length [of ?t] by (cases "utf8_encode ?t") auto
  have r: "read_text_utf8 p w = (Ret ?t, w)"
    using n f by (simp add: read_text_utf8_def read_bytes_def syscall_def syscall_torn_def prog_defs follow_no_link decode_utf8_def)
  show ?thesis
    using l s o f
    by (simp add: read_launch_manifest_def Let_def bind_def try_except_def require_def ret_def lift_def calm_lstat [OF f n] r
        loads_document [OF nf] LAUNCH_SCHEMA_VERSION_def del: jget_sort_keys)
qed

subsection \<open>What a preparation has done\<close>

lemma locked_view_Ret:
  assumes "locked_state_view paths required exclusive blocking body w = (Ret a, w')"
  obtains view wa wb where "body view wa = (Ret a, wb)" and "disk w' = disk wb"
proof (cases "ip_data paths")
  case (Some d)
  with assms that show thesis by (simp add: locked_state_view_def)
next
  case None
  from assms None obtain w0 where "state_lock paths exclusive blocking
      (bind (active_generation paths required) (\<lambda>active. case active of
             None \<Rightarrow> bind (legacy_state_present paths) (\<lambda>legacy.
               if legacy then raise_hinted StateError ''legacy key state requires migration'' [''keys'', ''generate'']
               else body \<lparr>view_paths = with_data paths (current_path paths), view_generation = None\<rparr>)
           | Some (root, generation) \<Rightarrow>
               body \<lparr>view_paths = with_data paths root, view_generation = Some generation\<rparr>)) w0 = (Ret a, w')"
    by (auto simp: locked_state_view_def elim!: bind_RetE)
  from locked_body [OF this] obtain w1 w2 where "bind (active_generation paths required) (\<lambda>active. case active of
             None \<Rightarrow> bind (legacy_state_present paths) (\<lambda>legacy.
               if legacy then raise_hinted StateError ''legacy key state requires migration'' [''keys'', ''generate'']
               else body \<lparr>view_paths = with_data paths (current_path paths), view_generation = None\<rparr>)
           | Some (root, generation) \<Rightarrow>
               body \<lparr>view_paths = with_data paths root, view_generation = Some generation\<rparr>) w1 = (Ret a, w2)"
      and "disk w' = disk w2" by metis
  with that show thesis
    by (elim bind_RetE) (auto simp: raise_hinted_run split: option.splits prod.splits if_splits elim!: bind_RetE)
qed

definition launch_input :: "project_config \<Rightarrow> instance_paths \<Rightarrow> comps \<Rightarrow> comps \<Rightarrow> bool" where
  "launch_input config paths bundle p \<longleftrightarrow> p = ip_config paths \<or> p = bundle
     \<or> mounted_secret_path paths (identity_file (ssh config)) = Inr p
     \<or> mounted_secret_path paths (known_hosts_file (ssh config)) = Inr p"

text \<open>Writing \<open>q\<close> atomically leaves \<open>p\<close> alone.\<close>

definition apart_from :: "comps \<Rightarrow> comps \<Rightarrow> bool" where
  "apart_from q p \<longleftrightarrow> \<not> prefix p (butlast q) \<and> \<not> prefix q p \<and> (\<forall>s. \<not> prefix (butlast q @ [temp_prefix q @ s]) p)"

lemma recorded_same: "node_at w' p' = node_at w p \<Longrightarrow> recorded sha w' p' private d = recorded sha w p private d"
  by (simp add: recorded_def)

lemma prepare_launch_Ret:
  assumes "prepare_launch sha token config paths launch bundle instance_id unit_name w = (Ret v, w')"
    and "launch \<noteq> []" and "\<And>p. launch_input config paths bundle p \<Longrightarrow> apart_from launch p"
  obtains g identity known_hosts c i k a m u x where "INSTANCE_PATTERN instance_id" and "UNIT_PATTERN unit_name"
    and "mounted_secret_path paths (identity_file (ssh config)) = Inr identity"
    and "mounted_secret_path paths (known_hosts_file (ssh config)) = Inr known_hosts"
    and "v = launch_value token instance_id unit_name (launch_inputs config (Some g) c i k a)"
    and "recorded sha w' (ip_config paths) True (Some (JStr c))" and "recorded sha w' identity True (Some (JStr i))"
    and "recorded sha w' known_hosts False (Some (JStr k))" and "recorded sha w' bundle True (Some (JStr a))"
    and "manifest_at w' launch v"
proof -
  from assms(1) obtain w0 where pat: "INSTANCE_PATTERN instance_id" "UNIT_PATTERN unit_name"
      and view: "locked_state_view paths True True False (\<lambda>view.
       then_do (recover_ssh_key_transaction sha config paths)
      (bind (validate_ssh_files config paths) (\<lambda>(identity, known_hosts).
       then_do (require_current_phone_configs sha config (view_paths view))
      (if view_generation view = None
       then raise_hinted StateError ''persistent keys are not initialized'' [''keys'', ''generate'']
       else
       bind (input_digests sha config paths (view_generation view) identity known_hosts bundle) (\<lambda>inputs.
       let value = launch_value token instance_id unit_name inputs in
       then_do (atomic_write_json launch value 0x180) (ret value)))))) w0 = (Ret v, w')"
    unfolding prepare_launch_def by (auto simp: run_inv)
  from locked_view_Ret [OF view] obtain view :: state_view and wa wb where
      body: "then_do (recover_ssh_key_transaction sha config paths)
      (bind (validate_ssh_files config paths) (\<lambda>(identity, known_hosts).
       then_do (require_current_phone_configs sha config (view_paths view))
      (if view_generation view = None
       then raise_hinted StateError ''persistent keys are not initialized'' [''keys'', ''generate'']
       else
       bind (input_digests sha config paths (view_generation view) identity known_hosts bundle) (\<lambda>inputs.
       let value = launch_value token instance_id unit_name inputs in
       then_do (atomic_write_json launch value 0x180) (ret value))))) wa = (Ret v, wb)"
      and d: "disk w' = disk wb" .
  from body obtain u1 w1 identity known_hosts w2 w3 g inputs w4 u5 where
      s: "validate_ssh_files config paths w1 = (Ret (identity, known_hosts), w2)"
      and g: "view_generation view = Some g"
      and i: "input_digests sha config paths (Some g) identity known_hosts bundle w3 = (Ret inputs, w4)"
      and v: "v = launch_value token instance_id unit_name inputs"
      and a: "atomic_write_json launch v 0x180 w4 = (Ret u5, wb)"
    by (auto simp: run_inv raise_hinted_run Let_def split: if_split_asm elim!: bind_RetE)
  note files = validate_ssh_files_Ret [OF s]
  obtain c h q b where inputs: "inputs = launch_inputs config (Some g) c h q b"
      and r: "recorded sha w3 (ip_config paths) True (Some (JStr c))" "recorded sha w3 identity True (Some (JStr h))"
        "recorded sha w3 known_hosts False (Some (JStr q))" "recorded sha w3 bundle True (Some (JStr b))"
      and d3: "disk w4 = disk w3"
    using input_digests_Ret [OF i] .
  let ?A = "{p. launch_input config paths bundle p}" and ?t = "utf8_encode (dumps indented v @ [CHR 0x0A])"
  have w: "atomic_write_bytes launch ?t 0x180 w4 = (Ret (), wb)"
    using a by (simp add: atomic_write_json_def atomic_write_def)
  have "obeys (keeps ?A) (atomic_write_bytes launch ?t 0x180)"
    by (rule atomic_write_bytes_keeps) (use assms(3) in \<open>auto simp: apart_from_def\<close>)
  from obeysD [OF this w] have same: "node_at w' p = node_at w3 p" if "launch_input config paths bundle p" for p
    using that d d3 by (simp add: keeps_def node_at_def)
  have "node_at wb launch = Some (File 0x180 (uid w4) ?t)"
    using atomic_write_outcome [OF assms(2), where content = ?t and mode = "0x180" and w = w4] w by (simp add: installed_def)
  then have m: "manifest_at w' launch v" using d by (auto simp: manifest_at_def node_at_def)
  show thesis
    by (rule that [OF pat conjunct1 [OF files] conjunct1 [OF conjunct2 [OF files]] v [unfolded inputs] _ _ _ _ m])
      (use r files in \<open>simp_all add: recorded_same [OF same] launch_input_def\<close>)
qed

subsection \<open>The round trip\<close>

text \<open>The files of a launch, seen in another world under other names, are the same files.\<close>

definition same_inputs ::
  "project_config \<Rightarrow> instance_paths \<Rightarrow> comps \<Rightarrow> comps \<Rightarrow> world \<Rightarrow> instance_paths \<Rightarrow> comps \<Rightarrow> comps \<Rightarrow> world \<Rightarrow> bool" where
  "same_inputs config paths launch bundle w paths' launch' bundle' w' \<longleftrightarrow>
     node_at w' launch' = node_at w launch \<and> node_at w' bundle' = node_at w bundle
     \<and> node_at w' (ip_config paths') = node_at w (ip_config paths)
     \<and> (\<forall>f\<in>{identity_file (ssh config), known_hosts_file (ssh config)}. \<exists>p p'. mounted_secret_path paths f = Inr p
          \<and> mounted_secret_path paths' f = Inr p' \<and> node_at w' p' = node_at w p)"

lemma recorded_private:
  assumes "recorded sha w p True d" and "fates w = []"
  shows "require_private_file p l w = (Ret (), w)"
  using assms require_private_file_calm by (auto simp: recorded_def)

lemma recorded_regular:
  assumes "recorded sha w p private d" and "fates w = []"
  shows "require_regular_file p l w = (Ret (), w)"
  using assms require_regular_file_calm by (auto simp: recorded_def)


subsection \<open>An example\<close>

text \<open>A host on which a gateway without peers is prepared, with the identity function for the digest.\<close>

definition zero_key :: string where
  "zero_key = replicate 43 (CHR ''A'') @ ''=''"

definition host_disk :: "(comps \<times> node) list" where
  "host_disk = [([], Dir 0x1ED 1000), ([''c''], File 0x180 1000 ''k''), ([''b''], File 0x180 1000 ''a''),
     ([''secrets''], Dir 0x1C0 1000), ([''secrets'', ''id_ed25519''], File 0x180 1000 ''i''),
     ([''secrets'', ''known_hosts''], File 0x1A4 1000 ''h''), ([''r''], Dir 0x1C0 1000), ([''g''], Dir 0x1C0 1000),
     ([''g'', ''server''], Dir 0x1C0 1000), ([''g'', ''server'', PRIVATE_KEY], File 0x180 1000 zero_key),
     ([''g'', ''server'', PUBLIC_KEY], File 0x1A4 1000 zero_key)]"

definition on_host :: "world \<Rightarrow> bool" where
  "on_host w \<longleftrightarrow> disk w = host_disk \<and> fates w = [] \<and> uid w = 1000 \<and> suffixes w = [''x''] \<and> umask w = 0x12"

definition prepared_paths :: instance_paths where
  "prepared_paths = \<lparr>ip_root = [], ip_config = [''c''], ip_state = [''state''], ip_secrets = [''secrets''], ip_data = Some [''g'']\<rparr>"

definition prepared_config :: project_config where
  "prepared_config = launch_config\<lparr>wireguard := (wireguard launch_config)\<lparr>peers := []\<rparr>\<rparr>"

definition prepared_doc :: json where
  "prepared_doc = launch_value (replicate 32 (CHR ''0'')) (replicate 20 (CHR ''1''))
     (''shuttle-gate-'' @ replicate 20 (CHR ''1'') @ ''.service'') (launch_inputs prepared_config (Some ''g'') ''k'' ''i'' ''h'' ''a'')"

lemmas prepared_defs = prepared_paths_def prepared_config_def launch_config_def project_example_def ssh_example_def

lemma prepared_simps [simp]:
  "ip_config prepared_paths = [''c'']" "ip_data prepared_paths = Some [''g'']" "data_dir prepared_paths = [''g'']"
  "peers (wireguard prepared_config) = []"
  by (simp_all add: prepared_defs data_dir_def)

lemma on_host_nodes:
  assumes "on_host w"
  shows "node_at w [] = Some (Dir 0x1ED 1000)" "node_at w [''c''] = Some (File 0x180 1000 ''k'')"
    "node_at w [''b''] = Some (File 0x180 1000 ''a'')" "node_at w [''secrets''] = Some (Dir 0x1C0 1000)"
    "node_at w [''secrets'', ''id_ed25519''] = Some (File 0x180 1000 ''i'')"
    "node_at w [''secrets'', ''known_hosts''] = Some (File 0x1A4 1000 ''h'')"
    "node_at w [''r''] = Some (Dir 0x1C0 1000)"
    "node_at w [''g'', ''server'', PRIVATE_KEY] = Some (File 0x180 1000 zero_key)"
    "node_at w [''g'', ''server'', PUBLIC_KEY] = Some (File 0x1A4 1000 zero_key)"
    "node_at w [''secrets'', ''.id_ed25519.transaction.json''] = None"
    "node_at w [''r'', ''launch''] = None" "node_at w [''r'', ''.launch.x''] = None"
  using assms by (simp_all add: on_host_def host_disk_def node_at_def PRIVATE_KEY_def PUBLIC_KEY_def)

lemma on_host_calm: "on_host w \<Longrightarrow> fates w = []"
  by (simp add: on_host_def)

lemma on_host_followed:
  assumes "on_host w"
  shows "follow 40 w [''g'', ''server'', PRIVATE_KEY] = Some (File 0x180 1000 zero_key)"
    "follow 40 w [''g'', ''server'', PUBLIC_KEY] = Some (File 0x1A4 1000 zero_key)"
    "follow 40 w [''secrets''] = Some (Dir 0x1C0 1000)" "follow_to 40 w [''secrets''] = [''secrets'']"
proof -
  have 40: "40 = Suc 39" by simp
  show "follow_to 40 w [''secrets''] = [''secrets'']"
    unfolding 40 follow_to.simps(2) by (simp add: on_host_nodes [OF assms])
qed (simp_all add: follow_no_link on_host_nodes [OF assms])

lemma resolved_secrets:
  assumes "on_host w"
  shows "resolve_config_path [''c''] (identity_file (ssh prepared_config)) w = (Ret [''secrets'', ''id_ed25519''], w)"
    "resolve_config_path [''c''] (known_hosts_file (ssh prepared_config)) w = (Ret [''secrets'', ''known_hosts''], w)"
  using on_host_nodes [OF assms]
  by (simp_all add: resolve_config_path_def prepared_defs p_resolve_def resolve_def prog_defs join_path_def)

lemma mounted_secrets:
  "mounted_secret_path prepared_paths (identity_file (ssh prepared_config)) = Inr [''secrets'', ''id_ed25519'']"
  "mounted_secret_path prepared_paths (known_hosts_file (ssh prepared_config)) = Inr [''secrets'', ''known_hosts'']"
  by (simp_all add: mounted_secret_path_def secret_relative_path_def prepared_defs join_path_def)

lemma ssh_files_valid:
  assumes "on_host w"
  shows "validate_ssh_files prepared_config prepared_paths w = (Ret ([''secrets'', ''id_ed25519''], [''secrets'', ''known_hosts'']), w)"
  by (simp add: validate_ssh_files_def prog_defs resolved_secrets [OF assms] mounted_secrets
     require_private_file_calm [OF on_host_calm [OF assms] on_host_nodes(5) [OF assms]]
     require_regular_file_calm [OF on_host_calm [OF assms] on_host_nodes(6) [OF assms]])

lemma zero_key_text: "list_all (\<lambda>c. code_of c < 128) zero_key" "strip zero_key = zero_key" "zero_key \<noteq> []"
    "CHR 0x0A \<notin> set zero_key" "CHR 0x0D \<notin> set zero_key" "length zero_key = 44"
    "validate_wireguard_key zero_key l = Inr zero_key"
  by code_simp+

lemma server_keys_read:
  assumes "on_host w"
  shows "read_text_secret [''g'', ''server'', PRIVATE_KEY] l w = (Ret zero_key, w)"
    "read_public_key [''g'', ''server'', PUBLIC_KEY] l w = (Ret zero_key, w)"
  using on_host_calm [OF assms]
  by (simp_all add: read_text_secret_def read_public_key_def prog_defs os_stat_def syscall_def syscall_torn_def read_text_ascii_def
      read_bytes_def decode_ascii_def on_host_followed [OF assms] zero_key_text
      require_private_file_calm [OF _ on_host_nodes(8) [OF assms]] require_regular_file_calm [OF _ on_host_nodes(9) [OF assms]])

lemma server_keys_loaded:
  assumes "on_host w"
  shows "require_current_phone_configs id prepared_config prepared_paths w = (Ret (), w)"
  by (simp add: require_current_phone_configs_def read_state_def locked_state_view_def require_current_phone_configs_at_def
      require_selected_phone_configs_def load_server_keys_at_def key_pair_status_def presence_status_def server_dir_def
      prog_defs p_exists_def on_host_followed [OF assms] server_keys_read [OF assms] zero_key_text)

lemma no_journal:
  assumes "on_host w"
  shows "read_ssh_transaction [''secrets'', ''id_ed25519''] w = (Ret None, w)"
  using on_host_calm [OF assms]
  by (simp add: read_ssh_transaction_def ssh_transaction_path_def name_of_def lstat_optional_def Let_def prog_defs os_lstat_def
      syscall_def syscall_torn_def is_FileNotFound_def on_host_nodes [OF assms])

lemma nothing_orphaned:
  assumes "on_host w"
  shows "\<exists>w'. clean_orphaned_ssh_transaction_files [''secrets'', ''id_ed25519''] w = (Ret (), w') \<and> on_host w'"
proof -
  have "children w [''secrets''] = [''id_ed25519'', ''known_hosts'']"
    using assms by (simp add: children_def on_host_def host_disk_def)
  then show ?thesis
    using assms
    by (simp add: clean_orphaned_ssh_transaction_files_def prog_defs p_is_dir_def on_host_followed [OF assms] os_listdir_def syscall_def
      syscall_torn_def clean_orphan_def ssh_transaction_path_def name_of_def fsync_directory_def
      os_open_dir_follow_def new_handle_def os_fsync_def with_handle_def os_close_def startswith_def on_host_calm on_host_nodes)
     (simp add: on_host_def node_at_def host_disk_def)
qed

lemma nothing_to_recover:
  assumes "on_host w"
  shows "\<exists>w'. recover_ssh_key_transaction id prepared_config prepared_paths w = (Ret (), w') \<and> on_host w'"
  using nothing_orphaned [OF assms]
  by (simp add: recover_ssh_key_transaction_def ssh_key_paths_def resolved_secrets [OF assms] prog_defs no_journal [OF assms])

lemma digests_taken:
  assumes "on_host w"
  shows "\<exists>w'. input_digests id prepared_config prepared_paths (Some ''g'') [''secrets'', ''id_ed25519''] [''secrets'', ''known_hosts''] [''b''] w
    = (Ret (launch_inputs prepared_config (Some ''g'') ''k'' ''i'' ''h'' ''a''), w') \<and> on_host w'"
  using assms
  by (simp add: input_digests_def file_digest_def prog_defs os_open_def os_fstat_def os_read_def
        os_close_def new_handle_def with_handle_def syscall_def syscall_torn_def open_to_others_def
        MAX_INPUT_BYTES_def on_host_def node_at_def host_disk_def)

lemma run_directory_ready:
  assumes "on_host w"
  shows "\<exists>w'. ensure_private_directory [''r''] w = (Ret (), w') \<and> on_host w'"
  using assms
  by (simp add: ensure_private_directory_def p_is_symlink_def mkdir_parents.simps os_mkdir_def
      os_open_dir_def syscall_def syscall_torn_def with_handle_def prog_defs on_host_def node_at_def host_disk_def
      new_handle_def os_fstat_def owned_dir_def os_fchmod_def os_close_def mark_def put_node_def p_is_dir_def
      follow_no_link is_FileNotFound_def)

lemma manifest_written:
  assumes "on_host w"
  shows "\<exists>w'. atomic_write_bytes [''r'', ''launch''] content 0x180 w = (Ret (), w')"
proof -
  obtain w1 where 1: "ensure_private_directory [''r''] w = (Ret (), w1)" "on_host w1"
    using run_directory_ready [OF assms] by blast
  define w2 where "w2 = snd (mkstemp ''.launch.'' [''r''] w1)"
  have 2: "mkstemp ''.launch.'' [''r''] w1 = (Ret (FD (next_fd w1) [''r'', ''.launch.x''], [''r'', ''.launch.x'']), w2)"
    "disk w2 = host_disk @ [([''r'', ''.launch.x''], File 0x180 1000 [])]" "fates w2 = []"
    "FD (next_fd w1) [''r'', ''.launch.x''] \<in> set (handles w2)"
    using 1(2)
    by (simp_all add: w2_def mkstemp.simps os_open_excl_def syscall_def syscall_torn_def prog_defs on_host_def host_disk_def
        new_handle_def mark_def put_node_def node_at_def parent_dir_def dir_at_def masked_def)
  show ?thesis
    using 2(2-4)
    by (simp add: atomic_write_bytes_def prog_defs 1(1) 2(1) temp_prefix_def name_of_def host_disk_def
      os_fchmod_def os_write_def os_fsync_def os_close_def os_replace_def with_handle_def syscall_def syscall_torn_def node_at_def
      store_data_def put_node_def mark_def move_node_def fsync_directory_def os_open_dir_follow_def new_handle_def
      dir_at_def parent_dir_def replace_error_def move_disk_def follow.simps follow_to.simps numeral_eq_Suc)
qed

definition prepared_host :: world where
  "prepared_host = (system_with host_disk)\<lparr>suffixes := [''x'']\<rparr>"

lemma prepared_launch:
  "\<exists>w1. prepare_launch id (replicate 32 (CHR ''0'')) prepared_config prepared_paths [''r'', ''launch''] [''b'']
      (replicate 20 (CHR ''1'')) (''shuttle-gate-'' @ replicate 20 (CHR ''1'') @ ''.service'') prepared_host = (Ret prepared_doc, w1)"
proof -
  have h: "on_host prepared_host" by (simp add: prepared_host_def on_host_def system_with_def)
  obtain w1 where 1: "recover_ssh_key_transaction id prepared_config prepared_paths prepared_host = (Ret (), w1)" "on_host w1"
    using nothing_to_recover [OF h] by blast
  obtain w2 where 2: "input_digests id prepared_config prepared_paths (Some ''g'') [''secrets'', ''id_ed25519''] [''secrets'', ''known_hosts''] [''b''] w1
    = (Ret (launch_inputs prepared_config (Some ''g'') ''k'' ''i'' ''h'' ''a''), w2)" "on_host w2"
    using digests_taken [OF 1(2)] by blast
  obtain w3 where 3: "atomic_write_bytes [''r'', ''launch''] (utf8_encode (dumps indented prepared_doc @ [CHR 0x0A])) 0x180 w2 = (Ret (), w3)"
    using manifest_written [OF 2(2)] by blast
  have v: "launch_value (replicate 32 (CHR ''0'')) (replicate 20 (CHR ''1'')) (''shuttle-gate-'' @ replicate 20 (CHR ''1'') @ ''.service'')
      (launch_inputs prepared_config (Some ''g'') ''k'' ''i'' ''h'' ''a'') = prepared_doc"
    by (simp add: prepared_doc_def)
  show ?thesis
    unfolding prepare_launch_def locked_state_view_def
    by (simp add: bind_def require_def ret_def launch_unit_ok [simplified] Let_def
        require_private_file_calm [OF on_host_calm [OF h] on_host_nodes(3) [OF h]] 1(1) ssh_files_valid [OF 1(2)]
        server_keys_loaded [OF 1(2)] name_of_def 2(1) v [simplified] atomic_write_json_def atomic_write_def 3)
qed

lemma prepared_doc_size: "length (utf8_encode (dumps indented prepared_doc @ [CHR 0x0A])) \<le> MAX_LAUNCH_BYTES"
proof -
  have "weight 0 prepared_doc \<le> 30000"
    by (simp add: prepared_doc_def launch_value_def launch_inputs_def prepared_config_def launch_config_def project_example_def
      ssh_example_def str_int_def str_nat.simps [of 3] str_nat.simps [of 7] LAUNCH_SCHEMA_VERSION_def)
  then show ?thesis
    using document_length [of prepared_doc] by (simp add: MAX_LAUNCH_BYTES_def)
qed

text \<open>The sandbox of that launch, which sees the files of the host under another directory.\<close>

definition sandboxed :: "world \<Rightarrow> world" where
  "sandboxed w = w\<lparr>disk := map (\<lambda>(p, n). (''sandbox'' # p, n)) (disk w), fates := []\<rparr>"

definition sandbox_paths :: instance_paths where
  "sandbox_paths = prepared_paths\<lparr>ip_config := [''sandbox'', ''c''], ip_secrets := [''sandbox'', ''secrets'']\<rparr>"

lemma sandboxed_node: "node_at (sandboxed w) (''sandbox'' # p) = node_at w p"
proof -
  have "map_of (map (\<lambda>(p, n). (''sandbox'' # p, n)) D) (''sandbox'' # p) = map_of D p" for D :: "(comps \<times> node) list"
    by (induction D) auto
  then show ?thesis by (simp add: node_at_def sandboxed_def)
qed


end
