(* ===== verification/SshuttleEntry.thy ===== *)
theory SshuttleEntry
  imports Runtime
begin

text \<open>
  \<open>sshuttle_entry.py\<close>: the entry point around the sshuttle package, which is not part of the
  source. A program runs over a \<^emph>\<open>process\<close>: the world, the table \<open>sys.modules\<close> with the attributes
  of each module, and \<open>sys.argv[0]\<close>. The package is two parameters, importing a module by
  name and the \<open>main\<close> it exports; both may change the process in any way.
\<close>

definition METHOD_MODULE :: string where
  "METHOD_MODULE = ''sshuttle.methods.tproxy''"

definition FIREWALL_ENTRYPOINT_SOURCE :: string where
  "FIREWALL_ENTRYPOINT_SOURCE = ''from shuttle_gate.sshuttle_entry import main'' @ [CHR 0x0A]
     @ ''main()'' @ [CHR 0x0A]"

text \<open>
  What an attribute of a module can be here: the class \<open>Method\<close> of \<open>nft_tproxy.py\<close>, the
  function \<open>_skip_namespace_dns_cache_flush\<close>, or an object of the package.
\<close>

datatype py_object = NativeMethod | SkipCacheFlush | PackageObject string

type_synonym py_module = "string \<rightharpoonup> py_object"

record process =
  ps_world :: world
  ps_modules :: "string \<rightharpoonup> py_module"
  ps_argv0 :: string

type_synonym 'a process_prog = "(process, 'a) prog"

definition of_world :: "'a io \<Rightarrow> 'a process_prog" where
  "of_world m = (\<lambda>s. case m (ps_world s) of (r, w) \<Rightarrow> (r, s\<lparr>ps_world := w\<rparr>))"

definition set_argv0 :: "string \<Rightarrow> unit process_prog" where
  "set_argv0 a = (\<lambda>s. (Ret (), s\<lparr>ps_argv0 := a\<rparr>))"

text \<open>\<open>sys.modules[name] = module\<close>, and \<open>module.attribute = value\<close> for an imported module.\<close>

definition bind_module :: "string \<Rightarrow> py_module \<Rightarrow> unit process_prog" where
  "bind_module name m = (\<lambda>s. (Ret (), s\<lparr>ps_modules := (ps_modules s)(name \<mapsto> m)\<rparr>))"

definition set_attribute :: "string \<Rightarrow> string \<Rightarrow> py_object \<Rightarrow> unit process_prog" where
  "set_attribute name attribute x = (\<lambda>s. case ps_modules s name of
       None \<Rightarrow> (Exn (KeyError name), s)
     | Some m \<Rightarrow> (Ret (), s\<lparr>ps_modules := (ps_modules s)(name \<mapsto> m(attribute \<mapsto> x))\<rparr>))"

definition skip_namespace_dns_cache_flush :: "unit process_prog" where
  "skip_namespace_dns_cache_flush = ret ()"

definition install_native_method :: "(string \<Rightarrow> unit process_prog) \<Rightarrow> py_module process_prog" where
  "install_native_method import_module =
     then_do (import_module ''sshuttle.firewall'')
    (let module = [''Method'' \<mapsto> NativeMethod] in
     then_do (bind_module METHOD_MODULE module)
    (then_do (set_attribute ''sshuttle.firewall'' ''flush_systemd_dns_cache'' SkipCacheFlush)
     (ret module)))"

text \<open>\<open>tempfile.gettempdir()\<close> and \<open>os.getpid()\<close> are arguments.\<close>

definition prepare_firewall_entrypoint :: "comps \<Rightarrow> nat \<Rightarrow> comps option \<Rightarrow> comps io" where
  "prepare_firewall_entrypoint tempdir pid directory =
     (let private_directory = (case directory of
            Some d \<Rightarrow> d | None \<Rightarrow> tempdir @ [''shuttle-gate-sshuttle-'' @ str_nat pid]);
          entrypoint = private_directory @ [''firewall-entry.py''] in
      then_do (atomic_write entrypoint FIREWALL_ENTRYPOINT_SOURCE 0x180) (ret entrypoint))"

definition sshuttle_entry_main ::
  "(string \<Rightarrow> unit process_prog) \<Rightarrow> int option process_prog \<Rightarrow> comps \<Rightarrow> nat \<Rightarrow> unit process_prog" where
  "sshuttle_entry_main import_module sshuttle_main tempdir pid =
     then_do (install_native_method import_module)
    (bind (of_world (try_except (prepare_firewall_entrypoint tempdir pid None) (\<lambda>e. is_OSError e \<or> is_ShuttleGateError e)
        (\<lambda>e. then_do (echo_err (''shuttle-gate sshuttle adapter error: '' @ exn_str e))
           (raise (SystemExit ADAPTER_FAILURE_EXIT))))) (\<lambda>entrypoint.
     then_do (import_module ''sshuttle.cmdline'')
    (bind (gets ps_argv0) (\<lambda>original_argv0.
     then_do (set_argv0 (show_path entrypoint))
    (bind (try_finally sshuttle_main (set_argv0 original_argv0)) (\<lambda>result.
     raise (SystemExit (case result of None \<Rightarrow> 0 | Some n \<Rightarrow> n))))))))"

end
