(* ===== verification/EntryProps.thy ===== *)
theory EntryProps
  imports SshuttleEntry FilesProps
begin

text \<open>What the sshuttle package finds when its \<open>main\<close> is started.\<close>

subsection \<open>The contract of the import system\<close>

text \<open>
  Importing a module adds it to \<open>sys.modules\<close>. A module that is there already may be given
  attributes, as a package is for each of its submodules, but keeps those it has. The only files
  an import writes are bytecode caches, and \<open>sys.argv\<close> does not change.
\<close>

definition import_system :: "(string \<Rightarrow> unit process_prog) \<Rightarrow> bool" where
  "import_system imp \<longleftrightarrow> (\<forall>name s. case imp name s of (r, s') \<Rightarrow>
     (\<forall>n m. ps_modules s n = Some m \<longrightarrow> (\<exists>m'. ps_modules s' n = Some m' \<and> m \<subseteq>\<^sub>m m'))
     \<and> (\<forall>p. ''__pycache__'' \<notin> set p \<longrightarrow> node_at (ps_world s') p = node_at (ps_world s) p)
     \<and> ps_argv0 s' = ps_argv0 s)"

text \<open>The process sshuttle's \<open>main\<close> may be started in.\<close>

definition entry_path :: "comps \<Rightarrow> nat \<Rightarrow> comps" where
  "entry_path tempdir pid = tempdir @ [''shuttle-gate-sshuttle-'' @ str_nat pid, ''firewall-entry.py'']"

definition adapted :: "comps \<Rightarrow> nat \<Rightarrow> process \<Rightarrow> bool" where
  "adapted tempdir pid s \<longleftrightarrow> (\<exists>m f u. ps_modules s METHOD_MODULE = Some m \<and> m ''Method'' = Some NativeMethod
     \<and> ps_modules s ''sshuttle.firewall'' = Some f \<and> f ''flush_systemd_dns_cache'' = Some SkipCacheFlush
     \<and> node_at (ps_world s) (entry_path tempdir pid) = Some (File 0x180 u FIREWALL_ENTRYPOINT_SOURCE)
     \<and> ps_argv0 s = show_path (entry_path tempdir pid))"

lemma of_world_Ret: "of_world m s = (Ret a, s') \<longleftrightarrow> (\<exists>w. m (ps_world s) = (Ret a, w) \<and> s' = s\<lparr>ps_world := w\<rparr>)"
  by (auto simp: of_world_def split: prod.splits)

lemma source_ascii: "utf8_encode FIREWALL_ENTRYPOINT_SOURCE = FIREWALL_ENTRYPOINT_SOURCE"
  by (simp add: FIREWALL_ENTRYPOINT_SOURCE_def code_of_def)

lemma entrypoint_Ret:
  assumes "prepare_firewall_entrypoint tempdir pid None w = (Ret p, w')"
  shows "p = entry_path tempdir pid \<and> node_at w' p = Some (File 0x180 (uid w) FIREWALL_ENTRYPOINT_SOURCE)"
proof -
  let ?p = "entry_path tempdir pid"
  from assms have p: "p = ?p" and a: "atomic_write ?p FIREWALL_ENTRYPOINT_SOURCE 0x180 w = (Ret (), w')"
    by (auto simp: prepare_firewall_entrypoint_def Let_def run_inv entry_path_def)
  have "?p \<noteq> []" by (simp add: entry_path_def)
  from atomic_write_outcome [OF this, where content = FIREWALL_ENTRYPOINT_SOURCE and mode = "0x180" and w = w] a p
  show ?thesis by (simp add: atomic_write_def source_ascii installed_def)
qed

lemma import_kept:
  assumes "import_system imp" and "imp name s = (r, s')"
  shows "ps_modules s n = Some m \<Longrightarrow> m a = Some x \<Longrightarrow> \<exists>m'. ps_modules s' n = Some m' \<and> m' a = Some x"
    and "''__pycache__'' \<notin> set p \<Longrightarrow> node_at (ps_world s') p = node_at (ps_world s) p"
    and "ps_argv0 s' = ps_argv0 s"
proof -
  have k: "(\<forall>n m. ps_modules s n = Some m \<longrightarrow> (\<exists>m'. ps_modules s' n = Some m' \<and> m \<subseteq>\<^sub>m m'))
     \<and> (\<forall>p. ''__pycache__'' \<notin> set p \<longrightarrow> node_at (ps_world s') p = node_at (ps_world s) p) \<and> ps_argv0 s' = ps_argv0 s"
    using spec [OF spec [OF assms(1) [unfolded import_system_def], of name], of s] by (simp add: assms(2))
  show "\<exists>m'. ps_modules s' n = Some m' \<and> m' a = Some x" if "ps_modules s n = Some m" "m a = Some x"
    using conjunct1 [OF k] that by (metis domI map_le_def)
  show "node_at (ps_world s') p = node_at (ps_world s) p" if "''__pycache__'' \<notin> set p"
    using k that by blast
  show "ps_argv0 s' = ps_argv0 s" using k by blast
qed

subsection \<open>The entry point\<close>

lemma prepared_Ret:
  assumes "try_except (prepare_firewall_entrypoint tempdir pid None) c
      (\<lambda>e. then_do (echo_err (t e)) (raise (x e))) w = (Ret p, w')"
  shows "prepare_firewall_entrypoint tempdir pid None w = (Ret p, w')"
  using assms by (auto simp: try_except_def bind_def raise_def split: prod.splits outcome.splits if_splits)

lemma bind_at: "m w = (r, w') \<Longrightarrow> bind m f w = (case r of Ret a \<Rightarrow> f a w' | Exn e \<Rightarrow> (Exn e, w') | Halt \<Rightarrow> (Halt, w'))"
  by (simp add: bind_def)

definition ends_as :: "(int option) outcome \<times> process \<Rightarrow> string \<Rightarrow> unit outcome \<times> process \<Rightarrow> bool" where
  "ends_as run argv0 final \<longleftrightarrow> (case run of
     (Ret x, s) \<Rightarrow> final = (Exn (SystemExit (case x of None \<Rightarrow> 0 | Some n \<Rightarrow> n)), s\<lparr>ps_argv0 := argv0\<rparr>)
   | (Exn e, s) \<Rightarrow> final = (Exn e, s\<lparr>ps_argv0 := argv0\<rparr>)
   | (Halt, s) \<Rightarrow> final = (Halt, s))"

text \<open>
  C25: sshuttle only ever runs with the native method: when its \<open>main\<close> is started, the module it
  will import its method from is the one whose \<open>Method\<close> is the project's class, the flush of
  the resolver cache is the function that does nothing, \<open>sys.argv[0]\<close> names the complete entry
  script that its firewall manager is to be started from again, private to the user; however
  \<open>main\<close> ends, \<open>sys.argv[0]\<close> is put back and its result becomes the exit status; and where any
  of this cannot be set up, \<open>main\<close> is not started, and the process does not return.
\<close>
theorem sshuttle_adapted:
  assumes "import_system imp" and "''__pycache__'' \<notin> set tempdir"
  shows "(\<exists>s1. adapted tempdir pid s1
      \<and> ends_as (sshuttle s1) (ps_argv0 s) (sshuttle_entry_main imp sshuttle tempdir pid s))
    \<or> (\<exists>r s'. (\<forall>other. sshuttle_entry_main imp other tempdir pid s = (r, s')) \<and> r \<noteq> Ret () \<and> ps_argv0 s' = ps_argv0 s)"
proof -
  let ?prep = "try_except (prepare_firewall_entrypoint tempdir pid None) (\<lambda>e. is_OSError e \<or> is_ShuttleGateError e)
        (\<lambda>e. then_do (echo_err (''shuttle-gate sshuttle adapter error: '' @ exn_str e))
           (raise (SystemExit ADAPTER_FAILURE_EXIT)))"
  obtain r1 s1 where 1: "install_native_method imp s = (r1, s1)" by fastforce
  obtain r2 s2 where 2: "of_world ?prep s1 = (r2, s2)" by fastforce
  obtain r3 s3 where 3: "imp ''sshuttle.cmdline'' s2 = (r3, s3)" by fastforce
  have a1: "ps_argv0 s1 = ps_argv0 s" and m1: "r1 = Ret x \<Longrightarrow>
      ps_modules s1 METHOD_MODULE = Some [''Method'' \<mapsto> NativeMethod]
      \<and> (\<exists>f. ps_modules s1 ''sshuttle.firewall'' = Some f \<and> f ''flush_systemd_dns_cache'' = Some SkipCacheFlush)" for x
    using 1 import_kept(3) [OF assms(1), of "''sshuttle.firewall''" s]
    by (auto simp: install_native_method_def Let_def bind_def bind_module_def set_attribute_def ret_def METHOD_MODULE_def
        split: prod.splits outcome.splits option.splits)
  have a2: "ps_argv0 s2 = ps_argv0 s" "ps_modules s2 = ps_modules s1"
    using 2 a1 by (auto simp: of_world_def split: prod.splits)
  note i = import_kept [OF assms(1) 3]
  have run: "bind (install_native_method imp) f1 s = (case r1 of Ret a \<Rightarrow> f1 a s1 | Exn e \<Rightarrow> (Exn e, s1) | Halt \<Rightarrow> (Halt, s1))"
    "bind (of_world ?prep) f2 s1 = (case r2 of Ret a \<Rightarrow> f2 a s2 | Exn e \<Rightarrow> (Exn e, s2) | Halt \<Rightarrow> (Halt, s2))"
    "bind (imp ''sshuttle.cmdline'') f3 s2 = (case r3 of Ret a \<Rightarrow> f3 a s3 | Exn e \<Rightarrow> (Exn e, s3) | Halt \<Rightarrow> (Halt, s3))"
    for f1 :: "py_module \<Rightarrow> unit process_prog" and f2 :: "comps \<Rightarrow> unit process_prog" and f3 :: "unit \<Rightarrow> unit process_prog"
    by (rule bind_at, rule 1, rule bind_at, rule 2, rule bind_at, rule 3)
  let ?main = "\<lambda>other. sshuttle_entry_main imp other tempdir pid s"
  have main: "?main other = (case r1 of Exn e \<Rightarrow> (Exn e, s1) | Halt \<Rightarrow> (Halt, s1) | Ret x \<Rightarrow>
      (case r2 of Exn e \<Rightarrow> (Exn e, s2) | Halt \<Rightarrow> (Halt, s2) | Ret p \<Rightarrow>
      (case r3 of Exn e \<Rightarrow> (Exn e, s3) | Halt \<Rightarrow> (Halt, s3) | Ret y \<Rightarrow>
        bind (gets ps_argv0) (\<lambda>original. then_do (set_argv0 (show_path p))
          (bind (try_finally other (set_argv0 original)) (\<lambda>result.
           raise (SystemExit (case result of None \<Rightarrow> 0 | Some n \<Rightarrow> n))))) s3)))" for other
    unfolding sshuttle_entry_main_def run by (cases r1; cases r2; cases r3) (simp_all only: outcome.case run)
  show ?thesis
  proof (cases "\<exists>x p y. r1 = Ret x \<and> r2 = Ret p \<and> r3 = Ret y")
    case True
    then obtain x p y where ret: "r1 = Ret x" "r2 = Ret p" "r3 = Ret y" by blast
    let ?s = "s3\<lparr>ps_argv0 := show_path p\<rparr>"
    obtain w where w: "?prep (ps_world s1) = (Ret p, w)" "s2 = s1\<lparr>ps_world := w\<rparr>"
      using 2 unfolding ret of_world_Ret by blast
    note p = entrypoint_Ret [OF prepared_Ret [OF w(1)]]
    have k: "\<exists>m'. ps_modules s3 n = Some m' \<and> m' a = Some y" if "ps_modules s1 n = Some m" "m a = Some y" for n m a y
      using i(1) a2(2) that by simp
    have "''__pycache__'' \<notin> set (entry_path tempdir pid)"
      using assms(2) by (simp add: entry_path_def)
    note f = i(2) [OF this]
    obtain m where m: "ps_modules s3 METHOD_MODULE = Some m" "m ''Method'' = Some NativeMethod"
      using m1 [OF ret(1)] k by (metis fun_upd_same)
    obtain n where n: "ps_modules s3 ''sshuttle.firewall'' = Some n" "n ''flush_systemd_dns_cache'' = Some SkipCacheFlush"
      using m1 [OF ret(1)] k by metis
    have "adapted tempdir pid ?s"
      using m n p f w(2) by (auto simp: adapted_def)
    moreover have "ends_as (sshuttle ?s) (ps_argv0 s) (?main sshuttle)"
      using i(3) a2(1)
      by (auto simp: main ret ends_as_def bind_def try_finally_def set_argv0_def gets_def raise_def
          split: prod.splits outcome.splits)
    ultimately show ?thesis by blast
  next
    case False
    then have "\<exists>r s'. (\<forall>other. ?main other = (r, s')) \<and> r \<noteq> Ret () \<and> ps_argv0 s' = ps_argv0 s"
      using a1 a2(1) i(3) unfolding main by (cases r1; cases r2; cases r3) auto
    then show ?thesis by blast
  qed
qed

text \<open>A package of two modules; its \<open>main\<close> returns a status.\<close>

definition package_import :: "string \<Rightarrow> unit process_prog" where
  "package_import name = (\<lambda>s. (Ret (), case ps_modules s name of
     Some _ \<Rightarrow> s | None \<Rightarrow> s\<lparr>ps_modules := (ps_modules s)(name \<mapsto> [''origin'' \<mapsto> PackageObject name])\<rparr>))"

lemma package_import_system: "import_system package_import"
  by (auto simp: import_system_def package_import_def map_le_def dom_def split: option.splits)

definition fresh_process :: process where
  "fresh_process = \<lparr>ps_world = (system_with [([], Dir 0x1ED 1000), ([''tmp''], Dir 0x3FF 0)])\<lparr>suffixes := [''x'']\<rparr>,
     ps_modules = (\<lambda>_. None), ps_argv0 = ''sshuttle''\<rparr>"

lemma entry_directory_made:
  "\<exists>w. ensure_private_directory [''tmp'', d] (ps_world fresh_process) = (Ret (), w) \<and> fates w = [] \<and> suffixes w = [''x'']
    \<and> uid w = 1000 \<and> umask w = 0x12
    \<and> disk w = [([], Dir 0x1ED 1000), ([''tmp''], Dir 0x3FF 0), ([''tmp'', d], Dir 0x1C0 1000)]"
  by (simp add: ensure_private_directory_def p_is_symlink_def mkdir_parents.simps os_mkdir_def
      os_open_dir_def syscall_def syscall_torn_def with_handle_def prog_defs fresh_process_def system_with_def node_at_def
      new_handle_def os_fstat_def owned_dir_def os_fchmod_def os_close_def mark_def put_node_def p_is_dir_def
      follow_no_link is_FileNotFound_def parent_dir_def dir_at_def masked_def)

lemma entry_written:
  "\<exists>w. prepare_firewall_entrypoint [''tmp''] 42 None (ps_world fresh_process) = (Ret (entry_path [''tmp''] 42), w)"
proof -
  define d where "d = ''shuttle-gate-sshuttle-'' @ str_nat 42"
  obtain w1 where 1: "ensure_private_directory [''tmp'', d] (ps_world fresh_process) = (Ret (), w1)"
      "fates w1 = []" "suffixes w1 = [''x'']" "uid w1 = 1000" "umask w1 = 0x12"
      "disk w1 = [([], Dir 0x1ED 1000), ([''tmp''], Dir 0x3FF 0), ([''tmp'', d], Dir 0x1C0 1000)]"
    using entry_directory_made by blast
  let ?t = "[''tmp'', d, ''.firewall-entry.py.x'']"
  define w2 where "w2 = snd (mkstemp ''.firewall-entry.py.'' [''tmp'', d] w1)"
  have 2: "mkstemp ''.firewall-entry.py.'' [''tmp'', d] w1 = (Ret (FD (next_fd w1) ?t, ?t), w2)"
    "disk w2 = disk w1 @ [(?t, File 0x180 1000 [])]" "fates w2 = []" "FD (next_fd w1) ?t \<in> set (handles w2)"
    using 1
    by (simp_all add: w2_def mkstemp.simps os_open_excl_def syscall_def syscall_torn_def prog_defs
        new_handle_def mark_def put_node_def node_at_def parent_dir_def dir_at_def masked_def)
  have "\<exists>w. atomic_write_bytes [''tmp'', d, ''firewall-entry.py''] content 0x180 (ps_world fresh_process) = (Ret (), w)" for content
    using 2(2-4)
    by (simp add: atomic_write_bytes_def prog_defs 1 2(1) temp_prefix_def name_of_def
      os_fchmod_def os_write_def os_fsync_def os_close_def os_replace_def with_handle_def syscall_def syscall_torn_def node_at_def
      store_data_def put_node_def mark_def move_node_def fsync_directory_def os_open_dir_follow_def new_handle_def
      dir_at_def parent_dir_def replace_error_def move_disk_def follow.simps follow_to.simps numeral_eq_Suc)
  from this [of "utf8_encode FIREWALL_ENTRYPOINT_SOURCE"] show ?thesis
    unfolding d_def by (auto simp: prepare_firewall_entrypoint_def Let_def entry_path_def atomic_write_def prog_defs)
qed

lemma sshuttle_adapted_witness:
  "\<exists>s1. adapted [''tmp''] 42 s1
    \<and> ends_as (Ret (Some 99), s1) ''sshuttle'' (sshuttle_entry_main package_import (ret (Some 99)) [''tmp''] 42 fresh_process)"
proof -
  let ?main = "\<lambda>n. sshuttle_entry_main package_import (ret (Some n)) [''tmp''] 42 fresh_process"
  obtain w where w: "prepare_firewall_entrypoint [''tmp''] 42 None (ps_world fresh_process) = (Ret (entry_path [''tmp''] 42), w)"
    using entry_written by blast
  have "fst (?main n) = Exn (SystemExit n)" for n
    using w
    by (simp add: sshuttle_entry_main_def install_native_method_def package_import_def bind_module_def set_attribute_def
        set_argv0_def of_world_def Let_def prog_defs METHOD_MODULE_def fresh_process_def)
  then have differ: "?main 0 \<noteq> ?main 99" by (metis exn.inject outcome.inject(2) zero_neq_numeral)
  have "\<not> (\<exists>r s'. (\<forall>other. sshuttle_entry_main package_import other [''tmp''] 42 fresh_process = (r, s'))
      \<and> r \<noteq> Ret () \<and> ps_argv0 s' = ps_argv0 fresh_process)"
    using differ by fastforce
  moreover have "''__pycache__'' \<notin> set [''tmp'']" by simp
  ultimately obtain s1 where "adapted [''tmp''] 42 s1" and e: "ends_as (ret (Some 99) s1) (ps_argv0 fresh_process)
      (sshuttle_entry_main package_import (ret (Some 99)) [''tmp''] 42 fresh_process)"
    using sshuttle_adapted [OF package_import_system, of "[''tmp'']" 42 "ret (Some 99)" fresh_process] by blast
  moreover have "ps_argv0 fresh_process = ''sshuttle''" by (simp add: fresh_process_def)
  ultimately show ?thesis by (auto simp: ret_def)
qed

end
