(* ===== verification/SshProps.thy ===== *)
theory SshProps
  imports StateCrash SshKey
begin

text \<open>
  The two-file transaction that replaces the SSH identity, at every crash point. A transaction
  has for each of the two files a destination, a stage and a backup; the phases of one file are
  \<open>untouched\<close>, \<open>set_aside\<close> and \<open>installed\<close>. The triples carry a flag \<open>calm\<close>, that no
  failure is to come: their exceptional postconditions say that it does not hold, so one triple
  gives the invariant at every interruption and the success of a run without failures.
\<close>

subsection \<open>Phases of one file\<close>

definition has_data :: "world \<Rightarrow> comps \<Rightarrow> string \<Rightarrow> bool" where
  "has_data w p c \<longleftrightarrow> (\<exists>m u. node_at w p = Some (File m u c))"

definition key_data :: "string \<Rightarrow> bool" where
  "key_data c \<longleftrightarrow> 0 < length c \<and> length c \<le> MAX_SSH_KEY_BYTES"

record key_file =
  kf_dest :: comps
  kf_stage :: comps
  kf_backup :: comps
  kf_old :: "string option"
  kf_new :: string

definition untouched :: "key_file \<Rightarrow> world \<Rightarrow> bool" where
  "untouched F w \<longleftrightarrow> has_data w (kf_stage F) (kf_new F) \<and> (case kf_old F of
       None \<Rightarrow> node_at w (kf_dest F) = None
     | Some c \<Rightarrow> has_data w (kf_dest F) c \<and> node_at w (kf_backup F) = None)"

definition set_aside :: "key_file \<Rightarrow> world \<Rightarrow> bool" where
  "set_aside F w \<longleftrightarrow> has_data w (kf_stage F) (kf_new F) \<and> node_at w (kf_dest F) = None
     \<and> (\<exists>c. kf_old F = Some c \<and> has_data w (kf_backup F) c)"

definition installed_key :: "key_file \<Rightarrow> world \<Rightarrow> bool" where
  "installed_key F w \<longleftrightarrow> has_data w (kf_dest F) (kf_new F)"

definition in_transaction :: "key_file \<Rightarrow> world \<Rightarrow> bool" where
  "in_transaction F w \<longleftrightarrow> untouched F w \<or> set_aside F w \<or> installed_key F w"

definition old_value :: "(string \<Rightarrow> string) \<Rightarrow> key_file \<Rightarrow> json" where
  "old_value sha F = (case kf_old F of None \<Rightarrow> JNull | Some c \<Rightarrow> JStr (sha c))"

definition kf_places :: "key_file \<Rightarrow> comps set" where
  "kf_places F = {kf_dest F, kf_stage F, kf_backup F}"

text \<open>
  The three files are siblings, the contents are bounded, and the digest tells the old content
  from the new one.
\<close>

definition key_file_ok :: "(string \<Rightarrow> string) \<Rightarrow> comps \<Rightarrow> key_file \<Rightarrow> bool" where
  "key_file_ok sha d F \<longleftrightarrow> (\<exists>x y z. kf_dest F = d @ [x] \<and> kf_stage F = d @ [y] \<and> kf_backup F = d @ [z]
       \<and> x \<noteq> y \<and> x \<noteq> z \<and> y \<noteq> z)
     \<and> key_data (kf_new F)
     \<and> (\<forall>c. kf_old F = Some c \<longrightarrow> key_data c \<and> (sha c = sha (kf_new F) \<longrightarrow> c = kf_new F))"

lemma has_data_fun: "has_data w p c \<Longrightarrow> has_data w p c' \<Longrightarrow> c' = c"
  by (auto simp: has_data_def)

lemma has_data_disk: "disk w' = disk w \<Longrightarrow> has_data w' p c = has_data w p c"
  by (simp add: has_data_def node_at_disk [of w' w])

lemma phases_same:
  assumes "\<And>p. p \<in> kf_places F \<Longrightarrow> node_at w' p = node_at w p"
  shows "untouched F w' = untouched F w" "set_aside F w' = set_aside F w"
    "installed_key F w' = installed_key F w" "in_transaction F w' = in_transaction F w"
proof -
  have h: "has_data w' p c = has_data w p c" if "p \<in> kf_places F" for p c
    by (simp add: has_data_def assms [OF that])
  have p: "kf_dest F \<in> kf_places F" "kf_stage F \<in> kf_places F" "kf_backup F \<in> kf_places F"
    by (simp_all add: kf_places_def)
  show "untouched F w' = untouched F w" "set_aside F w' = set_aside F w" "installed_key F w' = installed_key F w"
    by (cases "kf_old F"; simp add: untouched_def set_aside_def installed_key_def h p assms)+
  then show "in_transaction F w' = in_transaction F w" by (simp add: in_transaction_def)
qed

lemmas phases_disk = phases_same [OF fun_cong [OF node_at_disk]]

lemma phases_keep:
  assumes "keeps A w w'" and "kf_places F \<subseteq> A"
  shows "untouched F w' = untouched F w" "set_aside F w' = set_aside F w"
    "installed_key F w' = installed_key F w" "in_transaction F w' = in_transaction F w"
  using assms by (auto intro!: phases_same simp: keeps_def)

subsection \<open>Triples with progress\<close>

definition calm_at :: "bool \<Rightarrow> world \<Rightarrow> bool" where
  "calm_at calm w \<longleftrightarrow> (calm \<longrightarrow> fates w = [])"

text \<open>\<open>resumes J m Q I\<close>: from \<open>J\<close> to \<open>Q\<close>, and \<open>I\<close> wherever it is interrupted; it is interrupted only by a failure.\<close>

definition resumes ::
  "bool \<Rightarrow> (world \<Rightarrow> bool) \<Rightarrow> 'a io \<Rightarrow> ('a \<Rightarrow> world \<Rightarrow> bool) \<Rightarrow> (world \<Rightarrow> bool) \<Rightarrow> bool" where
  "resumes calm J m Q I \<longleftrightarrow> hoare (\<lambda>w. J w \<and> calm_at calm w) m (\<lambda>a w. Q a w \<and> calm_at calm w)
     (\<lambda>_ w. I w \<and> \<not> calm) (\<lambda>w. I w \<and> \<not> calm)"

lemma resumes_ret: "(\<And>w. J w \<Longrightarrow> Q a w) \<Longrightarrow> resumes calm J (ret a) Q I"
  unfolding resumes_def by (rule hoare_ret) simp

lemma resumes_bind:
  "resumes calm J m Q I \<Longrightarrow> (\<And>a. resumes calm (Q a) (f a) R I) \<Longrightarrow> resumes calm J (bind m f) R I"
  unfolding resumes_def by (rule hoare_bind)

lemma resumes_conseq:
  assumes "resumes calm J m Q I" and "\<And>w. J' w \<Longrightarrow> J w" and "\<And>a w. Q a w \<Longrightarrow> Q' a w" and "\<And>w. I w \<Longrightarrow> I' w"
  shows "resumes calm J' m Q' I'"
  using assms(1) unfolding resumes_def by (rule hoare_conseq) (use assms(2-4) in auto)

lemma resumes_require: "(\<And>w. J w \<Longrightarrow> b) \<Longrightarrow> resumes calm J (require b e) (\<lambda>_. J) I"
  unfolding resumes_def by (auto simp: hoare_def require_def ret_def raise_def)

lemma resumes_check:
  "(\<And>w. J w \<Longrightarrow> b) \<Longrightarrow> (\<And>w. J w \<Longrightarrow> Q w) \<Longrightarrow> resumes calm J (require b e) (\<lambda>_. Q) I"
  unfolding resumes_def by (auto simp: hoare_def require_def ret_def raise_def)

text \<open>A reader: what it returns, and that it returns when nothing fails.\<close>

lemma resumes_reader:
  assumes ro: "obeys same_store m" and stable: "\<And>w w'. disk w' = disk w \<Longrightarrow> J w \<Longrightarrow> J w'"
    and ret: "\<And>w a w'. J w \<Longrightarrow> m w = (Ret a, w') \<Longrightarrow> Q a w"
    and calm: "\<And>w. J w \<Longrightarrow> fates w = [] \<Longrightarrow> \<exists>a w'. m w = (Ret a, w') \<and> fates w' = []"
    and Q: "\<And>a w w'. disk w' = disk w \<Longrightarrow> Q a w \<Longrightarrow> Q a w'"
  shows "resumes calm J m (\<lambda>a w. J w \<and> Q a w) J"
  unfolding resumes_def
proof (rule hoareI)
  fix w assume w: "J w \<and> calm_at calm w"
  obtain r w' where m: "m w = (r, w')" by fastforce
  have d: "disk w' = disk w" using obeysD [OF ro m] by (simp add: same_store_def)
  have J: "J w'" using stable [OF d] w by blast
  have c: "calm \<longrightarrow> (\<exists>a. r = Ret a) \<and> fates w' = []"
    using calm [of w] w m by (auto simp: calm_at_def)
  show "case m w of (Ret a, w') \<Rightarrow> (J w' \<and> Q a w') \<and> calm_at calm w' | (Exn e, w') \<Rightarrow> J w' \<and> \<not> calm | (Halt, w') \<Rightarrow> J w' \<and> \<not> calm"
    using J c Q [OF d ret] w m by (cases r) (auto simp: calm_at_def)
qed

subsection \<open>Reading\<close>

lemma ssh_readers_ro [obeys_rules]:
  "obeys same_store (path_exists p)" "obeys same_store (file_digest_of sha p l)"
  "obeys same_store (matches_digest sha p v l)" "obeys same_store (sync_regular_file p)"
proof -
  show e: "obeys same_store (path_exists p)" for p
    unfolding path_exists_def lstat_optional_def by (intro obeys_rules)
  show f: "obeys same_store (file_digest_of sha p l)" for p l
    unfolding file_digest_of_def by (intro obeys_rules)
  show "obeys same_store (matches_digest sha p v l)"
    unfolding matches_digest_def by (cases v) (auto intro!: obeys_rules e f)
  show "obeys same_store (sync_regular_file p)"
    unfolding sync_regular_file_def by (intro obeys_rules)
qed

lemma path_exists_Ret: "path_exists p w = (Ret b, w') \<Longrightarrow> b = (node_at w p \<noteq> None)"
  unfolding path_exists_def by (auto simp: run_inv dest!: lstat_optional_Ret)

lemma file_digest_of_Ret:
  assumes "file_digest_of sha p l w = (Ret d, w')"
  shows "\<exists>c. has_data w p c \<and> key_data c \<and> d = sha c"
proof -
  from assms obtain fd w1 info w2 c w3 where o: "os_open p w = (Ret fd, w1)" and s: "os_fstat fd w1 = (Ret info, w2)"
      and i: "is_file_node (Some info)" "0 < node_size info" "node_size info \<le> MAX_SSH_KEY_BYTES"
      and r: "os_read fd (MAX_SSH_KEY_BYTES + 1) w2 = (Ret c, w3)" and d: "d = sha c"
    unfolding file_digest_of_def by (auto simp: run_inv elim!: try_finally_Ret)
  have fd: "fd_path fd = p" using returns_open [OF returnsI [of "os_open p", OF o]] .
  have "obeys same_store (os_open p)" by (intro obeys_rules)
  from reader_disk [OF this o] have 1: "disk w1 = disk w" .
  from os_fstat_Ret [OF s] have 2: "node_at w1 p = Some info" "disk w2 = disk w1" by (simp_all add: fd)
  from i(1) obtain m u x where n: "info = File m u x" by (auto elim: is_file_node.elims)
  have "c = x"
    using os_read_Ret [OF r, of m u x] 2 i n by (simp add: fd node_at_disk [of w2 w1])
  then show ?thesis using 1 2 i n d by (auto simp: has_data_def key_data_def node_at_disk [of w1 w])
qed

text \<open>Runs without failures.\<close>

lemma calm_open_file:
  assumes "fates w = []" and "has_data w p c"
  shows "os_open p w = (Ret (FD (next_fd w) p), w\<lparr>handles := FD (next_fd w) p # handles w, next_fd := Suc (next_fd w)\<rparr>)"
  using assms by (auto simp: os_open_def syscall_def syscall_torn_def has_data_def new_handle_def)

lemma file_digest_of_calm:
  assumes "fates w = []" and "has_data w p c" and "key_data c"
  shows "\<exists>w'. file_digest_of sha p l w = (Ret (sha c), w') \<and> fates w' = []"
  using assms calm_open_file [OF assms(1,2)]
  by (auto simp: file_digest_of_def has_data_def key_data_def prog_defs syscall_def syscall_torn_def with_handle_def
      os_fstat_def os_read_def os_close_def)

lemma path_exists_calm: "fates w = [] \<Longrightarrow> path_exists p w = (Ret (node_at w p \<noteq> None), w)"
  by (auto simp: path_exists_def lstat_optional_def os_lstat_def prog_defs syscall_def syscall_torn_def
      is_FileNotFound_def split: option.splits)

lemma sync_regular_file_calm:
  assumes "fates w = []" and "has_data w p c"
  shows "\<exists>w'. sync_regular_file p w = (Ret (), w') \<and> fates w' = []"
  using assms calm_open_file [OF assms]
  by (auto simp: sync_regular_file_def has_data_def prog_defs syscall_def syscall_torn_def with_handle_def
      os_fsync_def os_close_def)

definition matched :: "(string \<Rightarrow> string) \<Rightarrow> comps \<Rightarrow> string \<Rightarrow> world \<Rightarrow> bool" where
  "matched sha p d w \<longleftrightarrow> (\<exists>c. has_data w p c \<and> key_data c \<and> sha c = d)"

lemma matches_digest_Ret:
  assumes "matches_digest sha p (JStr d) l w = (Ret b, w')"
  shows "b = matched sha p d w"
proof -
  from assms obtain e w1 where e: "path_exists p w = (Ret e, w1)"
      and r: "(if e then bind (file_digest_of sha p l) (\<lambda>actual. ret (actual = d)) else ret False) w1 = (Ret b, w')"
    by (auto simp: matches_digest_def run_inv)
  have d: "disk w1 = disk w" using reader_disk [OF ssh_readers_ro(1) e] .
  show ?thesis
  proof (cases e)
    case True
    with r obtain x w2 where "file_digest_of sha p l w1 = (Ret x, w2)" "b = (x = d)" by (auto simp: run_inv)
    with file_digest_of_Ret [OF this(1)] has_data_fun show ?thesis
      by (auto simp: matched_def has_data_disk [OF d])
  next
    case False
    with r path_exists_Ret [OF e] show ?thesis by (auto simp: run_inv matched_def has_data_def)
  qed
qed

lemma resumes_matches:
  assumes "\<And>w w'. disk w' = disk w \<Longrightarrow> J w \<Longrightarrow> J w'"
    and "\<And>w. J w \<Longrightarrow> node_at w p = None \<or> (\<exists>c. has_data w p c \<and> key_data c)"
  shows "resumes calm J (matches_digest sha p (JStr d) l) (\<lambda>b w. J w \<and> b = matched sha p d w) J"
proof (rule resumes_reader [OF ssh_readers_ro(3) assms(1)])
  fix w assume J: "J w" and calm: "fates w = []"
  from assms(2) [OF J] show "\<exists>a w'. matches_digest sha p (JStr d) l w = (Ret a, w') \<and> fates w' = []"
  proof
    assume "node_at w p = None"
    then have "matches_digest sha p (JStr d) l w = (Ret False, w)"
      by (simp add: matches_digest_def bind_def path_exists_calm [OF calm] ret_def)
    with calm show ?thesis by blast
  next
    assume "\<exists>c. has_data w p c \<and> key_data c"
    then obtain c where c: "has_data w p c" "key_data c" by blast
    then have "node_at w p \<noteq> None" by (auto simp: has_data_def)
    moreover obtain w' where w': "file_digest_of sha p l w = (Ret (sha c), w')" "fates w' = []"
      using file_digest_of_calm [OF calm c] by blast
    ultimately have "matches_digest sha p (JStr d) l w = (Ret (sha c = d), w')"
      by (simp add: matches_digest_def bind_def path_exists_calm [OF calm] ret_def)
    with w'(2) show ?thesis by blast
  qed
next
  show "b = matched sha p d w'" if "disk w' = disk w" and "b = matched sha p d w" for b w w'
    using that by (simp add: matched_def has_data_disk [of w' w])
qed (assumption | rule matches_digest_Ret)+

lemma resumes_exists:
  assumes "\<And>w w'. disk w' = disk w \<Longrightarrow> J w \<Longrightarrow> J w'"
  shows "resumes calm J (path_exists p) (\<lambda>b w. J w \<and> b = (node_at w p \<noteq> None)) J"
proof (rule resumes_reader [OF ssh_readers_ro(1) assms])
  show "b = (node_at w' p \<noteq> None)" if "disk w' = disk w" and "b = (node_at w p \<noteq> None)" for b w w'
    using that by (simp add: node_at_disk [of w' w])
qed (auto dest: path_exists_Ret simp: path_exists_calm)

subsection \<open>Changing one name\<close>

lemma resumes_syscall:
  assumes "\<And>w x. J w \<Longrightarrow> J (w\<lparr>fates := x\<rparr>)" and "\<And>w. J w \<Longrightarrow> I w"
    and "\<And>w. J w \<Longrightarrow> \<exists>a w'. f w = (Ret a, w') \<and> Q a w' \<and> fates w' = fates w"
  shows "resumes calm J (syscall f) Q I"
  unfolding resumes_def
proof (rule hoareI)
  fix w assume w: "J w \<and> calm_at calm w"
  show "case syscall f w of (Ret a, w') \<Rightarrow> Q a w' \<and> calm_at calm w' | (Exn e, w') \<Rightarrow> I w' \<and> \<not> calm | (Halt, w') \<Rightarrow> I w' \<and> \<not> calm"
  proof (cases "fates w")
    case Nil
    with assms(3) [of w] w show ?thesis by (auto simp: syscall_def syscall_torn_def calm_at_def)
  next
    case (Cons x r)
    with w have c: "\<not> calm" by (simp add: calm_at_def)
    from assms(3) [of "w\<lparr>fates := r\<rparr>"] assms(1) w obtain a w' where "f (w\<lparr>fates := r\<rparr>) = (Ret a, w')" "Q a w'" by blast
    then show ?thesis
      using c assms(1,2) w by (cases x) (auto simp: syscall_def syscall_torn_def Cons calm_at_def)
  qed
qed

lemma fsync_directory_calm:
  assumes "fates w = []" and "dir_at w d"
  shows "\<exists>w'. fsync_directory d w = (Ret (), w') \<and> fates w' = []"
proof -
  from assms(2) obtain n where n: "node_at w d = Some n" by (cases "node_at w d") (auto simp: dir_at_def)
  from follow_dir [OF assms(2)] obtain m u where "follow 40 w d = Some (Dir m u)" "follow_to 40 w d = d" by blast
  then show ?thesis
    using assms(1) n by (auto simp: fsync_directory_def os_open_dir_follow_def os_fsync_def os_close_def with_handle_def
        new_handle_def prog_defs syscall_def syscall_torn_def)
qed

lemma resumes_fsync:
  assumes "\<And>w w'. disk w' = disk w \<Longrightarrow> J w \<Longrightarrow> J w'" and "\<And>w. J w \<Longrightarrow> dir_at w d"
  shows "resumes calm J (fsync_directory d) (\<lambda>_. J) J"
  by (rule resumes_conseq [OF resumes_reader [where Q = "\<lambda>_ _. True", OF fsync_directory_ro assms(1)]])
    (use assms(2) fsync_directory_calm in auto)

lemma fates_updates [simp]:
  "fates (mark p w) = fates w" "fates (move_node s d w) = fates w" "fates (put_node p n w) = fates w"
  by (simp_all add: mark_def move_node_def put_node_def)

lemma disk_mark [simp]: "disk (mark p w) = disk w"
  by (simp add: mark_def)

lemma resumes_replace:
  assumes J: "\<And>w w'. disk w' = disk w \<Longrightarrow> J w \<Longrightarrow> J w'" and Q: "\<And>w w'. disk w' = disk w \<Longrightarrow> Q w \<Longrightarrow> Q w'"
    and free: "\<And>w. J w \<Longrightarrow> replace_error w s d = None" and move: "\<And>w. J w \<Longrightarrow> Q (move_node s d w)"
    and "s \<noteq> d" and dir: "\<And>w. Q w \<Longrightarrow> dir_at w (butlast d)" and I: "\<And>w. J w \<or> Q w \<Longrightarrow> I w"
  shows "resumes calm J (replace_and_sync s d) (\<lambda>_. Q) I"
  unfolding replace_and_sync_def
proof (rule resumes_bind)
  show "resumes calm J (os_replace s d) (\<lambda>_. Q) I"
    unfolding os_replace_def
  proof (rule resumes_syscall)
    show "\<exists>a w'. (case replace_error w s d of
          Some e \<Rightarrow> (Exn (OSError e), w)
        | None \<Rightarrow> if s = d then (Ret (), w) else (Ret (), mark (butlast s) (mark (butlast d) (move_node s d w)))) = (Ret a, w')
      \<and> Q w' \<and> fates w' = fates w" if "J w" for w
      using free [OF that] \<open>s \<noteq> d\<close> Q [OF _ move [OF that], of "mark (butlast s) (mark (butlast d) (move_node s d w))"]
      by simp
  qed (use I J in auto)
  show "resumes calm Q (fsync_directory (butlast d)) (\<lambda>_. Q) I" for a :: unit
    by (rule resumes_conseq [OF resumes_fsync [OF Q dir]]) (use I in auto)
qed

subsection \<open>Installing one file\<close>

definition away :: "key_file \<Rightarrow> comps set" where
  "away F = {q. \<forall>p\<in>kf_places F. \<not> prefix p q}"

text \<open>What is known besides the file: kept by every change of the three names, and the directory is there.\<close>

definition frame_ok :: "key_file \<Rightarrow> comps \<Rightarrow> (world \<Rightarrow> bool) \<Rightarrow> bool" where
  "frame_ok F d R \<longleftrightarrow> (\<forall>w w'. disk w' = disk w \<longrightarrow> R w \<longrightarrow> R w') \<and> (\<forall>w w'. keeps (away F) w w' \<longrightarrow> R w \<longrightarrow> R w')
     \<and> (\<forall>w. R w \<longrightarrow> dir_at w d)"

definition stage_ready :: "key_file \<Rightarrow> world \<Rightarrow> bool" where
  "stage_ready F w \<longleftrightarrow> has_data w (kf_stage F) (kf_new F) \<and> node_at w (kf_dest F) = None
     \<and> (\<forall>c. kf_old F = Some c \<longrightarrow> has_data w (kf_backup F) c)"

lemma stage_ready_disk: "disk w' = disk w \<Longrightarrow> stage_ready F w' = stage_ready F w"
  by (simp add: stage_ready_def has_data_disk [of w' w] node_at_disk [of w' w])

lemma frame_okD:
  assumes "frame_ok F d R" and "R w"
  shows "disk w' = disk w \<Longrightarrow> R w'" and "keeps (away F) w w' \<Longrightarrow> R w'" and "dir_at w d"
  using assms unfolding frame_ok_def by blast+

lemma stage_ready_in_transaction: "stage_ready F w \<Longrightarrow> in_transaction F w"
  by (cases "kf_old F") (auto simp: stage_ready_def in_transaction_def untouched_def set_aside_def)

text \<open>One of the names of a file is moved onto another.\<close>

lemma move_place:
  assumes ok: "key_file_ok sha d F" and st: "s \<in> kf_places F" "t \<in> kf_places F" "s \<noteq> t"
    and data: "has_data w s c" and free: "node_at w t = None" and dir: "dir_at w d"
  shows "replace_error w s t = None" and "node_at (move_node s t w) t = node_at w s"
    and "node_at (move_node s t w) s = None"
    and "q \<in> kf_places F \<Longrightarrow> q \<noteq> s \<Longrightarrow> q \<noteq> t \<Longrightarrow> node_at (move_node s t w) q = node_at w q"
    and "keeps (away F) w (move_node s t w)"
proof -
  from ok st obtain x y where xy: "s = d @ [x]" "t = d @ [y]" "x \<noteq> y"
    by (fastforce simp: key_file_ok_def kf_places_def)
  then have np: "\<not> prefix s t" "\<not> prefix t s" by auto
  show "replace_error w s t = None"
    using data free dir np xy by (auto simp: replace_error_def has_data_def parent_dir_def dir_at_def strict_prefix_def)
  show "node_at (move_node s t w) t = node_at w s" "node_at (move_node s t w) s = None"
    using np by (simp_all add: node_at_move)
  show "node_at (move_node s t w) q = node_at w q" if "q \<in> kf_places F" "q \<noteq> s" "q \<noteq> t"
  proof -
    from ok that(1) obtain z where "q = d @ [z]" by (auto simp: key_file_ok_def kf_places_def)
    with that xy have "\<not> prefix s q" "\<not> prefix t q" by auto
    then show ?thesis by (simp add: node_at_move [OF np])
  qed
  show "keeps (away F) w (move_node s t w)"
    using keeps_move [OF np _ kp.refl, of "away F" w "[]" "[]"] st(1,2) np
    by (auto simp: away_def keeps_def)
qed

lemma set_aside_step:
  assumes "key_file_ok sha d F" and "untouched F w" and "kf_old F = Some c" and "dir_at w d"
  shows "replace_error w (kf_dest F) (kf_backup F) = None" and "stage_ready F (move_node (kf_dest F) (kf_backup F) w)"
    and "keeps (away F) w (move_node (kf_dest F) (kf_backup F) w)"
proof -
  from assms have p: "kf_dest F \<noteq> kf_backup F" "kf_stage F \<noteq> kf_dest F" "kf_stage F \<noteq> kf_backup F"
    by (auto simp: key_file_ok_def)
  from assms have u: "has_data w (kf_dest F) c" "node_at w (kf_backup F) = None" "has_data w (kf_stage F) (kf_new F)"
    by (simp_all add: untouched_def)
  note m = move_place [OF assms(1) _ _ p(1) u(1,2) assms(4), unfolded kf_places_def, simplified]
  show "replace_error w (kf_dest F) (kf_backup F) = None" and "keeps (away F) w (move_node (kf_dest F) (kf_backup F) w)"
    using m by (simp_all add: kf_places_def)
  show "stage_ready F (move_node (kf_dest F) (kf_backup F) w)"
    using m(2,3) m(4) [of "kf_stage F"] p u assms(3) by (simp add: stage_ready_def has_data_def)
qed

lemma install_step:
  assumes "key_file_ok sha d F" and "stage_ready F w" and "dir_at w d"
  shows "replace_error w (kf_stage F) (kf_dest F) = None" and "installed_key F (move_node (kf_stage F) (kf_dest F) w)"
    and "keeps (away F) w (move_node (kf_stage F) (kf_dest F) w)"
proof -
  from assms(1) have p: "kf_stage F \<noteq> kf_dest F" by (auto simp: key_file_ok_def)
  from assms(2) have u: "has_data w (kf_stage F) (kf_new F)" "node_at w (kf_dest F) = None"
    by (simp_all add: stage_ready_def)
  note m = move_place [OF assms(1) _ _ p u assms(3), unfolded kf_places_def, simplified]
  show "replace_error w (kf_stage F) (kf_dest F) = None" and "keeps (away F) w (move_node (kf_stage F) (kf_dest F) w)"
    using m by (simp_all add: kf_places_def)
  show "installed_key F (move_node (kf_stage F) (kf_dest F) w)"
    using m(2) u by (simp add: installed_key_def has_data_def)
qed

definition pending :: "key_file \<Rightarrow> world \<Rightarrow> bool" where
  "pending F w \<longleftrightarrow> untouched F w \<or> set_aside F w"

lemma pending_in_transaction: "pending F w \<Longrightarrow> in_transaction F w"
  by (auto simp: pending_def in_transaction_def)

lemma installed_in_transaction: "installed_key F w \<Longrightarrow> in_transaction F w"
  by (simp add: in_transaction_def)

lemma in_transaction_cases: "in_transaction F w \<longleftrightarrow> pending F w \<or> installed_key F w"
  by (auto simp: pending_def in_transaction_def)

lemma pending_stage: "pending F w \<Longrightarrow> has_data w (kf_stage F) (kf_new F)"
  by (auto simp: pending_def untouched_def set_aside_def)

text \<open>In a transaction a digest tells what a file holds.\<close>

lemma dest_readable:
  assumes "key_file_ok sha d F" and "in_transaction F w"
  shows "node_at w (kf_dest F) = None \<or> (\<exists>c. has_data w (kf_dest F) c \<and> key_data c)"
  using assms
  by (cases "kf_old F") (auto simp: key_file_ok_def in_transaction_def untouched_def set_aside_def installed_key_def)

lemma dest_matched:
  assumes "key_file_ok sha d F" and "in_transaction F w"
  shows "matched sha (kf_dest F) (sha (kf_new F)) w = installed_key F w"
proof
  assume "matched sha (kf_dest F) (sha (kf_new F)) w"
  then obtain c where c: "has_data w (kf_dest F) c" "sha c = sha (kf_new F)" by (auto simp: matched_def)
  then have n: "node_at w (kf_dest F) \<noteq> None" by (auto simp: has_data_def)
  show "installed_key F w"
  proof (cases "kf_old F")
    case None
    with assms(2) n show ?thesis by (auto simp: in_transaction_def untouched_def set_aside_def)
  next
    case (Some x)
    have "c = kf_new F" if "has_data w (kf_dest F) x"
      using has_data_fun [OF c(1) that] assms(1) Some c(2) by (auto simp: key_file_ok_def)
    with assms(2) Some n c show ?thesis by (auto simp: in_transaction_def untouched_def set_aside_def installed_key_def)
  qed
next
  assume "installed_key F w"
  then show "matched sha (kf_dest F) (sha (kf_new F)) w"
    using assms(1) by (auto simp: matched_def installed_key_def key_file_ok_def)
qed

lemma stage_matched: "key_file_ok sha d F \<Longrightarrow> pending F w \<Longrightarrow> matched sha (kf_stage F) (sha (kf_new F)) w"
  by (auto simp: matched_def key_file_ok_def dest: pending_stage)

lemma resumes_weak: "resumes calm J m Q J \<Longrightarrow> (\<And>w. J w \<Longrightarrow> I w) \<Longrightarrow> resumes calm J m Q I"
  by (erule resumes_conseq) auto

lemma phase_stable:
  assumes "frame_ok F d R"
  shows "disk w' = disk w \<Longrightarrow> in_transaction F w \<and> R w \<Longrightarrow> in_transaction F w' \<and> R w'"
    and "disk w' = disk w \<Longrightarrow> pending F w \<and> R w \<Longrightarrow> pending F w' \<and> R w'"
    and "disk w' = disk w \<Longrightarrow> installed_key F w \<and> R w \<Longrightarrow> installed_key F w' \<and> R w'"
    and "disk w' = disk w \<Longrightarrow> stage_ready F w \<and> R w \<Longrightarrow> stage_ready F w' \<and> R w'"
  using frame_okD(1) [OF assms] by (auto simp: phases_disk [where w' = w' and w = w] pending_def stage_ready_disk [of w' w])

text \<open>Setting the old file aside.\<close>

lemma resumes_set_aside:
  assumes ok: "key_file_ok sha d F" and R: "frame_ok F d R" and old: "kf_old F = Some c"
  shows "resumes calm (\<lambda>w. pending F w \<and> R w)
    (bind (path_exists (kf_backup F)) (\<lambda>b.
       if \<not> b then
         bind (matches_digest sha (kf_dest F) (JStr (sha c)) l1) (\<lambda>m.
         then_do (require m e1) (replace_and_sync (kf_dest F) (kf_backup F)))
       else bind (matches_digest sha (kf_backup F) (JStr (sha c)) l2) (\<lambda>m. require m e2)))
    (\<lambda>_ w. stage_ready F w \<and> R w) (\<lambda>w. in_transaction F w \<and> R w)"
proof (rule resumes_bind [OF resumes_weak [OF resumes_exists [OF phase_stable(2) [OF R]]]])
  have k: "key_data c" using ok old by (simp add: key_file_ok_def)
  fix b
  let ?U = "\<lambda>w. untouched F w \<and> R w" and ?S = "\<lambda>w. set_aside F w \<and> R w"
  have U: "?U w'" if "disk w' = disk w" and "?U w" for w w'
    using that frame_okD(1) [OF R] by (auto simp: phases_disk [where w' = w' and w = w])
  have S: "?S w'" if "disk w' = disk w" and "?S w" for w w'
    using that frame_okD(1) [OF R] by (auto simp: phases_disk [where w' = w' and w = w])
  have 1: "resumes calm ?U (bind (matches_digest sha (kf_dest F) (JStr (sha c)) l1) (\<lambda>m.
         then_do (require m e1) (replace_and_sync (kf_dest F) (kf_backup F))))
      (\<lambda>_ w. stage_ready F w \<and> R w) (\<lambda>w. in_transaction F w \<and> R w)"
  proof (rule resumes_bind [OF resumes_weak [OF resumes_matches [OF U]]])
    show "node_at w (kf_dest F) = None \<or> (\<exists>c. has_data w (kf_dest F) c \<and> key_data c)" if "?U w" for w
      using that old k by (auto simp: untouched_def)
    have m: "matched sha (kf_dest F) (sha c) w" if "untouched F w" for w
      using that old k by (auto simp: untouched_def matched_def)
    show "resumes calm (\<lambda>w. (untouched F w \<and> R w) \<and> b = matched sha (kf_dest F) (sha c) w)
        (then_do (require b e1) (replace_and_sync (kf_dest F) (kf_backup F)))
        (\<lambda>_ w. stage_ready F w \<and> R w) (\<lambda>w. in_transaction F w \<and> R w)" for b
    proof (rule resumes_bind [OF resumes_require])
      show "b" if "(untouched F w \<and> R w) \<and> b = matched sha (kf_dest F) (sha c) w" for w using that m by simp
      have "resumes calm ?U (replace_and_sync (kf_dest F) (kf_backup F)) (\<lambda>_ w. stage_ready F w \<and> R w)
          (\<lambda>w. in_transaction F w \<and> R w)"
      proof (rule resumes_replace [OF U phase_stable(4) [OF R]])
        show "kf_dest F \<noteq> kf_backup F" using ok by (auto simp: key_file_ok_def)
        show "replace_error w (kf_dest F) (kf_backup F) = None" if "?U w" for w
          using that set_aside_step(1) [OF ok _ old frame_okD(3) [OF R]] by blast
        show "stage_ready F (move_node (kf_dest F) (kf_backup F) w) \<and> R (move_node (kf_dest F) (kf_backup F) w)" if "?U w" for w
          using that set_aside_step(2,3) [OF ok _ old frame_okD(3) [OF R]] frame_okD(2) [OF R] by blast
        show "dir_at w (butlast (kf_backup F))" if "stage_ready F w \<and> R w" for w
          using that frame_okD(3) [OF R] ok by (auto simp: key_file_ok_def)
        show "in_transaction F w \<and> R w" if "(untouched F w \<and> R w) \<or> (stage_ready F w \<and> R w)" for w
          using that stage_ready_in_transaction by (auto simp: in_transaction_def)
      qed
      then show "resumes calm (\<lambda>w. (untouched F w \<and> R w) \<and> b = matched sha (kf_dest F) (sha c) w)
          (replace_and_sync (kf_dest F) (kf_backup F)) (\<lambda>_ w. stage_ready F w \<and> R w) (\<lambda>w. in_transaction F w \<and> R w)"
        by (rule resumes_conseq) auto
    qed
  qed (auto simp: in_transaction_def)
  have 2: "resumes calm ?S (bind (matches_digest sha (kf_backup F) (JStr (sha c)) l2) (\<lambda>m. require m e2))
      (\<lambda>_ w. stage_ready F w \<and> R w) (\<lambda>w. in_transaction F w \<and> R w)"
  proof (rule resumes_bind [OF resumes_weak [OF resumes_matches [OF S]]])
    show "node_at w (kf_backup F) = None \<or> (\<exists>c. has_data w (kf_backup F) c \<and> key_data c)" if "?S w" for w
      using that old k by (auto simp: set_aside_def)
    have m: "matched sha (kf_backup F) (sha c) w" if "set_aside F w" for w
      using that old k by (auto simp: set_aside_def matched_def)
    show "resumes calm (\<lambda>w. (set_aside F w \<and> R w) \<and> b = matched sha (kf_backup F) (sha c) w) (require b e2)
        (\<lambda>_ w. stage_ready F w \<and> R w) (\<lambda>w. in_transaction F w \<and> R w)" for b
      by (rule resumes_check)
        (use m old in \<open>auto simp: set_aside_def stage_ready_def\<close>)
  qed (auto simp: in_transaction_def)
  show "resumes calm (\<lambda>w. (pending F w \<and> R w) \<and> b = (node_at w (kf_backup F) \<noteq> None))
     (if \<not> b then
         bind (matches_digest sha (kf_dest F) (JStr (sha c)) l1) (\<lambda>m.
         then_do (require m e1) (replace_and_sync (kf_dest F) (kf_backup F)))
       else bind (matches_digest sha (kf_backup F) (JStr (sha c)) l2) (\<lambda>m. require m e2))
     (\<lambda>_ w. stage_ready F w \<and> R w) (\<lambda>w. in_transaction F w \<and> R w)"
  proof (cases b)
    case True
    then show ?thesis
      by simp (rule resumes_conseq [OF 2], use old in \<open>auto simp: pending_def untouched_def\<close>)
  next
    case False
    then show ?thesis
      by simp (rule resumes_conseq [OF 1], auto simp: pending_def set_aside_def has_data_def)
  qed
qed (auto dest: pending_in_transaction)

text \<open>The whole of one file: after its preparation the stage is moved to the destination.\<close>

lemma resumes_install:
  assumes ok: "key_file_ok sha d F" and R: "frame_ok F d R"
  shows "resumes calm (\<lambda>w. in_transaction F w \<and> R w)
    (install_transaction_file sha (kf_dest F) (kf_stage F) (kf_backup F) (old_value sha F) (JStr (sha (kf_new F))) label)
    (\<lambda>_ w. installed_key F w \<and> R w) (\<lambda>w. in_transaction F w \<and> R w)"
  unfolding install_transaction_file_def
proof (rule resumes_bind [OF resumes_matches [OF phase_stable(1) [OF R]]])
  let ?I = "\<lambda>w. in_transaction F w \<and> R w" and ?P = "\<lambda>w. pending F w \<and> R w" and ?Q = "\<lambda>w. stage_ready F w \<and> R w"
  let ?prepare = "if old_value sha F = JNull then
         bind (path_exists (kf_dest F)) (\<lambda>e. require (\<not> e) (cannot_resume (''unexpected '' @ label)))
       else bind (path_exists (kf_backup F)) (\<lambda>b.
         if \<not> b then
           bind (matches_digest sha (kf_dest F) (old_value sha F) (''old '' @ label)) (\<lambda>m.
           then_do (require m (cannot_resume (''old '' @ label @ '' changed'')))
           (replace_and_sync (kf_dest F) (kf_backup F)))
         else
           bind (matches_digest sha (kf_backup F) (old_value sha F) (''backed-up '' @ label)) (\<lambda>m.
           require m (cannot_resume (label @ '' backup changed''))))"
  fix b
  have prepare: "resumes calm ?P ?prepare (\<lambda>_. ?Q) ?I"
  proof (cases "kf_old F")
    case None
    have "resumes calm ?P (bind (path_exists (kf_dest F)) (\<lambda>e. require (\<not> e) (cannot_resume (''unexpected '' @ label)))) (\<lambda>_. ?Q) ?I"
    proof (rule resumes_bind [OF resumes_weak [OF resumes_exists [OF phase_stable(2) [OF R]]]])
      show "resumes calm (\<lambda>w. (pending F w \<and> R w) \<and> e = (node_at w (kf_dest F) \<noteq> None))
          (require (\<not> e) (cannot_resume (''unexpected '' @ label))) (\<lambda>_. ?Q) ?I" for e
        by (rule resumes_check)
          (use None in \<open>auto simp: pending_def untouched_def set_aside_def stage_ready_def\<close>)
    qed (auto dest: pending_in_transaction)
    then show ?thesis by (simp add: old_value_def None)
  next
    case (Some c)
    then have v: "old_value sha F = JStr (sha c)" by (simp add: old_value_def)
    show ?thesis by (simp only: v json.distinct if_False) (rule resumes_set_aside [OF ok R Some])
  qed
  have move: "resumes calm ?Q (replace_and_sync (kf_stage F) (kf_dest F)) (\<lambda>_ w. installed_key F w \<and> R w) ?I"
  proof (rule resumes_replace [OF phase_stable(4) [OF R] phase_stable(3) [OF R]])
    show "kf_stage F \<noteq> kf_dest F" using ok by (auto simp: key_file_ok_def)
    show "replace_error w (kf_stage F) (kf_dest F) = None" if "?Q w" for w
      using that install_step(1) [OF ok _ frame_okD(3) [OF R]] by blast
    show "installed_key F (move_node (kf_stage F) (kf_dest F) w) \<and> R (move_node (kf_stage F) (kf_dest F) w)" if "?Q w" for w
      using that install_step(2,3) [OF ok _ frame_okD(3) [OF R]] frame_okD(2) [OF R] by blast
    show "dir_at w (butlast (kf_dest F))" if "installed_key F w \<and> R w" for w
      using that frame_okD(3) [OF R] ok by (auto simp: key_file_ok_def)
    show "?I w" if "?Q w \<or> (installed_key F w \<and> R w)" for w
      using that stage_ready_in_transaction installed_in_transaction by blast
  qed
  have stage: "node_at w (kf_stage F) = None \<or> (\<exists>c. has_data w (kf_stage F) c \<and> key_data c)" if "?P w" for w
    using that ok pending_stage by (auto simp: key_file_ok_def)
  have rest: "resumes calm ?P (bind (matches_digest sha (kf_stage F) (JStr (sha (kf_new F))) (''staged '' @ label)) (\<lambda>staged.
      then_do (require staged (cannot_resume (''staged '' @ label @ '' is unavailable'')))
     (then_do ?prepare (replace_and_sync (kf_stage F) (kf_dest F)))))
     (\<lambda>_ w. installed_key F w \<and> R w) ?I"
  proof (rule resumes_bind [OF resumes_weak [OF resumes_matches [OF phase_stable(2) [OF R] stage]]])
    show "resumes calm (\<lambda>w. ?P w \<and> m = matched sha (kf_stage F) (sha (kf_new F)) w)
        (then_do (require m (cannot_resume (''staged '' @ label @ '' is unavailable'')))
          (then_do ?prepare (replace_and_sync (kf_stage F) (kf_dest F))))
        (\<lambda>_ w. installed_key F w \<and> R w) ?I" for m
    proof (rule resumes_bind [where Q = "\<lambda>_. ?P"])
      show "resumes calm (\<lambda>w. ?P w \<and> m = matched sha (kf_stage F) (sha (kf_new F)) w)
          (require m (cannot_resume (''staged '' @ label @ '' is unavailable''))) (\<lambda>_. ?P) ?I"
        by (rule resumes_check) (use stage_matched [OF ok] in auto)
      show "resumes calm ?P (then_do ?prepare (replace_and_sync (kf_stage F) (kf_dest F)))
          (\<lambda>_ w. installed_key F w \<and> R w) ?I" for a :: unit
        by (rule resumes_bind [OF prepare move])
    qed
  qed (auto dest: pending_in_transaction)
  show "resumes calm (\<lambda>w. (in_transaction F w \<and> R w) \<and> b = matched sha (kf_dest F) (sha (kf_new F)) w)
     (if b then ret () else bind (matches_digest sha (kf_stage F) (JStr (sha (kf_new F))) (''staged '' @ label)) (\<lambda>staged.
      then_do (require staged (cannot_resume (''staged '' @ label @ '' is unavailable'')))
     (then_do ?prepare (replace_and_sync (kf_stage F) (kf_dest F)))))
     (\<lambda>_ w. installed_key F w \<and> R w) ?I"
  proof (cases b)
    case True
    then show ?thesis by simp (rule resumes_ret, use dest_matched [OF ok] in auto)
  next
    case False
    then have b: "b = False" by simp
    show ?thesis unfolding b if_False
      by (rule resumes_conseq [OF rest]) (use dest_matched [OF ok] in_transaction_cases in auto)
  qed
qed (assumption | (drule conjunct1, erule dest_readable [OF ok]))+

subsection \<open>Finishing a transaction\<close>

text \<open>The two files of the transaction \<open>t\<close> of an identity.\<close>

definition private_key_file :: "comps \<Rightarrow> string \<Rightarrow> string option \<Rightarrow> string \<Rightarrow> key_file" where
  "private_key_file identity t old new = (let files = ssh_transaction_files identity t in
     \<lparr>kf_dest = identity, kf_stage = private_stage files, kf_backup = private_backup files, kf_old = old, kf_new = new\<rparr>)"

definition public_key_file :: "comps \<Rightarrow> string \<Rightarrow> string option \<Rightarrow> string \<Rightarrow> key_file" where
  "public_key_file identity t old new = (let files = ssh_transaction_files identity t in
     \<lparr>kf_dest = suffix_path identity ''.pub'', kf_stage = public_stage files, kf_backup = public_backup files,
      kf_old = old, kf_new = new\<rparr>)"

text \<open>Bounded contents, and a digest that tells an old one from the new one.\<close>

definition tells_apart :: "(string \<Rightarrow> string) \<Rightarrow> string option \<Rightarrow> string \<Rightarrow> bool" where
  "tells_apart sha old new \<longleftrightarrow> key_data new
     \<and> (\<forall>c. old = Some c \<longrightarrow> key_data c \<and> (sha c = sha new \<longrightarrow> c = new))"

definition journal_of :: "(string \<Rightarrow> string) \<Rightarrow> key_file \<Rightarrow> key_file \<Rightarrow> json \<Rightarrow> bool" where
  "journal_of sha P Q journal \<longleftrightarrow> jget journal ''private_old_digest'' = Some (old_value sha P)
     \<and> jget journal ''private_new_digest'' = Some (JStr (sha (kf_new P)))
     \<and> jget journal ''public_old_digest'' = Some (old_value sha Q)
     \<and> jget journal ''public_new_digest'' = Some (JStr (sha (kf_new Q)))"

definition both_in_transaction :: "key_file \<Rightarrow> key_file \<Rightarrow> comps \<Rightarrow> world \<Rightarrow> bool" where
  "both_in_transaction P Q d w \<longleftrightarrow> in_transaction P w \<and> in_transaction Q w \<and> dir_at w d"

definition both_installed :: "key_file \<Rightarrow> key_file \<Rightarrow> comps \<Rightarrow> world \<Rightarrow> bool" where
  "both_installed P Q d w \<longleftrightarrow> installed_key P w \<and> installed_key Q w \<and> dir_at w d"

lemma transaction_names:
  assumes "identity \<noteq> []"
  obtains d n where "identity = d @ [n]" and "butlast identity = d" and "suffix_path identity ''.pub'' = d @ [n @ ''.pub'']"
    and "ssh_transaction_files identity t =
      \<lparr>private_stage = d @ [CHR ''.'' # n @ ''.transaction-'' @ t @ ''.private.new''],
       public_stage = d @ [CHR ''.'' # n @ ''.transaction-'' @ t @ ''.public.new''],
       private_backup = d @ [CHR ''.'' # n @ ''.transaction-'' @ t @ ''.private.old''],
       public_backup = d @ [CHR ''.'' # n @ ''.transaction-'' @ t @ ''.public.old'']\<rparr>"
proof (rule that [of "butlast identity" "last identity"])
  show "identity = butlast identity @ [last identity]" using assms by simp
qed (use assms in \<open>simp_all add: suffix_path_def ssh_transaction_files_def name_of_def\<close>)

lemma longer_name: "n \<noteq> CHR ''.'' # n @ x" and "n @ ''.pub'' \<noteq> CHR ''.'' # n @ ''.transaction-'' @ x"
proof -
  show "n \<noteq> CHR ''.'' # n @ x" using arg_cong [of n "CHR ''.'' # n @ x" length] by auto
  show "n @ ''.pub'' \<noteq> CHR ''.'' # n @ ''.transaction-'' @ x"
    using arg_cong [of "n @ ''.pub''" "CHR ''.'' # n @ ''.transaction-'' @ x" length] by auto
qed

lemma transaction_files_ok:
  assumes "identity \<noteq> []" and "tells_apart sha old new" and "tells_apart sha old' new'"
  shows "key_file_ok sha (butlast identity) (private_key_file identity t old new)"
    and "key_file_ok sha (butlast identity) (public_key_file identity t old' new')"
    and "kf_places (private_key_file identity t old new) \<subseteq> away (public_key_file identity t old' new')"
    and "kf_places (public_key_file identity t old' new') \<subseteq> away (private_key_file identity t old new)"
    and "butlast identity \<in> away (private_key_file identity t old new) \<inter> away (public_key_file identity t old' new')"
proof -
  obtain d n where p: "identity = d @ [n]" "butlast identity = d" "suffix_path identity ''.pub'' = d @ [n @ ''.pub'']"
    and f: "ssh_transaction_files identity t =
      \<lparr>private_stage = d @ [CHR ''.'' # n @ ''.transaction-'' @ t @ ''.private.new''],
       public_stage = d @ [CHR ''.'' # n @ ''.transaction-'' @ t @ ''.public.new''],
       private_backup = d @ [CHR ''.'' # n @ ''.transaction-'' @ t @ ''.private.old''],
       public_backup = d @ [CHR ''.'' # n @ ''.transaction-'' @ t @ ''.public.old'']\<rparr>"
    using transaction_names [OF assms(1)] .
  have P: "private_key_file identity t old new = \<lparr>kf_dest = d @ [n],
      kf_stage = d @ [CHR ''.'' # n @ ''.transaction-'' @ t @ ''.private.new''],
      kf_backup = d @ [CHR ''.'' # n @ ''.transaction-'' @ t @ ''.private.old''], kf_old = old, kf_new = new\<rparr>"
    by (simp add: private_key_file_def f, rule p(1))
  have Q: "public_key_file identity t old' new' = \<lparr>kf_dest = d @ [n @ ''.pub''],
      kf_stage = d @ [CHR ''.'' # n @ ''.transaction-'' @ t @ ''.public.new''],
      kf_backup = d @ [CHR ''.'' # n @ ''.transaction-'' @ t @ ''.public.old''], kf_old = old', kf_new = new'\<rparr>"
    by (simp add: public_key_file_def f, rule p(3))
  note names = longer_name longer_name [symmetric]
  have len: "\<not> prefix (d @ [x]) d" for x by (auto dest: prefix_length_le)
  show "key_file_ok sha (butlast identity) (private_key_file identity t old new)"
    using assms(2) unfolding P p(2) by (simp add: key_file_ok_def tells_apart_def names)
  show "key_file_ok sha (butlast identity) (public_key_file identity t old' new')"
    using assms(3) unfolding Q p(2) by (simp add: key_file_ok_def tells_apart_def names)
  show "kf_places (private_key_file identity t old new) \<subseteq> away (public_key_file identity t old' new')"
    "kf_places (public_key_file identity t old' new') \<subseteq> away (private_key_file identity t old new)"
    unfolding P Q by (simp_all add: kf_places_def away_def names)
  show "butlast identity \<in> away (private_key_file identity t old new) \<inter> away (public_key_file identity t old' new')"
    unfolding P Q p(2) by (simp add: kf_places_def away_def len)
qed

lemma dir_at_keeps: "keeps A w w' \<Longrightarrow> d \<in> A \<Longrightarrow> dir_at w d \<Longrightarrow> dir_at w' d"
  by (simp add: keeps_def dir_at_def)

lemma dir_at_disk: "disk w' = disk w \<Longrightarrow> dir_at w' d = dir_at w d"
  by (simp add: dir_at_def node_at_disk [of w' w])

lemma other_file_frame:
  assumes "kf_places P \<subseteq> away Q" and "d \<in> away Q"
  shows "frame_ok Q d (\<lambda>w. in_transaction P w \<and> dir_at w d)" and "frame_ok Q d (\<lambda>w. installed_key P w \<and> dir_at w d)"
proof -
  have k: "in_transaction P w' = in_transaction P w" "installed_key P w' = installed_key P w"
    if "keeps (away Q) w w'" for w w'
    using phases_keep [OF that assms(1)] by simp_all
  show "frame_ok Q d (\<lambda>w. in_transaction P w \<and> dir_at w d)" "frame_ok Q d (\<lambda>w. installed_key P w \<and> dir_at w d)"
    using k dir_at_keeps [OF _ assms(2)] phases_disk [where F = P] dir_at_disk unfolding frame_ok_def by blast+
qed

lemma both_installed_disk: "disk w' = disk w \<Longrightarrow> both_installed P Q d w \<Longrightarrow> both_installed P Q d w'"
  by (simp add: both_installed_def phases_disk [where w' = w' and w = w] dir_at_disk [of w' w])

lemma resumes_chmod:
  assumes "p = kf_dest P \<or> p = kf_dest Q"
  shows "resumes calm (both_installed P Q d) (os_chmod p m) (\<lambda>_. both_installed P Q d) (both_installed P Q d)"
  unfolding os_chmod_def
proof (rule resumes_syscall)
  fix w assume b: "both_installed P Q d w"
  with assms obtain k u c where n: "node_at w p = Some (File k u c)"
    by (auto simp: both_installed_def installed_key_def has_data_def)
  have h: "has_data (mark p (put_node p (File m u c) w)) q x" if "has_data w q x" for q x
    using that n by (auto simp: has_data_def)
  have "dir_at (mark p (put_node p (File m u c) w)) d"
    using b n by (auto simp: both_installed_def dir_at_def)
  then have "both_installed P Q d (mark p (put_node p (File m u c) w))"
    using b h by (simp add: both_installed_def installed_key_def)
  then show "\<exists>a w'. (case node_at w p of None \<Rightarrow> (Exn (OSError ENOENT), w)
      | Some (Symlink x) \<Rightarrow> (Exn (OSError EINVAL), w)
      | Some n \<Rightarrow> (Ret (), mark p (put_node p (set_mode m n) w))) = (Ret a, w')
      \<and> both_installed P Q d w' \<and> fates w' = fates w"
    using n by simp
  show "both_installed P Q d (w\<lparr>fates := x\<rparr>)" if "both_installed P Q d w" for w x
    using that by (rule both_installed_disk [rotated]) simp
qed

lemma resumes_sync_file:
  assumes "p = kf_dest P \<or> p = kf_dest Q"
  shows "resumes calm (both_installed P Q d) (sync_regular_file p) (\<lambda>_. both_installed P Q d) (both_installed P Q d)"
proof (rule resumes_conseq [OF resumes_reader [where Q = "\<lambda>_ _. True", OF ssh_readers_ro(4)]])
  show "\<exists>a w'. sync_regular_file p w = (Ret a, w') \<and> fates w' = []" if "both_installed P Q d w" "fates w = []" for w
    using that assms sync_regular_file_calm by (auto simp: both_installed_def installed_key_def)
qed (assumption | rule TrueI conjI | erule conjunct1 | erule (1) both_installed_disk)+

lemma resumes_then:
  "resumes calm J m (\<lambda>_. K) I \<Longrightarrow> resumes calm K n Q I \<Longrightarrow> resumes calm J (then_do m n) Q I"
  by (rule resumes_bind)

lemma resumes_finish:
  assumes ok: "key_file_ok sha d P" "key_file_ok sha d Q" and apart: "kf_places P \<subseteq> away Q" "kf_places Q \<subseteq> away P"
      "d \<in> away P \<inter> away Q" and j: "journal_of sha P Q journal"
    and files: "kf_stage P = private_stage files" "kf_backup P = private_backup files"
      "kf_stage Q = public_stage files" "kf_backup Q = public_backup files"
  shows "resumes calm (both_in_transaction P Q d)
    (finish_ssh_key_transaction sha (kf_dest P) (kf_dest Q) files journal)
    (\<lambda>_. both_installed P Q d) (both_in_transaction P Q d)"
proof -
  let ?I = "both_in_transaction P Q d" and ?B = "both_installed P Q d"
  have I: "?I w" if "?B w" for w
    using that installed_in_transaction by (auto simp: both_in_transaction_def both_installed_def)
  note weak = resumes_weak [OF _ I]
  have frames: "frame_ok Q d (\<lambda>w. in_transaction P w \<and> dir_at w d)" "frame_ok P d (\<lambda>w. installed_key Q w \<and> dir_at w d)"
    using other_file_frame apart by auto
  have 1: "resumes calm ?I (install_transaction_file sha (kf_dest Q) (public_stage files) (public_backup files)
      (old_value sha Q) (JStr (sha (kf_new Q))) l) (\<lambda>_ w. in_transaction P w \<and> installed_key Q w \<and> dir_at w d) ?I" for l
    by (rule resumes_conseq [OF resumes_install [OF ok(2) frames(1), unfolded files]])
      (auto simp: both_in_transaction_def)
  have 2: "resumes calm (\<lambda>w. in_transaction P w \<and> installed_key Q w \<and> dir_at w d)
      (install_transaction_file sha (kf_dest P) (private_stage files) (private_backup files)
      (old_value sha P) (JStr (sha (kf_new P))) l) (\<lambda>_. ?B) ?I" for l
    by (rule resumes_conseq [OF resumes_install [OF ok(1) frames(2), unfolded files]])
      (auto simp: both_in_transaction_def both_installed_def installed_in_transaction)
  have m: "resumes calm ?B (matches_digest sha (kf_dest F) (JStr (sha (kf_new F))) l) (\<lambda>b w. ?B w \<and> b) ?I"
    if "F = P \<or> F = Q" for F l
  proof (rule resumes_conseq [OF resumes_matches])
    show "node_at w (kf_dest F) = None \<or> (\<exists>c. has_data w (kf_dest F) c \<and> key_data c)" if "?B w" for w
      using that \<open>F = P \<or> F = Q\<close> ok by (auto simp: both_installed_def installed_key_def key_file_ok_def)
    show "?B w \<and> b" if "?B w \<and> b = matched sha (kf_dest F) (sha (kf_new F)) w" for b w
      using that \<open>F = P \<or> F = Q\<close> ok by (auto simp: both_installed_def installed_key_def key_file_ok_def matched_def)
  qed (assumption | rule I | erule (1) both_installed_disk)+
  have 3: "resumes calm ?B
      (then_do (os_chmod (kf_dest P) 0x180) (then_do (os_chmod (kf_dest Q) 0x1A4)
      (then_do (sync_regular_file (kf_dest P)) (sync_regular_file (kf_dest Q))))) (\<lambda>_. ?B) ?I"
    by (intro resumes_then [where K = ?B] weak resumes_chmod resumes_sync_file) simp_all
  have 4: "resumes calm ?B
      (bind (matches_digest sha (kf_dest P) (JStr (sha (kf_new P))) l) (\<lambda>m1.
       bind (if \<not> m1 then ret False else matches_digest sha (kf_dest Q) (JStr (sha (kf_new Q))) l') (\<lambda>m2.
       then_do (require (m1 \<and> m2) e)
      (then_do (os_chmod (kf_dest P) 0x180) (then_do (os_chmod (kf_dest Q) 0x1A4)
      (then_do (sync_regular_file (kf_dest P)) (sync_regular_file (kf_dest Q)))))))) (\<lambda>_. ?B) ?I" for l l' e
  proof (rule resumes_bind [OF m])
    show "resumes calm (\<lambda>w. ?B w \<and> m1)
      (bind (if \<not> m1 then ret False else matches_digest sha (kf_dest Q) (JStr (sha (kf_new Q))) l') (\<lambda>m2.
       then_do (require (m1 \<and> m2) e)
      (then_do (os_chmod (kf_dest P) 0x180) (then_do (os_chmod (kf_dest Q) 0x1A4)
      (then_do (sync_regular_file (kf_dest P)) (sync_regular_file (kf_dest Q)))))))  (\<lambda>_. ?B) ?I" for m1
    proof (cases m1)
      case True
      then have m1: "m1 = True" by simp
      show ?thesis unfolding m1 not_True_eq_False if_False simp_thms
      proof (rule resumes_bind [OF m])
        show "resumes calm (\<lambda>w. ?B w \<and> m2) (then_do (require m2 e)
          (then_do (os_chmod (kf_dest P) 0x180) (then_do (os_chmod (kf_dest Q) 0x1A4)
          (then_do (sync_regular_file (kf_dest P)) (sync_regular_file (kf_dest Q)))))) (\<lambda>_. ?B) ?I" for m2
          by (rule resumes_then [OF resumes_check 3]) auto
      qed simp
    qed (simp add: resumes_def hoare_def)
  qed simp
  show ?thesis
    using j unfolding finish_ssh_key_transaction_def journal_of_def
    by (simp add: jindex_def del: if_not_P if_P) (intro resumes_then [OF 1] resumes_then [OF 2] 4)
qed

text \<open>The next process: it has no descriptors and no locks, and nothing is to fail.\<close>

definition restarted :: "world \<Rightarrow> world" where
  "restarted w = w\<lparr>fates := [], handles := [], locks := []\<rparr>"

lemma both_in_transaction_disk:
  "disk w' = disk w \<Longrightarrow> both_in_transaction P Q d w' = both_in_transaction P Q d w"
  by (simp add: both_in_transaction_def phases_disk [where w' = w' and w = w] dir_at_disk [of w' w])

text \<open>
  C4: Replacing the SSH identity survives every crash and every I/O failure: wherever the
  installation of the journaled key pair stops, each of the two files is still there, the old
  content under its own name or under its backup's until the new content has its name; when it
  returns, both new files are in place; and the next process, reading the same journal, brings
  every such state to its end.
\<close>
theorem ssh_transaction_recovers:
  assumes "identity \<noteq> []" and "tells_apart sha old new" and "tells_apart sha old' new'"
    and "P = private_key_file identity t old new" and "Q = public_key_file identity t old' new'"
    and "journal_of sha P Q journal" and "both_in_transaction P Q (butlast identity) w"
    and "finish = finish_ssh_key_transaction sha identity (suffix_path identity ''.pub'')
      (ssh_transaction_files identity t) journal"
  shows "(case finish w of
      (Ret _, w') \<Rightarrow> has_data w' identity new \<and> has_data w' (suffix_path identity ''.pub'') new'
    | (_, w') \<Rightarrow> fates w \<noteq> [] \<and> both_in_transaction P Q (butlast identity) w')
    \<and> (\<exists>w2. finish (restarted (snd (finish w))) = (Ret (), w2)
      \<and> has_data w2 identity new \<and> has_data w2 (suffix_path identity ''.pub'') new')"
proof -
  let ?d = "butlast identity"
  note ok = transaction_files_ok [OF assms(1-3), of t]
  have places: "kf_dest P = identity" "kf_dest Q = suffix_path identity ''.pub''" "kf_new P = new" "kf_new Q = new'"
    by (simp_all add: assms(4,5) private_key_file_def public_key_file_def Let_def)
  have r: "resumes calm (both_in_transaction P Q ?d) finish (\<lambda>_. both_installed P Q ?d) (both_in_transaction P Q ?d)" for calm
    using resumes_finish [OF ok [folded assms(4,5)] assms(6), of "ssh_transaction_files identity t"]
    by (simp add: assms(4,5,8) private_key_file_def public_key_file_def Let_def)
  have once: "case finish v of (Ret _, v') \<Rightarrow> both_installed P Q ?d v'
      | (_, v') \<Rightarrow> fates v \<noteq> [] \<and> both_in_transaction P Q ?d v'" if "both_in_transaction P Q ?d v" for v
    using r [of "fates v = []"] that
    by (auto simp: resumes_def hoare_def calm_at_def split: prod.splits outcome.splits)
  have inv: "both_in_transaction P Q ?d (snd (finish w))"
    using once [OF assms(7)] installed_in_transaction
    by (auto simp: both_in_transaction_def both_installed_def split: prod.splits outcome.splits)
  then have "both_in_transaction P Q ?d (restarted (snd (finish w)))"
    using both_in_transaction_disk [of "restarted (snd (finish w))" "snd (finish w)" P Q ?d]
    by (simp add: restarted_def)
  from once [OF this] obtain w2 where "finish (restarted (snd (finish w))) = (Ret (), w2)" "both_installed P Q ?d w2"
    by (auto simp: restarted_def split: prod.splits outcome.splits)
  then show ?thesis
    using once [OF assms(7)]
    by (auto simp: both_installed_def installed_key_def places split: prod.splits outcome.splits)
qed

text \<open>An interrupted transaction: the private key is untouched, the public key is set aside.\<close>

definition interrupted_world :: world where
  "interrupted_world = (system_with
     [([''secrets''], Dir 0x1C0 1000),
      ([''secrets'', ''id''], File 0x180 1000 ''old''),
      ([''secrets'', ''.id.transaction-1.private.new''], File 0x180 1000 ''new''),
      ([''secrets'', ''.id.transaction-1.public.new''], File 0x1A4 1000 ''pub new''),
      ([''secrets'', ''.id.transaction-1.public.old''], File 0x1A4 1000 ''pub old'')])\<lparr>fates := [Proceed, Crash 0]\<rparr>"

definition interrupted_journal :: json where
  "interrupted_journal = JObj [(''private_old_digest'', JStr ''old''), (''private_new_digest'', JStr ''new''),
     (''public_old_digest'', JStr ''pub old''), (''public_new_digest'', JStr ''pub new'')]"

lemma ssh_transaction_recovers_witness:
  "\<exists>w2. finish_ssh_key_transaction id [''secrets'', ''id''] [''secrets'', ''id.pub'']
      (ssh_transaction_files [''secrets'', ''id''] ''1'') interrupted_journal
      (restarted (snd (finish_ssh_key_transaction id [''secrets'', ''id''] [''secrets'', ''id.pub'']
        (ssh_transaction_files [''secrets'', ''id''] ''1'') interrupted_journal interrupted_world))) = (Ret (), w2)
    \<and> has_data w2 [''secrets'', ''id''] ''new'' \<and> has_data w2 [''secrets'', ''id.pub''] ''pub new''"
proof -
  let ?i = "[''secrets'', ''id'']"
  let ?P = "private_key_file ?i ''1'' (Some ''old'') ''new''" and ?Q = "public_key_file ?i ''1'' (Some ''pub old'') ''pub new''"
  have t: "tells_apart id (Some ''old'') ''new''" "tells_apart id (Some ''pub old'') ''pub new''"
    by (simp_all add: tells_apart_def key_data_def MAX_SSH_KEY_BYTES_def)
  have j: "journal_of id ?P ?Q interrupted_journal"
    by (simp add: journal_of_def interrupted_journal_def private_key_file_def public_key_file_def Let_def old_value_def)
  have s: "suffix_path ?i ''.pub'' = [''secrets'', ''id.pub'']"
    by (simp add: suffix_path_def name_of_def)
  have b: "both_in_transaction ?P ?Q (butlast ?i) interrupted_world"
    by (simp add: both_in_transaction_def in_transaction_def untouched_def set_aside_def has_data_def dir_at_def
        interrupted_world_def private_key_file_def public_key_file_def ssh_transaction_files_def suffix_path_def name_of_def Let_def)
  from ssh_transaction_recovers [OF _ t refl refl j b refl] show ?thesis by (simp add: s)
qed

end
