(* ===== verification/SshRecovery.thy ===== *)
theory SshRecovery
  imports SshProps PyText JsonSize
begin

text \<open>
  Recovery of an interrupted exchange of the SSH identity from what is on the disk: the journal
  is read, the exchange finished, the receipt written, and the journal removed last.
\<close>

subsection \<open>The journal on the disk\<close>

definition journal_value :: "(string \<Rightarrow> string) \<Rightarrow> string \<Rightarrow> string \<Rightarrow> string \<Rightarrow> key_file \<Rightarrow> key_file \<Rightarrow> json" where
  "journal_value sha t i k P Q = JObj
     [(''schema_version'', JInt SSH_TRANSACTION_SCHEMA_VERSION), (''transaction'', JStr t),
      (''operation_id'', JStr i), (''operation_kind'', JStr k),
      (''private_old_digest'', old_value sha P), (''public_old_digest'', old_value sha Q),
      (''private_new_digest'', JStr (sha (kf_new P))), (''public_new_digest'', JStr (sha (kf_new Q)))]"

definition valid_journal :: "(string \<Rightarrow> string) \<Rightarrow> string \<Rightarrow> string \<Rightarrow> string \<Rightarrow> bool" where
  "valid_journal sha t i k \<longleftrightarrow> is_hex32 t \<and> OPERATION_ID_PATTERN i \<and> OPERATION_KIND_PATTERN k \<and> (\<forall>s. is_hex64 (sha s))"

definition journaled :: "comps \<Rightarrow> json \<Rightarrow> world \<Rightarrow> bool" where
  "journaled identity J w \<longleftrightarrow> (\<exists>m u. node_at w (ssh_transaction_path identity)
     = Some (File m u (utf8_encode (dumps indented J @ [CHR 0x0A]))))"

lemma journaled_same: "node_at w' (ssh_transaction_path identity) = node_at w (ssh_transaction_path identity)
    \<Longrightarrow> journaled identity J w' = journaled identity J w"
  by (simp add: journaled_def)

lemma journal_fields:
  assumes "J = journal_value sha t i k P Q"
  shows "is_JObj (sort_keys J)" "no_float J" "jget (sort_keys J) ''schema_version'' = Some (JInt 1)"
    "jget (sort_keys J) ''transaction'' = Some (JStr t)" "jget (sort_keys J) ''operation_id'' = Some (JStr i)"
    "jget (sort_keys J) ''operation_kind'' = Some (JStr k)"
    "jget (sort_keys J) ''private_old_digest'' = Some (old_value sha P)"
    "jget (sort_keys J) ''public_old_digest'' = Some (old_value sha Q)"
    "jget (sort_keys J) ''private_new_digest'' = Some (JStr (sha (kf_new P)))"
    "jget (sort_keys J) ''public_new_digest'' = Some (JStr (sha (kf_new Q)))"
  by (simp_all add: assms journal_value_def SSH_TRANSACTION_SCHEMA_VERSION_def old_value_def split: option.split)

lemma journal_of_value: "J = journal_value sha t i k P Q \<Longrightarrow> journal_of sha P Q (sort_keys J)"
  using journal_fields [of J sha t i k P Q] by (simp add: journal_of_def del: jget_sort_keys)

lemma hex64_length: "is_hex64 s \<Longrightarrow> length s = 64"
  by (simp add: is_hex64_def)

lemma head_then_length: "head_then p q n s \<Longrightarrow> length s \<le> Suc n"
  by (cases s) (auto simp: head_then_def run_of_def)

lemma journal_size:
  assumes "valid_journal sha t i k" and "J = journal_value sha t i k P Q"
  shows "length (utf8_encode (dumps indented J @ [CHR 0x0A])) \<le> MAX_SSH_TRANSACTION_BYTES"
proof -
  have s: "length (sha c) = 64" "length t = 32" "length i \<le> 128" "length k \<le> 128" for c
    using assms(1) hex64_length head_then_length [of _ _ 127]
    by (auto simp: valid_journal_def is_hex32_def OPERATION_ID_PATTERN_def OPERATION_KIND_PATTERN_def)
  have "length (str_int 1) = 1" by (simp add: str_int_def) (subst str_nat.simps, simp)
  then have "weight 0 J \<le> 20000"
    using s(3,4)
    by (simp add: assms(2) journal_value_def SSH_TRANSACTION_SCHEMA_VERSION_def old_value_def s(1,2) split: option.split)
  then show ?thesis using document_length [of J] by (simp add: MAX_SSH_TRANSACTION_BYTES_def)
qed

lemma check_journal_accepts:
  assumes "valid_journal sha t i k" and "J = journal_value sha t i k P Q"
  shows "check_journal p (sort_keys J) = Inr t"
proof -
  have "digest_ok (Some (old_value sha F))" "digest_ok (Some (JStr (sha c)))" for F c
    using assms(1) by (auto simp: digest_ok_def old_value_def valid_journal_def split: option.split)
  moreover have "\<exists>x. void_operation i k = Inr x"
    using assms(1) by (simp add: void_operation_def make_operation_def valid_journal_def)
  ultimately show ?thesis
    using assms(1) journal_fields [OF assms(2)]
    by (auto simp: check_journal_def SSH_TRANSACTION_SCHEMA_VERSION_def SSH_TRANSACTION_PATTERN_def valid_journal_def
        absent_def)
qed

lemma read_journal_ro: "obeys same_store (read_ssh_transaction identity)"
  unfolding read_ssh_transaction_def Let_def by (intro obeys_rules)

lemma read_journal_calm:
  assumes "valid_journal sha t i k" and "J = journal_value sha t i k P Q" and "journaled identity J w" and "fates w = []"
  shows "read_ssh_transaction identity w = (Ret (Some (ssh_transaction_files identity t, sort_keys J)), w)"
proof -
  from assms(3) obtain m u where "node_at w (ssh_transaction_path identity)
     = Some (File m u (utf8_encode (dumps indented J @ [CHR 0x0A])))"
    by (auto simp: journaled_def)
  then show ?thesis
    using assms(4) journal_size [OF assms(1,2)] loads_document [OF journal_fields(2) [OF assms(2)]]
      check_journal_accepts [OF assms(1,2)]
    by (simp add: read_ssh_transaction_def Let_def lstat_optional_def prog_defs os_lstat_def read_text_utf8_def
        read_bytes_def syscall_def syscall_torn_def follow_no_link decode_utf8_def)
qed

lemma read_journal_Ret:
  assumes "valid_journal sha t i k" and "J = journal_value sha t i k P Q" and j: "journaled identity J w"
    and r: "read_ssh_transaction identity w = (Ret x, w')"
  shows "x = Some (ssh_transaction_files identity t, sort_keys J)"
proof -
  let ?p = "ssh_transaction_path identity"
  from j obtain m u where n: "node_at w ?p = Some (File m u (utf8_encode (dumps indented J @ [CHR 0x0A])))"
    by (auto simp: journaled_def)
  from r obtain f w1 where l: "lstat_optional ?p w = (Ret f, w1)" and rest: "(case f of None \<Rightarrow> ret None
      | Some info \<Rightarrow>
          then_do (require (is_file_node (Some info) \<and> node_size info \<le> MAX_SSH_TRANSACTION_BYTES)
            (StateError (''invalid SSH key transaction journal: '' @ show_path ?p)))
         (bind (try_except (bind (read_text_utf8 ?p) (\<lambda>t. lift (loads t))) is_load_error
             (\<lambda>e. raise (StateError (''cannot read SSH key transaction journal: '' @ exn_str e))))
           (\<lambda>value. bind (lift (check_journal ?p value)) (\<lambda>transaction.
             ret (Some (ssh_transaction_files identity transaction, value)))))) w1 = (Ret x, w')"
    unfolding read_ssh_transaction_def Let_def by (elim bind_RetE)
  have f: "f = node_at w ?p" and d: "disk w1 = disk w" using lstat_optional_Ret [OF l] by simp_all
  from rest obtain b w2 s v t' where b: "read_bytes ?p w1 = (Ret b, w2)" and v: "decode_utf8 b = Inr s" "loads s = Inr v"
      "check_journal ?p v = Inr t'" and x: "x = Some (ssh_transaction_files identity t', v)"
    by (auto simp: f n run_inv read_text_utf8_def)
  have "follow 40 w1 ?p = node_at w ?p" using n node_at_disk [OF d] by (simp add: follow_no_link)
  then have "b = utf8_encode (dumps indented J @ [CHR 0x0A])" using read_bytes_Ret [OF b] n by simp
  then have "v = sort_keys J" "t' = t"
    using v loads_document [OF journal_fields(2) [OF assms(2)]] check_journal_accepts [OF assms(1,2), of ?p]
    by (auto simp: decode_utf8_def)
  with x show ?thesis by simp
qed

subsection \<open>The journal that is written\<close>

text \<open>The identifier is taken back from the name of a staged file, at its first separator.\<close>

lemma after_first_separator:
  assumes "CHR ''.'' \<notin> set s" and "\<not> sublist (CHR ''.'' # s) u"
  shows "after_first (CHR ''.'' # s) (u @ CHR ''.'' # s @ r) = Some r"
  using assms(2)
proof (induction u)
  case Nil
  then show ?case by (simp add: startswith_prefix)
next
  case (Cons c u)
  have "\<not> prefix (CHR ''.'' # s) ((c # u) @ CHR ''.'' # s @ r)"
  proof
    assume "prefix (CHR ''.'' # s) ((c # u) @ CHR ''.'' # s @ r)"
    then consider "prefix (CHR ''.'' # s) (c # u)"
      | v where "CHR ''.'' # s = (c # u) @ v" "prefix v (CHR ''.'' # s @ r)"
      unfolding prefix_append by blast
    then show False
    proof cases
      case 1
      then show False using Cons.prems prefix_imp_sublist by blast
    next
      case 2
      then have "v = []" using assms(1) by (cases v) auto
      with 2(1) Cons.prems show False by simp
    qed
  qed
  moreover have "\<not> sublist (CHR ''.'' # s) u" using Cons.prems by (auto simp: sublist_Cons_right)
  ultimately show ?case
    using Cons.IH by (simp only: append_Cons after_first.simps startswith_prefix if_False simp_thms)
qed

lemma transaction_identifier:
  assumes "\<not> sublist ''.transaction-'' (CHR ''.'' # name_of identity)" and "is_hex32 t"
  shows "transaction_of (name_of (private_stage (ssh_transaction_files identity t))) = Inr t"
proof -
  have t: "CHR ''.'' \<notin> set t"
    using assms(2) by (auto simp: is_hex32_def list_all_iff is_lower_hex_def char_class_defs)
  have "name_of (private_stage (ssh_transaction_files identity t))
      = (CHR ''.'' # name_of identity) @ ''.transaction-'' @ t @ ''.private.new''"
    by (simp add: ssh_transaction_files_def suffix_path_def name_of_def)
  moreover have "after_first ''.transaction-'' ((CHR ''.'' # name_of identity) @ ''.transaction-'' @ t @ ''.private.new'')
      = Some (t @ ''.private.new'')"
    using after_first_separator [OF _ assms(1), of "t @ ''.private.new''"] by simp
  moreover have "takeWhile (\<lambda>c. c \<noteq> CHR ''.'') (t @ ''.private.new'') = t"
    by (subst takeWhile_append2) (use t in auto)
  ultimately show ?thesis by (simp only: transaction_of_def option.case)
qed

text \<open>An identity whose own name has the separator gets another identifier, which no recovery accepts.\<close>

lemma transaction_identifier_misread:
  "transaction_of (name_of (private_stage (ssh_transaction_files [''secrets'', ''a.transaction-b''] t))) = Inr ''b''"
  "\<not> SSH_TRANSACTION_PATTERN ''b''"
  by (simp_all add: transaction_of_def ssh_transaction_files_def suffix_path_def name_of_def startswith_def
      SSH_TRANSACTION_PATTERN_def is_hex32_def)

lemma optional_digest_Ret:
  assumes "optional_digest sha p l w = (Ret v, w')"
  shows "\<exists>old. v = (case old of None \<Rightarrow> JNull | Some c \<Rightarrow> JStr (sha c)) \<and> disk w' = disk w
    \<and> (case old of None \<Rightarrow> node_at w p = None | Some c \<Rightarrow> has_data w p c \<and> key_data c)"
proof -
  have "obeys same_store (optional_digest sha p l)"
    unfolding optional_digest_def by (intro obeys_rules ssh_readers_ro)
  from reader_disk [OF this assms] have d: "disk w' = disk w" .
  from assms obtain e w1 where e: "path_exists p w = (Ret e, w1)"
      and r: "(if e then bind (file_digest_of sha p l) (\<lambda>d. ret (JStr d)) else ret JNull) w1 = (Ret v, w')"
    unfolding optional_digest_def by (elim bind_RetE)
  note d1 = reader_disk [OF ssh_readers_ro(1) e]
  show ?thesis
  proof (cases e)
    case True
    with r obtain x where "file_digest_of sha p l w1 = (Ret x, w')" "v = JStr x" by (auto simp: run_inv)
    with file_digest_of_Ret [OF this(1)] obtain c where "has_data w p c" "key_data c" "v = JStr (sha c)"
      by (auto simp: has_data_disk [OF d1])
    with d show ?thesis by (intro exI [of _ "Some c"]) simp
  next
    case False
    with r path_exists_Ret [OF e] d show ?thesis by (intro exI [of _ None]) (simp add: run_inv)
  qed
qed

text \<open>What is written describes the two files as they are, and starts the exchange.\<close>

lemma key_file_fields:
  "kf_dest (private_key_file identity t o1 n1) = identity" "kf_old (private_key_file identity t o1 n1) = o1"
  "kf_stage (private_key_file identity t o1 n1) = private_stage (ssh_transaction_files identity t)"
  "kf_backup (private_key_file identity t o1 n1) = private_backup (ssh_transaction_files identity t)"
  "kf_new (private_key_file identity t o1 n1) = n1" "kf_new (public_key_file identity t o1 n1) = n1"
  "kf_dest (public_key_file identity t o1 n1) = suffix_path identity ''.pub''" "kf_old (public_key_file identity t o1 n1) = o1"
  "kf_stage (public_key_file identity t o1 n1) = public_stage (ssh_transaction_files identity t)"
  "kf_backup (public_key_file identity t o1 n1) = public_backup (ssh_transaction_files identity t)"
  by (simp_all add: private_key_file_def public_key_file_def Let_def)

lemma new_journal:
  assumes "new_ssh_transaction sha identity (suffix_path identity ''.pub'') (ssh_transaction_files identity t) i k w = (Ret J, w')"
    and "\<not> sublist ''.transaction-'' (CHR ''.'' # name_of identity)" and "is_hex32 t" and "dir_at w (butlast identity)"
    and "node_at w (private_backup (ssh_transaction_files identity t)) = None"
    and "node_at w (public_backup (ssh_transaction_files identity t)) = None"
  obtains old new old' new' P Q where "P = private_key_file identity t old new" and "Q = public_key_file identity t old' new'"
    and "J = journal_value sha t i k P Q" and "both_in_transaction P Q (butlast identity) w" and "disk w' = disk w"
    and "key_data new" and "key_data new'" and "\<And>c. old = Some c \<or> old' = Some c \<Longrightarrow> key_data c"
proof -
  let ?f = "ssh_transaction_files identity t" and ?pub = "suffix_path identity ''.pub''"
  from assms(1) obtain s w0 v1 w1 v2 w2 d1 w3 d2 w4 where s: "lift (transaction_of (name_of (private_stage ?f))) w = (Ret s, w0)"
      and 1: "optional_digest sha identity ''existing SSH private key'' w0 = (Ret v1, w1)"
      and 2: "optional_digest sha ?pub ''existing SSH public key'' w1 = (Ret v2, w2)"
      and 3: "file_digest_of sha (private_stage ?f) ''generated SSH private key'' w2 = (Ret d1, w3)"
      and 4: "file_digest_of sha (public_stage ?f) ''generated SSH public key'' w3 = (Ret d2, w4)"
      and J: "ret (JObj [(''schema_version'', JInt SSH_TRANSACTION_SCHEMA_VERSION), (''transaction'', JStr s),
       (''operation_id'', JStr i), (''operation_kind'', JStr k), (''private_old_digest'', v1),
       (''public_old_digest'', v2), (''private_new_digest'', JStr d1), (''public_new_digest'', JStr d2)]) w4 = (Ret J, w')"
    unfolding new_ssh_transaction_def by (elim bind_RetE)
  have s: "s = t" "w0 = w" using s transaction_identifier [OF assms(2,3)] by (simp_all add: run_inv)
  obtain old where 1: "v1 = (case old of None \<Rightarrow> JNull | Some c \<Rightarrow> JStr (sha c))" "disk w1 = disk w"
      "case old of None \<Rightarrow> node_at w identity = None | Some c \<Rightarrow> has_data w identity c \<and> key_data c"
    using optional_digest_Ret [OF 1] s by blast
  obtain old' where 2: "v2 = (case old' of None \<Rightarrow> JNull | Some c \<Rightarrow> JStr (sha c))" "disk w2 = disk w1"
      "case old' of None \<Rightarrow> node_at w1 ?pub = None | Some c \<Rightarrow> has_data w1 ?pub c \<and> key_data c"
    using optional_digest_Ret [OF 2] by blast
  have d: "disk w3 = disk w2" "disk w4 = disk w3" using reader_disk [OF ssh_readers_ro(2)] 3 4 by blast+
  obtain new where 3: "has_data w2 (private_stage ?f) new" "key_data new" "d1 = sha new" using file_digest_of_Ret [OF 3] by blast
  obtain new' where 4: "has_data w3 (public_stage ?f) new'" "key_data new'" "d2 = sha new'" using file_digest_of_Ret [OF 4] by blast
  have same: "node_at w1 = node_at w" "node_at w2 = node_at w" "node_at w3 = node_at w"
    using node_at_disk [of w1 w] node_at_disk [of w2 w] node_at_disk [of w3 w] 1(2) 2(2) d by simp_all
  let ?P = "private_key_file identity t old new" and ?Q = "public_key_file identity t old' new'"
  show thesis
  proof (rule that [OF refl refl])
    show "J = journal_value sha t i k ?P ?Q"
      using J s 1(1) 2(1) 3(3) 4(3) by (simp add: ret_def journal_value_def old_value_def key_file_fields)
    have "untouched ?P w" "untouched ?Q w"
      using 1(3) 2(3) 3(1) 4(1) assms(5,6) by (auto simp: untouched_def key_file_fields has_data_def same split: option.splits)
    then show "both_in_transaction ?P ?Q (butlast identity) w"
      using assms(4) by (simp add: both_in_transaction_def in_transaction_def)
    show "disk w' = disk w" using J 1(2) 2(2) d by (simp add: ret_def)
    show "key_data c" if "old = Some c \<or> old' = Some c" for c
      using that 1(3) 2(3) by auto
  qed (use 3(2) 4(2) in auto)
qed

text \<open>Writing the journal touches none of the files it describes.\<close>

lemma dotted_names: "CHR ''.'' # n @ CHR ''.'' # x \<noteq> n @ CHR ''.'' # CHR ''t'' # y"
proof (induction n)
  case (Cons c n)
  then show ?case by (cases "c = CHR ''.''") auto
qed simp

definition exchanged_paths :: "comps \<Rightarrow> string \<Rightarrow> comps set" where
  "exchanged_paths identity t = (let files = ssh_transaction_files identity t in
     {identity, suffix_path identity ''.pub'', private_stage files, public_stage files, private_backup files, public_backup files})"

lemma journal_temporary_apart:
  assumes "identity \<noteq> []" and "q \<in> exchanged_paths identity t"
  shows "\<not> prefix q (butlast identity)" and "\<not> prefix (ssh_transaction_path identity) q"
    and "\<not> prefix (butlast identity @ [temp_prefix (ssh_transaction_path identity) @ s]) q"
proof -
  obtain d n where n: "identity = d @ [n]" "butlast identity = d" "suffix_path identity ''.pub'' = d @ [n @ ''.pub'']"
    and f: "ssh_transaction_files identity t =
      \<lparr>private_stage = d @ [CHR ''.'' # n @ ''.transaction-'' @ t @ ''.private.new''],
       public_stage = d @ [CHR ''.'' # n @ ''.transaction-'' @ t @ ''.public.new''],
       private_backup = d @ [CHR ''.'' # n @ ''.transaction-'' @ t @ ''.private.old''],
       public_backup = d @ [CHR ''.'' # n @ ''.transaction-'' @ t @ ''.public.old'']\<rparr>"
    using transaction_names [OF assms(1)] .
  have j: "ssh_transaction_path identity = d @ [CHR ''.'' # n @ ''.transaction.json'']"
    by (simp add: ssh_transaction_path_def n name_of_def)
  have "q = d @ [n] \<or> q = d @ [n @ ''.pub''] \<or> (\<exists>z. q = d @ [CHR ''.'' # n @ ''.transaction-'' @ z])"
    using assms(2) unfolding exchanged_paths_def f n(3) Let_def by (simp, elim disjE) (simp_all add: n(1))
  then obtain y where q: "q = d @ [y]" and y: "y = n \<or> y = n @ ''.pub''
      \<or> (\<exists>z. y = CHR ''.'' # n @ ''.transaction-'' @ z)" by blast
  have m: "n \<noteq> CHR ''.'' # CHR ''.'' # n @ x" "n @ ''.pub'' \<noteq> CHR ''.'' # CHR ''.'' # n @ ''.transaction.json.'' @ x" for x
    using arg_cong [of n "CHR ''.'' # CHR ''.'' # n @ x" length]
      arg_cong [of "n @ ''.pub''" "CHR ''.'' # CHR ''.'' # n @ ''.transaction.json.'' @ x" length] by auto
  show "\<not> prefix q (butlast identity)" by (simp add: q n(2))
  show "\<not> prefix (ssh_transaction_path identity) q"
    using y longer_name [of n] by (auto simp: q j)
  show "\<not> prefix (butlast identity @ [temp_prefix (ssh_transaction_path identity) @ s]) q"
    using y m dotted_names [of n] by (auto simp: q n(2) j temp_prefix_def name_of_def)
qed

lemma atomic_write_dir:
  assumes "path \<noteq> []"
  shows "case atomic_write_bytes path c m w of
      (Ret _, w') \<Rightarrow> dir_at w' (butlast path)
    | (_, w') \<Rightarrow> node_at w' path = node_at w path \<or> dir_at w' (butlast path)"
proof -
  let ?d = "butlast path" and ?same = "\<lambda>v. node_at v path = node_at w path"
  let ?E = "\<lambda>v. ?same v \<or> dir_at v ?d"
  have d: "\<not> prefix path ?d" "?d \<noteq> path"
    using assms by (metis butlast_neq prefix_order.antisym prefixeq_butlast, metis butlast_neq)
  have e: "obeys (keeps {path}) (ensure_private_directory ?d)"
    by (rule ensure_private_directory_keeps) (use d in auto)
  have ensure: "hoare ?same (ensure_private_directory ?d) (\<lambda>_ v. dir_at v ?d) (\<lambda>_. ?E) ?E"
    by (rule hoare_conseq [OF hoare_stable [OF hoare_private_directory e, of ?same]]) (auto simp: keeps_def)
  have t: "fd_path fd = tmp \<and> (\<exists>s. tmp = ?d @ [temp_prefix path @ s])"
    if "returns (mkstemp (temp_prefix path) ?d) (fd, tmp)" for fd tmp
    using mkstemp_returns [OF that] by auto
  have mk: "obeys (keeps {?d}) (mkstemp (temp_prefix path) ?d)"
  proof (rule mkstemp_obeys)
    show "obeys (keeps {?d}) (os_open_excl (?d @ [temp_prefix path @ s]) 0x180)" for s
      by (rule os_open_excl_keeps) simp
  qed (auto intro: kp.trans simp: kp.refl, simp add: keeps_def)
  have rest: "obeys (keeps {?d}) (bind (mkstemp (temp_prefix path) ?d) (\<lambda>(descriptor, temporary).
     try_except
       (then_do (os_fchmod descriptor m)
       (then_do (try_finally
          (then_do (os_write descriptor c) (os_fsync descriptor))
          (os_close descriptor))
       (then_do (os_replace temporary path)
        (fsync_directory ?d))))
       (\<lambda>_. True)
       (\<lambda>e. then_do (suppress is_OSError (os_close descriptor))
           (then_do (unlink_missing_ok temporary) (raise e)))))"
    by (intro obeys_rules mk) (auto dest!: t simp: d)
  have "hoare ?same (atomic_write_bytes path c m) (\<lambda>_ v. dir_at v ?d) (\<lambda>_. ?E) ?E"
    unfolding atomic_write_bytes_def
    by (rule hoare_bind [OF ensure], rule hoare_weaken [OF hoare_obeys [OF rest]]) (auto simp: keeps_def dir_at_def)
  then show ?thesis by (simp add: hoare_def)
qed

text \<open>The exchange has begun: its journal is on the disk, and the files are as the journal says.\<close>

definition exchange_begun :: "(string \<Rightarrow> string) \<Rightarrow> comps \<Rightarrow> string \<Rightarrow> string \<Rightarrow> string \<Rightarrow> json \<Rightarrow> world \<Rightarrow> bool" where
  "exchange_begun sha identity t i k J w \<longleftrightarrow> (\<exists>old new old' new' P Q.
     P = private_key_file identity t old new \<and> Q = public_key_file identity t old' new'
     \<and> J = journal_value sha t i k P Q \<and> journaled identity J w \<and> both_in_transaction P Q (butlast identity) w)"


subsection \<open>What the steps leave alone\<close>

lemma resumes_also:
  assumes "resumes calm J m Q I" and "obeys R m" and "\<And>w w'. R w w' \<Longrightarrow> X w \<Longrightarrow> X w'"
  shows "resumes calm (\<lambda>w. J w \<and> X w) m (\<lambda>a w. Q a w \<and> X w) (\<lambda>w. I w \<and> X w)"
  unfolding resumes_def
  by (rule hoare_conseq [OF hoare_stable [OF assms(1) [unfolded resumes_def] assms(2,3)]]) auto

lemma replace_and_sync_keeps:
  "(\<And>q. q \<in> A \<Longrightarrow> \<not> prefix s q \<and> \<not> prefix d q) \<Longrightarrow> obeys (keeps A) (replace_and_sync s d)"
  unfolding replace_and_sync_def by (intro obeys_rules) auto

lemma matches_digest_keeps: "obeys (keeps A) (matches_digest sha p v l)"
  using ssh_readers_ro(3) by (rule reader_keeps)

lemma path_exists_keeps: "obeys (keeps A) (path_exists p)"
  using ssh_readers_ro(1) by (rule reader_keeps)

lemma install_keeps:
  assumes "\<And>q. q \<in> A \<Longrightarrow> \<not> prefix dest q \<and> \<not> prefix stage q \<and> \<not> prefix backup q"
  shows "obeys (keeps A) (install_transaction_file sha dest stage backup old new l)"
  unfolding install_transaction_file_def
  by (intro obeys_rules replace_and_sync_keeps matches_digest_keeps path_exists_keeps) (use assms in auto)

lemma finish_keeps:
  assumes "\<And>q p. q \<in> A \<Longrightarrow> p \<in> {identity, public, private_stage files, public_stage files, private_backup files,
    public_backup files} \<Longrightarrow> \<not> prefix p q"
  shows "obeys (keeps A) (finish_ssh_key_transaction sha identity public files journal)"
proof -
  have "identity \<notin> A" "public \<notin> A" using assms by auto
  then show ?thesis
    unfolding finish_ssh_key_transaction_def
    by (intro obeys_rules install_keeps matches_digest_keeps reader_keeps [OF ssh_readers_ro(4)]) (use assms in auto)
qed

lemma ssh_operation_completed_ro: "obeys same_store (ssh_operation_completed sha paths identity public i k)"
  unfolding ssh_operation_completed_def by (intro obeys_rules ssh_readers_ro)

lemma lift_returns: "returns (lift r) a \<Longrightarrow> r = Inr a"
  by (auto simp: returns_def lift_def ret_def raise_def split: sum.splits)

lemma record_conf: "obeys (confined (ip_state paths @ [''operations''])) (record_ssh_operation sha paths identity public journal)"
proof -
  have p: "prefix (ip_state paths @ [''operations'']) (butlast q)" if "returns (lift (ssh_operation_path sha paths i)) q" for i q
    using lift_returns [OF that] by (auto simp: ssh_operation_path_def rbind_eq_Inr butlast_append)
  show ?thesis
    unfolding record_ssh_operation_def
    by (intro obeys_rules reader_confined [OF ssh_operation_completed_ro])
      (auto intro!: obeys_rules reader_confined [OF ssh_operation_completed_ro] split: json.splits dest: p)
qed

text \<open>The names of one transaction in the directory of the identity.\<close>

definition live_paths :: "comps \<Rightarrow> comps set" where
  "live_paths identity = {identity, suffix_path identity ''.pub'', ssh_transaction_path identity, butlast identity}"

lemma orphan_names:
  assumes "identity \<noteq> []" and "butlast identity @ [x] \<in> live_paths identity"
  shows "\<not> startswith x (CHR ''.'' # name_of identity @ ''.transaction-'')
    \<and> \<not> startswith x (CHR ''.'' # name_of (ssh_transaction_path identity) @ ''.'')"
proof -
  let ?n = "name_of identity"
  have i: "identity = butlast identity @ [?n]" using assms(1) by (simp add: name_of_def)
  have "x = ?n \<or> x = ?n @ ''.pub'' \<or> x = CHR ''.'' # ?n @ ''.transaction.json''"
    using assms(2) arg_cong [OF i, of last]
    by (auto simp: live_paths_def suffix_path_def ssh_transaction_path_def) (metis i append_eq_append_conv list.inject)
  moreover have "name_of (ssh_transaction_path identity) = CHR ''.'' # ?n @ ''.transaction.json''"
    by (simp add: ssh_transaction_path_def name_of_def)
  ultimately show ?thesis
    by (auto simp: startswith_prefix) (auto dest!: prefix_length_le)
qed

lemma clean_orphan_keeps:
  assumes "identity \<noteq> []"
  shows "obeys (keeps (live_paths identity)) (clean_orphaned_ssh_transaction_files identity)"
proof -
  have "obeys (keeps (live_paths identity)) (clean_orphan identity x)" for x
  proof (cases "butlast identity @ [x] \<in> live_paths identity")
    case True
    then show ?thesis using orphan_names [OF assms True] by (simp add: clean_orphan_def kp.ret)
  next
    case False
    then show ?thesis
      unfolding clean_orphan_def Let_def by (intro obeys_rules) auto
  qed
  then show ?thesis
    unfolding clean_orphaned_ssh_transaction_files_def by (intro obeys_rules) auto
qed

text \<open>A place of the transaction that is not live.\<close>

lemma transaction_places:
  assumes "identity \<noteq> []" and "files = ssh_transaction_files identity t"
    and "p \<in> {private_stage files, public_stage files, private_backup files, public_backup files}"
  shows "p \<notin> live_paths identity" and "\<not> prefix p (ssh_transaction_path identity)"
proof -
  obtain d n where n: "identity = d @ [n]" "butlast identity = d" "suffix_path identity ''.pub'' = d @ [n @ ''.pub'']"
    and f: "ssh_transaction_files identity t =
      \<lparr>private_stage = d @ [CHR ''.'' # n @ ''.transaction-'' @ t @ ''.private.new''],
       public_stage = d @ [CHR ''.'' # n @ ''.transaction-'' @ t @ ''.public.new''],
       private_backup = d @ [CHR ''.'' # n @ ''.transaction-'' @ t @ ''.private.old''],
       public_backup = d @ [CHR ''.'' # n @ ''.transaction-'' @ t @ ''.public.old'']\<rparr>"
    using transaction_names [OF assms(1)] .
  have j: "ssh_transaction_path identity = d @ [CHR ''.'' # n @ ''.transaction.json'']"
    by (simp add: ssh_transaction_path_def n name_of_def)
  show "\<not> prefix p (ssh_transaction_path identity)"
    using assms(3) by (auto simp: assms(2) f j)
  show "p \<notin> live_paths identity"
    using assms(3) longer_name [of n] longer_name [of n, symmetric] by (auto simp: assms(2) f j live_paths_def n(2,3)) (auto simp: n(1))
qed

subsection \<open>Recovery\<close>

definition recovered :: "comps \<Rightarrow> string \<Rightarrow> string \<Rightarrow> world \<Rightarrow> bool" where
  "recovered identity new new' w \<longleftrightarrow> has_data w identity new \<and> has_data w (suffix_path identity ''.pub'') new'
     \<and> node_at w (ssh_transaction_path identity) = None"

lemma has_data_keeps: "keeps A w w' \<Longrightarrow> p \<in> A \<Longrightarrow> has_data w' p c = has_data w p c"
  by (simp add: keeps_def has_data_def)

lemma recovered_keeps: "keeps (live_paths identity) w w' \<Longrightarrow> recovered identity new new' w \<Longrightarrow> recovered identity new new' w'"
  using has_data_keeps [of "live_paths identity" w w'] by (simp add: recovered_def live_paths_def keeps_def)

definition finished :: "comps \<Rightarrow> json \<Rightarrow> key_file \<Rightarrow> key_file \<Rightarrow> world \<Rightarrow> bool" where
  "finished identity J P Q w \<longleftrightarrow> both_installed P Q (butlast identity) w \<and> journaled identity J w"

lemma finished_keeps:
  assumes "kf_dest P = identity" and "kf_dest Q = suffix_path identity ''.pub''" and "keeps (live_paths identity) w w'"
    and "finished identity J P Q w"
  shows "finished identity J P Q w'"
  using assms(4) has_data_keeps [OF assms(3)] dir_at_keeps [OF assms(3), of "butlast identity"] assms(3)
  by (auto simp: finished_def both_installed_def installed_key_def assms(1,2) live_paths_def keeps_def journaled_def)

text \<open>The receipt, then the four names of the transaction, then the journal, then what was left over.\<close>

lemma hoare_remove_transaction:
  assumes i: "identity \<noteq> []" and files: "files = ssh_transaction_files identity t"
    and dest: "kf_dest P = identity" "kf_dest Q = suffix_path identity ''.pub''"
    and F: "\<And>v. finished identity J P Q v \<Longrightarrow> E v"
    and R: "\<And>v. recovered identity (kf_new P) (kf_new Q) v \<Longrightarrow> E v"
  shows "hoare (finished identity J P Q) (remove_ssh_transaction identity files)
    (\<lambda>_. recovered identity (kf_new P) (kf_new Q)) (\<lambda>_. E) E"
proof -
  let ?F = "finished identity J P Q" and ?R = "recovered identity (kf_new P) (kf_new Q)" and ?j = "ssh_transaction_path identity"
  have j: "identity \<noteq> ?j" "suffix_path identity ''.pub'' \<noteq> ?j"
    by (rule transaction_names [OF i, of t], use longer_name in \<open>simp add: ssh_transaction_path_def suffix_path_def name_of_def\<close>)+
  have step: "hoare ?F (unlink_missing_ok p) (\<lambda>_. ?F) (\<lambda>_. E) E"
    if "p \<in> {private_stage files, public_stage files, private_backup files, public_backup files}" for p
    by (rule hoare_weaken [OF hoare_obeys [OF unlink_missing_ok_keeps [OF transaction_places(1) [OF i files that]]
      finished_keeps [OF dest]]]) (auto intro: F)
  have last: "hoare ?F (unlink_missing_ok ?j) (\<lambda>_. ?R) (\<lambda>_. E) E"
  proof (rule hoareI)
    fix v assume v: "?F v"
    have same: "?F (v\<lparr>fates := x\<rparr>)" for x
      using v both_installed_disk [of "v\<lparr>fates := x\<rparr>" v P Q "butlast identity"]
      by (simp add: finished_def journaled_def)
    have gone: "?R (mark b (del_node ?j u))" if "?F u" for u b
      using that j by (auto simp: recovered_def finished_def both_installed_def installed_key_def has_data_def dest)
    have there: "\<exists>m u c. node_at v ?j = Some (File m u c)" using v by (auto simp: finished_def journaled_def)
    show "case unlink_missing_ok ?j v of (Ret _, w') \<Rightarrow> ?R w' | (Exn _, w') \<Rightarrow> E w' | (Halt, w') \<Rightarrow> E w'"
      using there F [OF same] gone [OF same] gone [OF v]
      by (cases "fates v"; cases "hd (fates v)")
        (auto simp: unlink_missing_ok_def os_unlink_def syscall_def syscall_torn_def prog_defs is_FileNotFound_def)
  qed
  have sync: "hoare ?R (fsync_directory (butlast identity)) (\<lambda>_. ?R) (\<lambda>_. E) E"
    by (rule hoare_weaken [OF hoare_obeys [OF reader_keeps [OF fsync_directory_ro] recovered_keeps]]) (auto intro: R)
  show ?thesis
    unfolding remove_ssh_transaction_def for_each.simps
    by (rule hoare_bind [OF hoare_bind [OF step hoare_bind [OF step hoare_bind [OF step hoare_bind [OF step
        hoare_bind [OF last hoare_ret]]]]] sync]) simp_all
qed

lemma live_apart:
  assumes "identity \<noteq> []" and "p \<in> {identity, suffix_path identity ''.pub''}"
  shows "\<not> prefix p (ssh_transaction_path identity)"
  by (rule transaction_names [OF assms(1), of t])
    (use assms(2) longer_name in \<open>auto simp: ssh_transaction_path_def suffix_path_def name_of_def\<close>)

lemma live_elsewhere:
  assumes "identity \<noteq> []" and "\<not> prefix s (butlast identity)" and "\<not> prefix (butlast identity) s"
    and "q \<in> live_paths identity"
  shows "\<not> on_line (s @ [x]) q"
proof -
  obtain y where "q = butlast identity \<or> q = butlast identity @ [y]"
    using assms(1,4) by (auto simp: live_paths_def suffix_path_def ssh_transaction_path_def) (metis append_butlast_last_id)
  then show ?thesis
    using assms(2,3) by (auto simp: on_line_def prefix_snoc dest: prefix_order.trans append_prefixD)
qed

text \<open>
  C5: An interrupted exchange of the SSH identity is finished from its journal: when the journal
  of the exchange is on the disk and the two key files are in any of the states an interruption
  leaves, then recovery under any faults ends with both new files in place and the journal
  gone, or with the journal still there and a state from which the same holds of the next
  attempt; it never removes the journal before both files are in place, and without faults it
  puts them in place even where writing the receipt fails.
\<close>
theorem ssh_recovery_resumable:
  assumes "identity \<noteq> []" and "tells_apart sha old new" and "tells_apart sha old' new'"
    and "P = private_key_file identity t old new" and "Q = public_key_file identity t old' new'"
    and "valid_journal sha t i k" and "J = journal_value sha t i k P Q"
    and "both_in_transaction P Q (butlast identity) w" and "journaled identity J w"
    and "ssh_key_paths config paths w = (Ret (identity, suffix_path identity ''.pub''), w)"
    and "\<not> prefix (ip_state paths) (butlast identity)" and "\<not> prefix (butlast identity) (ip_state paths)"
  shows "case recover_ssh_key_transaction sha config paths w of
      (Ret _, w') \<Rightarrow> recovered identity new new' w'
    | (_, w') \<Rightarrow> (recovered identity new new' w' \<or> both_in_transaction P Q (butlast identity) w' \<and> journaled identity J w')
        \<and> (fates w = [] \<longrightarrow> has_data w' identity new \<and> has_data w' (suffix_path identity ''.pub'') new')"
proof -
  let ?d = "butlast identity" and ?files = "ssh_transaction_files identity t" and ?pub = "suffix_path identity ''.pub''"
  let ?O = "\<lambda>v. both_in_transaction P Q ?d v \<and> journaled identity J v"
  let ?F = "finished identity J P Q" and ?R = "recovered identity new new'"
  let ?E = "\<lambda>v. (?R v \<or> ?O v) \<and> (fates w = [] \<longrightarrow> has_data v identity new \<and> has_data v ?pub new')"
  note ok = transaction_files_ok [OF assms(1-3), of t, folded assms(4,5)]
  have places: "kf_dest P = identity" "kf_dest Q = ?pub" "kf_new P = new" "kf_new Q = new'"
    by (simp_all add: assms(4,5) key_file_fields)
  have F: "?E v" if "?F v" for v
    using that installed_in_transaction
    by (auto simp: finished_def both_installed_def both_in_transaction_def installed_key_def places)
  have R: "?E v" if "?R v" for v using that by (simp add: recovered_def)
  have read: "resumes calm ?O (read_ssh_transaction identity) (\<lambda>x v. ?O v \<and> x = Some (?files, sort_keys J)) ?O" for calm
  proof (rule resumes_reader [OF read_journal_ro])
    show "?O v'" if "disk v' = disk v" "?O v" for v v'
      using that both_in_transaction_disk [OF that(1)] journaled_same [of v' identity v] node_at_disk [OF that(1)] by simp
  qed (auto dest: read_journal_Ret [OF assms(6,7)] read_journal_calm [OF assms(6,7)])
  have keep: "obeys (keeps {ssh_transaction_path identity}) (finish_ssh_key_transaction sha identity ?pub ?files (sort_keys J))"
    by (rule finish_keeps) (use transaction_places(2) [OF assms(1) refl] live_apart [OF assms(1)] in blast)
  have exchange: "resumes calm (both_in_transaction P Q ?d) (finish_ssh_key_transaction sha identity ?pub ?files (sort_keys J))
      (\<lambda>_. both_installed P Q ?d) (both_in_transaction P Q ?d)" for calm
    using resumes_finish [OF ok journal_of_value [OF assms(7)], of ?files]
    by (simp add: assms(4,5) private_key_file_def public_key_file_def Let_def)
  have finish: "resumes calm ?O (finish_ssh_key_transaction sha identity ?pub ?files (sort_keys J)) (\<lambda>_. ?F) ?O" for calm
  proof -
    have kept: "journaled identity J v'" if "keeps {ssh_transaction_path identity} v v'" "journaled identity J v" for v v'
      using that journaled_same [of v' identity v J] by (simp add: keeps_def)
    show ?thesis
      by (rule resumes_conseq [OF resumes_also [OF exchange keep kept]]) (simp_all add: finished_def)
  qed
  have receipt: "hoare ?F (record_ssh_operation sha paths identity ?pub (sort_keys J)) (\<lambda>_. ?F) (\<lambda>_. ?E) ?E"
    by (rule hoare_weaken [OF hoare_obeys [OF confined_obeys_keeps [OF record_conf live_elsewhere [OF assms(1,11,12)]]
      finished_keeps [OF places(1,2)]]]) (assumption | rule F)+
  have remove: "hoare ?F (remove_ssh_transaction identity ?files) (\<lambda>_. ?R) (\<lambda>_. ?E) ?E"
    using hoare_remove_transaction [OF assms(1) refl places(1,2), where E = ?E, OF F] R by (simp add: places(3,4))
  have clean: "hoare ?R (clean_orphaned_ssh_transaction_files identity) (\<lambda>_. ?R) (\<lambda>_. ?E) ?E"
    by (rule hoare_weaken [OF hoare_obeys [OF clean_orphan_keeps [OF assms(1)] recovered_keeps]]) (assumption | rule R)+
  have run: "hoare (\<lambda>v. ?O v \<and> calm_at (fates w = []) v)
    (bind (read_ssh_transaction identity) (\<lambda>transaction.
     then_do (case transaction of
        None \<Rightarrow> ret ()
      | Some (files, journal) \<Rightarrow>
          then_do (finish_ssh_key_transaction sha identity ?pub files journal)
         (then_do (record_ssh_operation sha paths identity ?pub journal)
          (remove_ssh_transaction identity files)))
     (clean_orphaned_ssh_transaction_files identity))) (\<lambda>_. ?R) (\<lambda>_. ?E) ?E"
  proof (rule hoare_bind)
    show "hoare (\<lambda>v. ?O v \<and> calm_at (fates w = []) v) (read_ssh_transaction identity)
        (\<lambda>x v. (?O v \<and> calm_at (fates w = []) v) \<and> x = Some (?files, sort_keys J)) (\<lambda>_. ?E) ?E"
      by (rule hoare_conseq [OF read [unfolded resumes_def]]) auto
    have finished: "hoare (\<lambda>v. ?O v \<and> calm_at (fates w = []) v)
        (finish_ssh_key_transaction sha identity ?pub ?files (sort_keys J)) (\<lambda>_. ?F) (\<lambda>_. ?E) ?E"
      by (rule hoare_conseq [OF finish [unfolded resumes_def]]) auto
    show "hoare (\<lambda>v. (?O v \<and> calm_at (fates w = []) v) \<and> x = Some (?files, sort_keys J))
      (then_do (case x of
        None \<Rightarrow> ret ()
      | Some (files, journal) \<Rightarrow>
          then_do (finish_ssh_key_transaction sha identity ?pub files journal)
         (then_do (record_ssh_operation sha paths identity ?pub journal)
          (remove_ssh_transaction identity files)))
       (clean_orphaned_ssh_transaction_files identity)) (\<lambda>_. ?R) (\<lambda>_. ?E) ?E" for x
    proof (cases "x = Some (?files, sort_keys J)")
      case True
      show ?thesis
        unfolding True option.case prod.case
        by (rule hoare_pre [OF hoare_bind [OF hoare_bind [OF finished hoare_bind [OF receipt remove]] clean]]) simp
    qed (simp add: hoare_def)
  qed
  from run have "case recover_ssh_key_transaction sha config paths w of
      (Ret _, w') \<Rightarrow> ?R w' | (_, w') \<Rightarrow> ?E w'"
    using assms(8-10)
    by (auto simp: recover_ssh_key_transaction_def bind_def hoare_def calm_at_def split: prod.splits outcome.splits)
  then show ?thesis by (auto split: prod.splits outcome.splits)
qed

text \<open>A recovery that crashes: the public key is set aside, the private key untouched.\<close>

definition demo_sha :: "string \<Rightarrow> string" where
  "demo_sha s = replicate 64 (if take 3 (rev s) = ''dlo'' then CHR ''0'' else CHR ''1'')"

definition demo_identity :: comps where
  "demo_identity = [''secrets'', ''id_ed25519'']"

definition demo_transaction :: string where
  "demo_transaction = replicate 32 (CHR ''0'')"

definition demo_private :: key_file where
  "demo_private = private_key_file demo_identity demo_transaction (Some ''old'') ''new''"

definition demo_public :: key_file where
  "demo_public = public_key_file demo_identity demo_transaction (Some ''pub old'') ''pub new''"

definition demo_journal :: json where
  "demo_journal = journal_value demo_sha demo_transaction ''request'' ''ssh-key.force'' demo_private demo_public"

definition demo_paths :: instance_paths where
  "demo_paths = \<lparr>ip_root = [], ip_config = [''config''], ip_state = [''state''], ip_secrets = [''secrets''], ip_data = None\<rparr>"

definition demo_world :: world where
  "demo_world = (system_with
     [([''secrets''], Dir 0x1C0 1000), (demo_identity, File 0x180 1000 ''old''),
      (kf_stage demo_private, File 0x180 1000 ''new''), (kf_stage demo_public, File 0x1A4 1000 ''pub new''),
      (kf_backup demo_public, File 0x1A4 1000 ''pub old''),
      (ssh_transaction_path demo_identity, File 0x180 1000 (utf8_encode (dumps indented demo_journal @ [CHR 0x0A])))])
     \<lparr>fates := replicate 12 Proceed @ [Crash 0]\<rparr>"

lemma demo_names:
  "kf_dest demo_private = demo_identity" "kf_dest demo_public = [''secrets'', ''id_ed25519.pub'']"
  "kf_stage demo_private = [''secrets'', ''.id_ed25519.transaction-'' @ demo_transaction @ ''.private.new'']"
  "kf_stage demo_public = [''secrets'', ''.id_ed25519.transaction-'' @ demo_transaction @ ''.public.new'']"
  "kf_backup demo_private = [''secrets'', ''.id_ed25519.transaction-'' @ demo_transaction @ ''.private.old'']"
  "kf_backup demo_public = [''secrets'', ''.id_ed25519.transaction-'' @ demo_transaction @ ''.public.old'']"
  "ssh_transaction_path demo_identity = [''secrets'', ''.id_ed25519.transaction.json'']"
  "kf_old demo_private = Some ''old''" "kf_new demo_private = ''new''"
  "kf_old demo_public = Some ''pub old''" "kf_new demo_public = ''pub new''"
  by (simp_all add: demo_private_def demo_public_def private_key_file_def public_key_file_def Let_def
      ssh_transaction_files_def suffix_path_def name_of_def demo_identity_def ssh_transaction_path_def)

lemma demo_facts:
  "tells_apart demo_sha (Some ''old'') ''new''" "tells_apart demo_sha (Some ''pub old'') ''pub new''"
  "valid_journal demo_sha demo_transaction ''request'' ''ssh-key.force''"
  "journaled demo_identity demo_journal demo_world"
  "both_in_transaction demo_private demo_public (butlast demo_identity) demo_world"
  "ssh_key_paths project_example demo_paths demo_world = (Ret (demo_identity, suffix_path demo_identity ''.pub''), demo_world)"
proof -
  show "tells_apart demo_sha (Some ''old'') ''new''" "tells_apart demo_sha (Some ''pub old'') ''pub new''"
    by (simp_all add: tells_apart_def key_data_def MAX_SSH_KEY_BYTES_def demo_sha_def)
  show "valid_journal demo_sha demo_transaction ''request'' ''ssh-key.force''"
    by (simp add: valid_journal_def is_hex32_def is_hex64_def demo_transaction_def demo_sha_def list_all_iff
        is_lower_hex_def char_class_defs OPERATION_ID_PATTERN_def OPERATION_KIND_PATTERN_def head_then_def run_of_def)
  show "journaled demo_identity demo_journal demo_world"
    by (simp add: journaled_def demo_world_def demo_names demo_identity_def ssh_transaction_path_def name_of_def)
  show "both_in_transaction demo_private demo_public (butlast demo_identity) demo_world"
    by (simp add: both_in_transaction_def in_transaction_def untouched_def set_aside_def has_data_def dir_at_def
        demo_names demo_world_def demo_identity_def ssh_transaction_path_def name_of_def)
  show "ssh_key_paths project_example demo_paths demo_world = (Ret (demo_identity, suffix_path demo_identity ''.pub''), demo_world)"
    by (simp add: ssh_key_paths_def resolve_config_path_def project_example_def ssh_example_def demo_paths_def
        p_resolve_def resolve_def prog_defs join_path_def demo_world_def demo_names demo_identity_def ssh_transaction_path_def name_of_def)
qed

lemma ssh_recovery_resumable_witness:
  "case recover_ssh_key_transaction demo_sha project_example demo_paths demo_world of
      (Ret _, w') \<Rightarrow> recovered demo_identity ''new'' ''pub new'' w'
    | (_, w') \<Rightarrow> recovered demo_identity ''new'' ''pub new'' w'
        \<or> both_in_transaction demo_private demo_public (butlast demo_identity) w' \<and> journaled demo_identity demo_journal w'"
  using ssh_recovery_resumable [OF _ demo_facts(1,2) demo_private_def demo_public_def demo_facts(3) demo_journal_def
      demo_facts(5,4,6)]
  by (auto simp: demo_identity_def demo_paths_def split: prod.splits outcome.splits)

text \<open>Staged keys, and a crash while the journal is written.\<close>

definition staged_world :: world where
  "staged_world = (system_with
     [([''secrets''], Dir 0x1C0 1000), (demo_identity, File 0x180 1000 ''old''),
      (kf_stage demo_private, File 0x180 1000 ''new''), (kf_stage demo_public, File 0x1A4 1000 ''pub new'')])
     \<lparr>fates := replicate 30 Proceed @ [Crash 3]\<rparr>"


end
