(* ===== verification/History.thy ===== *)
theory History
  imports KeysProps
begin

text \<open>
  The life of an instance's key state: any sequence of operator commands, each under any faults
  and cut off anywhere, with other programs and restarts between them. What one update
  guarantees (\<open>KeysProps\<close>) is composed here to what every reader can rely on at any time.
\<close>

text \<open>The commands that publish generations, as \<open>cli.py\<close> calls them.\<close>

datatype key_command = Generate "string option" | Regenerate string | RotateServer string
  | RotatePeer string string | PruneOrphans

fun key_update ::
  "(string \<Rightarrow> string) \<Rightarrow> runner \<Rightarrow> instance_paths \<Rightarrow> string \<Rightarrow> project_config \<Rightarrow> key_command \<Rightarrow> unit io" where
  "key_update sha run paths h config (Generate only) =
     then_do (generate_missing_keys sha h config paths run only) (ret ())"
| "key_update sha run paths h config (Regenerate name) = regenerate_phone_config sha h config paths name"
| "key_update sha run paths h config (RotateServer oper) = rotate_server sha h config paths run oper"
| "key_update sha run paths h config (RotatePeer name oper) = rotate_peer sha h config paths run name oper"
| "key_update sha run paths h config PruneOrphans =
     then_do (prune_orphaned_peers sha h config paths) (ret ())"

text \<open>
  The worlds of an instance that was once without a pointer. A command may use any
  configuration and any fresh \<open>uuid4\<close>; between commands the process, its locks and descriptors,
  the fates ahead and everything outside the pointer and the generations may change.
\<close>

inductive reachable :: "(string \<Rightarrow> string) \<Rightarrow> runner \<Rightarrow> instance_paths \<Rightarrow> world \<Rightarrow> bool"
  for sha run paths where
  empty: "node_at w (current_path paths) = None \<Longrightarrow> reachable sha run paths w"
| updated: "reachable sha run paths w \<Longrightarrow> is_hex32 h
    \<Longrightarrow> node_at w (current_path paths) \<noteq> Some (Symlink (pointer_text (''gen-'' @ h)))
    \<Longrightarrow> reachable sha run paths (snd (key_update sha run paths h config command w))"
| elsewhere: "reachable sha run paths w
    \<Longrightarrow> (\<And>q. q = current_path paths \<or> prefix (generations_path paths) q \<Longrightarrow> node_at w' q = node_at w q)
    \<Longrightarrow> reachable sha run paths w'"

text \<open>The invariant: no pointer, or one to a whole generation with the keys of the server.\<close>

definition server_stored :: "comps \<Rightarrow> world \<Rightarrow> bool" where
  "server_stored root w \<longleftrightarrow> (\<exists>server. stored_pair w (root @ [''server'']) server)"

definition active_sound :: "instance_paths \<Rightarrow> string \<Rightarrow> world \<Rightarrow> bool" where
  "active_sound paths g w \<longleftrightarrow> GENERATION_PATTERN g
     \<and> node_at w (current_path paths) = Some (Symlink (pointer_text g))
     \<and> points_to paths w (generations_path paths @ [g]) g \<and> server_stored (generations_path paths @ [g]) w"

definition state_sound :: "instance_paths \<Rightarrow> world \<Rightarrow> bool" where
  "state_sound paths w \<longleftrightarrow> node_at w (current_path paths) = None \<or> (\<exists>g. active_sound paths g w)"

lemma active_sound_kept:
  assumes "\<And>q. q = current_path paths \<or> prefix (generations_path paths @ [g]) q \<Longrightarrow> node_at w' q = node_at w q"
    and "active_sound paths g w"
  shows "active_sound paths g w'"
proof -
  have n: "node_at w' (current_path paths) = node_at w (current_path paths)" using assms(1) by blast
  have p: "node_at w' (generations_path paths @ g # q) = node_at w (generations_path paths @ g # q)" for q
    using assms(1) [of "(generations_path paths @ [g]) @ q"] by simp
  show ?thesis
    using assms(2) parse_pointer [of g]
    by (simp add: active_sound_def points_to_def manifest_ok_def dir_at_def server_stored_def stored_pair_def
        stored_secret_def stored_public_def n p)
qed

text \<open>One update by a client whose validator has seen the server's keys.\<close>

lemma mutate_sound:
  assumes "state_client mutator validator"
    and keys: "\<And>d v v'. validator (with_data paths d) v = (Ret (), v') \<Longrightarrow> server_stored d v"
    and h: "is_hex32 h" and fresh: "node_at w (current_path paths) \<noteq> Some (Symlink (pointer_text (''gen-'' @ h)))"
    and sound: "state_sound paths w"
    and m: "mutate_state sha h paths mutator validator publish_if operation w = (r, w')"
  shows "state_sound paths w'"
proof -
  obtain old where old: "node_at w (current_path paths) = map_option (\<lambda>g. Symlink (pointer_text g)) old"
      and g: "\<forall>g. old = Some g \<longrightarrow> active_sound paths g w"
    using sound unfolding state_sound_def active_sound_def by (metis option.simps(8,9) option.inject option.distinct(1))
  have fresh': "GENERATION_PATTERN g \<and> g \<noteq> ''gen-'' @ h" if "old = Some g" for g
    using g that fresh old by (auto simp: active_sound_def)
  let ?st = "generations_path paths @ [''.staging-'' @ h]"
  have "hoare (\<lambda>v. v = w) (mutate_state sha h paths mutator validator publish_if operation)
    (\<lambda>x v. (keeps (active_state paths old) w v
         \<and> ((\<exists>p. publish_if = Some p \<and> \<not> p x) \<or> (operation \<noteq> None \<and> old \<noteq> None)))
       \<or> published paths validator ?st (''gen-'' @ h) v)
    (\<lambda>_. old_or_published paths validator old h w) (old_or_published paths validator old h w)"
    by (rule state_client.hoare_mutate_state [OF assms(1) h fresh' old])
  from hoare_at [OF this] m have "keeps (active_state paths old) w w' \<or> published paths validator ?st (''gen-'' @ h) w'"
    by (cases r) (auto simp: old_or_published_def)
  then show ?thesis
  proof
    assume k: "keeps (active_state paths old) w w'"
    show ?thesis
    proof (cases old)
      case None
      with k old show ?thesis by (simp add: state_sound_def keeps_def active_state_def)
    next
      case (Some x)
      with g have "active_sound paths x w" by simp
      moreover from k Some have "node_at w' q = node_at w q"
        if "q = current_path paths \<or> prefix (generations_path paths @ [x]) q" for q
        using that by (auto simp: keeps_def active_state_def generation_tree_def)
      ultimately show ?thesis using active_sound_kept by (metis state_sound_def)
    qed
  next
    assume p: "published paths validator ?st (''gen-'' @ h) w'"
    note n = fresh_names(1) [OF h]
    from p obtain v v' where v: "validator (with_data paths ?st) v = (Ret (), v')"
        and c: "\<And>q. content_place q \<Longrightarrow> node_at w' ((generations_path paths @ [''gen-'' @ h]) @ q) = node_at v (?st @ q)"
        and l: "node_at w' (current_path paths) = Some (Symlink (pointer_text (''gen-'' @ h)))"
      by (auto simp: published_def complete_at_def holds_validated_def)
    have "server_stored (generations_path paths @ [''gen-'' @ h]) w'"
      using keys [OF v] snapshot_ready_moved [OF c, where selected = "[]"]
      by (simp add: server_stored_def snapshot_ready_def)
    with published_points_to [OF n p] n l show ?thesis
      unfolding state_sound_def active_sound_def by blast
  qed
qed

lemma available_server_stored:
  assumes "validate_available_keys config (with_data paths d) v = (Ret (), v')"
  shows "server_stored d v"
proof -
  from assms obtain pair v1 where "load_server_keys_at (with_data paths d) v = (Ret pair, v1)"
    unfolding validate_available_keys_def by (elim bind_RetE)
  from load_server_keys_at_Ret [OF this] show ?thesis by (auto simp: server_stored_def)
qed

lemma ready_server_stored: "snapshot_ready config selected d v \<Longrightarrow> server_stored d v"
  by (auto simp: snapshot_ready_def server_stored_def)

lemma key_update_sound:
  assumes q: "quiet run" and h: "is_hex32 h"
    and f: "node_at w (current_path paths) \<noteq> Some (Symlink (pointer_text (''gen-'' @ h)))"
    and s: "state_sound paths w"
  shows "state_sound paths (snd (key_update sha run paths h config command w))"
proof -
  have ran: "state_sound paths (snd (mutate_state sha h paths mutator validator publish_if operation w))"
    if "state_client mutator validator"
      and "\<And>d v v'. validator (with_data paths d) v = (Ret (), v') \<Longrightarrow> server_stored d v"
    for mutator :: "instance_paths \<Rightarrow> 'a io" and validator publish_if operation
    by (rule mutate_sound [OF that h f s prod.collapse [symmetric]])
  have same: "snd (then_do m (ret ()) w) = snd (m w)" for m :: "'a io"
    by (simp add: bind_def ret_def split: prod.split outcome.split)
  note snapshot = validate_phone_snapshot_ready [THEN ready_server_stored]
    validate_snapshot_ready [THEN ready_server_stored]
  have lifted: "(\<And>x. r = Inr x \<Longrightarrow> state_sound paths (snd (f x w))) \<Longrightarrow> state_sound paths (snd (bind (lift r) f w))"
    for r :: "exn + 'b" and f :: "'b \<Rightarrow> 'c io"
    using s by (cases r) (simp_all add: prog_defs)
  show ?thesis
  proof (cases command)
    case (Generate only)
    show ?thesis
      unfolding Generate key_update.simps same generate_missing_keys_def
      by (intro lifted ran [OF generate_client [OF q]] snapshot)
  next
    case (Regenerate name)
    show ?thesis
      unfolding Regenerate key_update.simps regenerate_phone_config_def
      by (intro lifted ran [OF phone.state_client_axioms] snapshot)
  next
    case (RotateServer oper)
    show ?thesis
      unfolding RotateServer key_update.simps rotate_server_def
      by (intro lifted ran [OF rotate_server_client [OF q]] snapshot)
  next
    case (RotatePeer name oper)
    show ?thesis
      unfolding RotatePeer key_update.simps rotate_peer_def
      by (intro lifted ran [OF rotate_peer_client [OF q]] snapshot)
  next
    case PruneOrphans
    show ?thesis
      unfolding PruneOrphans key_update.simps same prune_orphaned_peers_def
      by (intro ran [OF pruning.state_client_axioms] available_server_stored)
  qed
qed

lemma reachable_sound:
  assumes "quiet run"
  shows "reachable sha run paths w \<Longrightarrow> state_sound paths w"
proof (induction rule: reachable.induct)
  case (updated w h config command)
  then show ?case using key_update_sound [OF assms] by blast
next
  case (elsewhere w w')
  have "node_at w' (current_path paths) = node_at w (current_path paths)" using elsewhere.hyps(2) by blast
  moreover have "active_sound paths g w'" if "active_sound paths g w" for g
    by (rule active_sound_kept [OF elsewhere.hyps(2) that]) (auto simp: prefix_def)
  ultimately show ?case using elsewhere.IH unfolding state_sound_def by metis
qed (simp add: state_sound_def)

text \<open>Reading without faults.\<close>

lemma read_manifest_accepts:
  assumes "manifest_ok w root g" and "fates w = []"
  shows "read_manifest root g w = (Ret (), w)"
proof -
  from assms(1) obtain m u d t v where "node_at w (root @ [MANIFEST_FILE]) = Some (File m u d)"
      "length d \<le> MAX_MANIFEST_BYTES" "utf8_decode d = Some t" "loads t = Inr v" "manifest_matches v g"
    by (auto simp: manifest_ok_def)
  with assms(2) show ?thesis
    by (simp add: read_manifest_def Let_def try_except_def bind_def os_lstat_def read_text_utf8_def read_bytes_def
        syscall_def syscall_torn_def follow_no_link require_def ret_def lift_def decode_utf8_def)
qed

lemma active_generation_accepts:
  assumes p: "points_to paths w root g" and f: "fates w = []"
  shows "active_generation paths required w = (Ret (Some (root, g)), w)"
proof -
  from p obtain t m u where t: "node_at w (current_path paths) = Some (Symlink t)"
      "parse_path t = Path False [GENERATIONS_DIR, g]" and g: "GENERATION_PATTERN g"
      and r: "root = generations_path paths @ [g]" and d: "node_at w root = Some (Dir m u)" and m: "manifest_ok w root g"
    by (auto simp: points_to_def dir_at_def elim!: is_dir_node.elims)
  have j: "join_path (ip_state paths) (Path False [GENERATIONS_DIR, g]) = root"
    by (simp add: r join_path_def generations_path_def)
  show ?thesis
    using t g d read_manifest_accepts [OF m f] f
    by (simp add: active_generation_def lstat_optional_def Let_def try_except_def bind_def os_lstat_def os_readlink_def
        syscall_def syscall_torn_def require_def ret_def valid_pointer_def j)
qed

text \<open>
  C3: The keys can be read at any time: after any sequence of key commands, each under any
  faults, with any configuration and cut off anywhere, and with restarts and other programs
  between them, a reader that meets no fault of its own finds either no state at all, as
  before the first command, or one active generation, with a manifest that names it and the
  server's well-formed keys, the private one closed to other users; a reader that requires
  state is never told that what is there is broken.
\<close>
theorem state_always_readable:
  assumes "quiet run" and "reachable sha run paths w" and "fates w = []"
  shows "(node_at w (current_path paths) = None \<and> active_generation paths False w = (Ret None, w))
    \<or> (\<exists>g. active_generation paths True w = (Ret (Some (generations_path paths @ [g], g)), w)
        \<and> server_stored (generations_path paths @ [g]) w)"
proof -
  have "active_generation paths False w = (Ret None, w)" if "node_at w (current_path paths) = None"
    using that assms(3)
    by (simp add: active_generation_def lstat_optional_def Let_def try_except_def bind_def os_lstat_def
        syscall_def syscall_torn_def ret_def is_FileNotFound_def)
  moreover have "active_generation paths True w = (Ret (Some (generations_path paths @ [g], g)), w)
      \<and> server_stored (generations_path paths @ [g]) w" if "active_sound paths g w" for g
    using that active_generation_accepts [OF _ assms(3)] by (simp add: active_sound_def)
  ultimately show ?thesis
    using reachable_sound [OF assms(1,2)] unfolding state_sound_def by metis
qed

text \<open>An instance whose first rotation was cut off, then started again.\<close>

definition no_wg :: runner where
  "no_wg command opts = raise (CommandError ''no wg'')"

definition interrupted_instance :: world where
  "interrupted_instance = (system_with [([], Dir 0x1ED 1000)])\<lparr>fates := replicate 9 Proceed @ [Crash 0]\<rparr>"

lemma state_always_readable_witness:
  "let w = (snd (key_update id no_wg paths_example one_digits project_example (RotateServer ''operation'')
      interrupted_instance))\<lparr>fates := []\<rparr> in
    reachable id no_wg paths_example w
    \<and> ((node_at w (current_path paths_example) = None \<and> active_generation paths_example False w = (Ret None, w))
    \<or> (\<exists>g. active_generation paths_example True w = (Ret (Some (generations_path paths_example @ [g], g)), w)
        \<and> server_stored (generations_path paths_example @ [g]) w))"
proof -
  let ?v = "snd (key_update id no_wg paths_example one_digits project_example (RotateServer ''operation'') interrupted_instance)"
  have q: "quiet no_wg" by (auto simp: quiet_def no_wg_def intro: obeys_rules)
  have n: "node_at interrupted_instance (current_path paths_example) = None"
    by (simp add: interrupted_instance_def node_at_def system_with_def current_path_def)
  have "reachable id no_wg paths_example ?v"
    by (rule reachable.updated [OF reachable.empty [OF n] digits_hex(2)]) (simp add: n)
  then have r: "reachable id no_wg paths_example (?v\<lparr>fates := []\<rparr>)"
    by (rule reachable.elsewhere) (simp add: node_at_def)
  show ?thesis
    unfolding Let_def using r state_always_readable [OF q r] by simp
qed

end
