(* ===== verification/Spec2Isabelle.thy ===== *)
theory Spec2Isabelle
  imports StateProps ConfigProps FilesProps RenderProps KeysProps Launch ClaimProps NftProps HostProps Ending
    RuntimeProps CliProps LaunchRoundTrip EntryProps SshRecovery History
begin

text \<open>
  \<^bold>\<open>Shuttle Gate\<close>, a rootless WireGuard gateway that sends the traffic of its phones through an
  SSH tunnel, verified from the Python source under \<open>src/src/shuttle_gate/\<close>.

  \<^bold>\<open>The program.\<close> An \<^emph>\<open>instance\<close> is a directory with a configuration, secrets and generated
  state. On the host (\<open>host.py\<close>) the command selects an instance, builds a sandbox and either
  runs an operator command in it (\<open>cli.py\<close>) or starts the gateway as a systemd unit: it fixes
  the inputs of the launch in a manifest (\<open>launch.py\<close>), claims the UDP sockets by lock files
  (\<open>claim.py\<close>) and waits for readiness. Inside its namespaces the gateway (\<open>runtime.py\<close>)
  validates the manifest, loads the packet filter, sets WireGuard up from rendered text
  (\<open>render.py\<close>), starts sshuttle with a native nftables method (\<open>nft_tproxy.py\<close>,
  \<open>sshuttle_entry.py\<close>) and supervises it. Keys (\<open>keys.py\<close>) live in \<^emph>\<open>generations\<close> of the
  state (\<open>state.py\<close>), directories published by moving one symbolic link, over private files
  written atomically (\<open>files.py\<close>). Diagnostics carry a recovery command (\<open>errors.py\<close>).

  \<^bold>\<open>How it is modelled.\<close>
  \<^item> \<open>Prelude\<close>, \<open>PyInt\<close>, \<open>PyText\<close>, \<open>Pathlib\<close>, \<open>Json\<close>, \<open>Net\<close>: what the source uses of Python: strings of
    Latin-1 or decoded text, decimal text, \<open>int\<close>, paths, JSON printing and reading,
    \<open>ipaddress\<close> on 32- and 128-bit words. \<open>JsonSize\<close> bounds the length of what is printed, for
    the size limits of the readers.
  \<^item> \<open>Exec\<close>: a program is a function from a state to an outcome (\<open>Ret\<close>, \<open>Exn\<close> with the
    exception, or \<open>Halt\<close>, the process ends or waits there) and the state it leaves; Hoare
    triples with one postcondition per outcome, and \<open>obeys R\<close>, a relation between the states
    before and after that holds wherever the program is interrupted.
  \<^item> \<open>Os\<close>, \<open>Frame\<close>: the store of files, links and directories, descriptors, \<open>flock\<close> and sync
    marks. A list of \<^emph>\<open>fates\<close> decides for each system call whether it proceeds, fails with an
    I/O error (a write possibly torn) or is the last thing the process does; a theorem for
    all worlds is a theorem for every crash point. The locale \<open>discipline\<close> holds the
    composition rules of \<open>obeys\<close> once; it is interpreted for reading (\<open>same_store\<close>), for
    staying below a directory (\<open>confined\<close>) and for keeping given paths (\<open>keeps\<close>).
  \<^item> \<open>Errors\<close>, \<open>Files\<close>, \<open>State\<close>, \<open>Config\<close>, \<open>Keys\<close> (WireGuard material), \<open>SshKey\<close> (the SSH
    identity and its two-file transaction), \<open>Render\<close>, \<open>Runner\<close>, \<open>Launch\<close>, \<open>Claim\<close>,
    \<open>NftTproxy\<close>, \<open>Runtime\<close>, \<open>SshuttleEntry\<close>, \<open>Cli\<close>, \<open>Host\<close> and \<open>HostLifecycle\<close>: one theory per
    file of the source (two for \<open>keys.py\<close> and \<open>host.py\<close>), in its order, with the source's
    names. What a command prints is the field \<open>console\<close> of the world.

  \<^bold>\<open>What is proved.\<close>
  \<^item> \<open>StateFrame\<close>, \<open>StateCrash\<close>, \<open>StateProps\<close>: an update of the state is atomic for every crash
    point and every pattern of failures, for every client of the locale \<open>state_client\<close>;
    receipts make it exactly-once; readers see one published generation; locks exclude.
    \<open>KeysFrame\<close> interprets the locale for the key operations.
  \<^item> \<open>FilesProps\<close>: atomic writes, confinement of secret and export paths, one-line secrets.
  \<^item> \<open>ConfigProps\<close>: what an accepted configuration satisfies. \<open>RenderProps\<close>: the rendered
    files read back, and the fingerprint determines what was rendered. \<open>KeysProps\<close>: the accepted
    keys are the canonical ones, and no update leaves a gateway and its phones disagreeing.
    \<open>History\<close>: over every sequence of key commands, crashes, faults and restarts (the inductive
    relation \<open>reachable\<close>) the state stays readable. \<open>SshProps\<close>: the journaled exchange of the two SSH key files can be finished from every
    state in which it may have stopped. \<open>SshRecovery\<close>: nothing moves before the journal is
    complete, and recovery from the journal ends with the new files in place or can be repeated.
    \<open>LaunchProps\<close>: an accepted launch has the digests of the files as they are.
    \<open>LaunchRoundTrip\<close>: what the host prepares the gateway accepts under the names of its sandbox.
  \<^item> \<open>NftProps\<close>: the chain of rules decides like the most specific subnet; destinations of
    datagrams are read as the kernel wrote them; only a checked table is loaded.
  \<^item> \<open>ClaimProps\<close>, \<open>HostProps\<close>, \<open>Ending\<close>: claims are held while the gateway runs, command lines
    are read back as they were built, the sandbox's writable binds, the instance root, the
    volatile files, and the end of every wait.
  \<^item> \<open>RuntimeTrace\<close>, \<open>RuntimeProps\<close>: a monitor over the trace of the gateway's commands shows
    that the interface is never activated before the filter is loaded and the proxy is ready;
    cleaning up tries every step; the ssh words are strict. \<open>EntryProps\<close>: sshuttle runs only with
    the native method and a complete entry script. \<open>CliProps\<close>: the status document is
    read back by both of its readers, \<open>init\<close> never overwrites a configuration, and the unit is
    restarted for exactly the failures that a restart may repair.

  \<^bold>\<open>Fuel and observations.\<close> A chain of symbolic links is followed 40 times, as in the kernel. The
  recursions of \<open>shutil\<close> and \<open>os.walk\<close> run on fuel, the number of entries of the disk; without
  fuel they \<open>Halt\<close>, which no theorem takes for a result. Unbounded waits (\<open>supervise\<close>,
  \<open>await_ready\<close>, \<open>wait_until\<close>) run over the list of the answers they will get, clock readings,
  polls and messages: an exhausted list is \<open>Halt\<close>, the program is still waiting.

  \<^bold>\<open>Parameters.\<close> SHA-256, \<open>uuid4\<close>, the YAML parser with pydantic's conversion of values, the
  zip writer, qrcode, and every program that is started (wg, ssh-keygen, nft, systemctl, ...)
  are arguments of the definitions that use them.

  \<^bold>\<open>Not modelled.\<close> The declarations of options for typer are left out (a command is a value of
  \<open>cli_command\<close>). The sshuttle package is not part of the source: \<open>SshuttleEntry\<close> models what
  is put into its modules and takes importing them and its \<open>main\<close> as parameters. Printing
  never fails.
\<close>

end
